(* ===== verification/PyBase.thy ===== *)
theory PyBase
  imports Complex_Main
begin

text \<open>
  Prelude, part 1: the Python values and effects every component theory shares.

  \<^item> \<open>json\<close>: the values that \<open>json.loads\<close> produces and \<open>json.dumps\<close> accepts, which are also
    the values a secret can have (\<open>None\<close>, booleans, integers, floats, strings, lists, dicts).
  \<^item> \<open>exn\<close>: the exceptions the program raises or catches. Exceptions are values; their texts
    are not modelled, only the class and, for \<open>HTTPError\<close>, the status code.
  \<^item> \<open>('s, 'a) py\<close>: a Python call that reads and writes a state \<open>'s\<close>. It returns the new state
    also when it raises, because an exception in Python does not undo earlier writes.
  \<^item> dicts as association lists in insertion order.
\<close>

named_theorems py_simps "evaluation rules for the state-and-exception combinators"

subsection \<open>Values\<close>

datatype json =
    JNull
  | JBool bool
  | JInt int
  | JFloat rat
  | JStr string
  | JList "json list"
  | JDict "(string \<times> json) list"

type_synonym bytes = string

text \<open>Python's truth test on these values (\<open>if not value\<close>, \<open>x or default\<close>).\<close>

fun py_truth :: "json \<Rightarrow> bool" where
  "py_truth JNull = False"
| "py_truth (JBool b) = b"
| "py_truth (JInt i) = (i \<noteq> 0)"
| "py_truth (JFloat r) = (r \<noteq> 0)"
| "py_truth (JStr s) = (s \<noteq> [])"
| "py_truth (JList xs) = (xs \<noteq> [])"
| "py_truth (JDict d) = (d \<noteq> [])"

subsection \<open>Exceptions and results\<close>

datatype exn =
    HTTPError int
  | CSStoreError
  | CSStoreExists
  | CSStoreUnsupported
  | CSStoreDenied
  | InvalidMessage
  | UnknownMessageType
  | UnallowedMessage
  | UnknownPublicKey
  | ValueError
  | TypeError
  | KeyError
  | IndexError
  | NameError
  | AttributeError
  | NotImplementedError
  | RuntimeError
  | ImportError
  | ArgumentTypeError
  | OverflowError
  | IOError
  | SocketTimeout
  | SqlIntegrityError
  | SqlError
  | IpaNotFound
  | IpaDuplicateEntry
  | IpaAuthorizationError
  | OtherError

type_synonym 'a res = "exn + 'a"
type_synonym ('s, 'a) py = "'s \<Rightarrow> 'a res \<times> 's"

fun is_err :: "'a res \<Rightarrow> bool" where
  "is_err (Inl _) = True"
| "is_err (Inr _) = False"

text \<open>Sequencing of pure fallible code.\<close>

fun rbind :: "'a res \<Rightarrow> ('a \<Rightarrow> 'b res) \<Rightarrow> 'b res" where
  "rbind (Inl e) f = Inl e"
| "rbind (Inr x) f = f x"

fun of_option :: "exn \<Rightarrow> 'a option \<Rightarrow> 'a res" where
  "of_option e None = Inl e"
| "of_option e (Some x) = Inr x"

text \<open>How a result without error came about.\<close>

fun_cases rbind_cases: "rbind r f = Inr y"
fun_cases of_option_InrE: "of_option e v = Inr y"

lemma rbind_InrE:
  assumes "rbind r f = Inr y"
  obtains x where "r = Inr x" and "f x = Inr y"
  using assms by (rule rbind_cases) simp

text \<open>Sequencing, raising and catching with a state.\<close>

definition py_return :: "'a \<Rightarrow> ('s, 'a) py" where
  "py_return x = (\<lambda>s. (Inr x, s))"

definition py_raise :: "exn \<Rightarrow> ('s, 'a) py" where
  "py_raise e = (\<lambda>s. (Inl e, s))"

definition py_bind :: "('s, 'a) py \<Rightarrow> ('a \<Rightarrow> ('s, 'b) py) \<Rightarrow> ('s, 'b) py" where
  "py_bind m f = (\<lambda>s. case m s of (Inl e, s') \<Rightarrow> (Inl e, s') | (Inr x, s') \<Rightarrow> f x s')"

definition py_try :: "('s, 'a) py \<Rightarrow> (exn \<Rightarrow> ('s, 'a) py) \<Rightarrow> ('s, 'a) py" where
  "py_try m h = (\<lambda>s. case m s of (Inl e, s') \<Rightarrow> h e s' | (Inr x, s') \<Rightarrow> (Inr x, s'))"

definition py_lift :: "'a res \<Rightarrow> ('s, 'a) py" where
  "py_lift r = (\<lambda>s. (r, s))"

definition py_get :: "('s, 's) py" where
  "py_get = (\<lambda>s. (Inr s, s))"

definition py_modify :: "('s \<Rightarrow> 's) \<Rightarrow> ('s, unit) py" where
  "py_modify f = (\<lambda>s. (Inr (), f s))"

definition py_when :: "bool \<Rightarrow> ('s, unit) py \<Rightarrow> ('s, unit) py" where
  "py_when b m = (if b then m else py_return ())"

lemma py_return_apply [py_simps]: "py_return x s = (Inr x, s)"
  by (simp add: py_return_def)

lemma py_raise_apply [py_simps]: "py_raise e s = (Inl e, s)"
  by (simp add: py_raise_def)

lemma py_lift_apply [py_simps]: "py_lift r s = (r, s)"
  by (simp add: py_lift_def)

lemma py_get_apply [py_simps]: "py_get s = (Inr s, s)"
  by (simp add: py_get_def)

lemma py_modify_apply [py_simps]: "py_modify f s = (Inr (), f s)"
  by (simp add: py_modify_def)

lemma py_bind_apply [py_simps]:
  "py_bind m f s = (case m s of (Inl e, s') \<Rightarrow> (Inl e, s') | (Inr x, s') \<Rightarrow> f x s')"
  by (simp add: py_bind_def)

lemma py_try_apply [py_simps]:
  "py_try m h s = (case m s of (Inl e, s') \<Rightarrow> h e s' | (Inr x, s') \<Rightarrow> (Inr x, s'))"
  by (simp add: py_try_def)

lemma py_when_apply [py_simps]:
  "py_when b m s = (if b then m s else (Inr (), s))"
  by (simp add: py_when_def py_return_def)

text \<open>Rules for calls whose outcome is known: they rewrite without opening a case.\<close>

lemma py_bind_InrE:
  assumes "py_bind m f s = (Inr y, s2)"
  obtains x s1 where "m s = (Inr x, s1)" and "f x s1 = (Inr y, s2)"
  using assms by (auto simp: py_bind_def split: prod.splits sum.splits)

lemma py_bind_Inr: "m s = (Inr x, s') \<Longrightarrow> py_bind m f s = f x s'"
  by (simp add: py_bind_def)

lemma py_bind_Inl: "m s = (Inl e, s') \<Longrightarrow> py_bind m f s = (Inl e, s')"
  by (simp add: py_bind_def)

lemma py_try_Inr: "m s = (Inr x, s') \<Longrightarrow> py_try m h s = (Inr x, s')"
  by (simp add: py_try_def)

lemma py_try_Inl: "m s = (Inl e, s') \<Longrightarrow> py_try m h s = h e s'"
  by (simp add: py_try_def)

lemma py_bind_return: "py_bind (py_return x) f = f x"
  by (simp add: py_bind_def py_return_def fun_eq_iff)

lemma py_bind_assoc: "py_bind (py_bind m f) g = py_bind m (\<lambda>x. py_bind (f x) g)"
  by (auto simp: py_bind_def fun_eq_iff split: prod.splits sum.splits)

text \<open>A call keeps a property of the state, whatever its outcome.\<close>

definition py_keeps :: "('s \<Rightarrow> bool) \<Rightarrow> ('s, 'a) py \<Rightarrow> bool" where
  "py_keeps P m = (\<forall>s. P s \<longrightarrow> P (snd (m s)))"

named_theorems py_keeps_intros "a property of the state is kept by the combinators"

lemma py_keepsI: "(\<And>s. P s \<Longrightarrow> P (snd (m s))) \<Longrightarrow> py_keeps P m"
  by (simp add: py_keeps_def)

lemma py_keepsD: "py_keeps P m \<Longrightarrow> P s \<Longrightarrow> m s = (r, s') \<Longrightarrow> P s'"
  by (metis py_keeps_def snd_conv)

lemma py_keeps_return [py_keeps_intros]: "py_keeps P (py_return x)"
  by (simp add: py_keeps_def py_return_def)

lemma py_keeps_raise [py_keeps_intros]: "py_keeps P (py_raise e)"
  by (simp add: py_keeps_def py_raise_def)

lemma py_keeps_lift [py_keeps_intros]: "py_keeps P (py_lift r)"
  by (simp add: py_keeps_def py_lift_def)

lemma py_keeps_get [py_keeps_intros]: "py_keeps P py_get"
  by (simp add: py_keeps_def py_get_def)

lemma py_keeps_modify [py_keeps_intros]: "(\<And>s. P s \<Longrightarrow> P (f s)) \<Longrightarrow> py_keeps P (py_modify f)"
  by (simp add: py_keeps_def py_modify_def)

lemma py_keeps_bind [py_keeps_intros]:
  "py_keeps P m \<Longrightarrow> (\<And>x. py_keeps P (f x)) \<Longrightarrow> py_keeps P (py_bind m f)"
  by (fastforce simp: py_keeps_def py_bind_def dest: spec split: prod.splits sum.splits)

lemma py_keeps_try [py_keeps_intros]:
  "py_keeps P m \<Longrightarrow> (\<And>e. py_keeps P (h e)) \<Longrightarrow> py_keeps P (py_try m h)"
  by (fastforce simp: py_keeps_def py_try_def dest: spec split: prod.splits sum.splits)

lemma py_keeps_when [py_keeps_intros]: "py_keeps P m \<Longrightarrow> py_keeps P (py_when b m)"
  by (simp add: py_keeps_def py_when_def py_return_def)

subsection \<open>Dicts\<close>

text \<open>
  A dict is an association list in insertion order. \<open>dict_get\<close> is \<open>d.get(k)\<close>, \<open>dict_put\<close> is
  \<open>d[k] = v\<close> (in place when the key is there, at the end otherwise), \<open>dict_update\<close> is
  \<open>d.update(e)\<close>.
\<close>

definition dict_get :: "('k \<times> 'v) list \<Rightarrow> 'k \<Rightarrow> 'v option" where
  "dict_get d k = map_of d k"

fun dict_put :: "'k \<Rightarrow> 'v \<Rightarrow> ('k \<times> 'v) list \<Rightarrow> ('k \<times> 'v) list" where
  "dict_put k v [] = [(k, v)]"
| "dict_put k v ((a, b) # d) = (if a = k then (k, v) # d else (a, b) # dict_put k v d)"

fun dict_update :: "('k \<times> 'v) list \<Rightarrow> ('k \<times> 'v) list \<Rightarrow> ('k \<times> 'v) list" where
  "dict_update d [] = d"
| "dict_update d ((k, v) # e) = dict_update (dict_put k v d) e"

lemma dict_get_Nil [simp]: "dict_get [] k = None"
  by (simp add: dict_get_def)

lemma dict_get_Cons [simp]: "dict_get ((a, b) # d) k = (if a = k then Some b else dict_get d k)"
  by (simp add: dict_get_def)

lemma dict_get_put [simp]: "dict_get (dict_put k v d) j = (if j = k then Some v else dict_get d j)"
  by (induction k v d rule: dict_put.induct) auto

lemma dict_get_None_iff: "dict_get d k = None \<longleftrightarrow> k \<notin> fst ` set d"
  by (simp add: dict_get_def map_of_eq_None_iff)

lemma dict_get_update:
  "distinct (map fst e) \<Longrightarrow>
   dict_get (dict_update d e) k = (case dict_get e k of None \<Rightarrow> dict_get d k | Some v \<Rightarrow> Some v)"
proof (induction d e rule: dict_update.induct)
  case (1 d)
  then show ?case by simp
next
  case (2 d k' v e)
  then have "dict_get e k' = None" by (auto simp: dict_get_None_iff)
  with 2 show ?case by (auto split: option.splits)
qed

lemma dict_put_keys: "set (map fst (dict_put k v d)) = insert k (set (map fst d))"
  by (induction k v d rule: dict_put.induct) auto

lemma dict_put_distinct: "distinct (map fst d) \<Longrightarrow> distinct (map fst (dict_put k v d))"
proof (induction k v d rule: dict_put.induct)
  case (2 k v a b d)
  then show ?case using dict_put_keys [of k v d] by (auto simp del: set_map)
qed simp

subsection \<open>The \<open>in\<close> and \<open>[]\<close> operators on decoded JSON\<close>

text \<open>
  Code that receives decoded JSON of unchecked shape applies \<open>in\<close> and subscription to it. On a
  dict these are the key test and the lookup; on a list \<open>in\<close> is membership and a string
  subscript raises \<open>TypeError\<close>; on the other shapes they raise \<open>TypeError\<close>. The string case
  is the substring test, which the string theory supplies.
\<close>

definition json_is_dict :: "json \<Rightarrow> bool" where
  "json_is_dict j = (case j of JDict _ \<Rightarrow> True | _ \<Rightarrow> False)"

definition json_getitem :: "json \<Rightarrow> string \<Rightarrow> json res" where
  "json_getitem j k = (case j of
      JDict d \<Rightarrow> of_option KeyError (dict_get d k)
    | _ \<Rightarrow> Inl TypeError)"

text \<open>Python's numeric comparison treats booleans as 0 and 1.\<close>

definition json_number :: "json \<Rightarrow> rat option" where
  "json_number j = (case j of
      JInt i \<Rightarrow> Some (of_int i)
    | JFloat r \<Rightarrow> Some r
    | JBool b \<Rightarrow> Some (if b then 1 else 0)
    | _ \<Rightarrow> None)"

end
