(* ===== verification/PyStrings.thy ===== *)
theory PyStrings
  imports PyBase "HOL-Library.Sublist" "HOL-Library.List_Lexorder" "HOL-Library.Char_ord"
begin

text \<open>
  Prelude, part 2: the methods of Python's \<open>str\<close> and the functions of \<open>os.path\<close> the program
  calls, as executable functions on \<open>string\<close>. A character is one of the first 256 code points.

  The lemmas relate them: splitting and joining are inverse, prefixes survive joining, the
  components of a joined path cannot be confused when none of them holds the separator.
\<close>

subsection \<open>Prefixes, suffixes, substrings\<close>

definition startswith :: "string \<Rightarrow> string \<Rightarrow> bool" where
  "startswith s p = prefix p s"

definition endswith :: "string \<Rightarrow> string \<Rightarrow> bool" where
  "endswith s p = suffix p s"

fun str_contains :: "string \<Rightarrow> string \<Rightarrow> bool" where
  "str_contains [] p = (p = [])"
| "str_contains (c # s) p = (prefix p (c # s) \<or> str_contains s p)"

lemma startswith_append [simp]: "startswith (p @ s) p"
  by (simp add: startswith_def)

lemma startswith_code: "startswith s p = (take (length p) s = p)"
  by (auto simp: startswith_def prefix_def) (metis append_take_drop_id)

lemma endswith_code: "endswith s p = startswith (rev s) (rev p)"
  by (simp add: endswith_def startswith_def suffix_to_prefix)

lemma endswith_char: "endswith s [c] \<longleftrightarrow> s \<noteq> [] \<and> last s = c"
  by (cases s rule: rev_cases) (auto simp: endswith_def suffix_def)

lemma str_contains_iff: "str_contains s p \<longleftrightarrow> sublist p s"
  by (induction s) (auto simp: sublist_Cons_right)

lemma str_contains_append: "str_contains (a @ p @ b) p"
  by (auto simp: str_contains_iff sublist_def)

lemma str_contains_mono: "str_contains b p \<Longrightarrow> str_contains (a @ b @ c) p"
  unfolding str_contains_iff sublist_def by (metis append.assoc)

subsection \<open>\<open>strip\<close>, \<open>rstrip\<close>, \<open>lstrip\<close>, \<open>lower\<close>\<close>

text \<open>The characters \<open>str.strip()\<close> removes.\<close>

definition py_space :: "char \<Rightarrow> bool" where
  "py_space c = (let n = (of_char c :: nat) in
     (9 \<le> n \<and> n \<le> 13) \<or> (28 \<le> n \<and> n \<le> 32) \<or> n = 133 \<or> n = 160)"

definition lstrip_of :: "(char \<Rightarrow> bool) \<Rightarrow> string \<Rightarrow> string" where
  "lstrip_of P s = dropWhile P s"

definition rstrip_of :: "(char \<Rightarrow> bool) \<Rightarrow> string \<Rightarrow> string" where
  "rstrip_of P s = rev (dropWhile P (rev s))"

definition py_strip :: "string \<Rightarrow> string" where
  "py_strip s = rstrip_of py_space (lstrip_of py_space s)"

definition rstrip_ch :: "char \<Rightarrow> string \<Rightarrow> string" where
  "rstrip_ch c s = rstrip_of (\<lambda>x. x = c) s"

definition lstrip_ch :: "char \<Rightarrow> string \<Rightarrow> string" where
  "lstrip_ch c s = lstrip_of (\<lambda>x. x = c) s"

definition lower_char :: "char \<Rightarrow> char" where
  "lower_char c = (let n = (of_char c :: nat) in
     if (65 \<le> n \<and> n \<le> 90) \<or> (192 \<le> n \<and> n \<le> 222 \<and> n \<noteq> 215)
     then char_of (n + 32) else c)"

definition py_lower :: "string \<Rightarrow> string" where
  "py_lower s = map lower_char s"

lemma rstrip_ch_Nil [simp]: "rstrip_ch c [] = []"
  by (simp add: rstrip_ch_def rstrip_of_def)

lemma rstrip_ch_snoc [simp]: "rstrip_ch c (s @ [d]) = (if d = c then rstrip_ch c s else s @ [d])"
  by (simp add: rstrip_ch_def rstrip_of_def)

lemma rstrip_ch_not_endswith [simp]: "\<not> endswith (rstrip_ch c s) [c]"
  by (induction s rule: rev_induct) (auto simp: endswith_char)

lemma rstrip_ch_id: "\<not> endswith s [c] \<Longrightarrow> rstrip_ch c s = s"
  by (cases s rule: rev_cases) (auto simp: endswith_char)

lemma rstrip_ch_idem [simp]: "rstrip_ch c (rstrip_ch c s) = rstrip_ch c s"
  by (simp add: rstrip_ch_id)

lemma rstrip_ch_split: "\<exists>n. s = rstrip_ch c s @ replicate n c"
proof (induction s rule: rev_induct)
  case (snoc d s)
  then obtain n where n: "s = rstrip_ch c s @ replicate n c" by blast
  show ?case
  proof (cases "d = c")
    case True
    have "s @ [c] = (rstrip_ch c s @ replicate n c) @ [c]"
      by (subst n [symmetric]) (rule refl)
    also have "\<dots> = rstrip_ch c (s @ [c]) @ replicate (Suc n) c"
      by (simp add: replicate_append_same)
    finally show ?thesis using True by blast
  next
    case False
    then show ?thesis by (intro exI [of _ 0]) simp
  qed
qed simp

lemma rstrip_ch_replicate [simp]: "rstrip_ch c (s @ replicate n c) = rstrip_ch c s"
proof (induction n)
  case (Suc n)
  have "s @ replicate (Suc n) c = (s @ replicate n c) @ [c]" by (simp add: replicate_append_same)
  with Suc show ?case by (simp only: rstrip_ch_snoc) simp
qed simp

text \<open>What stands before a stripped part stays, unless it ends in the character itself.\<close>

lemma rstrip_ch_append:
  assumes "\<not> endswith t [c]"
  shows "rstrip_ch c (t @ s) = t @ rstrip_ch c s"
proof -
  obtain n where s: "s = rstrip_ch c s @ replicate n c" using rstrip_ch_split by blast
  have "\<not> endswith (t @ rstrip_ch c s) [c]"
    using assms rstrip_ch_not_endswith [of c s] by (cases "rstrip_ch c s = []") (simp_all add: endswith_char)
  then have "rstrip_ch c ((t @ rstrip_ch c s) @ replicate n c) = t @ rstrip_ch c s"
    by (simp add: rstrip_ch_id del: append_assoc)
  with s show ?thesis by (metis append.assoc)
qed

lemma rstrip_ch_append_last: "s \<noteq> [] \<Longrightarrow> last s \<noteq> c \<Longrightarrow> rstrip_ch c (t @ s) = t @ s"
  by (rule rstrip_ch_id) (auto simp: endswith_char)

lemma rstrip_ch_length: "length (rstrip_ch c s) \<le> length s"
  using length_dropWhile_le [of "\<lambda>x. x = c" "rev s"] by (simp add: rstrip_ch_def rstrip_of_def)

lemma lstrip_ch_Cons [simp]: "lstrip_ch c (d # s) = (if d = c then lstrip_ch c s else d # s)"
  by (simp add: lstrip_ch_def lstrip_of_def)

lemma lstrip_ch_Nil [simp]: "lstrip_ch c [] = []"
  by (simp add: lstrip_ch_def lstrip_of_def)

lemma lstrip_ch_id: "s = [] \<or> hd s \<noteq> c \<Longrightarrow> lstrip_ch c s = s"
  by (cases s) auto

subsection \<open>\<open>split\<close>, \<open>join\<close>, \<open>replace\<close>\<close>

fun py_split :: "char \<Rightarrow> string \<Rightarrow> string list" where
  "py_split c [] = [[]]"
| "py_split c (x # s) =
     (if x = c then [] # py_split c s
      else (case py_split c s of [] \<Rightarrow> [[x]] | y # ys \<Rightarrow> (x # y) # ys))"

fun py_join :: "string \<Rightarrow> string list \<Rightarrow> string" where
  "py_join sep [] = []"
| "py_join sep [x] = x"
| "py_join sep (x # y # ys) = x @ sep @ py_join sep (y # ys)"

text \<open>\<open>s.replace(c, r)\<close> for a pattern of one character.\<close>

fun replace_ch :: "char \<Rightarrow> string \<Rightarrow> string \<Rightarrow> string" where
  "replace_ch c r [] = []"
| "replace_ch c r (x # s) = (if x = c then r else [x]) @ replace_ch c r s"

text \<open>\<open>s.replace(p, r)\<close> for a pattern of two characters, left to right, no overlaps.\<close>

fun replace_2 :: "char \<Rightarrow> char \<Rightarrow> string \<Rightarrow> string \<Rightarrow> string" where
  "replace_2 a b r (x # y # s) =
     (if x = a \<and> y = b then r @ replace_2 a b r s else x # replace_2 a b r (y # s))"
| "replace_2 a b r s = s"

text \<open>\<open>s.rsplit(c, 1)\<close>: the parts around the last \<open>c\<close>, if there is one.\<close>

definition rsplit1 :: "char \<Rightarrow> string \<Rightarrow> (string \<times> string) option" where
  "rsplit1 c s = (if c \<in> set s
     then Some (rev (tl (dropWhile (\<lambda>x. x \<noteq> c) (rev s))), rev (takeWhile (\<lambda>x. x \<noteq> c) (rev s)))
     else None)"

lemma py_split_not_Nil [simp]: "py_split c s \<noteq> []"
  by (induction s) (auto split: list.splits)

lemma py_split_no_sep: "c \<notin> set s \<Longrightarrow> py_split c s = [s]"
  by (induction s) auto

lemma py_split_append: "c \<notin> set a \<Longrightarrow> py_split c (a @ c # b) = a # py_split c b"
  by (induction a) auto

lemma py_split_parts: "x \<in> set (py_split c s) \<Longrightarrow> c \<notin> set x"
proof (induction c s arbitrary: x rule: py_split.induct)
  case (2 c y s)
  then show ?case
    by (cases "py_split c s") (auto split: if_splits)
qed simp

lemma py_join_Cons: "py_join sep (x # xs) = (if xs = [] then x else x @ sep @ py_join sep xs)"
  by (cases xs) auto

lemma py_join_append:
  "xs \<noteq> [] \<Longrightarrow> ys \<noteq> [] \<Longrightarrow> py_join sep (xs @ ys) = py_join sep xs @ sep @ py_join sep ys"
  by (induction xs) (auto simp: py_join_Cons)

lemma py_join_split: "py_join [c] (py_split c s) = s"
proof (induction c s rule: py_split.induct)
  case (2 c x s)
  then show ?case
    by (cases "py_split c s") (auto simp: py_join_Cons split: if_splits)
qed simp

lemma py_split_join:
  "xs \<noteq> [] \<Longrightarrow> \<forall>x \<in> set xs. c \<notin> set x \<Longrightarrow> py_split c (py_join [c] xs) = xs"
  by (induction xs) (auto simp: py_join_Cons py_split_no_sep py_split_append)

lemma py_join_inj:
  assumes "xs \<noteq> []" and "ys \<noteq> []"
    and "\<forall>x \<in> set xs. c \<notin> set x" and "\<forall>y \<in> set ys. c \<notin> set y"
    and "py_join [c] xs = py_join [c] ys"
  shows "xs = ys"
  using assms py_split_join by metis

lemma py_join_not_Nil: "xs \<noteq> [] \<Longrightarrow> last xs \<noteq> [] \<Longrightarrow> py_join sep xs \<noteq> []"
  by (induction xs) (auto simp: py_join_Cons)

lemma py_join_last: "xs \<noteq> [] \<Longrightarrow> last xs \<noteq> [] \<Longrightarrow> last (py_join sep xs) = last (last xs)"
  by (induction xs) (auto simp: py_join_Cons py_join_not_Nil)

subsection \<open>\<open>os.path.join\<close>, \<open>os.path.split\<close>\<close>

text \<open>\<open>posixpath.join\<close>: an absolute component discards everything before it.\<close>

fun path_join :: "string \<Rightarrow> string list \<Rightarrow> string" where
  "path_join path [] = path"
| "path_join path (b # bs) = path_join
     (if startswith b ''/'' then b
      else if path = [] \<or> endswith path ''/'' then path @ b
      else path @ ''/'' @ b) bs"

text \<open>
  \<open>posixpath.split\<close>: everything up to the last slash, and the rest. Trailing slashes are taken
  off the first part unless it consists of slashes only.
\<close>

definition path_split :: "string \<Rightarrow> string \<times> string" where
  "path_split p =
    (let tl_part = rev (takeWhile (\<lambda>x. x \<noteq> CHR ''/'') (rev p));
         hd_part = rev (dropWhile (\<lambda>x. x \<noteq> CHR ''/'') (rev p))
     in (if hd_part \<noteq> [] \<and> hd_part \<noteq> replicate (length hd_part) (CHR ''/'')
         then rstrip_ch (CHR ''/'') hd_part else hd_part, tl_part))"

definition path_dirname :: "string \<Rightarrow> string" where
  "path_dirname p = fst (path_split p)"

lemma path_join_append: "path_join p (as @ bs) = path_join (path_join p as) bs"
  by (induction p as rule: path_join.induct) auto

text \<open>Components that neither start nor end with a slash and are not empty join as expected.\<close>

lemma path_join_plain:
  assumes "p \<noteq> []" and "\<not> endswith p ''/''"
    and "\<forall>x \<in> set xs. x \<noteq> [] \<and> \<not> startswith x ''/'' \<and> \<not> endswith x ''/''"
  shows "path_join p xs = py_join ''/'' (p # xs)"
  using assms
proof (induction xs arbitrary: p)
  case (Cons x xs)
  then have "\<not> endswith (p @ ''/'' @ x) ''/''"
    by (auto simp: endswith_char)
  with Cons have "path_join (p @ ''/'' @ x) xs = py_join ''/'' ((p @ ''/'' @ x) # xs)"
    by (intro Cons.IH) auto
  with Cons.prems show ?case by (cases xs) (simp_all add: py_join_Cons)
qed simp

text \<open>As long as no component is absolute, the first component stays at the front.\<close>

lemma path_join_prefix:
  assumes "\<forall>x \<in> set xs. \<not> startswith x ''/''"
  shows "startswith (path_join p xs) p"
  using assms
proof (induction xs arbitrary: p)
  case (Cons x xs)
  define q where
    "q = (if p = [] \<or> endswith p ''/'' then p @ x else p @ ''/'' @ x)"
  from Cons have "startswith (path_join q xs) q" by simp
  moreover have "startswith q p" by (simp add: q_def)
  ultimately have "startswith (path_join q xs) p"
    by (auto simp: startswith_def intro: prefix_order.trans)
  then show ?case using Cons.prems by (simp add: q_def)
qed (simp add: startswith_def)

text \<open>An empty last component is how a container path ends in a slash.\<close>

lemma path_join_trailing:
  "p \<noteq> [] \<Longrightarrow> \<not> endswith p ''/'' \<Longrightarrow> path_join p [[]] = p @ ''/''"
  by (simp add: startswith_def)

subsection \<open>Decimal numbers\<close>

text \<open>\<open>str(n)\<close> for an integer.\<close>

definition digit_char :: "nat \<Rightarrow> char" where
  "digit_char d = char_of (48 + d)"

fun show_nat :: "nat \<Rightarrow> string" where
  "show_nat n = (if n < 10 then [digit_char n] else show_nat (n div 10) @ [digit_char (n mod 10)])"

declare show_nat.simps [simp del]

definition show_int :: "int \<Rightarrow> string" where
  "show_int i = (if i < 0 then CHR ''-'' # show_nat (nat (- i)) else show_nat (nat i))"

text \<open>
  \<open>int(s, base)\<close>: white space around, an optional sign, the base's own prefix (\<open>0o\<close>, \<open>0x\<close>),
  digits with single underscores between them. Anything else raises \<open>ValueError\<close>.
\<close>

definition digit_val :: "char \<Rightarrow> nat option" where
  "digit_val c = (let n = (of_char c :: nat) in
     if 48 \<le> n \<and> n \<le> 57 then Some (n - 48)
     else if 97 \<le> n \<and> n \<le> 122 then Some (n - 87)
     else if 65 \<le> n \<and> n \<le> 90 then Some (n - 55) else None)"

fun read_digits :: "nat \<Rightarrow> nat \<Rightarrow> bool \<Rightarrow> string \<Rightarrow> nat option" where
  "read_digits base acc after_digit [] = (if after_digit then Some acc else None)"
| "read_digits base acc after_digit (c # s) =
     (if c = CHR ''_'' then (if after_digit then read_digits base acc False s else None)
      else (case digit_val c of
              None \<Rightarrow> None
            | Some d \<Rightarrow> if d < base then read_digits base (acc * base + d) True s else None))"

fun read_number :: "nat \<Rightarrow> string \<Rightarrow> nat option" where
  "read_number base (z # p # s) =
     (if z = CHR ''0'' \<and> ((base = 8 \<and> p \<in> set ''oO'') \<or> (base = 16 \<and> p \<in> set ''xX''))
      then (case s of CHR ''_'' # t \<Rightarrow> read_digits base 0 False t | _ \<Rightarrow> read_digits base 0 False s)
      else read_digits base 0 False (z # p # s))"
| "read_number base s = read_digits base 0 False s"

definition py_int :: "nat \<Rightarrow> string \<Rightarrow> int res" where
  "py_int base s = (case py_strip s of
      [] \<Rightarrow> Inl ValueError
    | c # t \<Rightarrow>
        (case (if c = CHR ''-'' \<or> c = CHR ''+'' then read_number base t
               else read_number base (c # t)) of
           None \<Rightarrow> Inl ValueError
         | Some n \<Rightarrow> Inr (if c = CHR ''-'' then - int n else int n)))"

lemma digit_val_digit_char: "d < 10 \<Longrightarrow> digit_val (digit_char d) = Some d"
  by (simp add: digit_val_def digit_char_def)

lemma digit_char_not_underscore: "d < 10 \<Longrightarrow> digit_char d \<noteq> CHR ''_''"
proof
  assume d: "d < 10" and e: "digit_char d = CHR ''_''"
  from e have "(of_char (digit_char d) :: nat) = of_char (CHR ''_'')" by simp
  then have "48 + d = 95" using d by (simp add: digit_char_def)
  with d show False by simp
qed

text \<open>\<open>int(str(n))\<close> is \<open>n\<close>: the digits of \<open>show_nat\<close> are read back one by one.\<close>

lemma digit_char_facts:
  "d < 10 \<Longrightarrow> digit_char d \<notin> set ''+-oOxX'' \<and> \<not> py_space (digit_char d)"
proof -
  assume "d < 10"
  then have "d \<in> {0, 1, 2, 3, 4, 5, 6, 7, 8, 9}" by auto
  then show ?thesis by (elim insertE) (simp_all, code_simp+)
qed

lemma read_digits_append:
  "read_digits 10 a True (s @ [digit_char d]) = map_option (\<lambda>n. n * 10 + d) (read_digits 10 a True s)"
  if "d < 10" "list_all (\<lambda>c. \<exists>e < 10. c = digit_char e) s"
  using that(2)
  by (induction s arbitrary: a)
     (auto simp: digit_val_digit_char digit_char_not_underscore that(1))

lemma show_nat_digits: "show_nat n \<noteq> [] \<and> list_all (\<lambda>c. \<exists>e < 10. c = digit_char e) (show_nat n)"
proof (induction n rule: show_nat.induct)
  case (1 n)
  have "n mod 10 < 10" by simp
  with 1 show ?case by (subst (1 2) show_nat.simps) (auto simp del: mod_less_divisor)
qed

lemma read_digits_show: "read_digits 10 0 b (show_nat n) = Some n"
proof (induction n arbitrary: b rule: show_nat.induct)
  case (1 n)
  show ?case
  proof (cases "n < 10")
    case True
    then show ?thesis
      by (subst show_nat.simps) (simp add: digit_val_digit_char digit_char_not_underscore)
  next
    case False
    let ?m = "show_nat (n div 10)"
    have "read_digits 10 0 b (?m @ [digit_char (n mod 10)]) = map_option (\<lambda>k. k * 10 + n mod 10) (read_digits 10 0 b ?m)"
      using show_nat_digits [of "n div 10"]
      by (cases ?m) (auto simp: digit_val_digit_char digit_char_not_underscore read_digits_append)
    then show ?thesis using 1 [OF False, of b] False by (subst show_nat.simps) simp
  qed
qed

lemma py_int_show_nat: "py_int 10 (show_nat n) = Inr (int n)"
proof -
  obtain c s where s: "show_nat n = c # s" using show_nat_digits [of n] by (cases "show_nat n") auto
  then have d: "\<forall>x \<in> set (c # s). \<exists>e < 10. x = digit_char e"
    using show_nat_digits [of n] by (simp add: list_all_iff)
  have sp: "\<not> py_space x" if "x \<in> set (c # s)" for x
  proof -
    from d that obtain e where "e < 10" "x = digit_char e" by blast
    with digit_char_facts [of e] show ?thesis by simp
  qed
  from d have "\<exists>e < 10. c = digit_char e" by (meson list.set_intros(1))
  then have "c \<notin> set ''+-oOxX''" using digit_char_facts by blast
  then have c: "c \<noteq> CHR ''+''" "c \<noteq> CHR ''-''" by simp_all
  have "hd (rev (c # s)) \<in> set (c # s)" by (metis hd_in_set list.discI rev_is_Nil_conv set_rev)
  then have "\<not> py_space (hd (rev (c # s)))" by (rule sp)
  then have "dropWhile py_space (rev (c # s)) = rev (c # s)" by (cases "rev (c # s)") simp_all
  then have "py_strip (c # s) = c # s"
    using sp [of c] by (simp add: py_strip_def lstrip_of_def rstrip_of_def del: rev.simps)
  moreover have "read_number 10 (c # s) = read_digits 10 0 False (c # s)"
    by (cases s) simp_all
  ultimately show ?thesis using c read_digits_show [of False n] s by (simp add: py_int_def)
qed

subsection \<open>UTF-8\<close>

text \<open>\<open>s.encode('utf-8')\<close>: code points from 128 to 255 take two bytes.\<close>

definition utf8_char :: "char \<Rightarrow> bytes" where
  "utf8_char c = (let n = (of_char c :: nat) in
     if n < 128 then [c] else [char_of (192 + n div 64), char_of (128 + n mod 64)])"

definition utf8_encode :: "string \<Rightarrow> bytes" where
  "utf8_encode s = concat (map utf8_char s)"

lemma utf8_char_not_Nil [simp]: "utf8_char c \<noteq> []"
  by (simp add: utf8_char_def Let_def)

text \<open>The decoder for these one- and two-byte sequences; it shows that no two texts have one encoding.\<close>

fun utf8_decode :: "bytes \<Rightarrow> string" where
  "utf8_decode [] = []"
| "utf8_decode (c # s) = (let n = (of_char c :: nat) in
     if n < 128 then c # utf8_decode s
     else case s of [] \<Rightarrow> []
       | d # t \<Rightarrow> char_of (n mod 4 * 64 + of_char d mod 64 :: nat) # utf8_decode t)"

lemma two_bytes:
  assumes "k < (256 :: nat)"
  shows "192 + k div 64 < 256" and "128 + k mod 64 < 256"
    and "(192 + k div 64) mod 4 = k div 64" and "(128 + k mod 64) mod 64 = k mod 64"
proof -
  have q: "k div 64 < 4" using assms by (simp add: less_mult_imp_div_less)
  have r: "k mod 64 < 64" by simp
  show "192 + k div 64 < 256" and "128 + k mod 64 < 256" using q r by linarith+
  show "(192 + k div 64) mod 4 = k div 64" using q mod_mult_self2 [of "k div 64" 4 48] by (simp add: add.commute)
  show "(128 + k mod 64) mod 64 = k mod 64" using mod_mult_self2 [of "k mod 64" 64 2] by (simp add: add.commute)
qed

lemma of_char_byte: "m < 256 \<Longrightarrow> (of_char (char_of m :: char) :: nat) = m"
  by (simp add: of_char_of)

lemma utf8_decode_char: "utf8_decode (utf8_char c @ s) = c # utf8_decode s"
proof (cases "(of_char c :: nat) < 128")
  case True
  then show ?thesis by (simp add: utf8_char_def)
next
  case False
  define k where "k = (of_char c :: nat)"
  have k: "k < 256" "\<not> k < 128" "c = char_of k" using False by (simp_all add: k_def)
  have "utf8_char c = [char_of (192 + k div 64), char_of (128 + k mod 64)]"
    using False by (simp add: utf8_char_def k_def Let_def)
  then have "utf8_decode (utf8_char c @ s) =
      char_of ((192 + k div 64) mod 4 * 64 + (128 + k mod 64) mod 64) # utf8_decode s"
    by (simp add: of_char_byte [OF two_bytes(1) [OF k(1)]] of_char_byte [OF two_bytes(2) [OF k(1)]]
        Let_def del: of_char_of)
  then show ?thesis by (simp only: two_bytes(3,4) [OF k(1)] div_mult_mod_eq k(3))
qed

lemma utf8_decode_encode [simp]: "utf8_decode (utf8_encode s) = s"
  by (induction s) (simp_all add: utf8_encode_def utf8_decode_char)

lemma utf8_encode_inj: "utf8_encode s = utf8_encode t \<longleftrightarrow> s = t"
  by (metis utf8_decode_encode)

subsection \<open>\<open>key in value\<close> on decoded JSON\<close>

fun json_in :: "string \<Rightarrow> json \<Rightarrow> bool res" where
  "json_in k (JDict d) = Inr (dict_get d k \<noteq> None)"
| "json_in k (JList xs) = Inr (JStr k \<in> set xs)"
| "json_in k (JStr s) = Inr (str_contains s k)"
| "json_in k v = Inl TypeError"

end
