(* ===== verification/AuditLog.thy ===== *)
theory AuditLog
  imports PyStrings
begin

text \<open>
  \<open>src/custodia/log.py\<close>: the audit codes and messages, the two methods of \<open>AuditLog\<close>, the
  one-line exception format of \<open>CustodiaFormatter\<close>, and the handler bookkeeping of
  \<open>setup_logging\<close>. The audit log is a list of entries, oldest first; an entry keeps the
  message template and its arguments, as \<open>logging\<close> receives them.
\<close>

subsection \<open>Codes and messages\<close>

definition AUDIT_NONE :: nat where "AUDIT_NONE = 0"
definition AUDIT_GET_ALLOWED :: nat where "AUDIT_GET_ALLOWED = 1"
definition AUDIT_GET_DENIED :: nat where "AUDIT_GET_DENIED = 2"
definition AUDIT_SET_ALLOWED :: nat where "AUDIT_SET_ALLOWED = 3"
definition AUDIT_SET_DENIED :: nat where "AUDIT_SET_DENIED = 4"
definition AUDIT_DEL_ALLOWED :: nat where "AUDIT_DEL_ALLOWED = 5"
definition AUDIT_DEL_DENIED :: nat where "AUDIT_DEL_DENIED = 6"
definition AUDIT_LAST :: nat where "AUDIT_LAST = 7"
definition AUDIT_SVC_NONE :: nat where "AUDIT_SVC_NONE = 8"
definition AUDIT_SVC_AUTH_PASS :: nat where "AUDIT_SVC_AUTH_PASS = 9"
definition AUDIT_SVC_AUTH_FAIL :: nat where "AUDIT_SVC_AUTH_FAIL = 10"
definition AUDIT_SVC_AUTHZ_PASS :: nat where "AUDIT_SVC_AUTHZ_PASS = 11"
definition AUDIT_SVC_AUTHZ_FAIL :: nat where "AUDIT_SVC_AUTHZ_FAIL = 12"
definition AUDIT_SVC_LAST :: nat where "AUDIT_SVC_LAST = 13"

lemmas audit_codes =
  AUDIT_NONE_def AUDIT_GET_ALLOWED_def AUDIT_GET_DENIED_def AUDIT_SET_ALLOWED_def
  AUDIT_SET_DENIED_def AUDIT_DEL_ALLOWED_def AUDIT_DEL_DENIED_def AUDIT_LAST_def
  AUDIT_SVC_NONE_def AUDIT_SVC_AUTH_PASS_def AUDIT_SVC_AUTH_FAIL_def AUDIT_SVC_AUTHZ_PASS_def
  AUDIT_SVC_AUTHZ_FAIL_def AUDIT_SVC_LAST_def

definition squote :: "string \<Rightarrow> string" where
  "squote s = [CHR 0x27] @ s @ [CHR 0x27]"

definition AUDIT_MESSAGES :: "string list" where
  "AUDIT_MESSAGES = [
    ''AUDIT FAILURE'',
    ''ALLOWED: '' @ squote ''%(client)s'' @ '' requested key '' @ squote ''%(key)s'',
    ''DENIED: '' @ squote ''%(client)s'' @ '' requested key '' @ squote ''%(key)s'',
    ''ALLOWED: '' @ squote ''%(client)s'' @ '' stored key '' @ squote ''%(key)s'',
    ''DENIED: '' @ squote ''%(client)s'' @ '' stored key '' @ squote ''%(key)s'',
    ''ALLOWED: '' @ squote ''%(client)s'' @ '' deleted key '' @ squote ''%(key)s'',
    ''DENIED: '' @ squote ''%(client)s'' @ '' deleted key '' @ squote ''%(key)s'',
    ''AUDIT FAILURE 7'',
    ''AUDIT FAILURE 8'',
    ''PASS: '' @ squote ''%(cli)s'' @ '' authenticated as '' @ squote ''%(name)s'',
    ''FAIL: '' @ squote ''%(cli)s'' @ '' authenticated as '' @ squote ''%(name)s'',
    ''PASS: '' @ squote ''%(cli)s'' @ '' authorized for '' @ squote ''%(name)s'',
    ''FAIL: '' @ squote ''%(cli)s'' @ '' authorized for '' @ squote ''%(name)s'',
    ''AUDIT FAILURE 13'']"

subsection \<open>Entries\<close>

text \<open>The peer as \<open>request['client_id']\<close> holds it: a pid, a socket address or \<open>None\<close>.\<close>

datatype client_id = CidPid int | CidAddr string int | CidNone

text \<open>
  An argument of a message: a string, a peer, or a tuple of path segments (which the pipeline
  passes as the name when authorization fails).
\<close>

datatype audit_arg = AStr string | ACid client_id | AChain "string list" | ANone

record audit_entry =
  au_origin :: string
  au_message :: string
  au_args :: "(string \<times> audit_arg) list"

definition log_message :: "nat \<Rightarrow> string res" where
  "log_message action =
     (if action < length AUDIT_MESSAGES then Inr (AUDIT_MESSAGES ! action) else Inl IndexError)"

definition key_access :: "string \<Rightarrow> nat \<Rightarrow> string \<Rightarrow> string \<Rightarrow> audit_entry res" where
  "key_access origin action client keyname =
     (let action = (if action \<le> AUDIT_NONE \<or> AUDIT_LAST \<le> action then AUDIT_NONE else action)
      in rbind (log_message action) (\<lambda>msg.
           Inr \<lparr>au_origin = origin, au_message = msg,
                au_args = [(''client'', AStr client), (''key'', AStr keyname)]\<rparr>))"

definition svc_access :: "string \<Rightarrow> nat \<Rightarrow> client_id \<Rightarrow> audit_arg \<Rightarrow> audit_entry res" where
  "svc_access origin action client name =
     (let action = (if action \<le> AUDIT_SVC_NONE \<or> AUDIT_SVC_LAST \<le> action then AUDIT_NONE else action)
      in rbind (log_message action) (\<lambda>msg.
           Inr \<lparr>au_origin = origin, au_message = msg,
                au_args = [(''cli'', ACid client), (''name'', name)]\<rparr>))"

lemma AUDIT_MESSAGES_length [simp]: "length AUDIT_MESSAGES = 14"
  by (simp add: AUDIT_MESSAGES_def)

text \<open>Clamping the code keeps the index inside the table, so neither method raises.\<close>

lemma key_access_total:
  "\<exists>msg. key_access origin action client keyname =
     Inr \<lparr>au_origin = origin, au_message = msg,
          au_args = [(''client'', AStr client), (''key'', AStr keyname)]\<rparr>"
  by (auto simp: key_access_def log_message_def audit_codes Let_def)

lemma svc_access_total:
  "\<exists>msg. svc_access origin action client name =
     Inr \<lparr>au_origin = origin, au_message = msg, au_args = [(''cli'', ACid client), (''name'', name)]\<rparr>"
  by (auto simp: svc_access_def log_message_def audit_codes Let_def)

text \<open>Appending to the log, as the plugins do through \<open>CustodiaPlugin.audit_key_access\<close>.\<close>

definition audit_key_entry :: "string \<Rightarrow> nat \<Rightarrow> string \<Rightarrow> string \<Rightarrow> audit_entry" where
  "audit_key_entry origin action client keyname =
     (case key_access origin action client keyname of
        Inr e \<Rightarrow> e
      | Inl _ \<Rightarrow> \<lparr>au_origin = origin, au_message = [], au_args = []\<rparr>)"

definition audit_svc_entry :: "string \<Rightarrow> nat \<Rightarrow> client_id \<Rightarrow> audit_arg \<Rightarrow> audit_entry" where
  "audit_svc_entry origin action client name =
     (case svc_access origin action client name of
        Inr e \<Rightarrow> e
      | Inl _ \<Rightarrow> \<lparr>au_origin = origin, au_message = [], au_args = []\<rparr>)"

lemma audit_key_entry_args [simp]:
  "au_args (audit_key_entry origin action client keyname) =
     [(''client'', AStr client), (''key'', AStr keyname)]"
  using key_access_total [of origin action client keyname] by (auto simp: audit_key_entry_def)

lemma audit_key_entry_message:
  "au_message (audit_key_entry origin action client keyname) =
     AUDIT_MESSAGES ! (if 0 < action \<and> action < 7 then action else 0)"
  by (auto simp: audit_key_entry_def key_access_def log_message_def audit_codes Let_def)

lemma audit_svc_entry_message:
  "au_message (audit_svc_entry origin action client name) =
     AUDIT_MESSAGES ! (if 8 < action \<and> action < 13 then action else 0)"
  by (auto simp: audit_svc_entry_def svc_access_def log_message_def audit_codes Let_def)

text \<open>No service access can be logged as a key access, or the other way round.\<close>

lemma audit_tables_disjoint:
  assumes "au_message (audit_key_entry o1 a1 c1 k1) = au_message (audit_svc_entry o2 a2 c2 n2)"
  shows "au_message (audit_key_entry o1 a1 c1 k1) = ''AUDIT FAILURE''"
proof -
  define i where "i = (if 0 < a1 \<and> a1 < 7 then a1 else 0)"
  define j where "j = (if 8 < a2 \<and> a2 < 13 then a2 else 0)"
  from assms have eq: "AUDIT_MESSAGES ! i = AUDIT_MESSAGES ! j"
    by (simp only: i_def j_def audit_key_entry_message audit_svc_entry_message)
  have z: "AUDIT_MESSAGES ! 0 = ''AUDIT FAILURE''" by (simp add: AUDIT_MESSAGES_def)
  have "i = 0 \<or> j = 0"
  proof (rule ccontr)
    assume "\<not> (i = 0 \<or> j = 0)"
    then have "i \<in> {1, 2, 3, 4, 5, 6}" and "j \<in> {9, 10, 11, 12}"
      by (auto simp: i_def j_def split: if_splits)
    then have "hd (AUDIT_MESSAGES ! i) \<in> set ''AD''" and "hd (AUDIT_MESSAGES ! j) \<in> set ''PF''"
      by (auto simp: AUDIT_MESSAGES_def)
    with eq show False by auto
  qed
  with eq z have "AUDIT_MESSAGES ! i = ''AUDIT FAILURE''" by auto
  then show ?thesis by (simp only: i_def audit_key_entry_message)
qed

subsection \<open>The formatter\<close>

text \<open>
  \<open>CustodiaFormatter.format\<close>. \<open>base\<close> is the formatted message line, \<open>full\<close> the formatted stack
  trace, \<open>cls\<close> and \<open>txt\<close> the exception's class name and text; \<open>logging.Formatter.format\<close> puts a
  newline between the message and the exception text.
\<close>

record log_record =
  lr_message :: string
  lr_exc_info :: "(string \<times> string) option"
  lr_exc_text :: "string option"
  lr_fullstack :: "bool option"

definition super_format :: "string \<Rightarrow> string option \<Rightarrow> string" where
  "super_format base exc_text = (case exc_text of
      None \<Rightarrow> base
    | Some t \<Rightarrow> if t = [] then base
        else (if endswith base [CHR 0x0A] then base else base @ [CHR 0x0A]) @ t)"

definition format_record :: "(string \<times> string \<Rightarrow> string) \<Rightarrow> log_record \<Rightarrow> string res" where
  "format_record formatException r =
     (let fresh = (lr_exc_info r \<noteq> None \<and> (lr_exc_text r = None \<or> lr_exc_text r = Some []));
          full = (case lr_fullstack r of None \<Rightarrow> True | Some b \<Rightarrow> b);
          short_exc = (fresh \<and> \<not> full);
          exc_text = (if fresh
             then map_option (\<lambda>(cls, txt). if full then formatException (cls, txt)
                                           else cls @ '': '' @ txt) (lr_exc_info r)
             else lr_exc_text r);
          result = super_format (lr_message r) exc_text
      in if short_exc
         then (case rsplit1 (CHR 0x0A) result of
                 None \<Rightarrow> Inl ValueError
               | Some (text, exc) \<Rightarrow> Inr (text @ '' ('' @ exc @ '')''))
         else Inr result)"

lemma rsplit1_append: "c \<notin> set b \<Longrightarrow> rsplit1 c (a @ c # b) = Some (a, b)"
proof -
  assume b: "c \<notin> set b"
  have "dropWhile (\<lambda>x. x \<noteq> c) (rev b @ c # rev a) = c # rev a"
    using b by (subst dropWhile_append2) auto
  moreover have "takeWhile (\<lambda>x. x \<noteq> c) (rev b @ c # rev a) = rev b"
    using b by (subst takeWhile_append2) auto
  ultimately show ?thesis using b by (simp add: rsplit1_def)
qed

text \<open>
  Without a stack trace an exception is reported on the message's own line, provided its text
  has no line break. Otherwise only its last line ends up in the brackets.
\<close>

lemma format_record_short:
  assumes "lr_exc_info r = Some (cls, txt)" and "lr_exc_text r = None"
    and "lr_fullstack r = Some False"
    and "CHR 0x0A \<notin> set cls" and "CHR 0x0A \<notin> set txt" and "\<not> endswith (lr_message r) [CHR 0x0A]"
  shows "format_record fe r = Inr (lr_message r @ '' ('' @ cls @ '': '' @ txt @ '')'')"
  using assms by (simp add: format_record_def super_format_def rsplit1_append)

subsection \<open>Handlers\<close>

text \<open>
  \<open>setup_logging\<close>: a handler is its class and an identity. The handlers of the new handler's
  class (or a subclass) are dropped from the root logger before the new one is appended; the
  audit logger gets one file handler, once. The last component is the level of the
  \<open>custodia\<close> logger: True for DEBUG.
\<close>

record log_setup =
  ls_root :: "(string \<times> nat) list"
  ls_audit :: "string list"
  ls_debug :: bool

definition setup_logging ::
    "(string \<Rightarrow> string \<Rightarrow> bool) \<Rightarrow> bool \<Rightarrow> string option \<Rightarrow> string \<times> nat \<Rightarrow> log_setup \<Rightarrow> log_setup" where
  "setup_logging subclass debug auditfile handler st =
     \<lparr>ls_root = filter (\<lambda>h. \<not> subclass (fst h) (fst handler)) (ls_root st) @ [handler],
      ls_audit = (case auditfile of
          None \<Rightarrow> ls_audit st
        | Some f \<Rightarrow> if ls_audit st = [] then [f] else ls_audit st),
      ls_debug = debug\<rparr>"

text \<open>Calling it again with a handler of the same class does not add a second output.\<close>

lemma setup_logging_single:
  "(\<And>c. subclass c c) \<Longrightarrow>
   length (filter (\<lambda>h. fst h = fst handler) (ls_root (setup_logging subclass d a handler st))) = 1"
  by (auto simp: setup_logging_def filter_empty_conv)

lemma setup_logging_audit_once:
  "ls_audit st \<noteq> [] \<Longrightarrow> ls_audit (setup_logging subclass d a handler st) = ls_audit st"
  by (simp add: setup_logging_def split: option.splits)

end
