(* ===== verification/StoreIface.thy ===== *)
theory StoreIface
  imports PyStrings
begin

text \<open>
  \<open>CSStore\<close> of \<open>src/custodia/plugin.py\<close>: the interface of a secret store, as the record of its
  five methods over a state \<open>'w\<close>, and what its clients rely on, as two locales.

  \<open>secret_store\<close> is the contract of \<open>get\<close> and \<open>set\<close>, \<open>container_store\<close> adds \<open>span\<close>, \<open>list\<close>
  and \<open>cut\<close>. Both speak about an abstract view of the state: a finite-or-not map from keys to
  entries, where an entry is a container mark or a secret. The state itself may change in a
  call that leaves the view alone (an encrypted store may rewrite a record it has read).
\<close>

subsection \<open>The methods\<close>

text \<open>
  \<open>cut\<close> answers \<open>True\<close> or \<open>False\<close>; the certificate store may answer a list of certificates.
\<close>

datatype cut_result = CutBool bool | CutCerts "json list"

record 'w store_ops =
  st_get :: "string \<Rightarrow> ('w, json) py"
  st_set :: "string \<Rightarrow> json \<Rightarrow> bool \<Rightarrow> ('w, unit) py"
  st_span :: "string \<Rightarrow> ('w, unit) py"
  st_list :: "string \<Rightarrow> ('w, string list option) py"
  st_cut :: "string \<Rightarrow> ('w, cut_result) py"

text \<open>
  The base class: \<open>get\<close> and \<open>set\<close> are abstract (a subclass without them cannot be made), the
  other three raise until a subclass overrides them.
\<close>

definition CSStore_base ::
    "(string \<Rightarrow> ('w, json) py) \<Rightarrow> (string \<Rightarrow> json \<Rightarrow> bool \<Rightarrow> ('w, unit) py) \<Rightarrow> 'w store_ops" where
  "CSStore_base get_m set_m =
     \<lparr>st_get = get_m, st_set = set_m,
      st_span = (\<lambda>key. py_raise NotImplementedError),
      st_list = (\<lambda>keyfilter. py_raise NotImplementedError),
      st_cut = (\<lambda>key. py_raise NotImplementedError)\<rparr>"

subsection \<open>The abstract view\<close>

datatype entry = Dir | Secret json

type_synonym view = "string \<Rightarrow> entry option"

text \<open>What every store takes as a secret: a non-empty text. Keys ending in a slash are refused.\<close>

definition storable :: "json \<Rightarrow> bool" where
  "storable v = (\<exists>s. v = JStr s \<and> s \<noteq> [])"

definition key_ok :: "string \<Rightarrow> bool" where
  "key_ok k = (\<not> endswith k ''/'')"

text \<open>
  Listing a container: the path without trailing slashes, the prefix its children have, and
  the name a child is shown under, with a slash when it is a container.
\<close>

definition list_path :: "string \<Rightarrow> string" where
  "list_path keyfilter = rstrip_ch (CHR ''/'') keyfilter"

definition child_prefix :: "string \<Rightarrow> string" where
  "child_prefix keyfilter =
     (let path = list_path keyfilter in if path = [] then path else path @ ''/'')"

definition shown_name :: "string \<Rightarrow> string \<Rightarrow> entry \<Rightarrow> string" where
  "shown_name cp k e =
     lstrip_ch (CHR ''/'') (drop (length cp) k) @ (case e of Dir \<Rightarrow> ''/'' | Secret _ \<Rightarrow> [])"

definition is_child :: "string \<Rightarrow> string \<Rightarrow> bool" where
  "is_child keyfilter k =
     (startswith k (child_prefix keyfilter) \<and> k \<noteq> list_path keyfilter \<and> k \<noteq> child_prefix keyfilter)"

definition child_names :: "view \<Rightarrow> string \<Rightarrow> string set" where
  "child_names V keyfilter =
     {shown_name (child_prefix keyfilter) k e | k e. V k = Some e \<and> is_child keyfilter k}"

definition container_there :: "view \<Rightarrow> string \<Rightarrow> bool" where
  "container_there V keyfilter =
     (V (list_path keyfilter) \<noteq> None \<or> V (child_prefix keyfilter) \<noteq> None
      \<or> (keyfilter = [] \<and> V = Map.empty))"

definition list_spec :: "view \<Rightarrow> string \<Rightarrow> string list option \<Rightarrow> bool" where
  "list_spec V keyfilter r = (case r of
      None \<Rightarrow> child_names V keyfilter = {} \<and> \<not> container_there V keyfilter
    | Some names \<Rightarrow> sorted names \<and> set names = child_names V keyfilter
        \<and> (names = [] \<longrightarrow> container_there V keyfilter))"

lemma list_spec_None:
  "list_spec V p r \<Longrightarrow> r = None \<longleftrightarrow> child_names V p = {} \<and> \<not> container_there V p"
  by (auto simp: list_spec_def split: option.splits)

lemma list_spec_Some_set: "list_spec V p (Some names) \<Longrightarrow> set names = child_names V p"
  by (simp add: list_spec_def)

lemma list_spec_container:
  "list_spec V p r \<Longrightarrow> V (list_path p) \<noteq> None \<Longrightarrow> r \<noteq> None"
  by (auto simp: list_spec_def container_there_def split: option.splits)

lemma list_path_append_slash [simp]: "list_path (p @ ''/'') = list_path p"
  by (simp add: list_path_def)

lemma list_path_idem [simp]: "list_path (list_path p) = list_path p"
  by (simp add: list_path_def)

subsection \<open>The contracts\<close>

locale secret_store =
  fixes S :: "'w store_ops"
    and ok :: "'w \<Rightarrow> bool"
    and view :: "'w \<Rightarrow> view"
  assumes get_absent: "ok w \<Longrightarrow> view w k = None \<Longrightarrow> st_get S k w = (Inr JNull, w)"
    and get_secret: "ok w \<Longrightarrow> view w k = Some (Secret v) \<Longrightarrow>
      \<exists>w'. st_get S k w = (Inr v, w') \<and> ok w' \<and> view w' = view w"
    and set_fresh: "ok w \<Longrightarrow> storable v \<Longrightarrow> key_ok k \<Longrightarrow> view w k = None \<or> r \<Longrightarrow>
      \<exists>w'. st_set S k v r w = (Inr (), w') \<and> ok w' \<and> view w' = (view w)(k \<mapsto> Secret v)"
    and set_taken: "ok w \<Longrightarrow> storable v \<Longrightarrow> key_ok k \<Longrightarrow> view w k \<noteq> None \<Longrightarrow>
      \<exists>w'. st_set S k v False w = (Inl CSStoreExists, w') \<and> ok w' \<and> view w' = view w"
begin

text \<open>What was stored is what is read back.\<close>

lemma set_get:
  assumes "ok w" and "storable v" and "key_ok k" and "view w k = None \<or> r"
  shows "\<exists>w1 w2. st_set S k v r w = (Inr (), w1) \<and> st_get S k w1 = (Inr v, w2)
    \<and> ok w2 \<and> view w2 = (view w)(k \<mapsto> Secret v)"
proof -
  from set_fresh [OF assms] obtain w1 where
    s: "st_set S k v r w = (Inr (), w1)" and "ok w1" and v1: "view w1 = (view w)(k \<mapsto> Secret v)"
    by blast
  with get_secret [of w1 k v] show ?thesis by auto
qed

text \<open>Storing one key does not disturb another.\<close>

lemma set_other:
  assumes "ok w" and "storable v" and "key_ok k" and "view w k = None \<or> r"
    and "j \<noteq> k" and "view w j = Some (Secret u)"
  shows "\<exists>w1 w2. st_set S k v r w = (Inr (), w1) \<and> st_get S j w1 = (Inr u, w2)"
proof -
  from set_fresh [OF assms(1-4)] obtain w1 where
    s: "st_set S k v r w = (Inr (), w1)" and "ok w1" and v1: "view w1 = (view w)(k \<mapsto> Secret v)"
    by blast
  with get_secret [of w1 j u] assms(5,6) show ?thesis by auto
qed

end

locale container_store = secret_store +
  assumes span_fresh: "ok w \<Longrightarrow> view w (list_path k) = None \<Longrightarrow>
      \<exists>w'. st_span S k w = (Inr (), w') \<and> ok w' \<and> view w' = (view w)(list_path k \<mapsto> Dir)"
    and span_taken: "ok w \<Longrightarrow> view w (list_path k) \<noteq> None \<Longrightarrow>
      st_span S k w = (Inl CSStoreExists, w)"
    and list_view: "ok w \<Longrightarrow> \<exists>r. st_list S p w = (Inr r, w) \<and> list_spec (view w) p r"
    and cut_there: "ok w \<Longrightarrow> view w k \<noteq> None \<Longrightarrow>
      \<exists>w'. st_cut S k w = (Inr (CutBool True), w') \<and> ok w' \<and> view w' = (view w)(k := None)"
    and cut_absent: "ok w \<Longrightarrow> view w k = None \<Longrightarrow> st_cut S k w = (Inr (CutBool False), w)"
begin

lemma cut_get:
  assumes "ok w" and "view w k \<noteq> None"
  shows "\<exists>w'. st_cut S k w = (Inr (CutBool True), w') \<and> ok w' \<and> st_get S k w' = (Inr JNull, w')"
  using cut_there [OF assms] get_absent by fastforce

lemma span_list:
  assumes "ok w" and "view w (list_path k) = None"
  shows "\<exists>w' names. st_span S k w = (Inr (), w') \<and> st_list S k w' = (Inr (Some names), w') \<and> ok w'"
proof -
  from span_fresh [OF assms] obtain w' where
    s: "st_span S k w = (Inr (), w')" and ok: "ok w'"
    and v: "view w' = (view w)(list_path k \<mapsto> Dir)" by blast
  from list_view [OF ok, of k] obtain r where
    l: "st_list S k w' = (Inr r, w')" and spec: "list_spec (view w') k r" by blast
  from spec v have "r \<noteq> None" by (intro list_spec_container) auto
  with s ok l show ?thesis by auto
qed

end

text \<open>A store that keeps containers as keys with an empty value shows them as such.\<close>

locale marked_store = container_store +
  assumes get_mark: "ok w \<Longrightarrow> view w k = Some Dir \<Longrightarrow> st_get S k w = (Inr (JStr []), w)"

end
