(* ===== verification/Requests.thy ===== *)
theory Requests
  imports AuditLog StoreIface
begin

text \<open>
  The data that passes between the parts of the server: the request dict the HTTP handler
  fills in and plugins add to, the response dict the consumers fill in, and the state a
  request works on. The state is one record: the store, the audit log, the response, the
  clock, and the keys a \<open>KEMKeysStore\<close> caches.
\<close>

subsection \<open>Requests\<close>

record creds =
  cr_pid :: int
  cr_uid :: int
  cr_gid :: int
  cr_context :: "string option"

text \<open>
  \<open>getpeercert()\<close>: \<open>None\<close> without TLS, the empty dict for a peer without a verified
  certificate, else a dict whose \<open>subject\<close> is a sequence of RDNs.
\<close>

datatype peer_cert = NoTLS | EmptyCert | Cert "(string \<times> string) list list option"

text \<open>A KEM key store: an old-style plugin with its config dict, its paths and its store.\<close>

record 'w kkstore =
  kk_origin :: string
  kk_config :: "(string \<times> string) list"
  kk_paths :: "string list"
  kk_store :: "'w store_ops"

record 'w request =
  rq_command :: string
  rq_path :: string
  rq_path_chain :: "string list"
  rq_query :: json
  rq_headers :: "(string \<times> string) list"
  rq_body :: "bytes option"
  rq_creds :: "creds option"
  rq_client_cert :: peer_cert
  rq_client_id :: client_id
  rq_remote_user :: "string option"
  rq_default_namespace :: "string option"
  rq_trail :: "string list option"
  rq_kkstore :: "'w kkstore option"
  rq_ipa :: bool

text \<open>
  The headers are an \<open>http.client.HTTPMessage\<close>: names match in either case, the first one
  counts.
\<close>

definition header_get :: "(string \<times> string) list \<Rightarrow> string \<Rightarrow> string option" where
  "header_get hs name = map_of (map (\<lambda>(n, v). (py_lower n, v)) hs) (py_lower name)"

subsection \<open>Responses\<close>

text \<open>What a handler may return or leave in \<open>response['output']\<close>: a JSON value, bytes, a file.\<close>

datatype body = OJson json | OBytes bytes | OFile bytes

record response =
  rs_code :: "int option"
  rs_headers :: "(string \<times> string) list"
  rs_output :: "body option"

definition empty_response :: response where
  "empty_response = \<lparr>rs_code = None, rs_headers = [], rs_output = None\<rparr>"

definition set_header :: "string \<Rightarrow> string \<Rightarrow> response \<Rightarrow> response" where
  "set_header n v r = r\<lparr>rs_headers := dict_put n v (rs_headers r)\<rparr>"

subsection \<open>The state of a request\<close>

record ('w, 'k) ctx =
  cx_store :: 'w
  cx_audit :: "audit_entry list"
  cx_resp :: response
  cx_time :: int
  cx_ticks :: "nat list"
  cx_server_keys :: "'k list option"
  cx_alg :: "string option"

type_synonym ('w, 'k, 'a) act = "(('w, 'k) ctx, 'a) py"

definition on_store :: "('w, 'a) py \<Rightarrow> ('w, 'k, 'a) act" where
  "on_store m = (\<lambda>c. case m (cx_store c) of (r, w) \<Rightarrow> (r, c\<lparr>cx_store := w\<rparr>))"

definition add_audit :: "audit_entry \<Rightarrow> ('w, 'k, unit) act" where
  "add_audit e = py_modify (\<lambda>c. c\<lparr>cx_audit := cx_audit c @ [e]\<rparr>)"

definition upd_resp :: "(response \<Rightarrow> response) \<Rightarrow> ('w, 'k, unit) act" where
  "upd_resp f = py_modify (\<lambda>c. c\<lparr>cx_resp := f (cx_resp c)\<rparr>)"

text \<open>
  \<open>int(time.time())\<close>: each reading advances the clock by the next number of the schedule, so
  two readings in one request may differ, and time never goes back.
\<close>

definition read_time :: "('w, 'k, int) act" where
  "read_time = (\<lambda>c. case cx_ticks c of
      [] \<Rightarrow> (Inr (cx_time c), c)
    | n # ns \<Rightarrow> (Inr (cx_time c), c\<lparr>cx_time := cx_time c + int n, cx_ticks := ns\<rparr>))"

lemma on_store_apply [py_simps]:
  "on_store m c = (case m (cx_store c) of (r, w) \<Rightarrow> (r, c\<lparr>cx_store := w\<rparr>))"
  by (simp add: on_store_def)

lemma add_audit_apply [py_simps]: "add_audit e c = (Inr (), c\<lparr>cx_audit := cx_audit c @ [e]\<rparr>)"
  by (simp add: add_audit_def py_modify_def)

lemma upd_resp_apply [py_simps]: "upd_resp f c = (Inr (), c\<lparr>cx_resp := f (cx_resp c)\<rparr>)"
  by (simp add: upd_resp_def py_modify_def)

text \<open>A call that logs nothing.\<close>

definition audit_same :: "('w, 'k, 'a) act \<Rightarrow> bool" where
  "audit_same m = (\<forall>c. cx_audit (snd (m c)) = cx_audit c)"

named_theorems audit_intros "which calls leave the audit log alone"

lemma audit_same_return [audit_intros]: "audit_same (py_return x)"
  and audit_same_raise [audit_intros]: "audit_same (py_raise e)"
  and audit_same_lift [audit_intros]: "audit_same (py_lift r)"
  and audit_same_get [audit_intros]: "audit_same py_get"
  by (simp_all add: audit_same_def py_simps)

lemma audit_same_on_store [audit_intros]: "audit_same (on_store m)"
  by (simp add: audit_same_def on_store_def split: prod.splits)

lemma audit_same_upd_resp [audit_intros]: "audit_same (upd_resp f)"
  by (simp add: audit_same_def py_simps)

lemma audit_same_read_time [audit_intros]: "audit_same read_time"
  by (simp add: audit_same_def read_time_def split: list.splits)

lemma audit_sameI: "(\<And>c r c'. m c = (r, c') \<Longrightarrow> cx_audit c' = cx_audit c) \<Longrightarrow> audit_same m"
  by (metis audit_same_def prod.collapse)

lemma audit_sameD: "audit_same m \<Longrightarrow> m c = (r, c') \<Longrightarrow> cx_audit c' = cx_audit c"
  by (auto simp: audit_same_def dest: spec [of _ c])

lemma audit_same_bind [audit_intros]:
  "audit_same m \<Longrightarrow> (\<And>x. audit_same (f x)) \<Longrightarrow> audit_same (py_bind m f)"
  by (rule audit_sameI, auto simp: py_bind_def split: prod.splits sum.splits)
     (metis audit_sameD)+

lemma audit_same_try [audit_intros]:
  "audit_same m \<Longrightarrow> (\<And>e. audit_same (h e)) \<Longrightarrow> audit_same (py_try m h)"
  by (rule audit_sameI, auto simp: py_try_def split: prod.splits sum.splits)
     (metis audit_sameD)+

lemma audit_same_if [audit_intros]:
  "audit_same m \<Longrightarrow> audit_same n \<Longrightarrow> audit_same (if b then m else n)"
  by simp

lemma audit_same_when [audit_intros]: "audit_same m \<Longrightarrow> audit_same (py_when b m)"
  by (simp add: audit_same_def py_when_def py_return_def)

subsection \<open>Sample values\<close>

text \<open>A request of a local process and a fresh state, for concrete instances.\<close>

definition sample_request :: "string \<Rightarrow> string \<Rightarrow> (string \<times> string) list \<Rightarrow> 'w request" where
  "sample_request cmd path headers =
     \<lparr>rq_command = cmd, rq_path = path, rq_path_chain = py_split (CHR ''/'') path, rq_query = JDict [],
      rq_headers = headers, rq_body = None, rq_creds = None, rq_client_cert = NoTLS,
      rq_client_id = CidPid 7, rq_remote_user = None, rq_default_namespace = None, rq_trail = None,
      rq_kkstore = None, rq_ipa = False\<rparr>"

definition sample_ctx :: "'w \<Rightarrow> ('w, 'k) ctx" where
  "sample_ctx w = \<lparr>cx_store = w, cx_audit = [], cx_resp = empty_response, cx_time = 0,
     cx_ticks = [], cx_server_keys = None, cx_alg = None\<rparr>"

lemma sample_simps [simp]:
  "rq_path (sample_request cmd path hs) = path" "rq_headers (sample_request cmd path hs) = hs"
  "rq_command (sample_request cmd path hs) = cmd" "rq_remote_user (sample_request cmd path hs) = None"
  "rq_body (sample_request cmd path hs) = None" "rq_query (sample_request cmd path hs) = JDict []"
  "cx_store (sample_ctx w) = w" "cx_audit (sample_ctx w) = []" "cx_time (sample_ctx w) = 0"
  "cx_ticks (sample_ctx w) = []"
  by (simp_all add: sample_request_def sample_ctx_def)

end
