(* ===== verification/Kem.thy ===== *)
theory Kem
  imports Requests
begin

text \<open>
  \<open>src/custodia/message/kem.py\<close>. The JOSE objects come from the package \<open>jwcrypto\<close>, which is not
  part of the repository: its calls are the fields of a record \<open>jose\<close>, over types for keys,
  JWE tokens and JWS tokens that the model leaves open. A call that raises returns \<open>Inl\<close>.
\<close>

subsection \<open>The calls into \<open>jwcrypto\<close>\<close>

datatype ('jwe, 'jws) token = TJWE 'jwe | TJWS 'jws | TOther

text \<open>
  \<^item> \<open>jo_parse\<close>: \<open>JWT(jwt=msg).token\<close>;
  \<^item> \<open>jo_decrypt\<close>: \<open>token.decrypt(key)\<close> and then \<open>token.payload.decode('utf-8')\<close>;
  \<^item> \<open>jo_deserialize\<close>: \<open>JWS().deserialize(payload)\<close>;
  \<^item> \<open>jo_kid\<close>: the \<open>kid\<close> of \<open>token.jose_header\<close>, as \<open>%s\<close> prints it;
  \<^item> \<open>jo_verify\<close>: \<open>token.verify(key)\<close> and then \<open>token.payload\<close>;
  \<^item> \<open>jo_jwk\<close>: \<open>JWK(**d)\<close>; \<open>jo_key_type\<close>, \<open>jo_key_id\<close>: the key's attributes;
  \<^item> \<open>jo_sign\<close>: \<open>JWT(header, claims)\<close>, \<open>make_signed_token(key)\<close>, \<open>serialize(compact=True)\<close>;
  \<^item> \<open>jo_encrypt\<close>: \<open>JWE(plaintext, protected)\<close>, \<open>add_recipient(key)\<close>, \<open>serialize(compact=True)\<close>;
  \<^item> \<open>jo_open_jwe\<close>, \<open>jo_open_jws\<close>: \<open>JWT(jwt=..., key=..., expected_type=...).claims\<close>;
  \<^item> \<open>jo_json_decode\<close>, \<open>jo_json_encode\<close>: \<open>jwcrypto.common\<close>'s JSON functions.
\<close>

record ('k, 'jwe, 'jws) jose =
  jo_json_decode :: "string \<Rightarrow> json res"
  jo_json_encode :: "json \<Rightarrow> string"
  jo_parse :: "json \<Rightarrow> ('jwe, 'jws) token res"
  jo_decrypt :: "'jwe \<Rightarrow> 'k \<Rightarrow> string res"
  jo_deserialize :: "string \<Rightarrow> 'jws res"
  jo_kid :: "'jws \<Rightarrow> string option"
  jo_verify :: "'jws \<Rightarrow> 'k \<Rightarrow> string res"
  jo_jwk :: "json \<Rightarrow> 'k res"
  jo_key_type :: "'k \<Rightarrow> string"
  jo_key_id :: "'k \<Rightarrow> json"
  jo_sign :: "json \<Rightarrow> json \<Rightarrow> 'k \<Rightarrow> string res"
  jo_encrypt :: "string \<Rightarrow> string \<Rightarrow> 'k \<Rightarrow> string res"
  jo_open_jwe :: "json \<Rightarrow> 'k \<Rightarrow> string res"
  jo_open_jws :: "string \<Rightarrow> 'k \<Rightarrow> string res"

subsection \<open>The key store\<close>

definition KEY_USAGE_SIG :: nat where "KEY_USAGE_SIG = 0"
definition KEY_USAGE_ENC :: nat where "KEY_USAGE_ENC = 1"

definition KEY_USAGE_MAP :: "nat \<Rightarrow> string option" where
  "KEY_USAGE_MAP = [KEY_USAGE_SIG \<mapsto> ''sig'', KEY_USAGE_ENC \<mapsto> ''enc'']"

definition kk_db_key :: "string \<Rightarrow> string" where
  "kk_db_key kid = path_join ''kemkeys'' [kid]"

definition find_key :: "'w kkstore \<Rightarrow> string \<Rightarrow> nat \<Rightarrow> ('w, 'k, json) act" where
  "find_key kk kid usage = (case KEY_USAGE_MAP usage of
      None \<Rightarrow> py_raise KeyError
    | Some u \<Rightarrow>
        py_bind (on_store (st_get (kk_store kk) (kk_db_key (u @ ''/'' @ kid)))) (\<lambda>pubkey.
          if pubkey = JNull then py_raise UnknownPublicKey else py_return pubkey))"

text \<open>\<open>json_decode\<close> of what the store returned: it takes a text.\<close>

definition decode_value :: "('k, 'jwe, 'jws) jose \<Rightarrow> json \<Rightarrow> json res" where
  "decode_value J v = (case v of JStr s \<Rightarrow> jo_json_decode J s | _ \<Rightarrow> Inl TypeError)"

definition load_key :: "('k, 'jwe, 'jws) jose \<Rightarrow> json \<Rightarrow> 'k res" where
  "load_key J v = rbind (decode_value J v) (jo_jwk J)"

definition server_keys ::
    "('k, 'jwe, 'jws) jose \<Rightarrow> 'w kkstore \<Rightarrow> ('w, 'k, 'k list) act" where
  "server_keys J kk =
     py_bind py_get (\<lambda>c. case cx_server_keys c of
       Some ks \<Rightarrow> py_return ks
     | None \<Rightarrow>
        (case dict_get (kk_config kk) ''server_keys'' of
          None \<Rightarrow> py_raise UnknownPublicKey
        | Some kid \<Rightarrow>
            py_bind (find_key kk kid KEY_USAGE_SIG) (\<lambda>skey.
            py_bind (find_key kk kid KEY_USAGE_ENC) (\<lambda>ekey.
            py_bind (py_lift (load_key J skey)) (\<lambda>s.
            py_bind (py_lift (load_key J ekey)) (\<lambda>e.
            py_bind (py_modify (\<lambda>c. c\<lparr>cx_server_keys := Some [s, e]\<rparr>)) (\<lambda>_.
              py_return [s, e])))))))"

text \<open>\<open>server_keys[usage]\<close>: the list has the two keys in the order of the usage numbers.\<close>

definition server_key ::
    "('k, 'jwe, 'jws) jose \<Rightarrow> 'w kkstore \<Rightarrow> nat \<Rightarrow> ('w, 'k, 'k) act" where
  "server_key J kk usage = py_bind (server_keys J kk) (\<lambda>ks.
     if usage < length ks then py_return (ks ! usage) else py_raise IndexError)"

definition kk_alg :: "('k, 'jwe, 'jws) jose \<Rightarrow> 'w kkstore \<Rightarrow> ('w, 'k, string) act" where
  "kk_alg J kk =
     py_bind py_get (\<lambda>c. case cx_alg c of
       Some a \<Rightarrow> py_return a
     | None \<Rightarrow>
         py_bind
           (case dict_get (kk_config kk) ''signing_algorithm'' of
              Some a \<Rightarrow> py_return a
            | None \<Rightarrow> py_bind (server_key J kk KEY_USAGE_SIG) (\<lambda>k.
                if jo_key_type J k = ''RSA'' then py_return ''RS256''
                else if jo_key_type J k = ''EC'' then py_return ''ES256''
                else py_raise ValueError))
           (\<lambda>a. py_bind (py_modify (\<lambda>c. c\<lparr>cx_alg := Some a\<rparr>)) (\<lambda>_. py_return a)))"

subsection \<open>The claims\<close>

definition as_number :: "json \<Rightarrow> rat res" where
  "as_number j = of_option TypeError (json_number j)"

definition check_kem_claims :: "json \<Rightarrow> string \<Rightarrow> ('w, 'k, unit) act" where
  "check_kem_claims claims name =
     py_bind (py_lift (json_in ''sub'' claims)) (\<lambda>has_sub.
     if \<not> has_sub then py_raise InvalidMessage else
     py_bind (py_lift (json_getitem claims ''sub'')) (\<lambda>sub.
     if sub \<noteq> JStr name then py_raise InvalidMessage else
     py_bind (py_lift (json_in ''exp'' claims)) (\<lambda>has_exp.
     if \<not> has_exp then py_raise InvalidMessage else
     py_bind (py_lift (rbind (json_getitem claims ''exp'') as_number)) (\<lambda>exp.
     py_bind read_time (\<lambda>now.
     if exp - 10 * 60 > of_int now then py_raise InvalidMessage else
     py_bind read_time (\<lambda>now2.
     if exp < of_int now2 then py_raise InvalidMessage else py_return ()))))))"

text \<open>The second of two readings of the clock.\<close>

definition second_time :: "('w, 'k) ctx \<Rightarrow> int" where
  "second_time c = (case cx_ticks c of [] \<Rightarrow> cx_time c | n # _ \<Rightarrow> cx_time c + int n)"

lemma second_time_mono: "cx_time c \<le> second_time c"
  by (simp add: second_time_def split: list.splits)

text \<open>Claims are accepted exactly when subject and expiration are as they should be.\<close>

lemma check_kem_claims_iff:
  "(\<exists>c'. check_kem_claims claims name c = (Inr (), c')) \<longleftrightarrow>
   (\<exists>d e. claims = JDict d \<and> dict_get d ''sub'' = Some (JStr name)
     \<and> (\<exists>j. dict_get d ''exp'' = Some j \<and> json_number j = Some e)
     \<and> e \<le> of_int (cx_time c) + 600 \<and> of_int (second_time c) \<le> e)"
  by (cases claims)
     (auto simp: check_kem_claims_def py_simps read_time_def second_time_def json_getitem_def
       as_number_def py_bind_def not_less algebra_simps
       split: if_splits option.splits list.splits sum.splits elim!: of_option_InrE)

lemma check_kem_claims_audit [audit_intros]: "audit_same (check_kem_claims claims name)"
  unfolding check_kem_claims_def by (intro audit_intros)

subsection \<open>Making and opening messages\<close>

definition sig_claims :: "string \<Rightarrow> json \<Rightarrow> int \<Rightarrow> json" where
  "sig_claims name value now =
     JDict ([(''sub'', JStr name), (''exp'', JInt (now + 5 * 60))]
       @ (if value = JNull then [] else [(''value'', value)]))"

definition make_sig_kem ::
    "('k, 'jwe, 'jws) jose \<Rightarrow> string \<Rightarrow> json \<Rightarrow> 'k \<Rightarrow> string \<Rightarrow> ('w, 'k, string) act" where
  "make_sig_kem J name value key alg =
     py_bind read_time (\<lambda>now.
       py_lift (jo_sign J (JDict [(''kid'', jo_key_id J key), (''alg'', JStr alg)])
                  (sig_claims name value now) key))"

definition make_enc_kem ::
    "('k, 'jwe, 'jws) jose \<Rightarrow> string \<Rightarrow> json \<Rightarrow> 'k \<Rightarrow> string \<Rightarrow> 'k \<Rightarrow> string \<times> string
     \<Rightarrow> ('w, 'k, string) act" where
  "make_enc_kem J name value sig_key alg enc_key enc =
     py_bind (make_sig_kem J name value sig_key alg) (\<lambda>plaintext.
       py_lift (jo_encrypt J plaintext
         (jo_json_encode J (JDict [(''kid'', jo_key_id J enc_key), (''alg'', JStr (fst enc)),
                                   (''enc'', JStr (snd enc))])) enc_key))"

definition decode_enc_kem ::
    "('k, 'jwe, 'jws) jose \<Rightarrow> json \<Rightarrow> 'k \<Rightarrow> 'k \<Rightarrow> json res" where
  "decode_enc_kem J message enc_key sig_key =
     rbind (jo_open_jwe J message enc_key) (\<lambda>jws.
     rbind (jo_open_jws J jws sig_key) (jo_json_decode J))"

subsection \<open>The message handler\<close>

text \<open>
  \<open>KEMHandler.parse\<close>. The result has the verified claims and the client's two keys. Every
  exception of the validation becomes \<open>InvalidMessage\<close>; those of \<open>check_kem_claims\<close> pass.
\<close>

definition kem_get_key ::
    "('k, 'jwe, 'jws) jose \<Rightarrow> 'w kkstore \<Rightarrow> string option \<Rightarrow> nat \<Rightarrow> ('w, 'k, json) act" where
  "kem_get_key J kk kid usage = (case kid of
      None \<Rightarrow> py_raise InvalidMessage
    | Some k \<Rightarrow> py_bind (find_key kk k usage) (\<lambda>key.
        if key = JNull then py_raise UnknownPublicKey else py_lift (decode_value J key)))"

definition kem_signed_token ::
    "('k, 'jwe, 'jws) jose \<Rightarrow> 'w kkstore \<Rightarrow> ('jwe, 'jws) token \<Rightarrow> ('w, 'k, 'jws) act" where
  "kem_signed_token J kk token = (case token of
      TJWE e \<Rightarrow> py_bind (server_key J kk KEY_USAGE_ENC) (\<lambda>k.
        py_lift (rbind (jo_decrypt J e k) (jo_deserialize J)))
    | TJWS s \<Rightarrow> py_return s
    | TOther \<Rightarrow> py_raise TypeError)"

definition kem_validate ::
    "('k, 'jwe, 'jws) jose \<Rightarrow> 'w kkstore \<Rightarrow> ('jwe, 'jws) token \<Rightarrow> ('w, 'k, json \<times> 'k \<times> 'k) act"
where
  "kem_validate J kk token =
     py_bind (kem_signed_token J kk token) (\<lambda>s.
     py_bind (kem_get_key J kk (jo_kid J s) KEY_USAGE_SIG) (\<lambda>sigd.
     py_bind (py_lift (jo_jwk J sigd)) (\<lambda>sigk.
     py_bind (kem_get_key J kk (jo_kid J s) KEY_USAGE_ENC) (\<lambda>encd.
     py_bind (py_lift (jo_jwk J encd)) (\<lambda>enck.
     py_bind (py_lift (rbind (jo_verify J s sigk) (jo_json_decode J))) (\<lambda>claims.
       py_return (claims, sigk, enck)))))))"

record 'k kem_handler =
  kh_name :: string
  kh_payload :: json
  kh_sig_key :: 'k
  kh_enc_key :: 'k

definition kem_parse ::
    "('k, 'jwe, 'jws) jose \<Rightarrow> 'w kkstore \<Rightarrow> json \<Rightarrow> string \<Rightarrow> ('w, 'k, 'k kem_handler) act" where
  "kem_parse J kk msg name =
     py_bind (py_lift (case jo_parse J msg of Inl _ \<Rightarrow> Inl InvalidMessage | Inr t \<Rightarrow> Inr t)) (\<lambda>token.
     py_bind (py_try (kem_validate J kk token) (\<lambda>_. py_raise InvalidMessage)) (\<lambda>(claims, sigk, enck).
     py_bind (check_kem_claims claims name) (\<lambda>_.
       py_return \<lparr>kh_name = name,
         kh_payload = (case claims of
            JDict d \<Rightarrow> (case dict_get d ''value'' of None \<Rightarrow> JNull | Some v \<Rightarrow> v) | _ \<Rightarrow> JNull),
         kh_sig_key = sigk, kh_enc_key = enck\<rparr>)))"

definition kem_reply ::
    "('k, 'jwe, 'jws) jose \<Rightarrow> 'w kkstore \<Rightarrow> 'k kem_handler \<Rightarrow> json \<Rightarrow> ('w, 'k, json) act" where
  "kem_reply J kk h out =
     (if jo_key_type J (kh_enc_key h) = ''RSA'' then
        py_bind (server_key J kk KEY_USAGE_SIG) (\<lambda>sk.
        py_bind (kk_alg J kk) (\<lambda>alg.
        py_bind (make_enc_kem J (kh_name h) out sk alg (kh_enc_key h)
                   (''RSA-OAEP'', ''A256CBC-HS512'')) (\<lambda>value.
          py_return (JDict [(''type'', JStr ''kem''), (''value'', JStr value)]))))
      else py_raise ValueError)"

subsection \<open>The client side, \<open>KEMClient\<close>\<close>

record 'k kem_client =
  kc_server_sig :: 'k
  kc_server_enc :: 'k
  kc_client_sig :: 'k
  kc_client_enc :: 'k

definition kem_make_request ::
    "('k, 'jwe, 'jws) jose \<Rightarrow> 'k kem_client \<Rightarrow> string \<Rightarrow> json \<Rightarrow> string
     \<Rightarrow> (string \<times> string) option \<Rightarrow> ('w, 'k, string) act" where
  "kem_make_request J cl name value alg encalg = (case encalg of
      None \<Rightarrow> make_sig_kem J name value (kc_client_sig cl) alg
    | Some e \<Rightarrow> make_enc_kem J name value (kc_client_sig cl) alg (kc_server_enc cl) e)"

definition kem_parse_reply ::
    "('k, 'jwe, 'jws) jose \<Rightarrow> 'k kem_client \<Rightarrow> string \<Rightarrow> json \<Rightarrow> ('w, 'k, json) act" where
  "kem_parse_reply J cl name message =
     py_bind (py_lift (decode_enc_kem J message (kc_client_enc cl) (kc_server_sig cl))) (\<lambda>claims.
     py_bind (check_kem_claims claims name) (\<lambda>_. py_lift (json_getitem claims ''value'')))"

subsection \<open>What a parsed message guarantees\<close>

lemma find_key_audit [audit_intros]: "audit_same (find_key kk kid usage)"
  unfolding find_key_def by (auto intro!: audit_intros split: option.splits)

lemma py_modify_keys_audit [audit_intros]:
  "audit_same (py_modify (\<lambda>c. c\<lparr>cx_server_keys := f c\<rparr>))"
  "audit_same (py_modify (\<lambda>c. c\<lparr>cx_alg := g c\<rparr>))"
  by (simp_all add: audit_same_def py_simps)

lemma server_keys_audit [audit_intros]: "audit_same (server_keys J kk)"
  unfolding server_keys_def by (auto intro!: audit_intros split: option.splits)

lemma server_key_audit [audit_intros]: "audit_same (server_key J kk u)"
  unfolding server_key_def by (auto intro!: audit_intros)

lemma kk_alg_audit [audit_intros]: "audit_same (kk_alg J kk)"
  unfolding kk_alg_def by (auto intro!: audit_intros split: option.splits)

lemma make_enc_kem_audit [audit_intros]: "audit_same (make_enc_kem J n v sk a ek e)"
  unfolding make_enc_kem_def make_sig_kem_def by (intro audit_intros)

lemma kem_get_key_audit [audit_intros]: "audit_same (kem_get_key J kk kid u)"
  unfolding kem_get_key_def by (auto intro!: audit_intros split: option.splits)

lemma kem_validate_audit [audit_intros]: "audit_same (kem_validate J kk t)"
  unfolding kem_validate_def kem_signed_token_def by (auto intro!: audit_intros split: token.splits)

lemma kem_parse_audit [audit_intros]: "audit_same (kem_parse J kk msg name)"
  unfolding kem_parse_def by (auto intro!: audit_intros split: prod.splits sum.splits)

lemma kem_reply_audit [audit_intros]: "audit_same (kem_reply J kk h out)"
  unfolding kem_reply_def by (auto intro!: audit_intros)

end
