(* ===== verification/Messages.thy ===== *)
theory Messages
  imports Kem
begin

text \<open>
  \<open>src/custodia/message/common.py\<close>, \<open>simple.py\<close> and \<open>formats.py\<close>: the two message handlers
  behind one interface (\<open>parse\<close>, \<open>reply\<close>), and the \<open>Validator\<close> that picks and runs one.
  A handler object is a value of \<open>handler\<close>; its \<open>parse\<close> returns the object it has become.
\<close>

subsection \<open>Handlers\<close>

text \<open>A \<open>SimpleKey\<close> has its name, payload and type only once it has parsed a message.\<close>

datatype ('w, 'k) handler =
    SimpleH "string option" json "string option"
  | KemH "'w kkstore" "'k kem_handler"

fun handler_msg_type :: "('w, 'k) handler \<Rightarrow> string option" where
  "handler_msg_type (SimpleH n p t) = t"
| "handler_msg_type (KemH kk h) = Some ''kem''"

fun handler_payload :: "('w, 'k) handler \<Rightarrow> json" where
  "handler_payload (SimpleH n p t) = p"
| "handler_payload (KemH kk h) = kh_payload h"

definition simple_parse :: "json \<Rightarrow> string \<Rightarrow> ('w, 'k) handler res" where
  "simple_parse msg name = (case msg of
      JNull \<Rightarrow> Inr (SimpleH None JNull None)
    | JStr s \<Rightarrow> Inr (SimpleH (Some name) (JStr s) (Some ''simple''))
    | _ \<Rightarrow> Inl InvalidMessage)"

text \<open>
  \<open>SimpleKey.reply\<close>: nothing for no output; a directory listing passes through; else the
  output is wrapped. A handler that has no name raises when it looks at it.
\<close>

definition simple_reply :: "string option \<Rightarrow> string option \<Rightarrow> json \<Rightarrow> json res" where
  "simple_reply name typ out =
     (if out = JNull then Inr JNull
      else case name of
          None \<Rightarrow> Inl AttributeError
        | Some n \<Rightarrow>
            if endswith n ''/'' then Inr out
            else Inr (JDict [(''type'', case typ of None \<Rightarrow> JNull | Some t \<Rightarrow> JStr t),
                             (''value'', out)]))"

fun handler_reply ::
    "('k, 'jwe, 'jws) jose \<Rightarrow> ('w, 'k) handler \<Rightarrow> json \<Rightarrow> ('w, 'k, json) act" where
  "handler_reply J (SimpleH n p t) out = py_lift (simple_reply n t out)"
| "handler_reply J (KemH kk h) out = kem_reply J kk h out"

subsection \<open>The validator\<close>

datatype handler_class = SimpleKey | KEMHandler

definition default_types :: "string list" where
  "default_types = [''simple'', ''kem'']"

definition key_types :: "(string \<times> handler_class) list" where
  "key_types = [(''simple'', SimpleKey), (''kem'', KEMHandler)]"

text \<open>
  The \<open>allowed\<close> argument is what the option \<open>allowed_keytypes\<close> yields: \<open>None\<close>, a set, or the
  default, which is the plain string \<open>'simple'\<close>, so that \<open>in\<close> is a substring test.
\<close>

datatype allowed = AllowNone | AllowText string | AllowSet "string list"

record validator =
  va_allowed :: allowed
  va_types :: "(string \<times> handler_class) list"

fun allowed_truth :: "allowed \<Rightarrow> bool" where
  "allowed_truth AllowNone = False"
| "allowed_truth (AllowText s) = (s \<noteq> [])"
| "allowed_truth (AllowSet xs) = (xs \<noteq> [])"

fun allowed_in :: "string \<Rightarrow> allowed \<Rightarrow> bool" where
  "allowed_in t AllowNone = False"
| "allowed_in t (AllowText s) = str_contains s t"
| "allowed_in t (AllowSet xs) = (t \<in> set xs)"

definition Validator :: "allowed \<Rightarrow> validator" where
  "Validator allowed =
     \<lparr>va_allowed = (if allowed_truth allowed then allowed else AllowSet default_types),
      va_types = key_types\<rparr>"

definition add_types :: "(string \<times> handler_class) list \<Rightarrow> validator \<Rightarrow> validator" where
  "add_types types v = v\<lparr>va_types := dict_update (va_types v) types\<rparr>"

text \<open>A value of the message may be wrapped in a list of one, as \<open>parse_qs\<close> does.\<close>

definition unwrap_one :: "json \<Rightarrow> json res" where
  "unwrap_one j = (case j of
      JList [x] \<Rightarrow> Inr x
    | JList _ \<Rightarrow> Inl InvalidMessage
    | _ \<Rightarrow> Inr j)"

definition message_parts :: "json \<Rightarrow> (json \<times> json) res" where
  "message_parts msg = (case msg of
      JDict d \<Rightarrow>
        rbind (of_option InvalidMessage (dict_get d ''type'')) (\<lambda>t.
        rbind (unwrap_one t) (\<lambda>msg_type.
        rbind (of_option InvalidMessage (dict_get d ''value'')) (\<lambda>v.
        rbind (unwrap_one v) (\<lambda>msg_value. Inr (msg_type, msg_value)))))
    | _ \<Rightarrow> Inl InvalidMessage)"

definition select_class :: "validator \<Rightarrow> json \<Rightarrow> handler_class res" where
  "select_class v msg_type = (case msg_type of
      JStr t \<Rightarrow> (case dict_get (va_types v) t of
          None \<Rightarrow> Inl UnknownMessageType
        | Some c \<Rightarrow> if allowed_in t (va_allowed v) then Inr c else Inl UnallowedMessage)
    | _ \<Rightarrow> Inl UnknownMessageType)"

definition run_class ::
    "('k, 'jwe, 'jws) jose \<Rightarrow> 'w request \<Rightarrow> handler_class \<Rightarrow> json \<Rightarrow> string
     \<Rightarrow> ('w, 'k, ('w, 'k) handler) act" where
  "run_class J req c msg_value name = (case c of
      SimpleKey \<Rightarrow> py_lift (simple_parse msg_value name)
    | KEMHandler \<Rightarrow> (case rq_kkstore req of
          None \<Rightarrow> py_raise OtherError
        | Some kk \<Rightarrow> py_bind (kem_parse J kk msg_value name) (\<lambda>h. py_return (KemH kk h))))"

definition validator_parse ::
    "('k, 'jwe, 'jws) jose \<Rightarrow> validator \<Rightarrow> 'w request \<Rightarrow> json \<Rightarrow> string
     \<Rightarrow> ('w, 'k, ('w, 'k) handler) act" where
  "validator_parse J v req msg name =
     py_bind (py_lift (message_parts msg)) (\<lambda>(msg_type, msg_value).
     py_bind (py_lift (select_class v msg_type)) (\<lambda>c. run_class J req c msg_value name))"

subsection \<open>What the validator lets through\<close>

lemma run_class_audit [audit_intros]: "audit_same (run_class J req c m n)"
  unfolding run_class_def by (auto intro!: audit_intros split: handler_class.splits option.splits)

lemma validator_parse_audit [audit_intros]: "audit_same (validator_parse J v req msg name)"
  unfolding validator_parse_def by (auto intro!: audit_intros split: prod.splits)

lemma handler_reply_audit [audit_intros]: "audit_same (handler_reply J h out)"
  by (cases h) (auto intro: audit_intros)

lemma unwrap_one_Inr: "unwrap_one j = Inr x \<longleftrightarrow> j = JList [x] \<or> (j = x \<and> (\<forall>l. j \<noteq> JList l))"
  by (auto simp: unwrap_one_def split: json.splits list.splits)

lemma message_parts_Inr:
  "message_parts msg = Inr (t, v) \<longleftrightarrow>
   (\<exists>d jt jv. msg = JDict d \<and> dict_get d ''type'' = Some jt \<and> unwrap_one jt = Inr t
     \<and> dict_get d ''value'' = Some jv \<and> unwrap_one jv = Inr v)"
  by (auto simp: message_parts_def split: json.splits elim!: rbind_InrE of_option_InrE)

text \<open>A message is accepted only with a known and allowed type.\<close>

lemma validator_parse_type:
  assumes "validator_parse J v req msg name c = (Inr h, c')"
  shows "\<exists>t d jt. msg = JDict d \<and> dict_get d ''type'' = Some jt \<and> unwrap_one jt = Inr (JStr t)
    \<and> dict_get (va_types v) t \<noteq> None \<and> allowed_in t (va_allowed v)"
  using assms
  by (auto simp: validator_parse_def py_bind_def py_lift_def select_class_def message_parts_Inr
      split: sum.splits prod.splits json.splits option.splits if_splits dest!: message_parts_Inr [THEN iffD1])

lemma simple_message_parts [simp]:
  "message_parts (JDict [(''type'', JStr t), (''value'', JStr s)]) = Inr (JStr t, JStr s)"
  by (simp add: message_parts_def unwrap_one_def)

lemma validator_parse_simple:
  assumes "dict_get (va_types v) ''simple'' = Some SimpleKey" and "allowed_in ''simple'' (va_allowed v)"
  shows "validator_parse J v req (JDict [(''type'', JStr ''simple''), (''value'', JStr s)]) name c =
    (Inr (SimpleH (Some name) (JStr s) (Some ''simple'')), c)"
  using assms by (simp add: validator_parse_def py_simps select_class_def run_class_def simple_parse_def)

text \<open>The default option value admits the simple type only.\<close>

lemma str_contains_simple: "str_contains ''simple'' t \<Longrightarrow> t \<in> {''simple'', ''kem''} \<Longrightarrow> t = ''simple''"
  by auto

lemma default_validator_types:
  assumes "dict_get (va_types (Validator (AllowText ''simple''))) t \<noteq> None"
    and "allowed_in t (va_allowed (Validator (AllowText ''simple'')))"
  shows "t = ''simple''"
  using assms by (auto simp: Validator_def key_types_def split: if_splits)

text \<open>With the default option value a parsed message is a simple message: its value is a text, or
  null, and parsing it changes nothing; whatever else the client sends is refused.\<close>

lemma default_parses_simple:
  assumes "validator_parse J (Validator (AllowText ''simple'')) req msg name c = (Inr h, c')"
  shows "c' = c \<and> (h = SimpleH None JNull None \<or> (\<exists>s. h = SimpleH (Some name) (JStr s) (Some ''simple'')))"
proof -
  let ?v = "Validator (AllowText ''simple'')"
  from assms obtain msg_type msg_value k where
    k: "select_class ?v msg_type = Inr k" and run: "run_class J req k msg_value name c = (Inr h, c')"
    by (auto simp: validator_parse_def py_lift_def elim!: py_bind_InrE)
  from k obtain t where t: "dict_get (va_types ?v) t = Some k" "allowed_in t (va_allowed ?v)"
    by (auto simp: select_class_def split: json.splits option.splits if_splits)
  then have "t = ''simple''" by (intro default_validator_types) auto
  with t(1) have "k = SimpleKey" by (simp add: Validator_def key_types_def)
  with run show ?thesis
    by (auto simp: run_class_def py_lift_def simple_parse_def split: json.splits)
qed


end
