(* ===== verification/Base64.thy ===== *)
theory Base64
  imports PyStrings
begin

text \<open>
  The \<open>base64\<close> module as \<open>src/custodia/secrets.py\<close> uses it: \<open>b64encode(bytes)\<close> for raw request
  bodies and \<open>b64decode(str)\<close> for raw replies. The decoder is the state machine of
  \<open>binascii.a2b_base64\<close> in its lenient mode: characters outside the alphabet are skipped, a
  padding sequence ends the input, and an incomplete group raises \<open>binascii.Error\<close>, a
  \<open>ValueError\<close>. The theorem at the end is the round trip.
\<close>

definition b64_char :: "nat \<Rightarrow> char" where
  "b64_char n =
     (if n < 26 then char_of (65 + n)
      else if n < 52 then char_of (71 + n)
      else if n < 62 then char_of (n - 4)
      else if n = 62 then CHR ''+'' else CHR ''/'')"

definition b64_val :: "char \<Rightarrow> nat option" where
  "b64_val c = (let n = (of_char c :: nat) in
     if 65 \<le> n \<and> n \<le> 90 then Some (n - 65)
     else if 97 \<le> n \<and> n \<le> 122 then Some (n - 71)
     else if 48 \<le> n \<and> n \<le> 57 then Some (n + 4)
     else if n = 43 then Some 62
     else if n = 47 then Some 63 else None)"

abbreviation byte :: "char \<Rightarrow> nat" where
  "byte c \<equiv> of_char c"

fun b64encode :: "bytes \<Rightarrow> string" where
  "b64encode (a # b # c # s) =
     b64_char (byte a div 4) # b64_char (byte a mod 4 * 16 + byte b div 16)
     # b64_char (byte b mod 16 * 4 + byte c div 64) # b64_char (byte c mod 64) # b64encode s"
| "b64encode [a, b] =
     [b64_char (byte a div 4), b64_char (byte a mod 4 * 16 + byte b div 16),
      b64_char (byte b mod 16 * 4), CHR ''='']"
| "b64encode [a] = [b64_char (byte a div 4), b64_char (byte a mod 4 * 16), CHR ''='', CHR ''='']"
| "b64encode [] = []"

text \<open>
  \<open>a2b q l p s\<close>: \<open>q\<close> is the position in the group of four, \<open>l\<close> the bits left over from the last
  character, \<open>p\<close> the number of padding characters seen in a row.
\<close>

fun a2b :: "nat \<Rightarrow> nat \<Rightarrow> nat \<Rightarrow> string \<Rightarrow> bytes res" where
  "a2b q l p [] = (if q = 0 then Inr [] else Inl ValueError)"
| "a2b q l p (c # s) =
     (if c = CHR ''='' then
        (if 2 \<le> q \<and> 4 \<le> q + p + 1 then Inr []
         else a2b q l (if 2 \<le> q then p + 1 else p) s)
      else (case b64_val c of
        None \<Rightarrow> a2b q l p s
      | Some v \<Rightarrow>
          (if q = 0 then a2b 1 v 0 s
           else if q = 1 then
             rbind (a2b 2 (v mod 16) 0 s) (\<lambda>r. Inr (char_of (l * 4 + v div 16) # r))
           else if q = 2 then
             rbind (a2b 3 (v mod 4) 0 s) (\<lambda>r. Inr (char_of (l * 16 + v div 4) # r))
           else rbind (a2b 0 0 0 s) (\<lambda>r. Inr (char_of (l * 64 + v) # r)))))"

definition b64decode :: "string \<Rightarrow> bytes res" where
  "b64decode s = (if \<exists>c \<in> set s. 128 \<le> byte c then Inl ValueError else a2b 0 0 0 s)"

lemma byte_less: "byte c < 256"
  using of_char_of [of "byte c"] by (metis less_nat_zero_code of_char_mod_256 mod_less_divisor zero_less_numeral)

lemma b64_char_code: "n < 64 \<Longrightarrow> byte (b64_char n) =
    (if n < 26 then 65 + n else if n < 52 then 71 + n else if n < 62 then n - 4
     else if n = 62 then 43 else 47)"
  by (auto simp: b64_char_def)

lemma b64_val_char [simp]: "n < 64 \<Longrightarrow> b64_val (b64_char n) = Some n"
  by (auto simp: b64_val_def b64_char_code Let_def)

lemma b64_char_not_pad [simp]: "n < 64 \<Longrightarrow> b64_char n \<noteq> CHR ''=''"
proof
  assume n: "n < 64" and e: "b64_char n = CHR ''=''"
  from e have "byte (b64_char n) = 61" by simp
  with n show False by (auto simp: b64_char_code split: if_splits)
qed

lemma b64_char_ascii: "n < 64 \<Longrightarrow> byte (b64_char n) < 128"
  by (auto simp: b64_char_code)

lemma six_bits:
  fixes x y :: nat
  assumes "x < 256" and "y < 256"
  shows "x div 4 < 64" and "x mod 4 * 16 + y div 16 < 64" and "x mod 16 * 4 + y div 64 < 64"
    and "x mod 16 * 4 < 64" and "x mod 4 * 16 < 64"
    and "x div 16 div 16 = 0" and "x div 64 div 4 = 0"
    and "x div 16 mod 16 = x div 16" and "x div 64 mod 4 = x div 64"
  using assms by (linarith | simp add: less_mult_imp_div_less)+

lemmas byte_bits [simp] = six_bits [OF byte_less byte_less]

lemma a2b_b64encode: "a2b 0 0 0 (b64encode bs) = Inr bs"
  by (induction bs rule: b64encode.induct) simp_all

lemma b64encode_ascii: "c \<in> set (b64encode bs) \<Longrightarrow> byte c < 128"
  by (induction bs rule: b64encode.induct) (auto simp: b64_char_ascii)

lemma b64decode_encode: "b64decode (b64encode bs) = Inr bs"
  using b64encode_ascii [of _ bs] by (fastforce simp: b64decode_def a2b_b64encode)

lemma b64encode_eq_Nil [simp]: "b64encode bs = [] \<longleftrightarrow> bs = []"
  by (cases bs rule: b64encode.cases) auto

end
