(* ===== verification/SecretsModel.thy ===== *)
theory SecretsModel
  imports Messages Base64
begin

text \<open>
  \<open>src/custodia/secrets.py\<close>: the consumer behind \<open>/secrets\<close>. A \<open>Secrets\<close> object is its log
  origin, its validator and the store of its root consumer; every method is a definition over
  the request's state. Requests are read-only here.
\<close>

text \<open>
  What the environment supplies: the JOSE library, and \<open>json.loads(bytes(body).decode('utf-8'))\<close>,
  which raises \<open>ValueError\<close> on a body that is not UTF-8 or not JSON.
\<close>

record ('k, 'jwe, 'jws) env =
  en_jose :: "('k, 'jwe, 'jws) jose"
  en_loads :: "bytes \<Rightarrow> json res"

record 'w secrets =
  se_origin :: string
  se_validator :: validator
  se_store :: "'w store_ops"

subsection \<open>Keys\<close>

definition db_key :: "string list \<Rightarrow> string res" where
  "db_key trail = (if length trail < 2 then Inl (HTTPError 403) else Inr (path_join ''keys'' trail))"

definition db_container_key :: "string option \<Rightarrow> string list \<Rightarrow> string res" where
  "db_container_key dflt trail =
     (if length trail > 1 then db_key trail
      else if length trail = 1 \<and> hd trail \<noteq> [] then Inl (HTTPError 403)
      else (case dflt of
          None \<Rightarrow> Inl (HTTPError 403)
        | Some ns \<Rightarrow> db_key [ns, []]))"

subsection \<open>Parsing the message\<close>

definition simple_msg :: "string \<Rightarrow> json" where
  "simple_msg value = JDict [(''type'', JStr ''simple''), (''value'', JStr value)]"

definition secrets_parse ::
    "('k, 'jwe, 'jws) env \<Rightarrow> 'w secrets \<Rightarrow> 'w request \<Rightarrow> json \<Rightarrow> string
     \<Rightarrow> ('w, 'k, ('w, 'k) handler) act" where
  "secrets_parse E se req query name = validator_parse (en_jose E) (se_validator se) req query name"

definition json_len :: "json \<Rightarrow> nat res" where
  "json_len j = (case j of
      JStr s \<Rightarrow> Inr (length s) | JList xs \<Rightarrow> Inr (length xs) | JDict d \<Rightarrow> Inr (length d)
    | _ \<Rightarrow> Inl TypeError)"

definition parse_query ::
    "('k, 'jwe, 'jws) env \<Rightarrow> 'w secrets \<Rightarrow> 'w request \<Rightarrow> string \<Rightarrow> ('w, 'k, ('w, 'k) handler) act"
where
  "parse_query E se req name =
     py_bind (py_lift (json_len (rq_query req))) (\<lambda>n.
       secrets_parse E se req (if n = 0 then simple_msg [] else rq_query req) name)"

definition parse_bin_body ::
    "('k, 'jwe, 'jws) env \<Rightarrow> 'w secrets \<Rightarrow> 'w request \<Rightarrow> string \<Rightarrow> ('w, 'k, ('w, 'k) handler) act"
where
  "parse_bin_body E se req name = (case rq_body req of
      None \<Rightarrow> py_raise (HTTPError 400)
    | Some b \<Rightarrow> secrets_parse E se req (simple_msg (b64encode b)) name)"

definition parse_body ::
    "('k, 'jwe, 'jws) env \<Rightarrow> 'w secrets \<Rightarrow> 'w request \<Rightarrow> string \<Rightarrow> ('w, 'k, ('w, 'k) handler) act"
where
  "parse_body E se req name = (case rq_body req of
      None \<Rightarrow> py_raise (HTTPError 400)
    | Some b \<Rightarrow> py_bind (py_lift (en_loads E b)) (\<lambda>value. secrets_parse E se req value name))"

definition parse_maybe_body ::
    "('k, 'jwe, 'jws) env \<Rightarrow> 'w secrets \<Rightarrow> 'w request \<Rightarrow> string \<Rightarrow> ('w, 'k, ('w, 'k) handler) act"
where
  "parse_maybe_body E se req name = (case rq_body req of
      None \<Rightarrow> secrets_parse E se req (simple_msg []) name
    | Some b \<Rightarrow> py_bind (py_lift (en_loads E b)) (\<lambda>value. secrets_parse E se req value name))"

text \<open>\<open>except Exception as e: raise HTTPError(code, str(e))\<close>.\<close>

definition as_http :: "int \<Rightarrow> ('s, 'a) py \<Rightarrow> ('s, 'a) py" where
  "as_http code m = py_try m (\<lambda>_. py_raise (HTTPError code))"

subsection \<open>Store errors as status codes\<close>

definition on_store_error :: "exn \<Rightarrow> ('s, 'a) py" where
  "on_store_error e = (case e of
      CSStoreDenied \<Rightarrow> py_raise (HTTPError 403)
    | CSStoreError \<Rightarrow> py_raise (HTTPError 500)
    | CSStoreUnsupported \<Rightarrow> py_raise (HTTPError 501)
    | _ \<Rightarrow> py_raise e)"

definition on_set_error :: "exn \<Rightarrow> ('s, 'a) py" where
  "on_set_error e = (case e of
      CSStoreDenied \<Rightarrow> py_raise (HTTPError 403)
    | CSStoreExists \<Rightarrow> py_raise (HTTPError 409)
    | CSStoreError \<Rightarrow> py_raise (HTTPError 500)
    | CSStoreUnsupported \<Rightarrow> py_raise (HTTPError 501)
    | _ \<Rightarrow> py_raise e)"

subsection \<open>Replies\<close>

definition json_ctype :: string where
  "json_ctype = ''application/json; charset=utf-8''"

definition set_code :: "int \<Rightarrow> response \<Rightarrow> response" where
  "set_code n r = r\<lparr>rs_code := Some n\<rparr>"

definition set_json :: "json \<Rightarrow> response \<Rightarrow> response" where
  "set_json out r = (set_header ''Content-Type'' json_ctype r)\<lparr>rs_output := Some (OJson out)\<rparr>"

fun accept_binary :: "bool \<Rightarrow> string list \<Rightarrow> bool" where
  "accept_binary binary [] = binary"
| "accept_binary binary (t # types) =
     (if py_strip t = ''application/json'' then False
      else if py_strip t = ''application/octet-stream'' then accept_binary True types
      else accept_binary binary types)"

definition wants_binary :: "'w request \<Rightarrow> bool" where
  "wants_binary req = (case header_get (rq_headers req) ''Accept'' of
      None \<Rightarrow> False | Some a \<Rightarrow> accept_binary False (py_split (CHR '','') a))"

definition decode_reply_value :: "json \<Rightarrow> bytes res" where
  "decode_reply_value reply = rbind (json_getitem reply ''value'') (\<lambda>v.
     case v of JStr s \<Rightarrow> b64decode s | _ \<Rightarrow> Inl TypeError)"

definition format_reply ::
    "('k, 'jwe, 'jws) env \<Rightarrow> 'w request \<Rightarrow> ('w, 'k) handler \<Rightarrow> json \<Rightarrow> ('w, 'k, unit) act" where
  "format_reply E req handler out =
     py_bind (handler_reply (en_jose E) handler out) (\<lambda>reply.
       if handler_msg_type handler = Some ''simple'' \<and> wants_binary req then
         py_bind (upd_resp (set_header ''Content-Type'' ''application/octet-stream'')) (\<lambda>_.
         py_bind (py_lift (decode_reply_value reply)) (\<lambda>b.
           upd_resp (\<lambda>r. r\<lparr>rs_output := Some (OBytes b)\<rparr>)))
       else py_when (reply \<noteq> JNull) (upd_resp (set_json reply)))"

subsection \<open>Containers\<close>

definition parent_exists ::
    "'w secrets \<Rightarrow> string option \<Rightarrow> string list \<Rightarrow> ('w, 'k, bool) act" where
  "parent_exists se dflt trail =
     py_bind (py_lift (case trail of [] \<Rightarrow> Inl IndexError
                | t # _ \<Rightarrow> db_container_key (Some t) (butlast trail @ [[]]))) (\<lambda>basename.
     py_bind (py_try (on_store (st_list (se_store se) basename))
               (\<lambda>e. if e = CSStoreError then py_raise (HTTPError 500) else py_raise e)) (\<lambda>keylist.
       if keylist \<noteq> None then py_return True
       else if length trail = 2 \<and> dflt = Some (hd trail) then
         py_bind (py_lift (db_container_key dflt [])) (\<lambda>container.
         py_bind (on_store (st_span (se_store se) container)) (\<lambda>_. py_return True))
       else py_return False))"

definition names_json :: "string list \<Rightarrow> json" where
  "names_json names = JList (map JStr names)"

definition secrets_list ::
    "('k, 'jwe, 'jws) env \<Rightarrow> 'w secrets \<Rightarrow> string list \<Rightarrow> 'w request \<Rightarrow> ('w, 'k, unit) act" where
  "secrets_list E se trail req =
     py_bind (as_http 406 (parse_query E se req (py_join ''/'' trail))) (\<lambda>msg.
     py_bind (py_lift (db_container_key (rq_default_namespace req) trail)) (\<lambda>basename.
     py_try
       (py_bind (on_store (st_list (se_store se) basename)) (\<lambda>keylist.
          case keylist of
            None \<Rightarrow> py_raise (HTTPError 404)
          | Some names \<Rightarrow>
              py_bind (upd_resp (set_header ''Content-Type'' json_ctype)) (\<lambda>_.
              py_bind (handler_reply (en_jose E) msg (names_json names)) (\<lambda>reply.
                upd_resp (\<lambda>r. r\<lparr>rs_output := Some (OJson reply)\<rparr>)))))
       on_store_error))"

text \<open>The reply after a write: the handler is asked for a reply to no output.\<close>

definition reply_created ::
    "('k, 'jwe, 'jws) env \<Rightarrow> ('w, 'k) handler \<Rightarrow> ('w, 'k, unit) act" where
  "reply_created E msg =
     py_bind (handler_reply (en_jose E) msg JNull) (\<lambda>out.
     py_bind (py_when (out \<noteq> JNull) (upd_resp (set_json out))) (\<lambda>_. upd_resp (set_code 201)))"

definition reply_deleted ::
    "('k, 'jwe, 'jws) env \<Rightarrow> ('w, 'k) handler \<Rightarrow> ('w, 'k, unit) act" where
  "reply_deleted E msg =
     py_bind (handler_reply (en_jose E) msg JNull) (\<lambda>out.
       if out = JNull then upd_resp (set_code 204)
       else py_bind (upd_resp (set_json out)) (\<lambda>_. upd_resp (set_code 200)))"

text \<open>
  \<open>_create\<close>. The guarded part answers whether the container was made; \<open>CSStoreExists\<close> sets
  the code to 200 and returns.
\<close>

definition create_guarded ::
    "'w secrets \<Rightarrow> string list \<Rightarrow> 'w request \<Rightarrow> string \<Rightarrow> ('w, 'k, bool) act" where
  "create_guarded se trail req basename =
     py_try
       (py_bind (if length trail > 2
                 then py_bind (parent_exists se (rq_default_namespace req) (butlast trail)) (\<lambda>found.
                        if \<not> found then py_raise (HTTPError 404) else py_return ())
                 else py_return ()) (\<lambda>_.
        py_bind (on_store (st_span (se_store se) basename)) (\<lambda>_. py_return True)))
       (\<lambda>e. if e = CSStoreExists
            then py_bind (upd_resp (set_code 200)) (\<lambda>_. py_return False)
            else on_store_error e)"

definition secrets_create ::
    "('k, 'jwe, 'jws) env \<Rightarrow> 'w secrets \<Rightarrow> string list \<Rightarrow> 'w request \<Rightarrow> ('w, 'k, unit) act" where
  "secrets_create E se trail req =
     py_bind (as_http 406 (parse_maybe_body E se req (py_join ''/'' trail))) (\<lambda>msg.
     py_bind (py_lift (db_container_key None trail)) (\<lambda>basename.
     py_bind (create_guarded se trail req basename) (\<lambda>made.
       if made then reply_created E msg else py_return ())))"

definition secrets_destroy ::
    "('k, 'jwe, 'jws) env \<Rightarrow> 'w secrets \<Rightarrow> string list \<Rightarrow> 'w request \<Rightarrow> ('w, 'k, unit) act" where
  "secrets_destroy E se trail req =
     py_bind (as_http 406 (parse_maybe_body E se req (py_join ''/'' trail))) (\<lambda>msg.
     py_bind (py_lift (db_container_key None trail)) (\<lambda>basename.
     py_bind
       (py_try
         (py_bind (on_store (st_list (se_store se) basename)) (\<lambda>keylist.
            case keylist of
              None \<Rightarrow> py_raise (HTTPError 404)
            | Some names \<Rightarrow>
                if length names \<noteq> 0 then py_raise (HTTPError 409)
                else on_store (st_cut (se_store se) (rstrip_ch (CHR ''/'') basename))))
         on_store_error) (\<lambda>ret.
       if ret = CutBool False then py_raise (HTTPError 404) else reply_deleted E msg)))"

subsection \<open>Auditing\<close>

definition client_name :: "'w request \<Rightarrow> string res" where
  "client_name req = (case rq_remote_user req of
      Some u \<Rightarrow> Inr u
    | None \<Rightarrow> (case rq_creds req of
        None \<Rightarrow> Inl TypeError
      | Some cr \<Rightarrow> Inr (''<pid='' @ show_int (cr_pid cr) @ '' uid='' @ show_int (cr_uid cr)
                        @ '' gid='' @ show_int (cr_gid cr) @ ''>'')))"

text \<open>
  \<open>_audit\<close>: the \<open>finally\<close> clause logs the success code if the action returned and the failure
  code if it raised.
\<close>

definition audited ::
    "'w secrets \<Rightarrow> nat \<Rightarrow> nat \<Rightarrow> ('w, 'k, unit) act \<Rightarrow> string list \<Rightarrow> 'w request \<Rightarrow> ('w, 'k, unit) act"
where
  "audited se ok_code fail_code fn trail req =
     py_bind (py_lift (client_name req)) (\<lambda>client c.
       case fn c of
         (Inr u, c') \<Rightarrow>
            (Inr u, snd (add_audit (audit_key_entry (se_origin se) ok_code client (py_join ''/'' trail)) c'))
       | (Inl e, c') \<Rightarrow>
            (Inl e, snd (add_audit (audit_key_entry (se_origin se) fail_code client (py_join ''/'' trail)) c')))"

subsection \<open>Single keys\<close>

definition int_get_key ::
    "('k, 'jwe, 'jws) env \<Rightarrow> 'w secrets \<Rightarrow> string list \<Rightarrow> 'w request \<Rightarrow> ('w, 'k, unit) act" where
  "int_get_key E se trail req =
     py_bind (as_http 406 (parse_query E se req (py_join ''/'' trail))) (\<lambda>handler.
     py_bind (py_lift (db_key trail)) (\<lambda>key.
     py_try
       (py_bind (on_store (st_get (se_store se) key)) (\<lambda>out.
          if out = JNull then py_raise (HTTPError 404)
          else py_bind (py_lift (json_len out)) (\<lambda>n.
            if n = 0 then py_raise (HTTPError 406) else format_reply E req handler out)))
       on_store_error))"

definition content_type_value :: "'w request \<Rightarrow> string" where
  "content_type_value req = py_strip (hd (py_split (CHR '';'')
     (case header_get (rq_headers req) ''Content-Type'' of None \<Rightarrow> [] | Some t \<Rightarrow> t)))"

definition parse_set_body ::
    "('k, 'jwe, 'jws) env \<Rightarrow> 'w secrets \<Rightarrow> 'w request \<Rightarrow> string \<Rightarrow> ('w, 'k, ('w, 'k) handler) act"
where
  "parse_set_body E se req name =
     py_try
       (if content_type_value req = ''application/octet-stream'' then parse_bin_body E se req name
        else if content_type_value req = ''application/json'' then parse_body E se req name
        else py_raise ValueError)
       (\<lambda>e. case e of
          UnknownMessageType \<Rightarrow> py_raise (HTTPError 406)
        | UnallowedMessage \<Rightarrow> py_raise (HTTPError 406)
        | _ \<Rightarrow> py_raise (HTTPError 400))"

definition int_set_key ::
    "('k, 'jwe, 'jws) env \<Rightarrow> 'w secrets \<Rightarrow> string list \<Rightarrow> 'w request \<Rightarrow> ('w, 'k, unit) act" where
  "int_set_key E se trail req =
     py_bind (parse_set_body E se req (py_join ''/'' trail)) (\<lambda>msg.
     py_bind (py_lift (db_key trail)) (\<lambda>key.
     py_bind
       (py_try
         (py_bind (parent_exists se (rq_default_namespace req) trail) (\<lambda>found.
            if \<not> found then py_raise (HTTPError 404)
            else on_store (st_set (se_store se) key (handler_payload msg) False)))
         on_set_error) (\<lambda>_.
       reply_created E msg)))"

definition int_del_key ::
    "('k, 'jwe, 'jws) env \<Rightarrow> 'w secrets \<Rightarrow> string list \<Rightarrow> 'w request \<Rightarrow> ('w, 'k, unit) act" where
  "int_del_key E se trail req =
     py_bind (as_http 406 (parse_maybe_body E se req (py_join ''/'' trail))) (\<lambda>msg.
     py_bind (py_lift (db_key trail)) (\<lambda>key.
     py_bind (py_try (on_store (st_cut (se_store se) key)) on_store_error) (\<lambda>ret.
       if ret = CutBool False then py_raise (HTTPError 404) else reply_deleted E msg)))"

definition get_key ::
    "('k, 'jwe, 'jws) env \<Rightarrow> 'w secrets \<Rightarrow> string list \<Rightarrow> 'w request \<Rightarrow> ('w, 'k, unit) act" where
  "get_key E se trail req =
     audited se AUDIT_GET_ALLOWED AUDIT_GET_DENIED (int_get_key E se trail req) trail req"

definition set_key ::
    "('k, 'jwe, 'jws) env \<Rightarrow> 'w secrets \<Rightarrow> string list \<Rightarrow> 'w request \<Rightarrow> ('w, 'k, unit) act" where
  "set_key E se trail req =
     audited se AUDIT_SET_ALLOWED AUDIT_SET_DENIED (int_set_key E se trail req) trail req"

definition del_key ::
    "('k, 'jwe, 'jws) env \<Rightarrow> 'w secrets \<Rightarrow> string list \<Rightarrow> 'w request \<Rightarrow> ('w, 'k, unit) act" where
  "del_key E se trail req =
     audited se AUDIT_DEL_ALLOWED AUDIT_DEL_DENIED (int_del_key E se trail req) trail req"

subsection \<open>The HTTP methods\<close>

definition trail_of :: "'w request \<Rightarrow> string list" where
  "trail_of req = (case rq_trail req of None \<Rightarrow> [] | Some t \<Rightarrow> t)"

definition names_container :: "string list \<Rightarrow> bool" where
  "names_container trail = (trail \<noteq> [] \<and> last trail = [])"

definition secrets_GET ::
    "('k, 'jwe, 'jws) env \<Rightarrow> 'w secrets \<Rightarrow> 'w request \<Rightarrow> ('w, 'k, unit) act" where
  "secrets_GET E se req = (let trail = trail_of req in
     if length trail = 0 \<or> names_container trail then secrets_list E se trail req
     else get_key E se trail req)"

definition secrets_PUT ::
    "('k, 'jwe, 'jws) env \<Rightarrow> 'w secrets \<Rightarrow> 'w request \<Rightarrow> ('w, 'k, unit) act" where
  "secrets_PUT E se req = (let trail = trail_of req in
     if length trail = 0 \<or> names_container trail then py_raise (HTTPError 405)
     else set_key E se trail req)"

definition secrets_DELETE ::
    "('k, 'jwe, 'jws) env \<Rightarrow> 'w secrets \<Rightarrow> 'w request \<Rightarrow> ('w, 'k, unit) act" where
  "secrets_DELETE E se req = (let trail = trail_of req in
     if length trail = 0 then py_raise (HTTPError 405)
     else if names_container trail then secrets_destroy E se trail req
     else del_key E se trail req)"

definition secrets_POST ::
    "('k, 'jwe, 'jws) env \<Rightarrow> 'w secrets \<Rightarrow> 'w request \<Rightarrow> ('w, 'k, unit) act" where
  "secrets_POST E se req = (let trail = trail_of req in
     if length trail > 0 \<and> names_container trail then secrets_create E se trail req
     else py_raise (HTTPError 405))"

end
