(* ===== verification/SqliteSpec.thy ===== *)
theory SqliteSpec
  imports SqliteStore
begin

text \<open>
  What \<open>SqliteStore\<close> promises: its listing equals the listing one would compute from the exact
  set of children, and its five methods implement the \<open>container_store\<close> contract over the
  view in which a row with a false value is a container mark and any other row a secret.
\<close>

subsection \<open>The query finds every child\<close>

lemma sql_like_percent: "sql_like ''%'' s"
  by (induction s) auto

lemma sql_like_skip: "sql_like ps s \<Longrightarrow> sql_like (CHR ''%'' # ps) s"
  by (cases s) auto

lemma sql_like_prefix: "startswith k path \<Longrightarrow> sql_like (path @ ''%'') k"
proof (induction path arbitrary: k)
  case Nil
  then show ?case by (simp add: sql_like_percent)
next
  case (Cons p path)
  then obtain s where "k = p # s" and "startswith s path"
    by (cases k) (auto simp: startswith_def)
  with Cons.IH show ?case by (auto intro: sql_like_skip)
qed

text \<open>The rows the query returns that the loop does not skip are the children.\<close>

definition row_is_child :: "string \<Rightarrow> string \<times> json \<Rightarrow> bool" where
  "row_is_child keyfilter r = is_child keyfilter (fst r)"

definition row_name :: "string \<Rightarrow> string \<times> json \<Rightarrow> string" where
  "row_name keyfilter r =
     lstrip_ch (CHR ''/'') (drop (length (child_prefix keyfilter)) (fst r))
     @ (if py_truth (snd r) then [] else ''/'')"

definition row_is_self :: "string \<Rightarrow> string \<times> json \<Rightarrow> bool" where
  "row_is_self keyfilter r = (fst r = list_path keyfilter \<or> fst r = child_prefix keyfilter)"

definition ref_list :: "string \<Rightarrow> rows \<Rightarrow> string list option" where
  "ref_list keyfilter t =
     (if filter (row_is_child keyfilter) t \<noteq> []
      then Some (sort (map (row_name keyfilter) (filter (row_is_child keyfilter) t)))
      else if (\<exists>r \<in> set t. row_is_self keyfilter r) \<or> (keyfilter = [] \<and> t = []) then Some []
      else None)"

lemma list_loop_eq:
  "list_loop (list_path p) (child_prefix p) b res t =
     (b \<or> (\<exists>r \<in> set t. row_is_self p r),
      res @ map (row_name p) (filter (row_is_child p) t))"
  by (induction t arbitrary: b res)
     (auto simp: row_is_self_def row_is_child_def row_name_def is_child_def Let_def)

lemma child_prefix_extends: "startswith (child_prefix p) (list_path p)"
  by (simp add: child_prefix_def Let_def startswith_def)

lemma query_complete:
  "row_is_child p r \<or> row_is_self p r \<Longrightarrow> sql_like (list_path p @ ''%'') (fst r)"
  using child_prefix_extends [of p]
  by (intro sql_like_prefix)
     (auto simp: row_is_child_def row_is_self_def is_child_def startswith_def
       intro: prefix_order.trans)

lemmas query_complete_child = query_complete [OF disjI1, where r = "(k, v)" for k v, simplified]
  and query_complete_self = query_complete [OF disjI2, where r = "(k, v)" for k v, simplified]

lemma filter_query:
  "filter (row_is_child p) (filter (\<lambda>r. sql_like (list_path p @ ''%'') (fst r)) t) =
   filter (row_is_child p) t"
  by (induction t) (auto dest: query_complete_child)

text \<open>With a working database and a table, listing is the reference listing.\<close>

lemma sqlite_list_ref:
  assumes "db_rows d = Some t" and "db_faults d = []"
  shows "sqlite_list p d = (Inr (ref_list p t), d)"
proof -
  let ?q = "filter (\<lambda>r. sql_like (list_path p @ ''%'') (fst r)) t"
  have run: "run_sql (sql_select_like (list_path p @ ''%'')) d = (Inr ?q, d)"
    using assms by (simp add: run_sql_def)
  have cp: "(if list_path p = [] then list_path p else list_path p @ ''/'') = child_prefix p"
    by (simp add: child_prefix_def)
  have self: "(\<exists>r \<in> set ?q. row_is_self p r) = (\<exists>r \<in> set t. row_is_self p r)"
    by (auto dest: query_complete_self)
  have nil: "p = [] \<Longrightarrow> ?q = t"
    by (simp add: list_path_def sql_like_percent)
  have none: "?q = [] \<Longrightarrow> \<not> (\<exists>r \<in> set t. row_is_self p r) \<and> filter (row_is_child p) t = []"
    using query_complete by (simp add: filter_empty_conv) blast
  have list: "sqlite_list p d =
      (Inr (if ?q \<noteq> [] then
              (let (b, result) = list_loop (list_path p) (child_prefix p) False [] ?q
               in if result \<noteq> [] then Some (sort result) else if b then Some [] else None)
            else if p = [] then Some [] else None), d)"
    unfolding sqlite_list_def list_path_def [symmetric] Let_def cp
    by (simp add: py_simps run py_try_def split: prod.splits)
  have loop: "list_loop (list_path p) (child_prefix p) False [] ?q =
      (\<exists>r \<in> set t. row_is_self p r, map (row_name p) (filter (row_is_child p) t))"
    by (simp only: list_loop_eq filter_query self simp_thms append_Nil)
  show ?thesis
  proof (cases "?q = []")
    case True
    then have r: "ref_list p t = (if p = [] then Some [] else None)"
      using none [OF True] nil by (auto simp: ref_list_def)
    show ?thesis unfolding list r using True by simp
  next
    case False
    with nil have "\<not> (p = [] \<and> t = [])" by auto
    with False show ?thesis
      unfolding list loop by (simp add: ref_list_def)
  qed
qed

subsection \<open>The view\<close>

definition row_entry :: "json \<Rightarrow> entry" where
  "row_entry v = (if py_truth v then Secret v else Dir)"

definition sqlite_view :: "db \<Rightarrow> view" where
  "sqlite_view d = (\<lambda>k. case db_rows d of None \<Rightarrow> None
     | Some t \<Rightarrow> map_option row_entry (map_of t k))"

definition sqlite_ready :: "db \<Rightarrow> bool" where
  "sqlite_ready d = (db_faults d = [] \<and> (\<exists>t. db_rows d = Some t \<and> table_ok t))"

lemma map_of_filter_neq:
  "map_of (filter (\<lambda>r. fst r \<noteq> k) t) = (map_of t)(k := None)"
  by (induction t) (auto simp: fun_eq_iff)

lemma map_of_append_fresh:
  "map_of t k = None \<Longrightarrow> map_of (t @ [(k, v)]) = (map_of t)(k \<mapsto> v)"
  by (auto simp: map_add_def fun_eq_iff split: option.splits)

lemma select_distinct:
  "distinct (map fst t) \<Longrightarrow>
   map snd (filter (\<lambda>r. fst r = k) t) = (case map_of t k of None \<Rightarrow> [] | Some v \<Rightarrow> [v])"
proof (induction t)
  case (Cons a t)
  obtain k' v where a: "a = (k', v)" by (cases a)
  show ?case
  proof (cases "k' = k")
    case True
    with Cons.prems a have "filter (\<lambda>r. fst r = k) t = []"
      by (auto simp: filter_empty_conv)
    with True a show ?thesis by simp
  next
    case False
    with Cons a show ?thesis by auto
  qed
qed simp

lemma sort_eq_Nil: "sort xs = [] \<longleftrightarrow> xs = []"
  by (metis length_0_conv length_sort)

lemma row_name_shown: "row_name p (k, v) = shown_name (child_prefix p) k (row_entry v)"
  by (simp add: row_name_def shown_name_def row_entry_def)

lemma ref_list_spec:
  assumes t: "table_ok t" and d: "db_rows d = Some t"
  shows "list_spec (sqlite_view d) p (ref_list p t)"
proof -
  let ?V = "sqlite_view d"
  have dist: "distinct (map fst t)" using t by (simp add: table_ok_def)
  have V: "?V k = Some e \<longleftrightarrow> (\<exists>v. (k, v) \<in> set t \<and> e = row_entry v)" for k e
    using dist d by (auto simp: sqlite_view_def map_of_eq_Some_iff)
  have names: "child_names ?V p = set (map (row_name p) (filter (row_is_child p) t))"
    unfolding child_names_def V by (force simp: row_name_shown row_is_child_def)
  have self: "(\<exists>r \<in> set t. row_is_self p r) \<longleftrightarrow>
      ?V (list_path p) \<noteq> None \<or> ?V (child_prefix p) \<noteq> None"
    using V by (force simp: row_is_self_def not_None_eq)
  have empty: "?V = Map.empty \<longleftrightarrow> t = []"
    using d by (auto simp: sqlite_view_def fun_eq_iff map_of_eq_None_iff)
  show ?thesis
    unfolding list_spec_def ref_list_def container_there_def names
    using self empty by (auto simp: sort_eq_Nil)
qed

subsection \<open>The contract\<close>

lemma ready_run:
  assumes "sqlite_ready d" and "stmt (db_rows d) = (r, t)"
  shows "run_sql stmt d = (r, d\<lparr>db_rows := t\<rparr>)"
  using assms by (simp add: run_sql_def sqlite_ready_def)

lemma ready_get:
  assumes "sqlite_ready d" and "db_rows d = Some t"
  shows "sqlite_get k d = (Inr (case map_of t k of None \<Rightarrow> JNull | Some v \<Rightarrow> v), d)"
proof -
  from assms have "distinct (map fst t)" by (auto simp: sqlite_ready_def table_ok_def)
  from select_distinct [OF this]
  have "run_sql (sql_select k) d = (Inr (case map_of t k of None \<Rightarrow> [] | Some v \<Rightarrow> [v]), d)"
    using ready_run [OF assms(1), of "sql_select k"] assms(2) by simp
  then show ?thesis
    by (simp add: sqlite_get_def py_bind_apply py_try_apply py_return_apply split: option.splits)
qed

lemma sql_bind_storable: "storable v \<Longrightarrow> sql_bind v = Inr v"
  by (auto simp: storable_def)

lemma view_insert:
  assumes "map_of t k = None"
  shows "sqlite_view (d\<lparr>db_rows := Some (t @ [(k, v)])\<rparr>) =
    (sqlite_view (d\<lparr>db_rows := Some t\<rparr>))(k \<mapsto> row_entry v)"
  using map_of_append_fresh [OF assms, of v] by (simp add: sqlite_view_def fun_eq_iff)

lemma view_replace:
  "sqlite_view (d\<lparr>db_rows := Some (filter (\<lambda>r. fst r \<noteq> k) t @ [(k, v)])\<rparr>) =
    (sqlite_view (d\<lparr>db_rows := Some t\<rparr>))(k \<mapsto> row_entry v)"
proof -
  have "map_of (filter (\<lambda>r. fst r \<noteq> k) t) k = None" by (simp add: map_of_filter_neq)
  from view_insert [OF this] show ?thesis
    by (simp add: sqlite_view_def fun_eq_iff map_of_filter_neq)
qed

lemma ready_insert:
  assumes "sqlite_ready d" and "db_rows d = Some t" and "sql_bind v = Inr v" and "key_ok k"
    and "map_of t k = None \<or> r"
  shows "\<exists>d'. run_sql (\<lambda>t. sql_insert r k v (sql_create t)) d = (Inr (), d') \<and> sqlite_ready d'
    \<and> sqlite_view d' = (sqlite_view d)(k \<mapsto> row_entry v)"
proof -
  define t' where "t' = (if map_of t k = None then t @ [(k, v)]
    else filter (\<lambda>r. fst r \<noteq> k) t @ [(k, v)])"
  have ins: "sql_insert r k v t = (Inr (), Some t')"
    using assms(3,5) by (auto simp: sql_insert_def t'_def map_of_eq_None_iff)
  have ok: "table_ok t" using assms(1,2) by (auto simp: sqlite_ready_def)
  have same: "d\<lparr>db_rows := Some t\<rparr> = d" using assms(2) by simp
  have "sqlite_ready (d\<lparr>db_rows := Some t'\<rparr>)"
    using table_ok_insert [OF ok assms(4) ins] assms(1) by (auto simp: sqlite_ready_def)
  moreover have "sqlite_view (d\<lparr>db_rows := Some t'\<rparr>) = (sqlite_view d)(k \<mapsto> row_entry v)"
    using view_insert [where t = t and k = k and d = d and v = v]
      view_replace [where d = d and k = k and t = t and v = v] by (simp add: t'_def same)
  moreover have "run_sql (\<lambda>t. sql_insert r k v (sql_create t)) d = (Inr (), d\<lparr>db_rows := Some t'\<rparr>)"
    using ready_run [OF assms(1), of "\<lambda>t. sql_insert r k v (sql_create t)"] assms(2) ins by simp
  ultimately show ?thesis by blast
qed

lemma ready_insert_taken:
  assumes "sqlite_ready d" and "db_rows d = Some t" and "sql_bind v = Inr v"
    and "map_of t k \<noteq> None"
  shows "run_sql (\<lambda>t. sql_insert False k v (sql_create t)) d = (Inl SqlIntegrityError, d)"
proof -
  have "sql_insert False k v t = (Inl SqlIntegrityError, Some t)"
    using assms(3,4) by (auto simp: sql_insert_def image_iff dest!: map_of_SomeD) force
  then show ?thesis
    using ready_run [OF assms(1), of "\<lambda>t. sql_insert False k v (sql_create t)"] assms(2) by simp
qed

lemma ready_cut:
  assumes "sqlite_ready d" and "db_rows d = Some t"
  shows "sqlite_cut k d = (Inr (CutBool (map_of t k \<noteq> None)),
    d\<lparr>db_rows := Some (filter (\<lambda>r. fst r \<noteq> k) t)\<rparr>)"
proof -
  have "run_sql (sql_delete k) d =
      (Inr (length (filter (\<lambda>r. fst r = k) t)), d\<lparr>db_rows := Some (filter (\<lambda>r. fst r \<noteq> k) t)\<rparr>)"
    using ready_run [OF assms(1), of "sql_delete k"] assms(2) by simp
  moreover have "filter (\<lambda>r. fst r = k) t = [] \<longleftrightarrow> map_of t k = None"
    by (auto simp: filter_empty_conv map_of_eq_None_iff)
  ultimately show ?thesis
    by (auto simp: sqlite_cut_def py_bind_apply py_try_apply py_return_apply)
qed

lemma ready_rows: "sqlite_ready d \<Longrightarrow> \<exists>t. db_rows d = Some t \<and> table_ok t"
  by (simp add: sqlite_ready_def)

lemma ready_no_slash: "sqlite_ready d \<Longrightarrow> sqlite_view d (k @ ''/'') = None"
proof -
  assume "sqlite_ready d"
  then obtain t where d: "db_rows d = Some t" and "table_ok t" by (auto dest: ready_rows)
  then have "k @ ''/'' \<notin> fst ` set t" by (fastforce simp: table_ok_def key_ok_def endswith_char)
  then have "map_of t (k @ ''/'') = None" by (simp add: map_of_eq_None_iff)
  then show ?thesis by (simp add: sqlite_view_def d)
qed

lemma view_None: "db_rows d = Some t \<Longrightarrow> sqlite_view d k = None \<longleftrightarrow> map_of t k = None"
  by (simp add: sqlite_view_def)

lemma row_entry_storable: "storable v \<Longrightarrow> row_entry v = Secret v"
  by (auto simp: storable_def row_entry_def)

interpretation sqlite: container_store sqlite_ops sqlite_ready sqlite_view
proof (unfold_locales, goal_cases)
  case (1 d k)
  then obtain t where "db_rows d = Some t" by (auto dest: ready_rows)
  with 1 show ?case by (simp add: ready_get view_None)
next
  case (2 d k v)
  then obtain t where t: "db_rows d = Some t" by (auto dest: ready_rows)
  with 2(2) have "map_of t k = Some v"
    by (auto simp: sqlite_view_def row_entry_def split: if_splits)
  with 2 t show ?case by (auto simp: ready_get)
next
  case (3 d v k r)
  then obtain t where t: "db_rows d = Some t" by (auto dest: ready_rows)
  with ready_insert [OF 3(1) t sql_bind_storable [OF 3(2)] 3(3), of r] 3
  obtain d' where "run_sql (\<lambda>t. sql_insert r k v (sql_create t)) d = (Inr (), d')"
    "sqlite_ready d'" "sqlite_view d' = (sqlite_view d)(k \<mapsto> row_entry v)"
    by (auto simp: view_None)
  with 3(2,3) show ?case
    by (auto simp: sqlite_set_def key_ok_def py_try_apply row_entry_storable)
next
  case (4 d v k)
  then obtain t where t: "db_rows d = Some t" by (auto dest: ready_rows)
  with 4 show ?case
    by (simp add: sqlite_set_def key_ok_def py_try_apply view_None
        ready_insert_taken [OF _ t sql_bind_storable] on_sql_write_error_def py_raise_apply)
next
  case (5 d k)
  then obtain t where t: "db_rows d = Some t" by (auto dest: ready_rows)
  have "\<exists>d'. run_sql (\<lambda>t. sql_insert False (list_path k) (JStr []) (sql_create t)) d = (Inr (), d')
      \<and> sqlite_ready d' \<and> sqlite_view d' = (sqlite_view d)(list_path k \<mapsto> row_entry (JStr []))"
    using 5(2) t by (intro ready_insert [OF 5(1) t]) (auto simp: view_None list_path_def)
  then show ?case
    by (auto simp: sqlite_span_def Let_def list_path_def py_try_apply row_entry_def)
next
  case (6 d k)
  then obtain t where t: "db_rows d = Some t" by (auto dest: ready_rows)
  with 6 show ?case
    by (simp add: sqlite_span_def Let_def py_try_apply view_None list_path_def
        ready_insert_taken [OF _ t] on_sql_write_error_def py_raise_apply)
next
  case (7 d p)
  then obtain t where t: "db_rows d = Some t" "table_ok t" by (auto dest: ready_rows)
  with 7 have "sqlite_list p d = (Inr (ref_list p t), d)"
    by (intro sqlite_list_ref) (auto simp: sqlite_ready_def)
  with ref_list_spec [OF t(2,1)] show ?case by auto
next
  case (8 d k)
  then obtain t where t: "db_rows d = Some t" "table_ok t" by (auto dest: ready_rows)
  have "sqlite_view (d\<lparr>db_rows := Some (filter (\<lambda>r. fst r \<noteq> k) t)\<rparr>) = (sqlite_view d)(k := None)"
    using t by (auto simp: sqlite_view_def fun_eq_iff map_of_filter_neq)
  with 8 t show ?case
    by (auto simp: ready_cut view_None sqlite_ready_def table_ok_filter)
next
  case (9 d k)
  then obtain t where t: "db_rows d = Some t" "table_ok t" by (auto dest: ready_rows)
  with 9 have "filter (\<lambda>r. fst r \<noteq> k) t = t"
    by (auto simp: view_None map_of_eq_None_iff filter_id_conv)
  with 9 t show ?case by (simp add: ready_cut view_None)
qed

text \<open>
  A database whose values are texts, as \<open>set\<close> and \<open>span\<close> leave it: reading a container gives the
  empty text of its mark.
\<close>

definition text_table :: "rows \<Rightarrow> bool" where
  "text_table t = (\<forall>r \<in> set t. \<exists>s. snd r = JStr s)"

definition text_rows :: "db \<Rightarrow> bool" where
  "text_rows d = pred_option text_table (db_rows d)"

definition text_db :: "db \<Rightarrow> bool" where
  "text_db d = (sqlite_ready d \<and> text_rows d)"

lemma run_sql_texts:
  assumes "\<And>t. pred_option text_table t \<Longrightarrow> pred_option text_table (snd (stmt t))"
  shows "py_keeps text_rows (run_sql stmt)"
proof (rule py_keepsI)
  fix d assume "text_rows d"
  with assms [of "db_rows d"] show "text_rows (snd (run_sql stmt d))"
    by (auto simp: run_sql_def text_rows_def Let_def split: list.splits bool.splits prod.splits)
qed

lemma statements_keep_texts [py_keeps_intros]:
  "py_keeps text_rows (run_sql (sql_select k))"
  "py_keeps text_rows (run_sql (sql_delete k))"
  "py_keeps text_rows (run_sql (\<lambda>t. sql_insert r k (JStr s) (sql_create t)))"
  by (rule run_sql_texts, case_tac t; auto simp: text_table_def sql_insert_def)+

lemma texts_kept:
  "py_keeps text_rows (sqlite_set k (JStr s) r)" "py_keeps text_rows (sqlite_span k)"
  "py_keeps text_rows (sqlite_cut k)" "py_keeps text_rows (sqlite_get k)"
  by (auto simp: sqlite_set_def sqlite_span_def sqlite_cut_def sqlite_get_def Let_def
      intro!: py_keeps_intros split: list.splits)

lemma texts_after:
  assumes "text_rows d"
  shows "storable v \<Longrightarrow> sqlite_set k v r d = (x, d') \<Longrightarrow> text_rows d'"
    and "sqlite_span k d = (x, d') \<Longrightarrow> text_rows d'"
    and "sqlite_cut k d = (y, d') \<Longrightarrow> text_rows d'"
    and "sqlite_get k d = (z, d') \<Longrightarrow> text_rows d'"
  using assms texts_kept unfolding py_keeps_def storable_def by (metis snd_conv)+

interpretation marked: marked_store sqlite_ops text_db sqlite_view
proof (unfold_locales, goal_cases)
  case (1 d k) then show ?case by (simp add: text_db_def sqlite.get_absent del: sqlite_ops_simps)
next
  case (2 d k v)
  with sqlite.get_secret [of d k v] texts_after(4) show ?case
    by (fastforce simp: text_db_def)
next
  case (3 d v k r)
  with sqlite.set_fresh [of d v k r] texts_after(1) show ?case
    by (fastforce simp: text_db_def)
next
  case (4 d v k)
  with sqlite.set_taken [of d v k] texts_after(1) show ?case
    by (fastforce simp: text_db_def)
next
  case (5 d k)
  with sqlite.span_fresh [of d k] texts_after(2) show ?case
    by (fastforce simp: text_db_def)
next
  case (6 d k)
  with sqlite.span_taken [of d k] show ?case by (simp add: text_db_def)
next
  case (7 d p)
  with sqlite.list_view [of d p] show ?case by (simp add: text_db_def)
next
  case (8 d k)
  with sqlite.cut_there [of d k] texts_after(3) show ?case
    by (fastforce simp: text_db_def)
next
  case (9 d k)
  with sqlite.cut_absent [of d k] show ?case by (simp add: text_db_def)
next
  case (10 d k)
  then obtain t v where t: "db_rows d = Some t" "map_of t k = Some v" "\<not> py_truth v"
    by (auto simp: sqlite_view_def row_entry_def text_db_def split: option.splits if_splits)
  from t(2) have "(k, v) \<in> set t" by (rule map_of_SomeD)
  with 10(1) t(1) obtain s where "v = JStr s" by (fastforce simp: text_db_def text_rows_def text_table_def)
  with t 10(1) show ?case by (auto simp: text_db_def ready_get)
qed

subsection \<open>The store as a map\<close>

text \<open>What the methods mean on the view: a map that is read, extended and cut.\<close>

definition map_get :: "string \<Rightarrow> view \<Rightarrow> json" where
  "map_get k V = (case V k of Some (Secret v) \<Rightarrow> v | _ \<Rightarrow> JNull)"

definition map_put :: "string \<Rightarrow> entry \<Rightarrow> bool \<Rightarrow> view \<Rightarrow> unit res \<times> view" where
  "map_put k e replace V =
     (if V k = None \<or> replace then (Inr (), V(k \<mapsto> e)) else (Inl CSStoreExists, V))"

definition map_cut :: "string \<Rightarrow> view \<Rightarrow> cut_result \<times> view" where
  "map_cut k V = (CutBool (V k \<noteq> None), V(k := None))"

text \<open>C19: Each method of the SQLite store, on a working database, answers and changes the contents as
  the corresponding operation on a map from keys to entries does.\<close>

theorem sqlite_refines_map:
  assumes "sqlite_ready d" and "storable v" and "key_ok k"
  shows "(\<exists>d'. sqlite_set k v r d = (fst (map_put k (Secret v) r (sqlite_view d)), d')
        \<and> sqlite_ready d' \<and> sqlite_view d' = snd (map_put k (Secret v) r (sqlite_view d)))
    \<and> (\<exists>d'. sqlite_span p d = (fst (map_put (list_path p) Dir False (sqlite_view d)), d')
        \<and> sqlite_ready d' \<and> sqlite_view d' = snd (map_put (list_path p) Dir False (sqlite_view d)))
    \<and> (\<exists>d'. sqlite_cut q d = (Inr (fst (map_cut q (sqlite_view d))), d')
        \<and> sqlite_ready d' \<and> sqlite_view d' = snd (map_cut q (sqlite_view d)))
    \<and> (sqlite_view d q \<noteq> Some Dir \<longrightarrow> sqlite_get q d = (Inr (map_get q (sqlite_view d)), d))"
proof (intro conjI impI)
  show "\<exists>d'. sqlite_set k v r d = (fst (map_put k (Secret v) r (sqlite_view d)), d')
      \<and> sqlite_ready d' \<and> sqlite_view d' = snd (map_put k (Secret v) r (sqlite_view d))"
  proof (cases "sqlite_view d k = None \<or> r")
    case True
    then show ?thesis using sqlite.set_fresh [OF assms True] by (auto simp: map_put_def)
  next
    case False
    then have "sqlite_view d k \<noteq> None" and "\<not> r" by auto
    then show ?thesis using sqlite.set_taken [OF assms] by (auto simp: map_put_def)
  qed
  show "\<exists>d'. sqlite_span p d = (fst (map_put (list_path p) Dir False (sqlite_view d)), d')
      \<and> sqlite_ready d' \<and> sqlite_view d' = snd (map_put (list_path p) Dir False (sqlite_view d))"
  proof (cases "sqlite_view d (list_path p) = None")
    case True
    then show ?thesis using sqlite.span_fresh [OF assms(1) True] by (simp add: map_put_def)
  next
    case False
    then show ?thesis using sqlite.span_taken [OF assms(1) False] assms(1) by (auto simp: map_put_def)
  qed
  show "\<exists>d'. sqlite_cut q d = (Inr (fst (map_cut q (sqlite_view d))), d')
      \<and> sqlite_ready d' \<and> sqlite_view d' = snd (map_cut q (sqlite_view d))"
  proof (cases "sqlite_view d q = None")
    case True
    then show ?thesis using sqlite.cut_absent [OF assms(1) True] assms(1) by (simp add: map_cut_def fun_upd_idem)
  next
    case False
    then show ?thesis using sqlite.cut_there [OF assms(1) False] by (auto simp: map_cut_def)
  qed
next
  assume nd: "sqlite_view d q \<noteq> Some Dir"
  obtain t where t: "db_rows d = Some t" using assms(1) by (auto simp: sqlite_ready_def)
  then show "sqlite_get q d = (Inr (map_get q (sqlite_view d)), d)"
    using nd ready_get [OF assms(1) t]
    by (auto simp: map_get_def sqlite_view_def row_entry_def split: option.splits if_splits)
qed

definition sample_db :: db where
  "sample_db = \<lparr>db_rows = Some [(''keys/u'', JStr []), (''keys/u/a'', JStr ''x''), (''KEYS/u/b'', JStr ''y'')],
     db_faults = []\<rparr>"

lemma sample_db_ready: "sqlite_ready sample_db"
  by (simp add: sqlite_ready_def sample_db_def table_ok_def key_ok_def endswith_char)

theorem sqlite_refines_map_witness:
  "\<exists>d'. sqlite_set ''keys/u/a'' (JStr ''z'') False sample_db = (Inl CSStoreExists, d')
     \<and> sqlite_view d' = sqlite_view sample_db"
proof -
  have "storable (JStr ''z'')" "key_ok ''keys/u/a''" "sqlite_view sample_db ''keys/u/a'' \<noteq> None"
    by (simp_all add: storable_def key_ok_def endswith_char sqlite_view_def sample_db_def)
  with conjunct1 [OF sqlite_refines_map [OF sample_db_ready, of "JStr ''z''" "''keys/u/a''" False]]
  show ?thesis by (auto simp: map_put_def)
qed

text \<open>C20: Listing, a query by an imprecise pattern followed by a loop over the rows it returns, gives
  what a direct look at the table gives: the sorted names of the rows below the container, the
  empty list for an empty container, and nothing for an unknown one.\<close>

theorem listing_equals_reference:
  assumes "db_rows d = Some t" and "db_faults d = []"
  shows "sqlite_list p d = (Inr (ref_list p t), d)"
  using assms by (rule sqlite_list_ref)

theorem listing_equals_reference_witness:
  "sqlite_list ''keys/u/'' sample_db = (Inr (Some [''a'']), sample_db)"
proof -
  have "ref_list ''keys/u/'' [(''keys/u'', JStr []), (''keys/u/a'', JStr ''x''), (''KEYS/u/b'', JStr ''y'')]
      = Some [''a'']"
    by code_simp
  then show ?thesis
    using listing_equals_reference [of sample_db
        "[(''keys/u'', JStr []), (''keys/u/a'', JStr ''x''), (''KEYS/u/b'', JStr ''y'')]" "''keys/u/''"]
    by (simp add: sample_db_def)
qed

lemma run_sql_fault: "db_faults d = True # fs \<Longrightarrow> run_sql stmt d = (Inl SqlError, d\<lparr>db_faults := fs\<rparr>)"
  by (simp add: run_sql_def)

text \<open>When the database fails, every method raises \<open>CSStoreError\<close> and the table is as before.\<close>

lemma sql_failure:
  assumes "db_faults d = True # fs"
  shows "sqlite_get k d = (Inl CSStoreError, d\<lparr>db_faults := fs\<rparr>)
    \<and> (key_ok k \<longrightarrow> sqlite_set k v r d = (Inl CSStoreError, d\<lparr>db_faults := fs\<rparr>))
    \<and> sqlite_span k d = (Inl CSStoreError, d\<lparr>db_faults := fs\<rparr>)
    \<and> sqlite_list k d = (Inl CSStoreError, d\<lparr>db_faults := fs\<rparr>)
    \<and> sqlite_cut k d = (Inl CSStoreError, d\<lparr>db_faults := fs\<rparr>)"
  by (simp add: run_sql_fault [OF assms] sqlite_get_def sqlite_set_def sqlite_span_def sqlite_list_def sqlite_cut_def Let_def
      key_ok_def py_bind_def py_try_def on_sql_error_def on_sql_write_error_def py_raise_def)


end
