(* ===== verification/SecretsSpec.thy ===== *)
theory SecretsSpec
  imports SecretsModel SqliteSpec
begin

text \<open>
  What \<open>Secrets\<close> promises over any store that satisfies \<open>container_store\<close>: storing, reading,
  deleting and listing behave like operations on the view, with the status codes of the REST
  interface. The lemmas are proved once in the locale and reach the SQLite store through its
  interpretation. Facts that need no law of the store (auditing, error codes) come first.
\<close>

subsection \<open>Auditing needs no law\<close>

lemma as_http_audit [audit_intros]: "audit_same m \<Longrightarrow> audit_same (as_http n m)"
  unfolding as_http_def by (intro audit_intros)

lemma on_store_error_audit [audit_intros]: "audit_same (on_store_error e)"
  and on_set_error_audit [audit_intros]: "audit_same (on_set_error e)"
  by (cases e; simp add: on_store_error_def on_set_error_def audit_intros)+

lemma parse_audit [audit_intros]:
  "audit_same (secrets_parse E se req q n)" "audit_same (parse_query E se req n)"
  "audit_same (parse_bin_body E se req n)" "audit_same (parse_body E se req n)"
  "audit_same (parse_maybe_body E se req n)"
  by (auto simp: secrets_parse_def parse_query_def parse_bin_body_def parse_body_def
      parse_maybe_body_def intro!: audit_intros split: option.splits)

lemma parse_set_body_audit [audit_intros]: "audit_same (parse_set_body E se req n)"
  unfolding parse_set_body_def by (auto intro!: audit_intros split: exn.splits)

lemma parent_exists_audit [audit_intros]: "audit_same (parent_exists se d t)"
  unfolding parent_exists_def by (auto intro!: audit_intros)

lemma reply_audit [audit_intros]:
  "audit_same (reply_created E msg)" "audit_same (reply_deleted E msg)"
  "audit_same (format_reply E req msg out)"
  by (auto simp: reply_created_def reply_deleted_def format_reply_def intro!: audit_intros)

lemma int_key_audit [audit_intros]:
  "audit_same (int_get_key E se t req)" "audit_same (int_set_key E se t req)"
  "audit_same (int_del_key E se t req)"
  by (auto simp: int_get_key_def int_set_key_def int_del_key_def intro!: audit_intros)

lemma audited_entry:
  assumes "audit_same fn" and "client_name req = Inr cl"
    and "audited se okc failc fn trail req c = (r, c')"
  shows "cx_audit c' = cx_audit c @ [audit_key_entry (se_origin se)
    (if is_err r then failc else okc) cl (py_join ''/'' trail)]"
  using assms
  by (auto simp: audited_def py_bind_def py_lift_def add_audit_apply
      split: prod.splits sum.splits dest: audit_sameD)

lemma audited_run:
  assumes "client_name req = Inr cl" and "fn c = (r, c1)"
  shows "audited se okc failc fn trail req c =
    (r, c1\<lparr>cx_audit := cx_audit c1 @ [audit_key_entry (se_origin se)
       (if is_err r then failc else okc) cl (py_join ''/'' trail)]\<rparr>)"
  using assms by (cases r) (auto simp: audited_def py_bind_def py_lift_def add_audit_apply)

subsection \<open>Keys of different users\<close>

lemma db_key_Inr: "db_key trail = Inr k \<longleftrightarrow> 2 \<le> length trail \<and> k = path_join ''keys'' trail"
  by (auto simp: db_key_def)

text \<open>
  Path segments that are neither empty nor touch a slash at either end give the expected key,
  and the trail can be read off it.
\<close>

definition plain_segment :: "string \<Rightarrow> bool" where
  "plain_segment x = (x \<noteq> [] \<and> CHR ''/'' \<notin> set x)"

lemma plain_segment_ends:
  "plain_segment x \<Longrightarrow> x \<noteq> [] \<and> \<not> startswith x ''/'' \<and> \<not> endswith x ''/''"
  using last_in_set [of x] by (cases x) (auto simp: plain_segment_def startswith_def endswith_char)

lemma db_key_plain:
  assumes "2 \<le> length trail" and "\<forall>x \<in> set trail. plain_segment x"
  shows "db_key trail = Inr (py_join ''/'' (''keys'' # trail))"
proof -
  have "\<forall>x \<in> set trail. x \<noteq> [] \<and> \<not> startswith x ''/'' \<and> \<not> endswith x ''/''"
    using assms(2) plain_segment_ends by blast
  then have "path_join ''keys'' trail = py_join ''/'' (''keys'' # trail)"
    by (intro path_join_plain) (auto simp: endswith_char)
  with assms(1) show ?thesis by (simp add: db_key_Inr)
qed

lemma db_key_plain_inj:
  assumes "2 \<le> length t1" and "2 \<le> length t2"
    and "\<forall>x \<in> set t1. plain_segment x" and "\<forall>x \<in> set t2. plain_segment x"
    and "db_key t1 = db_key t2"
  shows "t1 = t2"
proof -
  have "py_join ''/'' (''keys'' # t1) = py_join ''/'' (''keys'' # t2)"
    using assms by (simp add: db_key_plain)
  then have "''keys'' # t1 = ''keys'' # t2"
    by (rule py_join_inj [rotated -1]) (use assms in \<open>auto simp: plain_segment_def\<close>)
  then show ?thesis by simp
qed

lemma db_key_plain_ok:
  assumes "2 \<le> length trail" and "\<forall>x \<in> set trail. plain_segment x" and "db_key trail = Inr k"
  shows "key_ok k"
proof -
  have k: "k = py_join ''/'' (''keys'' # trail)" using assms db_key_plain by auto
  have l: "last (''keys'' # trail) = last trail" using assms(1) by (cases trail) auto
  have "plain_segment (last trail)" using assms(1,2) by (cases trail) auto
  then have p: "last trail \<noteq> []" "last (last trail) \<noteq> CHR ''/''"
    by (auto simp: plain_segment_def) (metis last_in_set)
  then have "last k \<noteq> CHR ''/''"
    unfolding k by (subst py_join_last) (simp_all add: l)
  then show ?thesis by (simp add: key_ok_def endswith_char)
qed

text \<open>Without absolute segments every key of a user lies under that user's container.\<close>

lemma db_key_under_user:
  assumes "db_key (u # rest) = Inr k" and "u \<noteq> []"
    and "\<forall>x \<in> set (u # rest). \<not> startswith x ''/''"
  shows "startswith k (''keys/'' @ u)"
proof -
  have "path_join ''keys'' (u # rest) = path_join (''keys/'' @ u) rest"
    using assms(3) by (auto simp: endswith_char)
  moreover have "startswith (path_join (''keys/'' @ u) rest) (''keys/'' @ u)"
    using assms(3) by (intro path_join_prefix) auto
  ultimately show ?thesis using assms(1) by (simp add: db_key_Inr)
qed

subsection \<open>Requests as the laws need them\<close>

definition allows_simple :: "'w secrets \<Rightarrow> bool" where
  "allows_simple se = (dict_get (va_types (se_validator se)) ''simple'' = Some SimpleKey
     \<and> allowed_in ''simple'' (va_allowed (se_validator se)))"

text \<open>A request whose body is a simple message with value \<open>s\<close>, as JSON or as raw bytes.\<close>

definition puts_value :: "('k, 'jwe, 'jws) env \<Rightarrow> 'w request \<Rightarrow> string \<Rightarrow> bool" where
  "puts_value E req s =
     ((content_type_value req = ''application/json'' \<and>
        (\<exists>b. rq_body req = Some b \<and> en_loads E b = Inr (simple_msg s)))
      \<or> (content_type_value req = ''application/octet-stream'' \<and>
        (\<exists>b. rq_body req = Some b \<and> s = b64encode b)))"

definition no_query :: "'w request \<Rightarrow> bool" where
  "no_query req = (rq_query req = JDict [])"

abbreviation simple_handler :: "string \<Rightarrow> string \<Rightarrow> ('w, 'k) handler" where
  "simple_handler name s \<equiv> SimpleH (Some name) (JStr s) (Some ''simple'')"

lemma secrets_parse_simple:
  "allows_simple se \<Longrightarrow> secrets_parse E se req (simple_msg s) name c = (Inr (simple_handler name s), c)"
  by (simp add: secrets_parse_def simple_msg_def allows_simple_def validator_parse_simple)

lemma parse_query_default:
  "allows_simple se \<Longrightarrow> no_query req \<Longrightarrow>
   parse_query E se req name c = (Inr (simple_handler name []), c)"
  by (simp add: parse_query_def no_query_def json_len_def py_simps secrets_parse_simple)

lemma parse_maybe_body_default:
  "allows_simple se \<Longrightarrow> rq_body req = None \<Longrightarrow>
   parse_maybe_body E se req name c = (Inr (simple_handler name []), c)"
  by (simp add: parse_maybe_body_def secrets_parse_simple)

lemma parse_set_body_value:
  assumes "allows_simple se" and "puts_value E req s"
  shows "parse_set_body E se req name c = (Inr (simple_handler name s), c)"
  using assms
  by (auto simp: puts_value_def parse_set_body_def parse_bin_body_def parse_body_def py_simps
      secrets_parse_simple)

lemma reply_created_simple:
  "reply_created E (simple_handler n s) c = (Inr (), c\<lparr>cx_resp := set_code 201 (cx_resp c)\<rparr>)"
  by (simp add: reply_created_def py_simps simple_reply_def)

lemma reply_deleted_simple:
  "reply_deleted E (simple_handler n s) c = (Inr (), c\<lparr>cx_resp := set_code 204 (cx_resp c)\<rparr>)"
  by (simp add: reply_deleted_def py_simps simple_reply_def)

lemma format_reply_simple:
  assumes "\<not> endswith n ''/''"
  shows "format_reply E req (simple_handler n q) (JStr s) c =
    (if wants_binary req then
       (case b64decode s of
          Inl e \<Rightarrow> (Inl e, c\<lparr>cx_resp := set_header ''Content-Type'' ''application/octet-stream'' (cx_resp c)\<rparr>)
        | Inr b \<Rightarrow> (Inr (), c\<lparr>cx_resp := (set_header ''Content-Type'' ''application/octet-stream''
            (cx_resp c))\<lparr>rs_output := Some (OBytes b)\<rparr>\<rparr>))
     else (Inr (), c\<lparr>cx_resp := set_json (simple_msg s) (cx_resp c)\<rparr>))"
  using assms
  by (auto simp: format_reply_def py_simps simple_reply_def simple_msg_def decode_reply_value_def
      json_getitem_def split: sum.splits)

definition parent_base :: "string list \<Rightarrow> string" where
  "parent_base trail = path_join ''keys'' (butlast trail @ [[]])"

lemma parent_container_key:
  "2 \<le> length trail \<Longrightarrow>
   (case trail of [] \<Rightarrow> Inl IndexError | t # _ \<Rightarrow> db_container_key (Some t) (butlast trail @ [[]]))
   = Inr (parent_base trail)"
  by (cases trail) (auto simp: db_container_key_def db_key_def parent_base_def)

text \<open>The container is known to the store: it has a mark or something lies below it.\<close>

definition known :: "view \<Rightarrow> string \<Rightarrow> bool" where
  "known V p = (child_names V p \<noteq> {} \<or> container_there V p)"

lemma list_spec_known: "list_spec V p r \<Longrightarrow> (r \<noteq> None) = known V p"
  by (auto simp: known_def list_spec_None)

lemma known_put:
  assumes "known V p" and "V k = None" and "p \<noteq> []"
  shows "known (V(k \<mapsto> e)) p"
proof -
  have "child_names V p \<subseteq> child_names (V(k \<mapsto> e)) p"
  proof
    fix x assume "x \<in> child_names V p"
    then obtain j d where j: "x = shown_name (child_prefix p) j d" "V j = Some d" "is_child p j"
      by (auto simp: child_names_def)
    with assms(2) have "(V(k \<mapsto> e)) j = Some d" by auto
    with j show "x \<in> child_names (V(k \<mapsto> e)) p" unfolding child_names_def by blast
  qed
  moreover have "container_there V p \<Longrightarrow> container_there (V(k \<mapsto> e)) p"
    using assms(3) by (auto simp: container_there_def)
  ultimately show ?thesis using assms(1) by (auto simp: known_def)
qed

subsection \<open>Over any lawful store\<close>

context container_store begin

lemma list_known:
  assumes "ok w"
  obtains r where "st_list S p w = (Inr r, w)" and "list_spec (view w) p r"
    and "(r \<noteq> None) = known (view w) p"
  using list_view [OF assms, of p] list_spec_known by blast

lemma parent_exists_known:
  assumes "ok (cx_store c)" and "se_store se = S" and "2 \<le> length trail"
    and "known (view (cx_store c)) (parent_base trail)"
  shows "parent_exists se d trail c = (Inr True, c)"
proof -
  obtain r where "st_list S (parent_base trail) (cx_store c) = (Inr r, cx_store c)" "r \<noteq> None"
    using list_known [OF assms(1)] assms(4) by metis
  then show ?thesis
    unfolding parent_exists_def parent_container_key [OF assms(3)]
    using assms(2) by (simp add: py_simps)
qed

lemma parent_exists_unknown:
  assumes "ok (cx_store c)" and "se_store se = S" and "2 \<le> length trail"
    and "\<not> known (view (cx_store c)) (parent_base trail)"
    and "\<not> (length trail = 2 \<and> d = Some (hd trail))"
  shows "parent_exists se d trail c = (Inr False, c)"
proof -
  obtain r where "st_list S (parent_base trail) (cx_store c) = (Inr r, cx_store c)" "r = None"
    using list_known [OF assms(1)] assms(4) by metis
  then show ?thesis
    unfolding parent_exists_def parent_container_key [OF assms(3)]
    using assms(2,5) by (auto simp: py_simps)
qed

text \<open>The user's default namespace is created on the way when it is the only thing missing.\<close>

lemma parent_exists_default:
  assumes "ok (cx_store c)" and "se_store se = S" and "trail = [ns, name]"
    and "\<not> known (view (cx_store c)) (parent_base trail)" and "d = Some ns"
  shows "\<exists>w'. parent_exists se d trail c = (Inr True, c\<lparr>cx_store := w'\<rparr>) \<and> ok w'
    \<and> view w' = (view (cx_store c))(list_path (parent_base trail) \<mapsto> Dir)"
proof -
  have base: "parent_base trail = path_join ''keys'' [ns, []]"
    using assms(3) by (simp add: parent_base_def)
  obtain r where l: "st_list S (parent_base trail) (cx_store c) = (Inr r, cx_store c)" "r = None"
    using list_known [OF assms(1)] assms(4) by metis
  have "view (cx_store c) (list_path (parent_base trail)) = None"
    using assms(4) by (auto simp: known_def container_there_def)
  from span_fresh [OF assms(1) this] obtain w' where
    w: "st_span S (parent_base trail) (cx_store c) = (Inr (), w')" "ok w'"
      "view w' = (view (cx_store c))(list_path (parent_base trail) \<mapsto> Dir)" by blast
  have k: "db_container_key d [] = Inr (parent_base trail)"
    using assms(5) by (simp add: db_container_key_def db_key_def base del: path_join.simps)
  have len: "2 \<le> length trail" using assms(3) by simp
  have "parent_exists se d trail c = (Inr True, c\<lparr>cx_store := w'\<rparr>)"
    unfolding parent_exists_def parent_container_key [OF len]
    using assms(2,3,5) l w(1) k by (simp add: py_simps)
  with w(2,3) show ?thesis by blast
qed

text \<open>
  PUT of a new key into a known container: 201, the view gains the secret, and the audit log
  gains one \<open>stored\<close> entry.
\<close>

lemma set_key_fresh:
  assumes "ok (cx_store c)" and "se_store se = S" and "allows_simple se"
    and "client_name req = Inr cl" and "puts_value E req s" and "s \<noteq> []"
    and "db_key trail = Inr k" and "key_ok k"
    and "known (view (cx_store c)) (parent_base trail)" and "view (cx_store c) k = None"
  shows "\<exists>w'. set_key E se trail req c =
      (Inr (), c\<lparr>cx_store := w', cx_resp := set_code 201 (cx_resp c),
        cx_audit := cx_audit c @ [audit_key_entry (se_origin se) AUDIT_SET_ALLOWED cl (py_join ''/'' trail)]\<rparr>)
    \<and> ok w' \<and> view w' = (view (cx_store c))(k \<mapsto> Secret (JStr s))"
proof -
  have st: "storable (JStr s)" using assms(6) by (simp add: storable_def)
  from set_fresh [OF assms(1) st assms(8)] assms(10) obtain w' where
    w: "st_set S k (JStr s) False (cx_store c) = (Inr (), w')" "ok w'"
      "view w' = (view (cx_store c))(k \<mapsto> Secret (JStr s))" by blast
  have len: "2 \<le> length trail" using assms(7) by (simp add: db_key_Inr)
  have "int_set_key E se trail req c =
      (Inr (), c\<lparr>cx_store := w', cx_resp := set_code 201 (cx_resp c)\<rparr>)"
    unfolding int_set_key_def
    by (simp add: py_simps parse_set_body_value [OF assms(3,5)] assms(2,7) w(1)
        parent_exists_known [OF assms(1,2) len assms(9)] reply_created_simple
        del: handler_reply.simps)
  from audited_run [where fn = "int_set_key E se trail req" and c = c, OF assms(4) this] w(2,3) show ?thesis
    unfolding set_key_def by auto
qed

lemma set_key_taken:
  assumes "ok (cx_store c)" and "se_store se = S" and "allows_simple se"
    and "client_name req = Inr cl" and "puts_value E req s" and "s \<noteq> []"
    and "db_key trail = Inr k" and "key_ok k"
    and "known (view (cx_store c)) (parent_base trail)" and "view (cx_store c) k \<noteq> None"
  shows "\<exists>w. set_key E se trail req c =
      (Inl (HTTPError 409), c\<lparr>cx_store := w, cx_audit := cx_audit c @
        [audit_key_entry (se_origin se) AUDIT_SET_DENIED cl (py_join ''/'' trail)]\<rparr>)
    \<and> ok w \<and> view w = view (cx_store c)"
proof -
  from set_taken [OF assms(1) _ assms(8,10), of "JStr s"] assms(6) obtain w where
    w: "st_set S k (JStr s) False (cx_store c) = (Inl CSStoreExists, w)" "ok w" "view w = view (cx_store c)"
    by (auto simp: storable_def)
  have len: "2 \<le> length trail" using assms(7) by (simp add: db_key_Inr)
  have "int_set_key E se trail req c = (Inl (HTTPError 409), c\<lparr>cx_store := w\<rparr>)"
    unfolding int_set_key_def
    by (simp add: py_simps parse_set_body_value [OF assms(3,5)] assms(2,7)
        w(1) on_set_error_def
        parent_exists_known [OF assms(1,2) len assms(9)])
  from audited_run [where fn = "int_set_key E se trail req" and c = c, OF assms(4) this] w(2,3)
  show ?thesis unfolding set_key_def by auto
qed

lemma set_key_no_parent:
  assumes "ok (cx_store c)" and "se_store se = S" and "allows_simple se"
    and "client_name req = Inr cl" and "puts_value E req s"
    and "db_key trail = Inr k"
    and "\<not> known (view (cx_store c)) (parent_base trail)"
    and "\<not> (length trail = 2 \<and> rq_default_namespace req = Some (hd trail))"
  shows "set_key E se trail req c =
      (Inl (HTTPError 404), c\<lparr>cx_audit := cx_audit c @
        [audit_key_entry (se_origin se) AUDIT_SET_DENIED cl (py_join ''/'' trail)]\<rparr>)"
proof -
  have len: "2 \<le> length trail" using assms(6) by (simp add: db_key_Inr)
  have "int_set_key E se trail req c = (Inl (HTTPError 404), c)"
    unfolding int_set_key_def
    by (simp add: py_simps parse_set_body_value [OF assms(3,5)] assms(6) on_set_error_def
        parent_exists_unknown [OF assms(1,2) len assms(7,8)])
  from audited_run [where fn = "int_set_key E se trail req" and c = c, OF assms(4) this] show ?thesis unfolding set_key_def by simp
qed

text \<open>GET of a stored secret.\<close>

lemma int_get_key_secret:
  assumes "ok (cx_store c)" and "se_store se = S" and "allows_simple se" and "no_query req"
    and "db_key trail = Inr k" and "s \<noteq> []" and "view (cx_store c) k = Some (Secret (JStr s))"
  shows "\<exists>w'. ok w' \<and> view w' = view (cx_store c) \<and> int_get_key E se trail req c =
    py_try (format_reply E req (simple_handler (py_join ''/'' trail) []) (JStr s)) on_store_error
      (c\<lparr>cx_store := w'\<rparr>)"
proof -
  from get_secret [OF assms(1,7)] obtain w' where
    w: "st_get S k (cx_store c) = (Inr (JStr s), w')" "ok w'" "view w' = view (cx_store c)" by blast
  then show ?thesis
    unfolding int_get_key_def using assms(2,5,6)
    by (intro exI [of _ w'])
       (simp add: py_simps as_http_def parse_query_default [OF assms(3,4)] json_len_def)
qed

lemma get_key_secret:
  assumes "ok (cx_store c)" and "se_store se = S" and "allows_simple se" and "no_query req"
    and "client_name req = Inr cl" and "\<not> wants_binary req"
    and "db_key trail = Inr k" and "s \<noteq> []" and "view (cx_store c) k = Some (Secret (JStr s))"
    and "\<not> endswith (py_join ''/'' trail) ''/''"
  shows "\<exists>w'. get_key E se trail req c =
      (Inr (), c\<lparr>cx_store := w', cx_resp := set_json (simple_msg s) (cx_resp c),
        cx_audit := cx_audit c @ [audit_key_entry (se_origin se) AUDIT_GET_ALLOWED cl (py_join ''/'' trail)]\<rparr>)
    \<and> ok w' \<and> view w' = view (cx_store c)"
proof -
  from int_get_key_secret [OF assms(1-4,7-9), of E] obtain w' where
    w: "ok w'" "view w' = view (cx_store c)" and
    g: "int_get_key E se trail req c =
      py_try (format_reply E req (simple_handler (py_join ''/'' trail) []) (JStr s)) on_store_error
        (c\<lparr>cx_store := w'\<rparr>)" by blast
  have "int_get_key E se trail req c =
      (Inr (), c\<lparr>cx_store := w', cx_resp := set_json (simple_msg s) (cx_resp c)\<rparr>)"
    unfolding g using assms(6) by (simp add: py_try_apply format_reply_simple [OF assms(10)])
  from audited_run [where fn = "int_get_key E se trail req" and c = c, OF assms(5) this] w show ?thesis unfolding get_key_def by auto
qed

lemma get_key_binary:
  assumes "ok (cx_store c)" and "se_store se = S" and "allows_simple se" and "no_query req"
    and "client_name req = Inr cl" and "wants_binary req"
    and "db_key trail = Inr k" and "b \<noteq> []"
    and "view (cx_store c) k = Some (Secret (JStr (b64encode b)))"
    and "\<not> endswith (py_join ''/'' trail) ''/''"
  shows "\<exists>w' c'. get_key E se trail req c = (Inr (), c') \<and> cx_store c' = w' \<and> ok w'
    \<and> view w' = view (cx_store c) \<and> rs_output (cx_resp c') = Some (OBytes b)
    \<and> dict_get (rs_headers (cx_resp c')) ''Content-Type'' = Some ''application/octet-stream''"
proof -
  have ne: "b64encode b \<noteq> []" using assms(8) by simp
  from int_get_key_secret [OF assms(1-4,7) ne assms(9), of E] obtain w' where
    w: "ok w'" "view w' = view (cx_store c)" and
    g: "int_get_key E se trail req c =
      py_try (format_reply E req (simple_handler (py_join ''/'' trail) []) (JStr (b64encode b)))
        on_store_error (c\<lparr>cx_store := w'\<rparr>)" by blast
  have "int_get_key E se trail req c =
      (Inr (), c\<lparr>cx_store := w', cx_resp := (set_header ''Content-Type'' ''application/octet-stream''
         (cx_resp c))\<lparr>rs_output := Some (OBytes b)\<rparr>\<rparr>)"
    unfolding g using assms(6)
    by (simp add: py_try_apply format_reply_simple [OF assms(10)] b64decode_encode)
  from audited_run [where fn = "int_get_key E se trail req" and c = c, OF assms(5) this] w show ?thesis
    unfolding get_key_def by (auto simp: set_header_def)
qed

lemma get_key_absent:
  assumes "ok (cx_store c)" and "se_store se = S" and "allows_simple se" and "no_query req"
    and "client_name req = Inr cl" and "db_key trail = Inr k" and "view (cx_store c) k = None"
  shows "get_key E se trail req c =
      (Inl (HTTPError 404), c\<lparr>cx_audit := cx_audit c @
        [audit_key_entry (se_origin se) AUDIT_GET_DENIED cl (py_join ''/'' trail)]\<rparr>)"
proof -
  have "int_get_key E se trail req c = (Inl (HTTPError 404), c)"
    unfolding int_get_key_def using assms(2,6)
    by (simp add: py_simps as_http_def parse_query_default [OF assms(3,4)]
        get_absent [OF assms(1,7)] on_store_error_def)
  from audited_run [where fn = "int_get_key E se trail req" and c = c, OF assms(5) this] show ?thesis unfolding get_key_def by simp
qed

text \<open>DELETE of a key.\<close>

lemma del_key_there:
  assumes "ok (cx_store c)" and "se_store se = S" and "allows_simple se" and "rq_body req = None"
    and "client_name req = Inr cl" and "db_key trail = Inr k" and "view (cx_store c) k \<noteq> None"
  shows "\<exists>w'. del_key E se trail req c =
      (Inr (), c\<lparr>cx_store := w', cx_resp := set_code 204 (cx_resp c),
        cx_audit := cx_audit c @ [audit_key_entry (se_origin se) AUDIT_DEL_ALLOWED cl (py_join ''/'' trail)]\<rparr>)
    \<and> ok w' \<and> view w' = (view (cx_store c))(k := None)"
proof -
  from cut_there [OF assms(1,7)] obtain w' where
    w: "st_cut S k (cx_store c) = (Inr (CutBool True), w')" "ok w'"
      "view w' = (view (cx_store c))(k := None)" by blast
  have "int_del_key E se trail req c =
      (Inr (), c\<lparr>cx_store := w', cx_resp := set_code 204 (cx_resp c)\<rparr>)"
    unfolding int_del_key_def using assms(2,6) w(1)
    by (simp add: py_simps as_http_def parse_maybe_body_default [OF assms(3,4)]
        reply_deleted_simple)
  from audited_run [where fn = "int_del_key E se trail req" and c = c, OF assms(5) this] w show ?thesis unfolding del_key_def by auto
qed

lemma del_key_absent:
  assumes "ok (cx_store c)" and "se_store se = S" and "allows_simple se" and "rq_body req = None"
    and "client_name req = Inr cl" and "db_key trail = Inr k" and "view (cx_store c) k = None"
  shows "del_key E se trail req c =
      (Inl (HTTPError 404), c\<lparr>cx_audit := cx_audit c @
        [audit_key_entry (se_origin se) AUDIT_DEL_DENIED cl (py_join ''/'' trail)]\<rparr>)"
proof -
  have "int_del_key E se trail req c = (Inl (HTTPError 404), c)"
    unfolding int_del_key_def using assms(2,6)
    by (simp add: py_simps as_http_def parse_maybe_body_default [OF assms(3,4)]
        cut_absent [OF assms(1,7)])
  from audited_run [where fn = "int_del_key E se trail req" and c = c, OF assms(5) this] show ?thesis unfolding del_key_def by simp
qed

end

subsection \<open>Containers over any lawful store\<close>

definition container_base :: "string list \<Rightarrow> string" where
  "container_base trail = path_join ''keys'' trail"

lemma db_container_key_long: "2 \<le> length trail \<Longrightarrow> db_container_key d trail = Inr (container_base trail)"
  by (simp add: db_container_key_def db_key_def container_base_def)

lemma container_name_slash:
  "2 \<le> length trail \<Longrightarrow> names_container trail \<Longrightarrow> endswith (py_join ''/'' trail) ''/''"
proof -
  assume len: "2 \<le> length trail" and n: "names_container trail"
  obtain u where t: "trail = u @ [[]]"
    using n by (metis append_butlast_last_id names_container_def)
  with len have "u \<noteq> []" by auto
  then have "py_join ''/'' trail = py_join ''/'' u @ ''/'' @ []"
    unfolding t by (subst py_join_append) auto
  then show ?thesis by (simp add: endswith_def suffix_def)
qed

lemma simple_reply_list:
  "endswith n ''/'' \<Longrightarrow> simple_reply (Some n) t (names_json names) = Inr (names_json names)"
  by (simp add: simple_reply_def names_json_def)

context container_store begin

lemma create_guarded_parent:
  assumes "ok (cx_store c)" and "se_store se = S" and "2 \<le> length trail"
    and "length trail = 2 \<or> known (view (cx_store c)) (parent_base (butlast trail))"
  shows "create_guarded se trail req base c =
    py_try (py_bind (on_store (st_span S base)) (\<lambda>_. py_return True))
      (\<lambda>e. if e = CSStoreExists then py_bind (upd_resp (set_code 200)) (\<lambda>_. py_return False)
           else on_store_error e) c"
proof (cases "length trail > 2")
  case True
  then have len: "2 \<le> length (butlast trail)" by simp
  from True assms(4) have k: "known (view (cx_store c)) (parent_base (butlast trail))" by simp
  show ?thesis
    unfolding create_guarded_def using True assms(2)
    by (simp add: py_simps parent_exists_known [OF assms(1,2) len k])
next
  case False
  then show ?thesis
    unfolding create_guarded_def using assms(2) by (simp add: py_simps)
qed

lemma create_fresh:
  assumes "ok (cx_store c)" and "se_store se = S" and "allows_simple se" and "rq_body req = None"
    and "2 \<le> length trail"
    and "length trail = 2 \<or> known (view (cx_store c)) (parent_base (butlast trail))"
    and "view (cx_store c) (list_path (container_base trail)) = None"
  shows "\<exists>w'. secrets_create E se trail req c =
      (Inr (), c\<lparr>cx_store := w', cx_resp := set_code 201 (cx_resp c)\<rparr>)
    \<and> ok w' \<and> view w' = (view (cx_store c))(list_path (container_base trail) \<mapsto> Dir)"
proof -
  from span_fresh [OF assms(1,7)] obtain w' where
    w: "st_span S (container_base trail) (cx_store c) = (Inr (), w')" "ok w'"
      "view w' = (view (cx_store c))(list_path (container_base trail) \<mapsto> Dir)" by blast
  have "secrets_create E se trail req c =
      (Inr (), c\<lparr>cx_store := w', cx_resp := set_code 201 (cx_resp c)\<rparr>)"
    unfolding secrets_create_def
    by (simp add: py_simps as_http_def parse_maybe_body_default [OF assms(3,4)]
        db_container_key_long [OF assms(5)] create_guarded_parent [OF assms(1,2,5,6)] w(1)
        reply_created_simple del: handler_reply.simps)
  with w show ?thesis by blast
qed

lemma create_taken:
  assumes "ok (cx_store c)" and "se_store se = S" and "allows_simple se" and "rq_body req = None"
    and "2 \<le> length trail"
    and "length trail = 2 \<or> known (view (cx_store c)) (parent_base (butlast trail))"
    and "view (cx_store c) (list_path (container_base trail)) \<noteq> None"
  shows "secrets_create E se trail req c = (Inr (), c\<lparr>cx_resp := set_code 200 (cx_resp c)\<rparr>)"
  unfolding secrets_create_def
  by (simp add: py_simps as_http_def parse_maybe_body_default [OF assms(3,4)]
      db_container_key_long [OF assms(5)] create_guarded_parent [OF assms(1,2,5,6)]
      span_taken [OF assms(1,7)])

lemma create_no_parent:
  assumes "ok (cx_store c)" and "se_store se = S" and "allows_simple se" and "rq_body req = None"
    and "2 < length trail"
    and "\<not> known (view (cx_store c)) (parent_base (butlast trail))"
    and "\<not> (length trail = 3 \<and> rq_default_namespace req = Some (hd trail))"
  shows "secrets_create E se trail req c = (Inl (HTTPError 404), c)"
proof -
  have len: "2 \<le> length (butlast trail)" "2 \<le> length trail" using assms(5) by auto
  have "\<not> (length (butlast trail) = 2 \<and> rq_default_namespace req = Some (hd (butlast trail)))"
    using assms(5,7) by (cases trail) auto
  from parent_exists_unknown [OF assms(1,2) len(1) assms(6) this]
  have "create_guarded se trail req (container_base trail) c = (Inl (HTTPError 404), c)"
    unfolding create_guarded_def using assms(5) by (simp add: py_simps on_store_error_def)
  then show ?thesis
    unfolding secrets_create_def
    by (simp add: py_simps as_http_def parse_maybe_body_default [OF assms(3,4)]
        db_container_key_long [OF len(2)])
qed

lemma destroy_empty:
  assumes "ok (cx_store c)" and "se_store se = S" and "allows_simple se" and "rq_body req = None"
    and "2 \<le> length trail"
    and "child_names (view (cx_store c)) (container_base trail) = {}"
    and "view (cx_store c) (list_path (container_base trail)) \<noteq> None"
  shows "\<exists>w'. secrets_destroy E se trail req c =
      (Inr (), c\<lparr>cx_store := w', cx_resp := set_code 204 (cx_resp c)\<rparr>)
    \<and> ok w' \<and> view w' = (view (cx_store c))(list_path (container_base trail) := None)"
proof -
  obtain r where l: "st_list S (container_base trail) (cx_store c) = (Inr r, cx_store c)"
    "list_spec (view (cx_store c)) (container_base trail) r" using list_view [OF assms(1)] by blast
  have r: "r = Some []"
    using l(2) assms(6,7) by (auto simp: list_spec_def container_there_def split: option.splits)
  from cut_there [OF assms(1,7)] obtain w' where
    w: "st_cut S (list_path (container_base trail)) (cx_store c) = (Inr (CutBool True), w')" "ok w'"
      "view w' = (view (cx_store c))(list_path (container_base trail) := None)" by blast
  have "secrets_destroy E se trail req c =
      (Inr (), c\<lparr>cx_store := w', cx_resp := set_code 204 (cx_resp c)\<rparr>)"
    unfolding secrets_destroy_def list_path_def [symmetric]
    by (simp add: py_simps as_http_def parse_maybe_body_default [OF assms(3,4)]
        db_container_key_long [OF assms(5)] assms(2) l(1) r w(1) reply_deleted_simple
        del: handler_reply.simps)
  with w show ?thesis by blast
qed

lemma destroy_nonempty:
  assumes "ok (cx_store c)" and "se_store se = S" and "allows_simple se" and "rq_body req = None"
    and "2 \<le> length trail"
    and "child_names (view (cx_store c)) (container_base trail) \<noteq> {}"
  shows "secrets_destroy E se trail req c = (Inl (HTTPError 409), c)"
proof -
  obtain r where l: "st_list S (container_base trail) (cx_store c) = (Inr r, cx_store c)"
    "list_spec (view (cx_store c)) (container_base trail) r" using list_view [OF assms(1)] by blast
  then obtain names where "r = Some names" "set names = child_names (view (cx_store c)) (container_base trail)"
    using assms(6) by (cases r) (auto simp: list_spec_def)
  then have r: "r = Some names" "names \<noteq> []" using assms(6) by auto
  show ?thesis
    unfolding secrets_destroy_def
    by (simp add: py_simps as_http_def parse_maybe_body_default [OF assms(3,4)]
        db_container_key_long [OF assms(5)] assms(2) l(1) r on_store_error_def)
qed

lemma destroy_absent:
  assumes "ok (cx_store c)" and "se_store se = S" and "allows_simple se" and "rq_body req = None"
    and "2 \<le> length trail" and "\<not> known (view (cx_store c)) (container_base trail)"
  shows "secrets_destroy E se trail req c = (Inl (HTTPError 404), c)"
proof -
  obtain r where "st_list S (container_base trail) (cx_store c) = (Inr r, cx_store c)" "r = None"
    using list_known [OF assms(1)] assms(6) by metis
  then show ?thesis
    unfolding secrets_destroy_def
    by (simp add: py_simps as_http_def parse_maybe_body_default [OF assms(3,4)]
        db_container_key_long [OF assms(5)] assms(2) on_store_error_def)
qed

text \<open>Listing a container by its path returns the sorted names of its children.\<close>

lemma secrets_list_known:
  assumes "ok (cx_store c)" and "se_store se = S" and "allows_simple se" and "no_query req"
    and "2 \<le> length trail" and "names_container trail"
    and "known (view (cx_store c)) (container_base trail)"
  shows "\<exists>names. secrets_list E se trail req c =
      (Inr (), c\<lparr>cx_resp := set_json (names_json names) (cx_resp c)\<rparr>)
    \<and> sorted names \<and> set names = child_names (view (cx_store c)) (container_base trail)"
proof -
  obtain r where l: "st_list S (container_base trail) (cx_store c) = (Inr r, cx_store c)"
    "list_spec (view (cx_store c)) (container_base trail) r" "r \<noteq> None"
    using list_known [OF assms(1)] assms(7) by metis
  then obtain names where r: "r = Some names" by auto
  have "secrets_list E se trail req c =
      (Inr (), c\<lparr>cx_resp := set_json (names_json names) (cx_resp c)\<rparr>)"
    unfolding secrets_list_def
    by (simp add: py_simps as_http_def parse_query_default [OF assms(3,4)]
        db_container_key_long [OF assms(5)] assms(2) l(1) r
        simple_reply_list [OF container_name_slash [OF assms(5,6)]] set_json_def)
  moreover have "sorted names \<and> set names = child_names (view (cx_store c)) (container_base trail)"
    using l(2) r by (simp add: list_spec_def)
  ultimately show ?thesis by blast
qed

lemma secrets_list_unknown:
  assumes "ok (cx_store c)" and "se_store se = S" and "allows_simple se" and "no_query req"
    and "2 \<le> length trail" and "\<not> known (view (cx_store c)) (container_base trail)"
  shows "secrets_list E se trail req c = (Inl (HTTPError 404), c)"
proof -
  obtain r where "st_list S (container_base trail) (cx_store c) = (Inr r, cx_store c)" "r = None"
    using list_known [OF assms(1)] assms(6) by metis
  then show ?thesis
    unfolding secrets_list_def
    by (simp add: py_simps as_http_def parse_query_default [OF assms(3,4)]
        db_container_key_long [OF assms(5)] assms(2) on_store_error_def)
qed

end

text \<open>A container read as a key: its mark is empty, and an empty value is refused.\<close>

context marked_store begin

lemma get_key_mark:
  assumes "ok (cx_store c)" and "se_store se = S" and "allows_simple se" and "no_query req"
    and "client_name req = Inr cl" and "db_key trail = Inr k" and "view (cx_store c) k = Some Dir"
  shows "get_key E se trail req c =
      (Inl (HTTPError 406), c\<lparr>cx_audit := cx_audit c @
        [audit_key_entry (se_origin se) AUDIT_GET_DENIED cl (py_join ''/'' trail)]\<rparr>)"
proof -
  have "int_get_key E se trail req c = (Inl (HTTPError 406), c)"
    unfolding int_get_key_def using assms(2,6)
    by (simp add: py_simps as_http_def parse_query_default [OF assms(3,4)]
        get_mark [OF assms(1,7)] json_len_def on_store_error_def)
  from audited_run [where fn = "int_get_key E se trail req" and c = c, OF assms(5) this] show ?thesis unfolding get_key_def by simp
qed

end

end
