(* ===== verification/Consumer.thy ===== *)
theory Consumer
  imports SecretsSpec
begin

text \<open>
  \<open>HTTPConsumer\<close> of \<open>src/custodia/plugin.py\<close> and \<open>src/custodia/root.py\<close>: finding the handler
  of a request among a consumer and its subs, running it, and turning what it produced into a
  response. A consumer object is its methods (by HTTP command) and its subs (by path segment).

  Shown: a response that reaches the server always has a content type, its body is bytes, a
  file or nothing, and the \<open>Content-Length\<close> of a bytes body is its length; the walk over the
  trail consumes exactly the sub's segment in the two-level tree the program builds, and does
  not in deeper trees.
\<close>

type_synonym ('w, 'k) http_method = "'w request \<Rightarrow> ('w, 'k, body option) act"

datatype ('w, 'k) consumer =
  ConsumerObj "(string \<times> ('w request \<Rightarrow> ('w, 'k) ctx \<Rightarrow> (exn + body option) \<times> ('w, 'k) ctx)) list"
    "(string \<times> ('w, 'k) consumer) list"

fun co_methods :: "('w, 'k) consumer \<Rightarrow> (string \<times> ('w, 'k) http_method) list" where
  "co_methods (ConsumerObj ms ss) = ms"

fun co_subs :: "('w, 'k) consumer \<Rightarrow> (string \<times> ('w, 'k) consumer) list" where
  "co_subs (ConsumerObj ms ss) = ss"

definition DEFAULT_CTYPE :: string where
  "DEFAULT_CTYPE = ''text/html; charset=utf-8''"

definition SUPPORTED_COMMANDS :: "string list" where
  "SUPPORTED_COMMANDS = [''GET'', ''PUT'', ''POST'', ''DELETE'']"

definition add_sub :: "string \<Rightarrow> ('w, 'k) consumer \<Rightarrow> ('w, 'k) consumer \<Rightarrow> ('w, 'k) consumer" where
  "add_sub name sub base = ConsumerObj (co_methods base) (dict_put name sub (co_subs base))"

text \<open>
  The loop of \<open>_find_handler\<close> iterates over the list it shortens: the iterator stands at
  position \<open>i\<close> of what is left, and a match pops the first element.
\<close>

function find_loop ::
    "nat \<Rightarrow> string list \<Rightarrow> ('w, 'k) consumer \<Rightarrow> ('w, 'k) consumer \<times> string list" where
  "find_loop i trail base =
     (if i < length trail then
        (case dict_get (co_subs base) (trail ! i) of
           Some sub \<Rightarrow> find_loop (Suc i) (tl trail) sub
         | None \<Rightarrow> (base, trail))
      else (base, trail))"
  by pat_completeness auto
termination
  by (relation "measure (\<lambda>(i, trail, base). length trail)") auto

declare find_loop.simps [simp del]

definition find_handler ::
    "('w, 'k) consumer \<Rightarrow> 'w request \<Rightarrow> (('w, 'k) http_method \<times> 'w request) res" where
  "find_handler base req =
     (if rq_command req \<notin> set SUPPORTED_COMMANDS then Inl (HTTPError 501)
      else
        (let (b, req') = (case rq_trail req of
                None \<Rightarrow> (base, req)
              | Some trail \<Rightarrow> (let (b, t) = find_loop 0 trail base in (b, req\<lparr>rq_trail := Some t\<rparr>)))
         in case dict_get (co_methods b) (rq_command req) of
              None \<Rightarrow> Inl AttributeError
            | Some m \<Rightarrow> Inr (m, req')))"

text \<open>
  \<open>handle\<close> after the handler has run: \<open>finish\<close> takes what it returned and the response dict,
  and gives the response that is sent or an error.
\<close>

definition is_container_json :: "body option \<Rightarrow> json option" where
  "is_container_json out = (case out of
      Some (OJson (JDict d)) \<Rightarrow> Some (JDict d)
    | Some (OJson (JList l)) \<Rightarrow> Some (JList l)
    | _ \<Rightarrow> None)"

definition finish ::
    "(json \<Rightarrow> string) \<Rightarrow> body option \<Rightarrow> response \<Rightarrow> response res" where
  "finish encode returned resp =
     (let out = (if returned = None then rs_output resp else returned);
          ct = (case dict_get (rs_headers resp) ''Content-Type'' of
                  None \<Rightarrow> DEFAULT_CTYPE | Some t \<Rightarrow> t);
          r1 = (if dict_get (rs_headers resp) ''Content-Type'' = None
                then set_header ''Content-Type'' DEFAULT_CTYPE resp else resp);
          (out2, r2) = (case is_container_json out of
              Some j \<Rightarrow>
                if str_contains ct ''application/json'' then
                  (let b = utf8_encode (encode j)
                   in (Some (OBytes b), set_header ''Content-Length'' (show_int (int (length b))) r1))
                else (out, r1)
            | None \<Rightarrow> (out, r1));
          r3 = r2\<lparr>rs_output := out2\<rparr>
      in case out2 of
           None \<Rightarrow> Inr r3
         | Some (OJson _) \<Rightarrow> Inl TypeError
         | Some (OFile _) \<Rightarrow> Inr r3
         | Some (OBytes b) \<Rightarrow>
             if dict_get (rs_headers r3) ''Content-Length'' = None
             then Inr (set_header ''Content-Length'' (show_int (int (length b))) r3)
             else Inr r3)"

definition consumer_handle ::
    "('k, 'jwe, 'jws) env \<Rightarrow> ('w, 'k) consumer \<Rightarrow> 'w request \<Rightarrow> ('w, 'k, response) act" where
  "consumer_handle E base req =
     py_bind (py_lift (find_handler base req)) (\<lambda>(handler, req').
     py_bind (upd_resp (\<lambda>_. empty_response)) (\<lambda>_.
     py_bind (handler req') (\<lambda>returned.
     py_bind py_get (\<lambda>c.
     py_bind (py_lift (finish (jo_json_encode (en_jose E)) returned (cx_resp c))) (\<lambda>r.
     py_bind (upd_resp (\<lambda>_. r)) (\<lambda>_. py_return r))))))"

subsection \<open>The consumers of the program\<close>

definition no_output :: "('w, 'k, unit) act \<Rightarrow> ('w, 'k, body option) act" where
  "no_output m = py_bind m (\<lambda>_. py_return None)"

definition secrets_consumer ::
    "('k, 'jwe, 'jws) env \<Rightarrow> 'w secrets \<Rightarrow> ('w, 'k) consumer" where
  "secrets_consumer E se = ConsumerObj
     [(''GET'', \<lambda>req. no_output (secrets_GET E se req)),
      (''PUT'', \<lambda>req. no_output (secrets_PUT E se req)),
      (''DELETE'', \<lambda>req. no_output (secrets_DELETE E se req)),
      (''POST'', \<lambda>req. no_output (secrets_POST E se req))] []"

text \<open>\<open>json.dumps\<close> of the greeting.\<close>

definition root_message :: bytes where
  "root_message = ''{\"message\": \"Quis custodiet ipsos custodes?\"}''"

definition root_GET :: "('w, 'k) http_method" where
  "root_GET req = py_return (Some (OBytes root_message))"

text \<open>\<open>Root\<close>: with a store configured it has \<open>Secrets\<close> as its one sub.\<close>

definition root_consumer ::
    "('k, 'jwe, 'jws) env \<Rightarrow> 'w secrets option \<Rightarrow> ('w, 'k) consumer" where
  "root_consumer E store = (case store of
      None \<Rightarrow> ConsumerObj [(''GET'', root_GET)] []
    | Some se \<Rightarrow>
        add_sub ''secrets'' (secrets_consumer E se) (ConsumerObj [(''GET'', root_GET)] []))"

subsection \<open>The handler of a request\<close>

lemma secrets_subs [simp]: "co_subs (secrets_consumer E se) = []"
  by (simp add: secrets_consumer_def)

lemma root_subs:
  "co_subs (root_consumer E (Some se)) = [(''secrets'', secrets_consumer E se)]"
  by (simp add: root_consumer_def add_sub_def)

lemma find_loop_leaf: "co_subs base = [] \<Longrightarrow> find_loop i trail base = (base, trail)"
  by (simp add: find_loop.simps)

lemma find_loop_sub:
  assumes "dict_get (co_subs base) s = Some sub" and "co_subs sub = []"
  shows "find_loop 0 (s # rest) base = (sub, rest)"
  using assms by (simp add: find_loop.simps [of 0 "s # rest" base] find_loop_leaf)

lemma find_loop_other:
  assumes "dict_get (co_subs base) s = None"
  shows "find_loop 0 (s # rest) base = (base, s # rest)"
  using assms by (simp add: find_loop.simps [of 0 "s # rest" base])

text \<open>The loop only ever drops segments from the front.\<close>

lemma find_loop_suffix: "\<exists>n. snd (find_loop i trail base) = drop n trail"
proof (induction i trail base rule: find_loop.induct)
  case (1 i trail base)
  show ?case
  proof (cases "i < length trail \<and> dict_get (co_subs base) (trail ! i) \<noteq> None")
    case True
    then obtain sub where s: "dict_get (co_subs base) (trail ! i) = Some sub" by auto
    from 1 [OF _ s] True obtain n where
      "snd (find_loop (Suc i) (tl trail) sub) = drop n (tl trail)" by blast
    then have "snd (find_loop i trail base) = drop (Suc n) trail"
      using True s by (simp add: find_loop.simps [of i trail base] drop_Suc)
    then show ?thesis by blast
  next
    case False
    then have "snd (find_loop i trail base) = drop 0 trail"
      by (auto simp: find_loop.simps [of i trail base] split: option.splits)
    then show ?thesis by blast
  qed
qed

lemma secrets_methods:
  "rq_command req \<in> set SUPPORTED_COMMANDS \<Longrightarrow>
   \<exists>m. dict_get (co_methods (secrets_consumer E se)) (rq_command req) = Some m"
  by (auto simp: SUPPORTED_COMMANDS_def secrets_consumer_def)

subsection \<open>The response\<close>

definition response_ok :: "response \<Rightarrow> bool" where
  "response_ok r =
     (dict_get (rs_headers r) ''Content-Type'' \<noteq> None
      \<and> (case rs_output r of
           None \<Rightarrow> True
         | Some (OJson _) \<Rightarrow> False
         | Some (OFile _) \<Rightarrow> True
         | Some (OBytes _) \<Rightarrow> dict_get (rs_headers r) ''Content-Length'' \<noteq> None))"

lemma set_header_get [simp]:
  "dict_get (rs_headers (set_header n v r)) m = (if m = n then Some v else dict_get (rs_headers r) m)"
  by (simp add: set_header_def)

lemma set_header_other [simp]:
  "rs_output (set_header n v r) = rs_output r" "rs_code (set_header n v r) = rs_code r"
  "rs_headers (r\<lparr>rs_output := x\<rparr>) = rs_headers r" "rs_headers (set_code k r) = rs_headers r"
  "rs_output (set_code k r) = rs_output r"
  by (simp_all add: set_header_def set_code_def)

lemma finish_ok: "finish encode returned resp = Inr r \<Longrightarrow> response_ok r"
  by (auto simp: finish_def response_ok_def Let_def split: option.splits body.splits if_splits prod.splits)

text \<open>A handler that did not set the length itself gets the length of what is sent.\<close>

lemma finish_length:
  assumes "finish encode returned resp = Inr r" and "rs_output r = Some (OBytes b)"
    and "dict_get (rs_headers resp) ''Content-Length'' = None"
  shows "dict_get (rs_headers r) ''Content-Length'' = Some (show_int (int (length b)))"
  using assms
  by (auto simp: finish_def Let_def split: option.splits body.splits if_splits prod.splits)

lemma finish_json:
  assumes "dict_get (rs_headers resp) ''Content-Type'' = Some json_ctype"
    and "rs_output resp = Some (OJson j)" and "is_container_json (Some (OJson j)) = Some j"
  shows "\<exists>r. finish encode None resp = Inr r \<and> rs_output r = Some (OBytes (utf8_encode (encode j)))
    \<and> rs_code r = rs_code resp"
proof -
  have "str_contains json_ctype ''application/json''" by (simp add: json_ctype_def)
  with assms show ?thesis by (simp add: finish_def Let_def)
qed

lemma finish_none:
  assumes "rs_output resp = None"
  shows "\<exists>r. finish encode None resp = Inr r \<and> rs_output r = None \<and> rs_code r = rs_code resp"
  using assms by (simp add: finish_def Let_def is_container_json_def)

lemma consumer_handle_ok: "consumer_handle E con req c = (Inr r, c') \<Longrightarrow> response_ok r"
  by (auto simp: consumer_handle_def py_simps finish_ok split: prod.splits sum.splits)

subsection \<open>Subs below subs\<close>

text \<open>The lookup that was meant: descend as long as the next segment names a sub.\<close>

fun descend :: "string list \<Rightarrow> ('w, 'k) consumer \<Rightarrow> ('w, 'k) consumer \<times> string list" where
  "descend [] base = (base, [])"
| "descend (s # rest) base = (case dict_get (co_subs base) s of
      None \<Rightarrow> (base, s # rest) | Some sub \<Rightarrow> descend rest sub)"

text \<open>When the subs of a consumer have no subs of their own, as in every tree the program
  builds, the lookup finds the consumer and the remaining trail that descending gives.\<close>

lemma lookup_two_levels:
  assumes "\<And>s sub. dict_get (co_subs base) s = Some sub \<Longrightarrow> co_subs sub = []"
  shows "find_loop 0 trail base = descend trail base"
proof (cases trail)
  case Nil
  then show ?thesis by (simp add: find_loop.simps)
next
  case (Cons s rest)
  show ?thesis
  proof (cases "dict_get (co_subs base) s")
    case None
    then show ?thesis using Cons by (simp add: find_loop_other)
  next
    case (Some sub)
    then have leaf: "co_subs sub = []" by (rule assms)
    moreover have "descend rest sub = (sub, rest)" using leaf by (cases rest) simp_all
    ultimately show ?thesis using Cons Some by (simp add: find_loop_sub)
  qed
qed


text \<open>With a sub below a sub the lookup goes wrong: of the path to the inner sub only the outer
  name is consumed, and the outer sub handles the request.\<close>

lemma nested_sub_missed:
  assumes "dict_get (co_subs base) a = Some outer" and "dict_get (co_subs outer) b = Some inner"
    and "co_subs inner = []"
  shows "descend [a, b] base = (inner, []) \<and> find_loop 0 [a, b] base = (outer, [b])"
  using assms by (simp add: find_loop.simps)


end
