(* ===== verification/SecretsApi.thy ===== *)
theory SecretsApi
  imports Consumer
begin

text \<open>
  The HTTP interface of the secrets, end to end: a request with a trail below \<open>secrets\<close> goes
  through \<open>HTTPConsumer.handle\<close> of the root consumer to the method of \<open>Secrets\<close> and its store,
  and comes back as a response. The lemmas are proved for every lawful store in
  \<open>container_store\<close>; the properties are their instances for the SQLite store.
\<close>

subsection \<open>From the root consumer to a method\<close>

definition below_secrets :: "'w request \<Rightarrow> string list \<Rightarrow> bool" where
  "below_secrets req trail = (rq_trail req = Some (''secrets'' # trail))"

lemma root_find_secrets:
  assumes "below_secrets req trail" and "rq_command req \<in> set SUPPORTED_COMMANDS"
    and "dict_get (co_methods (secrets_consumer E se)) (rq_command req) = Some m"
  shows "find_handler (root_consumer E (Some se)) req = Inr (m, req\<lparr>rq_trail := Some trail\<rparr>)"
proof -
  have "find_loop 0 (''secrets'' # trail) (root_consumer E (Some se)) = (secrets_consumer E se, trail)"
    by (rule find_loop_sub) (simp_all add: root_subs)
  with assms show ?thesis by (simp add: find_handler_def below_secrets_def)
qed

text \<open>The state a handler starts with has an empty response.\<close>

abbreviation start :: "('w, 'k) ctx \<Rightarrow> ('w, 'k) ctx" where
  "start c \<equiv> c\<lparr>cx_resp := empty_response\<rparr>"

lemma root_handle:
  assumes "below_secrets req trail" and "rq_command req \<in> set SUPPORTED_COMMANDS"
    and "dict_get (co_methods (secrets_consumer E se)) (rq_command req) = Some m"
  shows "m (req\<lparr>rq_trail := Some trail\<rparr>) (start c) = (Inl e, c1) \<Longrightarrow>
      consumer_handle E (root_consumer E (Some se)) req c = (Inl e, c1)"
    and "m (req\<lparr>rq_trail := Some trail\<rparr>) (start c) = (Inr out, c1) \<Longrightarrow>
      finish (jo_json_encode (en_jose E)) out (cx_resp c1) = Inr r \<Longrightarrow>
      consumer_handle E (root_consumer E (Some se)) req c = (Inr r, c1\<lparr>cx_resp := r\<rparr>)"
  by (simp_all add: consumer_handle_def root_find_secrets [OF assms] py_simps)

lemma no_output_apply:
  "m c = (Inl e, c1) \<Longrightarrow> no_output m c = (Inl e, c1)"
  "m c = (Inr (), c1) \<Longrightarrow> no_output m c = (Inr None, c1)"
  by (simp_all add: no_output_def py_simps)

lemma secrets_method:
  "dict_get (co_methods (secrets_consumer E se)) ''GET'' = Some (\<lambda>req. no_output (secrets_GET E se req))"
  "dict_get (co_methods (secrets_consumer E se)) ''PUT'' = Some (\<lambda>req. no_output (secrets_PUT E se req))"
  "dict_get (co_methods (secrets_consumer E se)) ''DELETE'' = Some (\<lambda>req. no_output (secrets_DELETE E se req))"
  "dict_get (co_methods (secrets_consumer E se)) ''POST'' = Some (\<lambda>req. no_output (secrets_POST E se req))"
  by (simp_all add: secrets_consumer_def)

lemma supported [simp]:
  "''GET'' \<in> set SUPPORTED_COMMANDS" "''PUT'' \<in> set SUPPORTED_COMMANDS"
  "''DELETE'' \<in> set SUPPORTED_COMMANDS" "''POST'' \<in> set SUPPORTED_COMMANDS"
  by (simp_all add: SUPPORTED_COMMANDS_def)

text \<open>What a request of one key or container becomes in \<open>Secrets\<close>.\<close>

lemma requests_ignore_trail [simp]:
  "client_name (req\<lparr>rq_trail := t\<rparr>) = client_name req"
  "puts_value E (req\<lparr>rq_trail := t\<rparr>) s = puts_value E req s"
  "no_query (req\<lparr>rq_trail := t\<rparr>) = no_query req"
  "wants_binary (req\<lparr>rq_trail := t\<rparr>) = wants_binary req"
  by (simp_all add: client_name_def puts_value_def no_query_def wants_binary_def content_type_value_def
      cong: option.case_cong)

definition key_trail :: "string list \<Rightarrow> bool" where
  "key_trail trail = (2 \<le> length trail \<and> (\<forall>x \<in> set trail. plain_segment x))"

definition key_of :: "string list \<Rightarrow> string" where
  "key_of trail = py_join ''/'' (''keys'' # trail)"

lemma key_trail_facts:
  assumes "key_trail trail"
  shows "db_key trail = Inr (key_of trail)" and "key_ok (key_of trail)" and "trail \<noteq> []"
    and "\<not> names_container trail" and "\<not> endswith (py_join ''/'' trail) ''/''"
proof -
  show k: "db_key trail = Inr (key_of trail)"
    using assms db_key_plain by (simp add: key_trail_def key_of_def)
  show "key_ok (key_of trail)"
    using db_key_plain_ok [OF _ _ k] assms by (simp add: key_trail_def)
  show ne: "trail \<noteq> []" using assms by (auto simp: key_trail_def)
  then have l: "plain_segment (last trail)" using assms by (simp add: key_trail_def)
  then show "\<not> names_container trail" by (simp add: names_container_def plain_segment_def)
  from l have "last trail \<noteq> []" "last (last trail) \<noteq> CHR ''/''"
    by (auto simp: plain_segment_def dest: last_in_set)
  then show "\<not> endswith (py_join ''/'' trail) ''/''"
    by (simp add: endswith_char py_join_last ne)
qed

lemma key_of_inj: "key_trail t1 \<Longrightarrow> key_trail t2 \<Longrightarrow> key_of t1 = key_of t2 \<Longrightarrow> t1 = t2"
  using db_key_plain_inj [of t1 t2] by (simp add: key_trail_def db_key_plain key_of_def)

lemma key_request_PUT:
  "key_trail trail \<Longrightarrow> secrets_PUT E se (req\<lparr>rq_trail := Some trail\<rparr>)
    = set_key E se trail (req\<lparr>rq_trail := Some trail\<rparr>)"
  by (simp add: secrets_PUT_def trail_of_def key_trail_facts)

lemma key_request_GET:
  "key_trail trail \<Longrightarrow> secrets_GET E se (req\<lparr>rq_trail := Some trail\<rparr>)
    = get_key E se trail (req\<lparr>rq_trail := Some trail\<rparr>)"
  by (simp add: secrets_GET_def trail_of_def key_trail_facts)

lemma key_request_DELETE:
  "key_trail trail \<Longrightarrow> secrets_DELETE E se (req\<lparr>rq_trail := Some trail\<rparr>)
    = del_key E se trail (req\<lparr>rq_trail := Some trail\<rparr>)"
  by (simp add: secrets_DELETE_def trail_of_def key_trail_facts)

lemma container_requests:
  assumes "names_container trail"
  shows "secrets_POST E se (req\<lparr>rq_trail := Some trail\<rparr>)
      = secrets_create E se trail (req\<lparr>rq_trail := Some trail\<rparr>)"
    and "secrets_DELETE E se (req\<lparr>rq_trail := Some trail\<rparr>)
      = secrets_destroy E se trail (req\<lparr>rq_trail := Some trail\<rparr>)"
    and "secrets_GET E se (req\<lparr>rq_trail := Some trail\<rparr>)
      = secrets_list E se trail (req\<lparr>rq_trail := Some trail\<rparr>)"
  using assms
  by (auto simp: secrets_POST_def secrets_DELETE_def secrets_GET_def trail_of_def names_container_def)

text \<open>The four methods, each with the errors and with the responses it hands over.\<close>

lemma root_PUT:
  assumes "below_secrets req trail" and "rq_command req = ''PUT''"
  shows "secrets_PUT E se (req\<lparr>rq_trail := Some trail\<rparr>) (start c) = (Inl e, c1) \<Longrightarrow>
      consumer_handle E (root_consumer E (Some se)) req c = (Inl e, c1)"
    and "secrets_PUT E se (req\<lparr>rq_trail := Some trail\<rparr>) (start c) = (Inr (), c1) \<Longrightarrow>
      finish (jo_json_encode (en_jose E)) None (cx_resp c1) = Inr r \<Longrightarrow>
      consumer_handle E (root_consumer E (Some se)) req c = (Inr r, c1\<lparr>cx_resp := r\<rparr>)"
  using assms
  by (simp_all add: root_handle [where m = "\<lambda>req. no_output (secrets_PUT E se req)"] secrets_method
      no_output_apply)

lemma root_GET_run:
  assumes "below_secrets req trail" and "rq_command req = ''GET''"
  shows "secrets_GET E se (req\<lparr>rq_trail := Some trail\<rparr>) (start c) = (Inl e, c1) \<Longrightarrow>
      consumer_handle E (root_consumer E (Some se)) req c = (Inl e, c1)"
    and "secrets_GET E se (req\<lparr>rq_trail := Some trail\<rparr>) (start c) = (Inr (), c1) \<Longrightarrow>
      finish (jo_json_encode (en_jose E)) None (cx_resp c1) = Inr r \<Longrightarrow>
      consumer_handle E (root_consumer E (Some se)) req c = (Inr r, c1\<lparr>cx_resp := r\<rparr>)"
  using assms
  by (simp_all add: root_handle [where m = "\<lambda>req. no_output (secrets_GET E se req)"] secrets_method
      no_output_apply)

lemma root_DELETE:
  assumes "below_secrets req trail" and "rq_command req = ''DELETE''"
  shows "secrets_DELETE E se (req\<lparr>rq_trail := Some trail\<rparr>) (start c) = (Inl e, c1) \<Longrightarrow>
      consumer_handle E (root_consumer E (Some se)) req c = (Inl e, c1)"
    and "secrets_DELETE E se (req\<lparr>rq_trail := Some trail\<rparr>) (start c) = (Inr (), c1) \<Longrightarrow>
      finish (jo_json_encode (en_jose E)) None (cx_resp c1) = Inr r \<Longrightarrow>
      consumer_handle E (root_consumer E (Some se)) req c = (Inr r, c1\<lparr>cx_resp := r\<rparr>)"
  using assms
  by (simp_all add: root_handle [where m = "\<lambda>req. no_output (secrets_DELETE E se req)"] secrets_method
      no_output_apply)

lemma root_POST:
  assumes "below_secrets req trail" and "rq_command req = ''POST''"
  shows "secrets_POST E se (req\<lparr>rq_trail := Some trail\<rparr>) (start c) = (Inl e, c1) \<Longrightarrow>
      consumer_handle E (root_consumer E (Some se)) req c = (Inl e, c1)"
    and "secrets_POST E se (req\<lparr>rq_trail := Some trail\<rparr>) (start c) = (Inr (), c1) \<Longrightarrow>
      finish (jo_json_encode (en_jose E)) None (cx_resp c1) = Inr r \<Longrightarrow>
      consumer_handle E (root_consumer E (Some se)) req c = (Inr r, c1\<lparr>cx_resp := r\<rparr>)"
  using assms
  by (simp_all add: root_handle [where m = "\<lambda>req. no_output (secrets_POST E se req)"] secrets_method
      no_output_apply)

text \<open>A response without output, with a code.\<close>

definition coded :: "int \<Rightarrow> response" where
  "coded n = set_header ''Content-Type'' DEFAULT_CTYPE (set_code n empty_response)"

lemma finish_coded: "finish enc None (set_code n empty_response) = Inr (coded n)"
  by (simp add: finish_def Let_def is_container_json_def coded_def set_code_def empty_response_def set_header_def)

lemma coded_simps [simp]: "rs_code (coded n) = Some n" "rs_output (coded n) = None"
  by (simp_all add: coded_def set_code_def set_header_def empty_response_def)

lemma finish_simple:
  "\<exists>r. finish enc None (set_json (JDict d) empty_response) = Inr r
    \<and> rs_output r = Some (OBytes (utf8_encode (enc (JDict d)))) \<and> rs_code r = None"
  using finish_json [of "set_json (JDict d) empty_response" "JDict d" enc]
  by (simp add: set_json_def is_container_json_def empty_response_def)

lemma finish_names:
  "\<exists>r. finish enc None (set_json (JList l) empty_response) = Inr r
    \<and> rs_output r = Some (OBytes (utf8_encode (enc (JList l)))) \<and> rs_code r = None"
  using finish_json [of "set_json (JList l) empty_response" "JList l" enc]
  by (simp add: set_json_def is_container_json_def empty_response_def)


subsection \<open>Keys, over any lawful store\<close>

context container_store begin

lemma api_put_fresh:
  assumes "ok (cx_store c)" and "se_store se = S" and "allows_simple se"
    and "below_secrets req trail" and "rq_command req = ''PUT''" and t: "key_trail trail"
    and "client_name req = Inr cl" and "puts_value E req s" and "s \<noteq> []"
    and "known (view (cx_store c)) (parent_base trail)" and "view (cx_store c) (key_of trail) = None"
  shows "\<exists>c'. consumer_handle E (root_consumer E (Some se)) req c = (Inr (coded 201), c')
    \<and> ok (cx_store c') \<and> view (cx_store c') = (view (cx_store c))(key_of trail \<mapsto> Secret (JStr s))
    \<and> cx_audit c' = cx_audit c @ [audit_key_entry (se_origin se) AUDIT_SET_ALLOWED cl (py_join ''/'' trail)]"
proof -
  let ?req = "req\<lparr>rq_trail := Some trail\<rparr>"
  obtain w' where "set_key E se trail ?req (start c) = (Inr (), (start c)\<lparr>cx_store := w',
      cx_resp := set_code 201 empty_response,
      cx_audit := cx_audit c @ [audit_key_entry (se_origin se) AUDIT_SET_ALLOWED cl (py_join ''/'' trail)]\<rparr>)"
    and w': "ok w'" "view w' = (view (cx_store c))(key_of trail \<mapsto> Secret (JStr s))"
    using set_key_fresh [of "start c" se ?req cl E s trail "key_of trail"] assms key_trail_facts [OF t] by auto
  then have run: "secrets_PUT E se ?req (start c) = (Inr (), (start c)\<lparr>cx_store := w',
      cx_resp := set_code 201 empty_response,
      cx_audit := cx_audit c @ [audit_key_entry (se_origin se) AUDIT_SET_ALLOWED cl (py_join ''/'' trail)]\<rparr>)"
    by (simp add: key_request_PUT [OF t])
  from root_PUT(2) [OF assms(4,5) run] w' show ?thesis
    by (simp add: finish_coded)
qed

lemma api_put_taken:
  assumes "ok (cx_store c)" and "se_store se = S" and "allows_simple se"
    and "below_secrets req trail" and "rq_command req = ''PUT''" and t: "key_trail trail"
    and "client_name req = Inr cl" and "puts_value E req s" and "s \<noteq> []"
    and "known (view (cx_store c)) (parent_base trail)" and "view (cx_store c) (key_of trail) \<noteq> None"
  shows "\<exists>c'. consumer_handle E (root_consumer E (Some se)) req c = (Inl (HTTPError 409), c')
    \<and> ok (cx_store c') \<and> view (cx_store c') = view (cx_store c)
    \<and> cx_audit c' = cx_audit c @ [audit_key_entry (se_origin se) AUDIT_SET_DENIED cl (py_join ''/'' trail)]"
proof -
  let ?req = "req\<lparr>rq_trail := Some trail\<rparr>"
  obtain w where "set_key E se trail ?req (start c) = (Inl (HTTPError 409), (start c)\<lparr>cx_store := w,
      cx_audit := cx_audit c @ [audit_key_entry (se_origin se) AUDIT_SET_DENIED cl (py_join ''/'' trail)]\<rparr>)"
    and w: "ok w" "view w = view (cx_store c)"
    using set_key_taken [of "start c" se ?req cl E s trail "key_of trail"] assms key_trail_facts [OF t] by auto
  then have run: "secrets_PUT E se ?req (start c) = (Inl (HTTPError 409), (start c)\<lparr>cx_store := w,
      cx_audit := cx_audit c @ [audit_key_entry (se_origin se) AUDIT_SET_DENIED cl (py_join ''/'' trail)]\<rparr>)"
    by (simp add: key_request_PUT [OF t])
  from root_PUT(1) [OF assms(4,5) run] w show ?thesis by simp
qed

lemma api_put_no_parent:
  assumes "ok (cx_store c)" and "se_store se = S" and "allows_simple se"
    and "below_secrets req trail" and "rq_command req = ''PUT''" and t: "key_trail trail"
    and "client_name req = Inr cl" and "puts_value E req s"
    and "\<not> known (view (cx_store c)) (parent_base trail)"
    and "\<not> (length trail = 2 \<and> rq_default_namespace req = Some (hd trail))"
  shows "\<exists>c'. consumer_handle E (root_consumer E (Some se)) req c = (Inl (HTTPError 404), c')
    \<and> cx_store c' = cx_store c
    \<and> cx_audit c' = cx_audit c @ [audit_key_entry (se_origin se) AUDIT_SET_DENIED cl (py_join ''/'' trail)]"
proof -
  let ?req = "req\<lparr>rq_trail := Some trail\<rparr>"
  have "set_key E se trail ?req (start c) = (Inl (HTTPError 404), (start c)\<lparr>
      cx_audit := cx_audit c @ [audit_key_entry (se_origin se) AUDIT_SET_DENIED cl (py_join ''/'' trail)]\<rparr>)"
    using set_key_no_parent [of "start c" se ?req cl E s trail "key_of trail"] assms key_trail_facts [OF t] by auto
  then have run: "secrets_PUT E se ?req (start c) = (Inl (HTTPError 404), (start c)\<lparr>
      cx_audit := cx_audit c @ [audit_key_entry (se_origin se) AUDIT_SET_DENIED cl (py_join ''/'' trail)]\<rparr>)"
    by (simp add: key_request_PUT [OF t])
  from root_PUT(1) [OF assms(4,5) run] show ?thesis by simp
qed

lemma api_get:
  assumes "ok (cx_store c)" and "se_store se = S" and "allows_simple se"
    and "below_secrets req trail" and "rq_command req = ''GET''" and t: "key_trail trail"
    and "client_name req = Inr cl" and "no_query req" and "\<not> wants_binary req" and "s \<noteq> []"
    and "view (cx_store c) (key_of trail) = Some (Secret (JStr s))"
  shows "\<exists>r c'. consumer_handle E (root_consumer E (Some se)) req c = (Inr r, c')
    \<and> rs_code r = None \<and> rs_output r = Some (OBytes (utf8_encode (jo_json_encode (en_jose E) (simple_msg s))))
    \<and> ok (cx_store c') \<and> view (cx_store c') = view (cx_store c)
    \<and> cx_audit c' = cx_audit c @ [audit_key_entry (se_origin se) AUDIT_GET_ALLOWED cl (py_join ''/'' trail)]"
proof -
  let ?req = "req\<lparr>rq_trail := Some trail\<rparr>"
  obtain w where "get_key E se trail ?req (start c) = (Inr (), (start c)\<lparr>cx_store := w,
      cx_resp := set_json (simple_msg s) empty_response,
      cx_audit := cx_audit c @ [audit_key_entry (se_origin se) AUDIT_GET_ALLOWED cl (py_join ''/'' trail)]\<rparr>)"
    and w: "ok w" "view w = view (cx_store c)"
    using get_key_secret [of "start c" se ?req cl trail "key_of trail" s E] assms key_trail_facts [OF t] by auto
  then have run: "secrets_GET E se ?req (start c) = (Inr (), (start c)\<lparr>cx_store := w,
      cx_resp := set_json (simple_msg s) empty_response,
      cx_audit := cx_audit c @ [audit_key_entry (se_origin se) AUDIT_GET_ALLOWED cl (py_join ''/'' trail)]\<rparr>)"
    by (simp add: key_request_GET [OF t])
  obtain r where r: "finish (jo_json_encode (en_jose E)) None (set_json (simple_msg s) empty_response) = Inr r"
    "rs_output r = Some (OBytes (utf8_encode (jo_json_encode (en_jose E) (simple_msg s))))" "rs_code r = None"
    using finish_simple [of "jo_json_encode (en_jose E)"] unfolding simple_msg_def by blast
  from root_GET_run(2) [OF assms(4,5) run, where r = r] r w show ?thesis
    by simp
qed

lemma api_get_absent:
  assumes "ok (cx_store c)" and "se_store se = S" and "allows_simple se"
    and "below_secrets req trail" and "rq_command req = ''GET''" and t: "key_trail trail"
    and "client_name req = Inr cl" and "no_query req" and "view (cx_store c) (key_of trail) = None"
  shows "\<exists>c'. consumer_handle E (root_consumer E (Some se)) req c = (Inl (HTTPError 404), c')
    \<and> cx_store c' = cx_store c
    \<and> cx_audit c' = cx_audit c @ [audit_key_entry (se_origin se) AUDIT_GET_DENIED cl (py_join ''/'' trail)]"
proof -
  let ?req = "req\<lparr>rq_trail := Some trail\<rparr>"
  have "get_key E se trail ?req (start c) = (Inl (HTTPError 404), (start c)\<lparr>
      cx_audit := cx_audit c @ [audit_key_entry (se_origin se) AUDIT_GET_DENIED cl (py_join ''/'' trail)]\<rparr>)"
    using get_key_absent [of "start c" se ?req cl trail "key_of trail" E] assms key_trail_facts [OF t] by auto
  then have run: "secrets_GET E se ?req (start c) = (Inl (HTTPError 404), (start c)\<lparr>
      cx_audit := cx_audit c @ [audit_key_entry (se_origin se) AUDIT_GET_DENIED cl (py_join ''/'' trail)]\<rparr>)"
    by (simp add: key_request_GET [OF t])
  from root_GET_run(1) [OF assms(4,5) run] show ?thesis by simp
qed

lemma api_get_binary:
  assumes "ok (cx_store c)" and "se_store se = S" and "allows_simple se"
    and "below_secrets req trail" and "rq_command req = ''GET''" and t: "key_trail trail"
    and "client_name req = Inr cl" and "no_query req" and "wants_binary req" and "b \<noteq> []"
    and "view (cx_store c) (key_of trail) = Some (Secret (JStr (b64encode b)))"
  shows "\<exists>r c'. consumer_handle E (root_consumer E (Some se)) req c = (Inr r, c')
    \<and> rs_output r = Some (OBytes b)
    \<and> dict_get (rs_headers r) ''Content-Type'' = Some ''application/octet-stream''
    \<and> view (cx_store c') = view (cx_store c)"
proof -
  let ?req = "req\<lparr>rq_trail := Some trail\<rparr>"
  obtain c1 where g: "get_key E se trail ?req (start c) = (Inr (), c1)" "view (cx_store c1) = view (cx_store c)"
    "rs_output (cx_resp c1) = Some (OBytes b)"
    "dict_get (rs_headers (cx_resp c1)) ''Content-Type'' = Some ''application/octet-stream''"
    using get_key_binary [of "start c" se ?req cl trail "key_of trail" b E] assms key_trail_facts [OF t] by auto
  then have run: "secrets_GET E se ?req (start c) = (Inr (), c1)"
    by (simp add: key_request_GET [OF t])
  have "\<exists>r. finish (jo_json_encode (en_jose E)) None (cx_resp c1) = Inr r \<and> rs_output r = Some (OBytes b)
    \<and> dict_get (rs_headers r) ''Content-Type'' = Some ''application/octet-stream''"
    using g(3,4) by (simp add: finish_def Let_def is_container_json_def)
  then obtain r where r: "finish (jo_json_encode (en_jose E)) None (cx_resp c1) = Inr r"
    "rs_output r = Some (OBytes b)"
    "dict_get (rs_headers r) ''Content-Type'' = Some ''application/octet-stream''" by blast
  from root_GET_run(2) [OF assms(4,5) run r(1)] g r show ?thesis by simp
qed

lemma api_delete:
  assumes "ok (cx_store c)" and "se_store se = S" and "allows_simple se"
    and "below_secrets req trail" and "rq_command req = ''DELETE''" and t: "key_trail trail"
    and "client_name req = Inr cl" and "rq_body req = None" and "view (cx_store c) (key_of trail) \<noteq> None"
  shows "\<exists>c'. consumer_handle E (root_consumer E (Some se)) req c = (Inr (coded 204), c')
    \<and> ok (cx_store c') \<and> view (cx_store c') = (view (cx_store c))(key_of trail := None)
    \<and> cx_audit c' = cx_audit c @ [audit_key_entry (se_origin se) AUDIT_DEL_ALLOWED cl (py_join ''/'' trail)]"
proof -
  let ?req = "req\<lparr>rq_trail := Some trail\<rparr>"
  obtain w where "del_key E se trail ?req (start c) = (Inr (), (start c)\<lparr>cx_store := w,
      cx_resp := set_code 204 empty_response,
      cx_audit := cx_audit c @ [audit_key_entry (se_origin se) AUDIT_DEL_ALLOWED cl (py_join ''/'' trail)]\<rparr>)"
    and w: "ok w" "view w = (view (cx_store c))(key_of trail := None)"
    using del_key_there [of "start c" se ?req cl trail "key_of trail" E] assms key_trail_facts [OF t] by auto
  then have run: "secrets_DELETE E se ?req (start c) = (Inr (), (start c)\<lparr>cx_store := w,
      cx_resp := set_code 204 empty_response,
      cx_audit := cx_audit c @ [audit_key_entry (se_origin se) AUDIT_DEL_ALLOWED cl (py_join ''/'' trail)]\<rparr>)"
    by (simp add: key_request_DELETE [OF t])
  from root_DELETE(2) [OF assms(4,5) run] w show ?thesis
    by (simp add: finish_coded)
qed

lemma api_delete_absent:
  assumes "ok (cx_store c)" and "se_store se = S" and "allows_simple se"
    and "below_secrets req trail" and "rq_command req = ''DELETE''" and t: "key_trail trail"
    and "client_name req = Inr cl" and "rq_body req = None" and "view (cx_store c) (key_of trail) = None"
  shows "\<exists>c'. consumer_handle E (root_consumer E (Some se)) req c = (Inl (HTTPError 404), c')
    \<and> cx_store c' = cx_store c
    \<and> cx_audit c' = cx_audit c @ [audit_key_entry (se_origin se) AUDIT_DEL_DENIED cl (py_join ''/'' trail)]"
proof -
  let ?req = "req\<lparr>rq_trail := Some trail\<rparr>"
  have "del_key E se trail ?req (start c) = (Inl (HTTPError 404), (start c)\<lparr>
      cx_audit := cx_audit c @ [audit_key_entry (se_origin se) AUDIT_DEL_DENIED cl (py_join ''/'' trail)]\<rparr>)"
    using del_key_absent [of "start c" se ?req cl trail "key_of trail" E] assms key_trail_facts [OF t] by auto
  then have run: "secrets_DELETE E se ?req (start c) = (Inl (HTTPError 404), (start c)\<lparr>
      cx_audit := cx_audit c @ [audit_key_entry (se_origin se) AUDIT_DEL_DENIED cl (py_join ''/'' trail)]\<rparr>)"
    by (simp add: key_request_DELETE [OF t])
  from root_DELETE(1) [OF assms(4,5) run] show ?thesis by simp
qed

end

subsection \<open>Containers, over any lawful store\<close>

text \<open>A container's trail is the trail of its name and an empty last segment.\<close>

definition dir_name :: "string list \<Rightarrow> bool" where
  "dir_name t = (t \<noteq> [] \<and> (\<forall>x \<in> set t. plain_segment x))"

lemma path_join_dir:
  assumes "dir_name t"
  shows "path_join ''keys'' (t @ [[]]) = key_of t @ ''/''" and "\<not> endswith (key_of t) ''/''"
proof -
  have x: "\<forall>x \<in> set t. x \<noteq> [] \<and> \<not> startswith x ''/'' \<and> \<not> endswith x ''/''"
    using assms plain_segment_ends by (auto simp: dir_name_def)
  have "\<not> endswith ''keys'' ''/''" by (simp add: endswith_char)
  from path_join_plain [OF _ this x] have j: "path_join ''keys'' t = key_of t"
    by (simp add: key_of_def)
  from assms have l: "plain_segment (last t)" by (simp add: dir_name_def)
  then have "last t \<noteq> []" "last (last t) \<noteq> CHR ''/''"
    by (auto simp: plain_segment_def dest: last_in_set)
  then have "last (key_of t) \<noteq> CHR ''/''" "key_of t \<noteq> []"
    using assms unfolding key_of_def by (simp_all add: py_join_last py_join_not_Nil dir_name_def)
  then show "\<not> endswith (key_of t) ''/''" by (simp add: endswith_char)
  then show "path_join ''keys'' (t @ [[]]) = key_of t @ ''/''"
    using j \<open>key_of t \<noteq> []\<close> by (simp add: path_join_append startswith_def)
qed

lemma dir_base:
  assumes "dir_name t"
  shows "container_base (t @ [[]]) = key_of t @ ''/''" and "list_path (container_base (t @ [[]])) = key_of t"
    and "parent_base (t @ [x]) = key_of t @ ''/''"
  using path_join_dir [OF assms]
  by (simp_all add: container_base_def parent_base_def list_path_def rstrip_ch_id)

lemma dir_trail_facts:
  assumes "dir_name t"
  shows "names_container (t @ [[]])" and "2 \<le> length (t @ [[]])"
  using assms by (cases t; simp add: names_container_def dir_name_def)+

text \<open>The parent of a container is there when it is a user's top container or known.\<close>

definition parent_there :: "view \<Rightarrow> string list \<Rightarrow> bool" where
  "parent_there V t = (length t = 1 \<or> known V (key_of (butlast t) @ ''/''))"

lemma parent_there_base:
  assumes "dir_name t"
  shows "parent_there V t = (length (t @ [[]]) = 2 \<or> known V (parent_base (butlast (t @ [[]]))))"
proof (cases "length t = 1")
  case False
  then have "dir_name (butlast t)" and t: "t = butlast t @ [last t]"
    using assms by (auto simp: dir_name_def dest: in_set_butlastD) (cases t; auto)
  from dir_base(3) [OF this(1), of "last t"] t False show ?thesis
    by (simp add: parent_there_def)
qed (simp add: parent_there_def)

context container_store begin

lemma api_mkdir_fresh:
  assumes "ok (cx_store c)" and "se_store se = S" and "allows_simple se"
    and "below_secrets req (t @ [[]])" and "rq_command req = ''POST''" and t: "dir_name t"
    and "rq_body req = None" and "parent_there (view (cx_store c)) t"
    and "view (cx_store c) (key_of t) = None"
  shows "\<exists>c'. consumer_handle E (root_consumer E (Some se)) req c = (Inr (coded 201), c')
    \<and> ok (cx_store c') \<and> view (cx_store c') = (view (cx_store c))(key_of t \<mapsto> Dir)"
proof -
  let ?req = "req\<lparr>rq_trail := Some (t @ [[]])\<rparr>"
  obtain w where "secrets_create E se (t @ [[]]) ?req (start c) = (Inr (), (start c)\<lparr>cx_store := w,
      cx_resp := set_code 201 empty_response\<rparr>)" and w: "ok w" "view w = (view (cx_store c))(key_of t \<mapsto> Dir)"
    using create_fresh [of "start c" se ?req "t @ [[]]" E] assms dir_base [OF t] dir_trail_facts [OF t]
      parent_there_base [OF t] by auto
  then have run: "secrets_POST E se ?req (start c) = (Inr (), (start c)\<lparr>cx_store := w,
      cx_resp := set_code 201 empty_response\<rparr>)"
    by (simp add: container_requests [OF dir_trail_facts(1) [OF t]])
  from root_POST(2) [OF assms(4,5) run] w show ?thesis by (simp add: finish_coded)
qed

lemma api_mkdir_taken:
  assumes "ok (cx_store c)" and "se_store se = S" and "allows_simple se"
    and "below_secrets req (t @ [[]])" and "rq_command req = ''POST''" and t: "dir_name t"
    and "rq_body req = None" and "parent_there (view (cx_store c)) t"
    and "view (cx_store c) (key_of t) \<noteq> None"
  shows "\<exists>c'. consumer_handle E (root_consumer E (Some se)) req c = (Inr (coded 200), c')
    \<and> cx_store c' = cx_store c"
proof -
  let ?req = "req\<lparr>rq_trail := Some (t @ [[]])\<rparr>"
  have "secrets_create E se (t @ [[]]) ?req (start c) = (Inr (), (start c)\<lparr>cx_resp := set_code 200 empty_response\<rparr>)"
    using create_taken [of "start c" se ?req "t @ [[]]" E] assms dir_base [OF t] dir_trail_facts [OF t]
      parent_there_base [OF t] by auto
  then have run: "secrets_POST E se ?req (start c) = (Inr (), (start c)\<lparr>cx_resp := set_code 200 empty_response\<rparr>)"
    by (simp add: container_requests [OF dir_trail_facts(1) [OF t]])
  from root_POST(2) [OF assms(4,5) run] show ?thesis by (simp add: finish_coded)
qed

lemma api_list:
  assumes "ok (cx_store c)" and "se_store se = S" and "allows_simple se"
    and "below_secrets req (t @ [[]])" and "rq_command req = ''GET''" and t: "dir_name t"
    and "no_query req" and "known (view (cx_store c)) (key_of t @ ''/'')"
  shows "\<exists>r c' names. consumer_handle E (root_consumer E (Some se)) req c = (Inr r, c')
    \<and> rs_code r = None \<and> rs_output r = Some (OBytes (utf8_encode (jo_json_encode (en_jose E) (names_json names))))
    \<and> sorted names \<and> set names = child_names (view (cx_store c)) (key_of t @ ''/'')
    \<and> cx_store c' = cx_store c"
proof -
  let ?req = "req\<lparr>rq_trail := Some (t @ [[]])\<rparr>"
  obtain names where "secrets_list E se (t @ [[]]) ?req (start c) = (Inr (), (start c)\<lparr>
      cx_resp := set_json (names_json names) empty_response\<rparr>)"
    and n: "sorted names" "set names = child_names (view (cx_store c)) (key_of t @ ''/'')"
    using secrets_list_known [of "start c" se ?req "t @ [[]]" E] assms dir_base [OF t] dir_trail_facts [OF t]
    by auto
  then have run: "secrets_GET E se ?req (start c) = (Inr (), (start c)\<lparr>
      cx_resp := set_json (names_json names) empty_response\<rparr>)"
    by (simp add: container_requests [OF dir_trail_facts(1) [OF t]])
  obtain r where r: "finish (jo_json_encode (en_jose E)) None (set_json (names_json names) empty_response) = Inr r"
    "rs_code r = None" "rs_output r = Some (OBytes (utf8_encode (jo_json_encode (en_jose E) (names_json names))))"
    using finish_names [of "jo_json_encode (en_jose E)"] unfolding names_json_def by blast
  from root_GET_run(2) [OF assms(4,5) run, where r = r] r n show ?thesis by auto
qed

lemma api_rmdir_empty:
  assumes "ok (cx_store c)" and "se_store se = S" and "allows_simple se"
    and "below_secrets req (t @ [[]])" and "rq_command req = ''DELETE''" and t: "dir_name t"
    and "rq_body req = None" and "child_names (view (cx_store c)) (key_of t @ ''/'') = {}"
    and "view (cx_store c) (key_of t) \<noteq> None"
  shows "\<exists>c'. consumer_handle E (root_consumer E (Some se)) req c = (Inr (coded 204), c')
    \<and> ok (cx_store c') \<and> view (cx_store c') = (view (cx_store c))(key_of t := None)"
proof -
  let ?req = "req\<lparr>rq_trail := Some (t @ [[]])\<rparr>"
  obtain w where "secrets_destroy E se (t @ [[]]) ?req (start c) = (Inr (), (start c)\<lparr>cx_store := w,
      cx_resp := set_code 204 empty_response\<rparr>)" and w: "ok w" "view w = (view (cx_store c))(key_of t := None)"
    using destroy_empty [of "start c" se ?req "t @ [[]]" E] assms dir_base [OF t] dir_trail_facts [OF t] by auto
  then have run: "secrets_DELETE E se ?req (start c) = (Inr (), (start c)\<lparr>cx_store := w,
      cx_resp := set_code 204 empty_response\<rparr>)"
    by (simp add: container_requests [OF dir_trail_facts(1) [OF t]])
  from root_DELETE(2) [OF assms(4,5) run] w show ?thesis by (simp add: finish_coded)
qed

lemma api_rmdir_refused:
  assumes "ok (cx_store c)" and "se_store se = S" and "allows_simple se"
    and "below_secrets req (t @ [[]])" and "rq_command req = ''DELETE''" and t: "dir_name t"
    and "rq_body req = None"
  shows "child_names (view (cx_store c)) (key_of t @ ''/'') \<noteq> {} \<Longrightarrow>
      consumer_handle E (root_consumer E (Some se)) req c = (Inl (HTTPError 409), start c)"
    and "\<not> known (view (cx_store c)) (key_of t @ ''/'') \<Longrightarrow>
      consumer_handle E (root_consumer E (Some se)) req c = (Inl (HTTPError 404), start c)"
proof -
  let ?req = "req\<lparr>rq_trail := Some (t @ [[]])\<rparr>"
  assume "child_names (view (cx_store c)) (key_of t @ ''/'') \<noteq> {}"
  then have "secrets_destroy E se (t @ [[]]) ?req (start c) = (Inl (HTTPError 409), start c)"
    using destroy_nonempty [of "start c" se ?req "t @ [[]]" E] assms dir_base [OF t] dir_trail_facts [OF t] by auto
  then have run: "secrets_DELETE E se ?req (start c) = (Inl (HTTPError 409), start c)"
    by (simp add: container_requests [OF dir_trail_facts(1) [OF t]])
  from root_DELETE(1) [OF assms(4,5) run]
  show "consumer_handle E (root_consumer E (Some se)) req c = (Inl (HTTPError 409), start c)" .
next
  let ?req = "req\<lparr>rq_trail := Some (t @ [[]])\<rparr>"
  assume "\<not> known (view (cx_store c)) (key_of t @ ''/'')"
  then have "secrets_destroy E se (t @ [[]]) ?req (start c) = (Inl (HTTPError 404), start c)"
    using destroy_absent [of "start c" se ?req "t @ [[]]" E] assms dir_base [OF t] dir_trail_facts [OF t] by auto
  then have run: "secrets_DELETE E se ?req (start c) = (Inl (HTTPError 404), start c)"
    by (simp add: container_requests [OF dir_trail_facts(1) [OF t]])
  from root_DELETE(1) [OF assms(4,5) run]
  show "consumer_handle E (root_consumer E (Some se)) req c = (Inl (HTTPError 404), start c)" .
qed

lemma api_mkdir_orphan:
  assumes "ok (cx_store c)" and "se_store se = S" and "allows_simple se"
    and "below_secrets req (t @ [[]])" and "rq_command req = ''POST''" and t: "dir_name t"
    and "rq_body req = None" and "rq_default_namespace req = None"
    and "\<not> parent_there (view (cx_store c)) t"
  shows "consumer_handle E (root_consumer E (Some se)) req c = (Inl (HTTPError 404), start c)"
proof -
  let ?req = "req\<lparr>rq_trail := Some (t @ [[]])\<rparr>"
  have "2 < length (t @ [[]])" "\<not> known (view (cx_store c)) (parent_base (butlast (t @ [[]])))"
    using assms(9) dir_trail_facts(2) [OF t] by (auto simp: parent_there_base [OF t])
  then have "secrets_create E se (t @ [[]]) ?req (start c) = (Inl (HTTPError 404), start c)"
    using create_no_parent [of "start c" se ?req "t @ [[]]" E] assms by auto
  then have run: "secrets_POST E se ?req (start c) = (Inl (HTTPError 404), start c)"
    by (simp add: container_requests [OF dir_trail_facts(1) [OF t]])
  from root_POST(1) [OF assms(4,5) run] show ?thesis .
qed

lemma api_list_unknown:
  assumes "ok (cx_store c)" and "se_store se = S" and "allows_simple se"
    and "below_secrets req (t @ [[]])" and "rq_command req = ''GET''" and t: "dir_name t"
    and "no_query req" and "\<not> known (view (cx_store c)) (key_of t @ ''/'')"
  shows "consumer_handle E (root_consumer E (Some se)) req c = (Inl (HTTPError 404), start c)"
proof -
  let ?req = "req\<lparr>rq_trail := Some (t @ [[]])\<rparr>"
  have "secrets_list E se (t @ [[]]) ?req (start c) = (Inl (HTTPError 404), start c)"
    using secrets_list_unknown [of "start c" se ?req "t @ [[]]" E] assms dir_base [OF t] dir_trail_facts [OF t] by auto
  then have run: "secrets_GET E se ?req (start c) = (Inl (HTTPError 404), start c)"
    by (simp add: container_requests [OF dir_trail_facts(1) [OF t]])
  from root_GET_run(1) [OF assms(4,5) run] show ?thesis .
qed

end

context marked_store begin

lemma api_get_mark:
  assumes "ok (cx_store c)" and "se_store se = S" and "allows_simple se"
    and "below_secrets req trail" and "rq_command req = ''GET''" and t: "key_trail trail"
    and "client_name req = Inr cl" and "no_query req" and "view (cx_store c) (key_of trail) = Some Dir"
  shows "\<exists>c'. consumer_handle E (root_consumer E (Some se)) req c = (Inl (HTTPError 406), c')
    \<and> cx_store c' = cx_store c
    \<and> cx_audit c' = cx_audit c @ [audit_key_entry (se_origin se) AUDIT_GET_DENIED cl (py_join ''/'' trail)]"
proof -
  let ?req = "req\<lparr>rq_trail := Some trail\<rparr>"
  have "get_key E se trail ?req (start c) = (Inl (HTTPError 406), (start c)\<lparr>
      cx_audit := cx_audit c @ [audit_key_entry (se_origin se) AUDIT_GET_DENIED cl (py_join ''/'' trail)]\<rparr>)"
    using get_key_mark [of "start c" se ?req cl trail "key_of trail" E] assms key_trail_facts [OF t] by auto
  then have run: "secrets_GET E se ?req (start c) = (Inl (HTTPError 406), (start c)\<lparr>
      cx_audit := cx_audit c @ [audit_key_entry (se_origin se) AUDIT_GET_DENIED cl (py_join ''/'' trail)]\<rparr>)"
    by (simp add: key_request_GET [OF t])
  from root_GET_run(1) [OF assms(4,5) run] show ?thesis by simp
qed

end

end
