(* ===== verification/Authn.thy ===== *)
theory Authn
  imports Requests
begin

text \<open>
  \<open>src/custodia/httpd/authenticators.py\<close>: the authenticators. One answers \<open>True\<close>, \<open>False\<close> or
  \<open>None\<close> (does not apply), may log, may read its store, and may add \<open>remote_user\<close> to the
  request; a \<open>checker\<close> returns the verdict and the request it leaves behind. Authorizers have
  the same type.

  Shown: the contract of an authenticator, as a locale interpreted on all four (only a \<open>True\<close>
  verdict names a user, and the audit log gets an entry of the login with that name), and that a
  key login succeeds exactly on the stored key. The fifth authenticator is in \<open>IpaInterface\<close>.
\<close>

type_synonym ('w, 'k) checker =
  "'w request \<Rightarrow> ('w, 'k, bool option \<times> 'w request) act"

text \<open>Logging a service access and giving the verdict.\<close>

definition verdict ::
    "string \<Rightarrow> nat \<Rightarrow> 'w request \<Rightarrow> audit_arg \<Rightarrow> bool option \<times> 'w request
     \<Rightarrow> ('w, 'k, bool option \<times> 'w request) act" where
  "verdict origin action req name result =
     py_bind (add_audit (audit_svc_entry origin action (rq_client_id req) name)) (\<lambda>_.
       py_return result)"

lemma verdict_apply [py_simps]:
  "verdict origin action req name result c =
     (Inr result, c\<lparr>cx_audit := cx_audit c @ [audit_svc_entry origin action (rq_client_id req) name]\<rparr>)"
  by (simp add: verdict_def py_simps)

subsection \<open>\<open>SimpleCredsAuth\<close>\<close>

record creds_auth =
  ca_origin :: string
  ca_uid :: int
  ca_gid :: int

definition SimpleCredsAuth_handle :: "creds_auth \<Rightarrow> ('w, 'k) checker" where
  "SimpleCredsAuth_handle a req = (case rq_creds req of
      None \<Rightarrow> py_return (Some False, req)
    | Some creds \<Rightarrow>
        (let uid = cr_uid creds; gid = cr_gid creds;
             uid_match = (ca_uid a \<noteq> -1 \<and> ca_uid a = uid);
             gid_match = (ca_gid a \<noteq> -1 \<and> ca_gid a = gid);
             name = AStr (show_int uid @ '', '' @ show_int gid)
         in if uid_match \<or> gid_match
            then verdict (ca_origin a) AUDIT_SVC_AUTH_PASS req name (Some True, req)
            else verdict (ca_origin a) AUDIT_SVC_AUTH_FAIL req name (Some False, req)))"

subsection \<open>\<open>SimpleHeaderAuth\<close>\<close>

record header_auth =
  ha_origin :: string
  ha_header :: string
  ha_value :: "string set option"

definition SimpleHeaderAuth_handle :: "header_auth \<Rightarrow> ('w, 'k) checker" where
  "SimpleHeaderAuth_handle a req = (case header_get (rq_headers req) (ha_header a) of
      None \<Rightarrow> py_return (None, req)
    | Some value \<Rightarrow>
        if (case ha_value a of None \<Rightarrow> False | Some vs \<Rightarrow> value \<notin> vs)
        then verdict (ha_origin a) AUDIT_SVC_AUTH_FAIL req (AStr value) (Some False, req)
        else verdict (ha_origin a) AUDIT_SVC_AUTH_PASS req (AStr value)
               (Some True, req\<lparr>rq_remote_user := Some value\<rparr>))"

subsection \<open>\<open>SimpleAuthKeys\<close>\<close>

text \<open>
  \<open>constant_time.bytes_eq\<close> comes from the package \<open>cryptography\<close>; it is the argument \<open>bytes_eq\<close>.
  The body of the \<open>try\<close> block is \<open>sak_check\<close>; every exception in it is a failed login. A
  missing id or key raises in it (\<open>os.path.join\<close> and \<open>encode\<close> on \<open>None\<close>), as does a stored
  value that is not a text.
\<close>

record 'w auth_keys =
  ak_origin :: string
  ak_id_header :: string
  ak_key_header :: string
  ak_store :: "'w store_ops"
  ak_namespace :: string

definition ak_db_key :: "'w auth_keys \<Rightarrow> string option \<Rightarrow> string res" where
  "ak_db_key a name = (case name of
      None \<Rightarrow> Inl TypeError
    | Some n \<Rightarrow> Inr (path_join (ak_namespace a) [n]))"

definition encode_value :: "json \<Rightarrow> bytes res" where
  "encode_value v = (case v of JStr s \<Rightarrow> Inr (utf8_encode s) | _ \<Rightarrow> Inl AttributeError)"

definition encode_key :: "string option \<Rightarrow> bytes res" where
  "encode_key k = (case k of None \<Rightarrow> Inl AttributeError | Some s \<Rightarrow> Inr (utf8_encode s))"

definition sak_check ::
    "(bytes \<Rightarrow> bytes \<Rightarrow> bool) \<Rightarrow> 'w auth_keys \<Rightarrow> string option \<Rightarrow> string option \<Rightarrow> ('w, 'k, bool) act"
where
  "sak_check bytes_eq a name key =
     py_bind (py_lift (ak_db_key a name)) (\<lambda>dbkey.
     py_bind (on_store (st_get (ak_store a) dbkey)) (\<lambda>val.
       if val = JNull then py_raise ValueError
       else py_bind (py_lift (encode_value val)) (\<lambda>v.
            py_bind (py_lift (encode_key key)) (\<lambda>k.
              py_return (bytes_eq v k)))))"

definition opt_arg :: "string option \<Rightarrow> audit_arg" where
  "opt_arg n = (case n of None \<Rightarrow> ANone | Some s \<Rightarrow> AStr s)"

definition SimpleAuthKeys_handle ::
    "(bytes \<Rightarrow> bytes \<Rightarrow> bool) \<Rightarrow> 'w auth_keys \<Rightarrow> ('w, 'k) checker" where
  "SimpleAuthKeys_handle bytes_eq a req =
     (let name = header_get (rq_headers req) (ak_id_header a);
          key = header_get (rq_headers req) (ak_key_header a)
      in if name = None \<and> key = None then py_return (None, req)
         else py_bind (py_try (sak_check bytes_eq a name key) (\<lambda>_. py_return False)) (\<lambda>validated.
           if validated
           then verdict (ak_origin a) AUDIT_SVC_AUTH_PASS req (opt_arg name)
                  (Some True, req\<lparr>rq_remote_user := name\<rparr>)
           else verdict (ak_origin a) AUDIT_SVC_AUTH_FAIL req (opt_arg name) (Some False, req)))"

subsection \<open>\<open>SimpleClientCertAuth\<close>\<close>

record cert_auth =
  cc_origin :: string
  cc_header :: string

definition dn_quote :: "string \<times> string \<Rightarrow> string" where
  "dn_quote kv = fst kv @ ''=\"'' @ replace_ch (CHR 0x22) [CHR 0x5C, CHR 0x22] (snd kv) @ [CHR 0x22]"

text \<open>The two nested loops; the inner one stops at a common name, the outer one goes on.\<close>

fun scan_rdn ::
    "(string \<times> string) list \<Rightarrow> string list \<times> string option \<Rightarrow> string list \<times> string option" where
  "scan_rdn [] (dn, name) = (dn, name)"
| "scan_rdn ((k, v) # rdn) (dn, name) =
     (if k = ''commonName'' then (dn @ [dn_quote (k, v)], Some v)
      else scan_rdn rdn (dn @ [dn_quote (k, v)], name))"

fun scan_subject ::
    "(string \<times> string) list list \<Rightarrow> string list \<times> string option \<Rightarrow> string list \<times> string option"
where
  "scan_subject [] acc = acc"
| "scan_subject (rdn # rest) acc = scan_subject rest (scan_rdn rdn acc)"

definition SimpleClientCertAuth_handle :: "cert_auth \<Rightarrow> ('w, 'k) checker" where
  "SimpleClientCertAuth_handle a req =
     (let cert_auth = py_lower (case header_get (rq_headers req) (cc_header a) of
             None \<Rightarrow> ''false'' | Some v \<Rightarrow> v)
      in case rq_client_cert req of
           Cert subject \<Rightarrow>
             if cert_auth \<notin> set [''1'', ''yes'', ''true'', ''on''] then py_return (None, req)
             else (case scan_subject (case subject of None \<Rightarrow> [] | Some s \<Rightarrow> s) ([], None) of
               (dn, name) \<Rightarrow>
                 (case name of
                    Some (n # ns) \<Rightarrow> verdict (cc_origin a) AUDIT_SVC_AUTH_PASS req (AStr (n # ns))
                        (Some True, req\<lparr>rq_remote_user := Some (n # ns)\<rparr>)
                  | _ \<Rightarrow> verdict (cc_origin a) AUDIT_SVC_AUTH_FAIL req (AStr (py_join '', '' dn))
                        (Some False, req)))
         | _ \<Rightarrow> py_return (None, req))"

subsection \<open>What the verdicts mean\<close>

text \<open>
  The contract of an authenticator: of the request it changes at most the user's name and the mark
  of \<open>IPAInterface\<close>, which it never takes away; \<open>True\<close> leaves an entry of a passed login in the
  audit log, only \<open>True\<close> changes the name, and then that name is in the entry.
\<close>

definition pass_entry :: "'w request \<Rightarrow> audit_arg \<Rightarrow> audit_entry list \<Rightarrow> bool" where
  "pass_entry req name es =
     (\<exists>origin. audit_svc_entry origin AUDIT_SVC_AUTH_PASS (rq_client_id req) name \<in> set es)"

definition accounted :: "'w request \<Rightarrow> audit_entry list \<Rightarrow> bool \<Rightarrow> 'w request \<Rightarrow> bool" where
  "accounted req es passed req' = (\<exists>u i. req' = req\<lparr>rq_remote_user := u, rq_ipa := i\<rparr>
     \<and> (rq_ipa req \<longrightarrow> i)
     \<and> (passed \<longrightarrow> (\<exists>name. pass_entry req name es))
     \<and> (u \<noteq> rq_remote_user req \<longrightarrow> (\<exists>name. u = Some name \<and> pass_entry req (AStr name) es)))"

definition polite_result ::
    "'w request \<Rightarrow> ('w, 'k) ctx \<Rightarrow> (bool option \<times> 'w request) res \<times> ('w, 'k) ctx \<Rightarrow> bool" where
  "polite_result req c r = (case r of
      (Inl e, c') \<Rightarrow> True
    | (Inr (v, req'), c') \<Rightarrow>
        (v \<noteq> Some True \<longrightarrow> rq_remote_user req' = rq_remote_user req)
        \<and> (\<exists>es. cx_audit c' = cx_audit c @ es \<and> length es \<le> 1 \<and> accounted req es (v = Some True) req'))"

lemma pass_entry_simps [simp]:
  "pass_entry (req\<lparr>rq_remote_user := u\<rparr>) = pass_entry req" "pass_entry (req\<lparr>rq_ipa := i\<rparr>) = pass_entry req"
  "pass_entry req name [] = False"
  "pass_entry req name (es @ fs) \<longleftrightarrow> pass_entry req name es \<or> pass_entry req name fs"
  by (auto simp: pass_entry_def fun_eq_iff)

lemma pass_entry_one [simp]:
  "pass_entry req name [audit_svc_entry origin AUDIT_SVC_AUTH_PASS (rq_client_id req) name]"
  by (auto simp: pass_entry_def)

lemma accounted_same [simp]: "accounted req es False req"
  unfolding accounted_def by (intro exI [of _ "rq_remote_user req"] exI [of _ "rq_ipa req"]) simp

lemma accounted_trans:
  assumes "accounted req es p req1" and "accounted req1 fs q req'"
  shows "accounted req (es @ fs) (p \<or> q) req'"
proof -
  from assms(1) obtain u i where 1: "req1 = req\<lparr>rq_remote_user := u, rq_ipa := i\<rparr>" "rq_ipa req \<longrightarrow> i"
    "p \<longrightarrow> (\<exists>name. pass_entry req name es)"
    "u \<noteq> rq_remote_user req \<longrightarrow> (\<exists>name. u = Some name \<and> pass_entry req (AStr name) es)"
    unfolding accounted_def by blast
  from assms(2) obtain v j where 2: "req' = req1\<lparr>rq_remote_user := v, rq_ipa := j\<rparr>" "rq_ipa req1 \<longrightarrow> j"
    "q \<longrightarrow> (\<exists>name. pass_entry req1 name fs)"
    "v \<noteq> rq_remote_user req1 \<longrightarrow> (\<exists>name. v = Some name \<and> pass_entry req1 (AStr name) fs)"
    unfolding accounted_def by blast
  show ?thesis
    unfolding accounted_def
    using 1 2 by (intro exI [of _ v] exI [of _ j]) auto
qed

locale authenticator =
  fixes h :: "('w, 'k) checker"
  assumes polite: "polite_result req c (h req c)"
begin

lemma only_True_names: "h req c = (Inr (v, req'), c') \<Longrightarrow> v \<noteq> Some True \<Longrightarrow> rq_remote_user req' = rq_remote_user req"
  using polite [of req c] by (simp add: polite_result_def)

lemma evidence:
  assumes "h req c = (Inr (v, req'), c')"
  shows "\<exists>es. cx_audit c' = cx_audit c @ es \<and> accounted req es (v = Some True) req'"
  using polite [of req c] assms by (auto simp: polite_result_def)

lemma changes_little:
  assumes "h req c = (Inr (v, req'), c')"
  shows "\<exists>u i. req' = req\<lparr>rq_remote_user := u, rq_ipa := i\<rparr>"
  using evidence [OF assms] by (auto simp: accounted_def)

end

named_theorems polite_intros "results that follow the rules of authenticators"

lemma polite_unmoved [polite_intros]: "v \<noteq> Some True \<Longrightarrow> polite_result req c (py_return (v, req) c)"
  by (simp add: polite_result_def py_simps)

lemma polite_verdict [polite_intros]:
  "polite_result req c (verdict org act req name (Some False, req) c)"
  "polite_result req c (verdict org AUDIT_SVC_AUTH_PASS req name (Some True, req) c)"
  "polite_result req c (verdict org AUDIT_SVC_AUTH_PASS req (AStr u) (Some True, req\<lparr>rq_remote_user := Some u\<rparr>) c)"
proof -
  show "polite_result req c (verdict org act req name (Some False, req) c)"
    by (simp add: polite_result_def py_simps)
  have "accounted req [audit_svc_entry org AUDIT_SVC_AUTH_PASS (rq_client_id req) name] True req"
    unfolding accounted_def
    by (intro exI [of _ "rq_remote_user req"] exI [of _ "rq_ipa req"]) (auto intro: exI [of _ name] pass_entry_one)
  then show "polite_result req c (verdict org AUDIT_SVC_AUTH_PASS req name (Some True, req) c)"
    by (simp add: polite_result_def py_simps)
  have "accounted req [audit_svc_entry org AUDIT_SVC_AUTH_PASS (rq_client_id req) (AStr u)] True
      (req\<lparr>rq_remote_user := Some u\<rparr>)"
    unfolding accounted_def
    by (intro exI [of _ "Some u"] exI [of _ "rq_ipa req"]) (auto intro: exI [of _ "AStr u"] pass_entry_one)
  then show "polite_result req c (verdict org AUDIT_SVC_AUTH_PASS req (AStr u) (Some True, req\<lparr>rq_remote_user := Some u\<rparr>) c)"
    by (simp add: polite_result_def py_simps)
qed

interpretation creds: authenticator "SimpleCredsAuth_handle a" for a
  by unfold_locales
     (auto simp: SimpleCredsAuth_handle_def Let_def intro!: polite_intros split: option.splits)

interpretation header: authenticator "SimpleHeaderAuth_handle a" for a
  by unfold_locales
     (auto simp: SimpleHeaderAuth_handle_def intro!: polite_intros split: option.splits)

interpretation cert: authenticator "SimpleClientCertAuth_handle a" for a
  by unfold_locales
     (auto simp: SimpleClientCertAuth_handle_def Let_def intro!: polite_intros
       split: option.splits peer_cert.splits list.splits prod.splits)

lemma sak_check_audit [audit_intros]: "audit_same (sak_check f a n k)"
  unfolding sak_check_def by (auto intro!: audit_intros)

lemma sak_check_caught:
  "\<exists>b c'. py_try (sak_check f a n k) (\<lambda>_. py_return False) c = (Inr b, c')
      \<and> cx_audit c' = cx_audit c \<and> (b \<longrightarrow> n \<noteq> None)"
proof -
  obtain r c' where r: "sak_check f a n k c = (r, c')" by (cases "sak_check f a n k c")
  then have "cx_audit c' = cx_audit c" using sak_check_audit audit_sameD by metis
  moreover have "n = None \<Longrightarrow> is_err r"
    using r by (auto simp: sak_check_def ak_db_key_def py_simps)
  ultimately show ?thesis using r by (cases r) (auto simp: py_simps)
qed

interpretation keys: authenticator "SimpleAuthKeys_handle f a" for f a
proof
  fix req :: "'a request" and c :: "('a, 'b) ctx"
  let ?n = "header_get (rq_headers req) (ak_id_header a)"
  let ?k = "header_get (rq_headers req) (ak_key_header a)"
  from sak_check_caught [of f a ?n ?k c] obtain b c1 where
    r: "py_try (sak_check f a ?n ?k) (\<lambda>_. py_return False) c = (Inr b, c1)"
    and a: "cx_audit c1 = cx_audit c" and n: "b \<longrightarrow> ?n \<noteq> None" by blast
  have "SimpleAuthKeys_handle f a req c =
    (if ?n = None \<and> ?k = None then py_return (None, req) c
     else if b then verdict (ak_origin a) AUDIT_SVC_AUTH_PASS req (opt_arg ?n)
            (Some True, req\<lparr>rq_remote_user := ?n\<rparr>) c1
     else verdict (ak_origin a) AUDIT_SVC_AUTH_FAIL req (opt_arg ?n) (Some False, req) c1)"
    using r by (simp only: SimpleAuthKeys_handle_def Let_def py_bind_def split: if_split) auto
  moreover have "polite_result req c (verdict org act req name res c1) = polite_result req c (verdict org act req name res c)"
    for org act name res by (cases res) (simp add: polite_result_def py_simps a)
  ultimately show "polite_result req c (SimpleAuthKeys_handle f a req c)"
    using n by (auto simp: opt_arg_def intro!: polite_intros)
qed

text \<open>
  A key login succeeds exactly when the store holds the offered key under the offered id; no
  failure of the store, of the headers or of the value lets anybody in.
\<close>

lemma sak_check_Inr:
  "sak_check bytes_eq a (Some n) (Some k) c =
     (case st_get (ak_store a) (path_join (ak_namespace a) [n]) (cx_store c) of
        (r, w) \<Rightarrow> (rbind r (\<lambda>v. if v = JNull then Inl ValueError
           else rbind (encode_value v) (\<lambda>b. Inr (bytes_eq b (utf8_encode k)))), c\<lparr>cx_store := w\<rparr>))"
proof -
  obtain r w where g: "st_get (ak_store a) (path_join (ak_namespace a) [n]) (cx_store c) = (r, w)"
    by fastforce
  show ?thesis
  proof (cases r)
    case (Inl e)
    then show ?thesis
      by (simp add: sak_check_def ak_db_key_def py_bind_def py_lift_def on_store_def g del: path_join.simps)
  next
    case (Inr v)
    then show ?thesis
      by (cases v; simp add: sak_check_def ak_db_key_def encode_key_def encode_value_def py_bind_def
          py_lift_def py_raise_def py_return_def on_store_def g del: path_join.simps)
  qed
qed

lemma sak_check_None:
  "\<not> (\<exists>c'. sak_check bytes_eq a None key c = (Inr True, c'))"
  "\<not> (\<exists>c'. sak_check bytes_eq a name None c = (Inr True, c'))"
  by (auto simp: sak_check_def ak_db_key_def encode_key_def py_bind_def py_lift_def
      on_store_def py_return_def py_raise_def split: prod.splits sum.splits if_splits)

lemma sak_check_iff:
  assumes "\<And>a b. bytes_eq a b = (a = b)"
  shows "(\<exists>c'. sak_check bytes_eq a name key c = (Inr True, c')) \<longleftrightarrow>
    (\<exists>n k. name = Some n \<and> key = Some k
      \<and> fst (st_get (ak_store a) (path_join (ak_namespace a) [n]) (cx_store c)) = Inr (JStr k))"
proof (cases "name = None \<or> key = None")
  case True
  then show ?thesis using sak_check_None by blast
next
  case False
  then obtain n k where nk: "name = Some n" "key = Some k" by auto
  obtain r w where g: "st_get (ak_store a) (path_join (ak_namespace a) [n]) (cx_store c) = (r, w)"
    by fastforce
  show ?thesis
    by (cases r; cases "projr r")
       (auto simp: nk g sak_check_Inr encode_value_def assms utf8_encode_inj simp del: path_join.simps)
qed

text \<open>C22: A key login is accepted exactly when the request carries an id and a key and the store
  returns that very key for that id; no failure of the store, of the headers or of the stored
  value lets anybody in.\<close>

theorem key_login_iff:
  assumes "\<And>a b. bytes_eq a b = (a = b)"
  shows "(\<exists>req' c'. SimpleAuthKeys_handle bytes_eq a req c = (Inr (Some True, req'), c')) \<longleftrightarrow>
    (\<exists>n k. header_get (rq_headers req) (ak_id_header a) = Some n
      \<and> header_get (rq_headers req) (ak_key_header a) = Some k
      \<and> fst (st_get (ak_store a) (path_join (ak_namespace a) [n]) (cx_store c)) = Inr (JStr k))"
    (is "?login \<longleftrightarrow> ?stored")
proof -
  let ?n = "header_get (rq_headers req) (ak_id_header a)"
  let ?k = "header_get (rq_headers req) (ak_key_header a)"
  have "?login \<longleftrightarrow> (\<exists>c'. sak_check bytes_eq a ?n ?k c = (Inr True, c'))" (is "_ \<longleftrightarrow> ?checked")
  proof
    assume ?login
    then show ?checked
      by (auto simp: SimpleAuthKeys_handle_def Let_def py_bind_def py_try_def py_return_def
          verdict_apply split: if_splits prod.splits sum.splits)
  next
    assume ch: ?checked
    then have "?n \<noteq> None" using sak_check_None by metis
    with ch show ?login
      by (auto simp: SimpleAuthKeys_handle_def Let_def py_bind_def py_try_def py_return_def verdict_apply)
  qed
  also have "?checked \<longleftrightarrow> ?stored" by (rule sak_check_iff [OF assms])
  finally show ?thesis .
qed

definition sample_keys :: "unit auth_keys" where
  "sample_keys = \<lparr>ak_origin = ''keys'', ak_id_header = ''CUSTODIA_AUTH_ID'', ak_key_header = ''CUSTODIA_AUTH_KEY'',
     ak_store = CSStore_base (\<lambda>k. py_return (if k = ''custodiaSAK/alice'' then JStr ''pw'' else JNull))
       (\<lambda>k v r. py_raise NotImplementedError),
     ak_namespace = ''custodiaSAK''\<rparr>"

theorem key_login_iff_witness:
  "(\<exists>req' c'. SimpleAuthKeys_handle (=) sample_keys
      (sample_request ''GET'' ''/'' [(''CUSTODIA_AUTH_ID'', ''alice''), (''CUSTODIA_AUTH_KEY'', ''pw'')])
      (sample_ctx ()) = (Inr (Some True, req'), c'))
   \<and> \<not> (\<exists>req' c'. SimpleAuthKeys_handle (=) sample_keys
      (sample_request ''GET'' ''/'' [(''CUSTODIA_AUTH_ID'', ''alice'')])
      (sample_ctx ()) = (Inr (Some True, req'), c'))"
proof -
  have k: "ak_store sample_keys = CSStore_base (\<lambda>k. py_return (if k = ''custodiaSAK/alice'' then JStr ''pw'' else JNull))
       (\<lambda>k v r. py_raise NotImplementedError)" "ak_namespace sample_keys = ''custodiaSAK''"
    "ak_id_header sample_keys = ''CUSTODIA_AUTH_ID''" "ak_key_header sample_keys = ''CUSTODIA_AUTH_KEY''"
    by (simp_all add: sample_keys_def)
  have "header_get [(''CUSTODIA_AUTH_ID'', ''alice''), (''CUSTODIA_AUTH_KEY'', ''pw'')] ''CUSTODIA_AUTH_ID'' = Some ''alice''"
    "header_get [(''CUSTODIA_AUTH_ID'', ''alice''), (''CUSTODIA_AUTH_KEY'', ''pw'')] ''CUSTODIA_AUTH_KEY'' = Some ''pw''"
    "header_get [(''CUSTODIA_AUTH_ID'', ''alice'')] ''CUSTODIA_AUTH_KEY'' = None"
    "path_join ''custodiaSAK'' [''alice''] = ''custodiaSAK/alice''" by code_simp+
  then show ?thesis
    by (simp add: key_login_iff [of "(=)"] k CSStore_base_def py_return_apply)
qed

end
