(* ===== verification/Authz.thy ===== *)
theory Authz
  imports Authn
begin

text \<open>
  \<open>src/custodia/httpd/authorizers.py\<close> and \<open>KEMKeysStore.handle\<close> of \<open>message/kem.py\<close>. The walk
  of \<open>SimplePathAuthz\<close> from the request path towards the root is a \<open>while\<close> loop whose end
  depends on \<open>os.path.split\<close>, so it is a \<open>partial_function\<close>: \<open>None\<close> means it never returns.

  Shown: the walk ends on every path that does not begin with two slashes, and answers whether
  one of the path's parents is listed; on a path such as \<open>//x\<close> it does not end;
  \<open>UserNameSpace\<close> lets a user into his own subtree only.
\<close>

text \<open>An authorizer is a checker that may not return; \<open>always_ends\<close> is one that does.\<close>

type_synonym ('w, 'k) authorizer =
  "'w request \<Rightarrow> ('w, 'k, bool option \<times> 'w request) act option"

definition always_ends :: "('w, 'k) checker \<Rightarrow> ('w, 'k) authorizer" where
  "always_ends h req = Some (h req)"

subsection \<open>\<open>SimplePathAuthz\<close>\<close>

record path_authz =
  pa_origin :: string
  pa_paths :: "string list"

text \<open>\<open>config['paths'].split()\<close>: the words of the option, at white space.\<close>

fun py_words :: "string \<Rightarrow> string \<Rightarrow> string list" where
  "py_words acc [] = (if acc = [] then [] else [rev acc])"
| "py_words acc (c # s) =
     (if py_space c then (if acc = [] then py_words [] s else rev acc # py_words [] s)
      else py_words (c # acc) s)"

definition SimplePathAuthz_init :: "(string \<times> string) list \<Rightarrow> string list" where
  "SimplePathAuthz_init config = (case dict_get config ''paths'' of
      None \<Rightarrow> [] | Some v \<Rightarrow> py_words [] v)"

definition strict_match :: "string \<Rightarrow> string \<Rightarrow> bool" where
  "strict_match path authz =
     (\<not> endswith authz ''/''
      \<and> (if endswith authz ''.'' then butlast authz else authz) = path)"

fun any_strict :: "string list \<Rightarrow> string \<Rightarrow> bool" where
  "any_strict [] path = False"
| "any_strict (authz # rest) path = (strict_match path authz \<or> any_strict rest path)"

text \<open>The path that matched, or no match.\<close>

partial_function (option) path_walk :: "string list \<Rightarrow> string \<Rightarrow> string option option" where
  "path_walk paths path =
     (if path = [] then Some None
      else if path \<in> set paths then Some (Some path)
      else if path = ''/'' then path_walk paths []
      else path_walk paths (path_dirname path))"

text \<open>The outer \<open>option\<close> is termination.\<close>

definition SimplePathAuthz_handle ::
    "path_authz \<Rightarrow> 'w request \<Rightarrow> ('w, 'k, bool option \<times> 'w request) act option" where
  "SimplePathAuthz_handle a req = (let path = rq_path req in
     if any_strict (pa_paths a) path
     then Some (verdict (pa_origin a) AUDIT_SVC_AUTHZ_PASS req (AStr path) (Some True, req))
     else (case path_walk (pa_paths a) path of
         None \<Rightarrow> None
       | Some (Some p) \<Rightarrow>
           Some (verdict (pa_origin a) AUDIT_SVC_AUTHZ_PASS req (AStr p) (Some True, req))
       | Some None \<Rightarrow> Some (py_return (None, req))))"

text \<open>\<open>KEMKeysStore.handle\<close>: a match also makes the key store available to the handlers.\<close>

definition KEMKeysStore_handle ::
    "'w kkstore \<Rightarrow> 'w request \<Rightarrow> ('w, 'k, bool option \<times> 'w request) act option" where
  "KEMKeysStore_handle kk req =
     (case SimplePathAuthz_handle \<lparr>pa_origin = kk_origin kk, pa_paths = kk_paths kk\<rparr> req of
        None \<Rightarrow> None
      | Some m \<Rightarrow> Some (py_bind m (\<lambda>(inpath, req').
          py_return (inpath,
            if inpath = Some True then req'\<lparr>rq_kkstore := Some kk\<rparr> else req'))))"

subsection \<open>\<open>UserNameSpace\<close>\<close>

record user_ns =
  un_origin :: string
  un_path :: string

definition UserNameSpace_handle :: "user_ns \<Rightarrow> ('w, 'k) checker" where
  "UserNameSpace_handle a req = (let path = rq_path req in
     if \<not> startswith path (un_path a) then py_return (None, req)
     else (case rq_remote_user req of
         None \<Rightarrow> verdict (un_origin a) AUDIT_SVC_AUTHZ_FAIL req (AStr path) (Some False, req)
       | Some name \<Rightarrow>
           (let namespace = rstrip_ch (CHR ''/'') (un_path a) @ ''/'' @ name @ ''/'' in
            if \<not> startswith path namespace
            then verdict (un_origin a) AUDIT_SVC_AUTHZ_FAIL req (AStr path) (Some False, req)
            else verdict (un_origin a) AUDIT_SVC_AUTHZ_PASS req (AStr path)
                   (Some True, req\<lparr>rq_default_namespace := Some name\<rparr>))))"

subsection \<open>\<open>os.path.split\<close>\<close>

definition all_slashes :: "string \<Rightarrow> bool" where
  "all_slashes p = (\<forall>c \<in> set p. c = CHR ''/'')"

lemma all_slashes_replicate: "all_slashes p \<longleftrightarrow> p = replicate (length p) (CHR ''/'')"
  by (induction p) (auto simp: all_slashes_def)

text \<open>The first part of a path is shorter than the path unless the path is slashes only.\<close>

lemma hd_part_length:
  "length (dropWhile (\<lambda>x. x \<noteq> c) (rev p)) \<le> length p"
  using length_dropWhile_le [of "\<lambda>x. x \<noteq> c" "rev p"] by simp

lemma path_dirname_shorter:
  assumes "p \<noteq> []" and "\<not> startswith p ''//''" and "p \<noteq> ''/''"
  shows "length (path_dirname p) < length p \<and> \<not> startswith (path_dirname p) ''//''"
proof -
  let ?s = "CHR ''/''"
  define h where "h = rev (dropWhile (\<lambda>x. x \<noteq> ?s) (rev p))"
  define t where "t = rev (takeWhile (\<lambda>x. x \<noteq> ?s) (rev p))"
  have p: "p = h @ t"
    unfolding h_def t_def by (metis rev_append rev_rev_ident takeWhile_dropWhile_id)
  have h_end: "h = [] \<or> last h = ?s"
    using hd_dropWhile [of "\<lambda>x. x \<noteq> ?s" "rev p"] by (auto simp: h_def last_rev)
  have d: "path_dirname p = (if h \<noteq> [] \<and> \<not> all_slashes h then rstrip_ch ?s h else h)"
    by (simp add: path_dirname_def path_split_def Let_def h_def [symmetric] all_slashes_replicate)
  have pre: "prefix (path_dirname p) p"
  proof -
    from rstrip_ch_split [of h ?s] obtain n where "h = rstrip_ch ?s h @ replicate n ?s" by blast
    then have "prefix (rstrip_ch ?s h) h" by (metis prefixI)
    with p d show ?thesis by (auto intro: prefix_order.trans)
  qed
  have "path_dirname p \<noteq> p"
  proof
    assume eq: "path_dirname p = p"
    show False
    proof (cases "h \<noteq> [] \<and> \<not> all_slashes h")
      case True
      with d eq p have "rstrip_ch ?s h = h @ t" by simp
      with rstrip_ch_length [of ?s h] have "t = []" "rstrip_ch ?s h = h" by auto
      with h_end True show False using rstrip_ch_not_endswith [of ?s h] by (simp add: endswith_char)
    next
      case False
      with d eq p have "t = []" by auto
      with p assms(1) False have "all_slashes p" by auto
      with assms show False
        by (cases p rule: list.exhaust; cases "tl p")
           (auto simp: all_slashes_def startswith_def)
    qed
  qed
  with pre have "length (path_dirname p) < length p"
    by (intro prefix_length_less) (simp add: strict_prefix_def)
  moreover have "\<not> startswith (path_dirname p) ''//''"
    using pre assms(2) by (auto simp: startswith_def intro: prefix_order.trans)
  ultimately show ?thesis by blast
qed

subsection \<open>The walk\<close>

lemma path_walk_Nil [simp]: "path_walk paths [] = Some None"
  by (subst path_walk.simps) simp

text \<open>The parents of a path, from the path itself to the root.\<close>

fun parents_n :: "nat \<Rightarrow> string \<Rightarrow> string list" where
  "parents_n 0 path = []"
| "parents_n (Suc n) path =
     (if path = [] then [] else path # (if path = ''/'' then [] else parents_n n (path_dirname path)))"

definition path_parents :: "string \<Rightarrow> string list" where
  "path_parents path = parents_n (length path) path"

text \<open>The parents of a path of plain segments are its beginnings.\<close>

lemma dirname_snoc:
  assumes "CHR ''/'' \<notin> set x" and "p \<noteq> []" and "last p \<noteq> CHR ''/''"
  shows "path_dirname (p @ ''/'' @ x) = p"
proof -
  have "dropWhile (\<lambda>y. y \<noteq> CHR ''/'') (rev x @ CHR ''/'' # rev p) = CHR ''/'' # rev p"
    using assms(1) by (subst dropWhile_append2) auto
  moreover have "p @ ''/'' \<noteq> replicate (Suc (length p)) (CHR ''/'')"
  proof
    assume "p @ ''/'' = replicate (Suc (length p)) (CHR ''/'')"
    then have "set (p @ ''/'') = {CHR ''/''}" by (simp only: set_replicate_conv_if) simp
    then show False using assms(2,3) last_in_set [OF assms(2)] by (metis Un_iff set_append singletonD)
  qed
  ultimately show ?thesis using assms(2,3)
    by (simp add: path_dirname_def path_split_def Let_def rstrip_ch_id endswith_char)
qed

lemma parents_prefix:
  assumes "p \<noteq> []" and "last p \<noteq> CHR ''/''"
  shows "\<forall>x \<in> set t. CHR ''/'' \<notin> set x \<Longrightarrow> \<forall>x \<in> set (butlast t). x \<noteq> [] \<Longrightarrow> length t < n \<Longrightarrow>
    p \<in> set (parents_n n (p @ concat (map (\<lambda>x. ''/'' @ x) t)))"
proof (induction t arbitrary: n rule: rev_induct)
  case Nil
  then show ?case using assms(1) by (cases n) auto
next
  case (snoc x t)
  let ?q = "p @ concat (map (\<lambda>x. ''/'' @ x) t)"
  obtain m where n: "n = Suc m" using snoc.prems(3) by (cases n) auto
  have "?q \<noteq> [] \<and> last ?q \<noteq> CHR ''/''"
  proof (cases t rule: rev_cases)
    case Nil
    then show ?thesis using assms by simp
  next
    case (snoc t' y)
    then have "y \<noteq> []" "CHR ''/'' \<notin> set y" using snoc.prems(1,2) by (auto simp: butlast_append)
    moreover from this have "last y \<noteq> CHR ''/''" by (metis last_in_set)
    ultimately show ?thesis using snoc by simp
  qed
  moreover from this have "path_dirname (?q @ ''/'' @ x) = ?q" using snoc.prems(1) by (intro dirname_snoc) simp_all
  moreover have "?q @ ''/'' @ x \<noteq> ''/''" using assms(1) by (cases p) auto
  moreover have "p \<in> set (parents_n m ?q)"
    using snoc.prems n by (intro snoc.IH) (auto dest: in_set_butlastD)
  ultimately show ?case using n by simp
qed

lemma path_walk_find:
  "\<not> startswith path ''//'' \<Longrightarrow> length path \<le> n \<Longrightarrow>
   path_walk paths path = Some (find (\<lambda>p. p \<in> set paths) (parents_n n path))"
proof (induction n arbitrary: path)
  case (Suc n)
  show ?case
  proof (cases "path = [] \<or> path = ''/''")
    case True
    then show ?thesis using path_walk.simps [of paths "''/''"] by (elim disjE) simp_all
  next
    case False
    with Suc.prems path_dirname_shorter [of path] have
      "path_walk paths (path_dirname path)
        = Some (find (\<lambda>p. p \<in> set paths) (parents_n n (path_dirname path)))"
      by (intro Suc.IH) auto
    with False show ?thesis by (subst path_walk.simps) simp
  qed
qed simp

lemma path_walk_total:
  "\<not> startswith path ''//'' \<Longrightarrow>
   path_walk paths path = Some (find (\<lambda>p. p \<in> set paths) (path_parents path))"
  unfolding path_parents_def by (rule path_walk_find) simp_all

text \<open>A path whose first part is itself is never left.\<close>

lemma path_walk_stuck_result:
  assumes ret: "path_walk paths p = Some y"
  shows "path_dirname p = p \<longrightarrow> p \<notin> set paths \<longrightarrow> p \<noteq> [] \<longrightarrow> p = ''/''"
  by (rule path_walk.raw_induct [where P = "\<lambda>paths p y.
        path_dirname p = p \<longrightarrow> p \<notin> set paths \<longrightarrow> p \<noteq> [] \<longrightarrow> p = ''/''", OF _ ret])
     (auto split: if_splits)

lemma path_walk_stuck:
  assumes "path_dirname p = p" and "p \<notin> set paths" and "p \<noteq> []" and "p \<noteq> ''/''"
  shows "path_walk paths p = None"
  using path_walk_stuck_result [of paths p] assms by (cases "path_walk paths p") auto

text \<open>The slashes-only paths are the stuck ones; a single segment below them leads there.\<close>

lemma dirname_all_slashes: "path_dirname (replicate n (CHR ''/'')) = replicate n (CHR ''/'')"
proof -
  have "dropWhile (\<lambda>x. x \<noteq> CHR ''/'') (replicate n (CHR ''/'')) = replicate n (CHR ''/'')"
    by (cases n) simp_all
  then show ?thesis by (simp add: path_dirname_def path_split_def Let_def)
qed

lemma dirname_below_slashes:
  assumes "CHR ''/'' \<notin> set x" and "0 < n"
  shows "path_dirname (replicate n (CHR ''/'') @ x) = replicate n (CHR ''/'')"
proof -
  have "dropWhile (\<lambda>y. y \<noteq> CHR ''/'') (rev x @ replicate n (CHR ''/'')) = replicate n (CHR ''/'')"
    using assms by (subst dropWhile_append2) (auto simp: gr0_conv_Suc)
  then show ?thesis by (simp add: path_dirname_def path_split_def Let_def)
qed

lemma path_walk_diverges:
  assumes "CHR ''/'' \<notin> set x" and "2 \<le> n"
    and "replicate n (CHR ''/'') \<notin> set paths" and "replicate n (CHR ''/'') @ x \<notin> set paths"
  shows "path_walk paths (replicate n (CHR ''/'') @ x) = None"
proof -
  obtain m where n: "n = Suc (Suc m)" using assms(2) by (metis add_2_eq_Suc le_Suc_ex)
  have stuck: "path_walk paths (replicate n (CHR ''/'')) = None"
    by (rule path_walk_stuck) (use assms n in \<open>auto simp: dirname_all_slashes simp del: replicate.simps\<close>,
      simp_all)
  show ?thesis
  proof (cases "x = []")
    case True
    then show ?thesis using stuck by simp
  next
    case False
    have "path_walk paths (replicate n (CHR ''/'') @ x)
        = path_walk paths (path_dirname (replicate n (CHR ''/'') @ x))"
      using assms n by (subst path_walk.simps) simp
    with stuck dirname_below_slashes [of x n] assms show ?thesis by simp
  qed
qed

subsection \<open>Namespaces\<close>

lemma UserNameSpace_True:
  assumes "UserNameSpace_handle a req c = (Inr (Some True, req'), c')"
  obtains name where "rq_remote_user req = Some name"
    and "req' = req\<lparr>rq_default_namespace := Some name\<rparr>"
    and "startswith (rq_path req) (rstrip_ch (CHR ''/'') (un_path a) @ ''/'' @ name @ ''/'')"
  using assms
  by (auto simp: UserNameSpace_handle_def Let_def py_simps split: if_splits option.splits)

text \<open>Two users whose names have no slash cannot both be let in on the same path.\<close>

lemma namespace_unique:
  assumes "startswith path (base @ ''/'' @ u @ ''/'')" and "startswith path (base @ ''/'' @ v @ ''/'')"
    and "CHR ''/'' \<notin> set u" and "CHR ''/'' \<notin> set v"
  shows "u = v"
proof -
  from assms(1,2) obtain s t where
    s: "path = (base @ ''/'' @ u @ ''/'') @ s" and t: "path = (base @ ''/'' @ v @ ''/'') @ t"
    unfolding startswith_def prefix_def by blast
  then have "u @ CHR ''/'' # s = v @ CHR ''/'' # t" by simp
  then have "py_split (CHR ''/'') (u @ CHR ''/'' # s) = py_split (CHR ''/'') (v @ CHR ''/'' # t)"
    by simp
  with assms(3,4) show ?thesis by (simp add: py_split_append)
qed

subsection \<open>What an authorizer may do\<close>

text \<open>
  It changes the namespace and the key store in the request and adds to the audit log, nothing
  else: not the user, not the path, not the store.
\<close>

definition modest :: "'w request \<Rightarrow> ('w, 'k) ctx \<Rightarrow> 'w request \<Rightarrow> ('w, 'k) ctx \<Rightarrow> bool" where
  "modest req c req' c' = ((\<exists>ns kk. req' = req\<lparr>rq_default_namespace := ns, rq_kkstore := kk\<rparr>)
     \<and> (\<exists>es. c' = c\<lparr>cx_audit := cx_audit c @ es\<rparr>))"

lemma modest_refl: "modest req c req c"
  unfolding modest_def
  by (intro conjI exI [of _ "rq_default_namespace req"] exI [of _ "rq_kkstore req"] exI [of _ "[]"]) simp_all

lemma modest_trans:
  assumes "modest r1 c1 r2 c2" and "modest r2 c2 r3 c3"
  shows "modest r1 c1 r3 c3"
  using assms by (fastforce simp: modest_def)

lemma modest_ns: "modest req c (req\<lparr>rq_default_namespace := ns\<rparr>) c"
  unfolding modest_def
  by (intro conjI exI [of _ ns] exI [of _ "rq_kkstore req"] exI [of _ "[]"]) simp_all

lemma modest_kk: "modest req c (req\<lparr>rq_kkstore := kk\<rparr>) c"
  unfolding modest_def
  by (intro conjI exI [of _ "rq_default_namespace req"] exI [of _ kk] exI [of _ "[]"]) simp_all

lemma modest_audit: "modest req c req' c' \<Longrightarrow> modest req c req' (c'\<lparr>cx_audit := cx_audit c' @ es\<rparr>)"
  by (fastforce simp: modest_def)

lemma modest_same:
  assumes "modest req c req' c'"
  shows "rq_remote_user req' = rq_remote_user req" and "rq_path req' = rq_path req"
    and "rq_path_chain req' = rq_path_chain req" and "rq_command req' = rq_command req"
    and "rq_body req' = rq_body req" and "rq_headers req' = rq_headers req"
    and "rq_creds req' = rq_creds req" and "cx_store c' = cx_store c" and "cx_resp c' = cx_resp c"
  using assms by (auto simp: modest_def)

locale authorizer =
  fixes h :: "('w, 'k) authorizer"
  assumes returns: "\<not> startswith (rq_path req) ''//'' \<Longrightarrow> h req \<noteq> None"
    and answers: "h req = Some m \<Longrightarrow> \<exists>v req' c'. m c = (Inr (v, req'), c') \<and> modest req c req' c'
        \<and> (v \<noteq> None \<longrightarrow> cx_audit c' \<noteq> cx_audit c)"
begin

lemma modest_step: "h req = Some m \<Longrightarrow> m c = (Inr (v, req'), c') \<Longrightarrow> modest req c req' c'"
  using answers [of req m c] by auto

lemma decides_logged:
  "h req = Some m \<Longrightarrow> m c = (Inr (v, req'), c') \<Longrightarrow> v \<noteq> None \<Longrightarrow> cx_audit c' \<noteq> cx_audit c"
  using answers [of req m c] by auto

end

lemma path_authz_cases:
  assumes "SimplePathAuthz_handle a req = Some m"
  obtains p where "m = verdict (pa_origin a) AUDIT_SVC_AUTHZ_PASS req (AStr p) (Some True, req)"
  | "m = py_return (None, req)"
  using assms by (auto simp: SimplePathAuthz_handle_def Let_def split: if_splits option.splits)

interpretation paths: authorizer "SimplePathAuthz_handle a" for a
proof (unfold_locales, goal_cases)
  case (1 req)
  then show ?case
    using path_walk_total [of "rq_path req" "pa_paths a"]
    by (auto simp: SimplePathAuthz_handle_def Let_def split: option.splits)
next
  case (2 req m c)
  then show ?case
    by (rule path_authz_cases) (auto simp: py_simps modest_refl modest_audit)
qed

interpretation kem_paths: authorizer "KEMKeysStore_handle kk" for kk
proof (unfold_locales, goal_cases)
  case (1 req)
  then show ?case
    using paths.returns [of req] by (auto simp: KEMKeysStore_handle_def split: option.splits)
next
  case (2 req m c)
  then obtain m' where "SimplePathAuthz_handle \<lparr>pa_origin = kk_origin kk, pa_paths = kk_paths kk\<rparr> req = Some m'"
    and m: "m = py_bind m' (\<lambda>(inpath, req'). py_return (inpath,
            if inpath = Some True then req'\<lparr>rq_kkstore := Some kk\<rparr> else req'))"
    by (auto simp: KEMKeysStore_handle_def split: option.splits)
  then show ?case
    unfolding m by (elim path_authz_cases) (auto simp: py_simps modest_refl modest_kk modest_audit)
qed

interpretation namespaces: authorizer "always_ends (UserNameSpace_handle a)" for a
  by unfold_locales
     (auto simp: always_ends_def UserNameSpace_handle_def Let_def py_simps modest_refl modest_ns modest_audit
       split: option.splits)

subsection \<open>Answers\<close>

text \<open>C21: On every path that does not begin with two slashes \<open>SimplePathAuthz\<close> returns, and it says
  yes exactly when the path matches a strict entry or one of its parents, itself included, is
  listed.\<close>

theorem path_authorization:
  assumes "\<not> startswith (rq_path req) ''//''"
  shows "\<exists>m. SimplePathAuthz_handle a req = Some m
    \<and> fst (m c) = Inr (if any_strict (pa_paths a) (rq_path req)
          \<or> set (path_parents (rq_path req)) \<inter> set (pa_paths a) \<noteq> {} then Some True else None, req)"
proof -
  let ?ps = "path_parents (rq_path req)"
  have w: "path_walk (pa_paths a) (rq_path req) = Some (find (\<lambda>p. p \<in> set (pa_paths a)) ?ps)"
    by (rule path_walk_total [OF assms])
  show ?thesis
  proof (cases "find (\<lambda>p. p \<in> set (pa_paths a)) ?ps")
    case None
    then have "set ?ps \<inter> set (pa_paths a) = {}" by (auto simp: find_None_iff)
    with w None show ?thesis
      by (cases "any_strict (pa_paths a) (rq_path req)") (simp_all add: SimplePathAuthz_handle_def Let_def py_simps)
  next
    case (Some p)
    then have "p \<in> set ?ps" "p \<in> set (pa_paths a)" by (auto simp: find_Some_iff)
    then have "set ?ps \<inter> set (pa_paths a) \<noteq> {}" by blast
    with w Some show ?thesis
      by (cases "any_strict (pa_paths a) (rq_path req)") (simp_all add: SimplePathAuthz_handle_def Let_def py_simps)
  qed
qed

theorem path_authorization_witness:
  "\<exists>m. SimplePathAuthz_handle \<lparr>pa_origin = ''paths'', pa_paths = [''/secrets'']\<rparr>
      (sample_request ''GET'' ''/secrets/alice/key'' [] :: unit request) = Some m
    \<and> fst (m (sample_ctx () :: (unit, unit) ctx))
      = Inr (Some True, sample_request ''GET'' ''/secrets/alice/key'' [])"
proof -
  have "path_parents ''/secrets/alice/key'' = [''/secrets/alice/key'', ''/secrets/alice'', ''/secrets'', ''/'']"
    by code_simp
  then show ?thesis
    using path_authorization [of "sample_request ''GET'' ''/secrets/alice/key'' [] :: unit request"
        "\<lparr>pa_origin = ''paths'', pa_paths = [''/secrets'']\<rparr>" "sample_ctx () :: (unit, unit) ctx"]
    by (simp add: startswith_def)
qed

text \<open>C40: On a path of two or more slashes and one segment, of which neither the path nor the
  slashes are listed, \<open>SimplePathAuthz\<close> never returns.\<close>

theorem double_slash_hangs:
  assumes "rq_path req = replicate n (CHR ''/'') @ x" and "CHR ''/'' \<notin> set x" and "2 \<le> n"
    and "replicate n (CHR ''/'') \<notin> set (pa_paths a)" and "rq_path req \<notin> set (pa_paths a)"
    and "\<not> any_strict (pa_paths a) (rq_path req)"
  shows "SimplePathAuthz_handle a req = None"
  using assms path_walk_diverges [OF assms(2-4)] by (simp add: SimplePathAuthz_handle_def)

theorem double_slash_hangs_witness:
  "SimplePathAuthz_handle \<lparr>pa_origin = ''paths'', pa_paths = [''/secrets'']\<rparr>
     (sample_request ''GET'' ''//foo'' [] :: unit request) = None"
  using double_slash_hangs [of "sample_request ''GET'' ''//foo'' [] :: unit request" 2 "''foo''"
      "\<lparr>pa_origin = ''paths'', pa_paths = [''/secrets'']\<rparr>"]
  by (simp add: strict_match_def endswith_char numeral_2_eq_2)

end
