(* ===== verification/Urls.thy ===== *)
theory Urls
  imports PyStrings
begin

text \<open>
  The URL functions of the standard library that \<open>src/custodia/compat.py\<close> re-exports:
  \<open>urlparse\<close>, \<open>unquote\<close>, \<open>quote\<close> (there called \<open>url_escape\<close>) and \<open>parse_qs\<close>.

  \<open>unquote\<close> decodes the bytes of an escaped run as UTF-8 with replacement characters; the
  decoding is the argument \<open>dec\<close>, since its results leave the character set of the model. It is
  the identity on ASCII. Shown: unescaping undoes escaping on ASCII text, and an escaped text
  has none of the characters that delimit the parts of a URL.
\<close>

subsection \<open>\<open>urlparse\<close>\<close>

record url =
  u_scheme :: string
  u_netloc :: string
  u_path :: string
  u_params :: string
  u_query :: string
  u_fragment :: string

definition is_ascii :: "char \<Rightarrow> bool" where
  "is_ascii c = ((of_char c :: nat) < 128)"

definition is_alpha :: "char \<Rightarrow> bool" where
  "is_alpha c = (let n = (of_char c :: nat) in (65 \<le> n \<and> n \<le> 90) \<or> (97 \<le> n \<and> n \<le> 122))"

definition is_digit :: "char \<Rightarrow> bool" where
  "is_digit c = (let n = (of_char c :: nat) in 48 \<le> n \<and> n \<le> 57)"

definition scheme_char :: "char \<Rightarrow> bool" where
  "scheme_char c = (is_alpha c \<or> is_digit c \<or> c \<in> set ''+-.'')"

text \<open>\<open>s.split(c, 1)\<close>: the text before the first \<open>c\<close>, and after it if there is one.\<close>

definition split_first :: "char \<Rightarrow> string \<Rightarrow> string \<times> string" where
  "split_first c s = (takeWhile (\<lambda>x. x \<noteq> c) s, tl (dropWhile (\<lambda>x. x \<noteq> c) s))"

definition split_scheme :: "string \<Rightarrow> string \<times> string" where
  "split_scheme s = (let pre = takeWhile (\<lambda>x. x \<noteq> CHR '':'') s in
     if CHR '':'' \<in> set s \<and> pre \<noteq> [] \<and> is_alpha (hd pre) \<and> list_all scheme_char pre
     then (py_lower pre, tl (dropWhile (\<lambda>x. x \<noteq> CHR '':'') s)) else ([], s))"

definition split_netloc :: "string \<Rightarrow> (string \<times> string) res" where
  "split_netloc s =
     (if startswith s ''//'' then
        (let nl = takeWhile (\<lambda>x. x \<notin> set ''/?#'') (drop 2 s);
             rest = dropWhile (\<lambda>x. x \<notin> set ''/?#'') (drop 2 s)
         in if (CHR ''['' \<in> set nl) \<noteq> (CHR '']'' \<in> set nl) then Inl ValueError else Inr (nl, rest))
      else Inr ([], s))"

text \<open>The parameters of the last path segment, for the schemes that have them.\<close>

definition uses_params :: "string list" where
  "uses_params = [[], ''ftp'', ''hdl'', ''prospero'', ''http'', ''https'', ''shttp'', ''rtsp'',
                  ''rtspu'', ''sip'', ''sips'', ''mms'', ''sftp'', ''tel'']"

definition split_params :: "string \<Rightarrow> string \<times> string" where
  "split_params s = (case rsplit1 (CHR ''/'') s of
      None \<Rightarrow> split_first (CHR '';'') s
    | Some (dirs, last_seg) \<Rightarrow>
        (case split_first (CHR '';'') last_seg of (a, b) \<Rightarrow> (dirs @ ''/'' @ a, b)))"

definition urlparse :: "string \<Rightarrow> url res" where
  "urlparse s = (case split_scheme s of (scheme, s1) \<Rightarrow>
     rbind (split_netloc s1) (\<lambda>(netloc, s2).
       (case split_first (CHR ''#'') s2 of (s3, frag) \<Rightarrow>
       (case split_first (CHR ''?'') s3 of (path, query) \<Rightarrow>
          (if scheme \<in> set uses_params \<and> CHR '';'' \<in> set path
           then (case split_params path of (p, par) \<Rightarrow>
                  Inr \<lparr>u_scheme = scheme, u_netloc = netloc, u_path = p, u_params = par,
                       u_query = query, u_fragment = frag\<rparr>)
           else Inr \<lparr>u_scheme = scheme, u_netloc = netloc, u_path = path, u_params = [],
                     u_query = query, u_fragment = frag\<rparr>)))))"

subsection \<open>\<open>unquote\<close> and \<open>quote\<close>\<close>

definition hex_val :: "char \<Rightarrow> nat option" where
  "hex_val c = (case digit_val c of None \<Rightarrow> None | Some d \<Rightarrow> if d < 16 then Some d else None)"

fun unquote_bytes :: "string \<Rightarrow> bytes" where
  "unquote_bytes (p # a # b # s) =
     (if p = CHR ''%'' then
        (case (hex_val a, hex_val b) of
           (Some x, Some y) \<Rightarrow> char_of (16 * x + y) # unquote_bytes s
         | _ \<Rightarrow> p # unquote_bytes (a # b # s))
      else p # unquote_bytes (a # b # s))"
| "unquote_bytes s = s"

text \<open>The maximal runs of ASCII characters are decoded, the other characters stay.\<close>

function unquote_runs :: "(bytes \<Rightarrow> string) \<Rightarrow> string \<Rightarrow> string" where
  "unquote_runs dec [] = []"
| "unquote_runs dec (c # s) =
     (if is_ascii c
      then dec (unquote_bytes (takeWhile is_ascii (c # s))) @ unquote_runs dec (dropWhile is_ascii s)
      else c # unquote_runs dec s)"
  by pat_completeness auto
termination
  by (relation "measure (\<lambda>(_, s). length s)") (auto simp: le_imp_less_Suc length_dropWhile_le)

definition unquote :: "(bytes \<Rightarrow> string) \<Rightarrow> string \<Rightarrow> string" where
  "unquote dec s = (if CHR ''%'' \<notin> set s then s else unquote_runs dec s)"

definition hex_digit :: "nat \<Rightarrow> char" where
  "hex_digit d = (if d < 10 then char_of (48 + d) else char_of (55 + d))"

definition always_safe :: "char \<Rightarrow> bool" where
  "always_safe c = (is_alpha c \<or> is_digit c \<or> c \<in> set ''_.-~'')"

definition quote_byte :: "(char \<Rightarrow> bool) \<Rightarrow> char \<Rightarrow> string" where
  "quote_byte safe c = (let n = (of_char c :: nat) in
     if always_safe c \<or> safe c then [c] else [CHR ''%'', hex_digit (n div 16), hex_digit (n mod 16)])"

text \<open>\<open>quote(s, safe)\<close>.\<close>

definition url_escape :: "(char \<Rightarrow> bool) \<Rightarrow> string \<Rightarrow> string" where
  "url_escape safe s = concat (map (quote_byte safe) (utf8_encode s))"

subsection \<open>\<open>parse_qs\<close>\<close>

definition plus_to_space :: "string \<Rightarrow> string" where
  "plus_to_space s = map (\<lambda>c. if c = CHR ''+'' then CHR '' '' else c) s"

definition add_query :: "string \<Rightarrow> string \<Rightarrow> (string \<times> json) list \<Rightarrow> (string \<times> json) list" where
  "add_query name value d = dict_put name
     (case dict_get d name of Some (JList vs) \<Rightarrow> JList (vs @ [JStr value]) | _ \<Rightarrow> JList [JStr value]) d"

fun parse_pairs :: "(bytes \<Rightarrow> string) \<Rightarrow> string list \<Rightarrow> (string \<times> json) list \<Rightarrow> (string \<times> json) list" where
  "parse_pairs dec [] d = d"
| "parse_pairs dec (nv # rest) d =
     (case split_first (CHR ''='') nv of (n, v) \<Rightarrow>
        parse_pairs dec rest
          (if v = [] then d
           else add_query (unquote dec (plus_to_space n)) (unquote dec (plus_to_space v)) d))"

text \<open>Every value is a list; a pair without a value is dropped.\<close>

definition parse_qs :: "(bytes \<Rightarrow> string) \<Rightarrow> string \<Rightarrow> json" where
  "parse_qs dec qs = JDict (parse_pairs dec (py_split (CHR ''&'') qs) [])"

subsection \<open>Escaping and unescaping\<close>

lemma split_first_no: "c \<notin> set s \<Longrightarrow> split_first c s = (s, [])"
  by (induction s) (auto simp: split_first_def)

lemma split_first_append: "c \<notin> set a \<Longrightarrow> split_first c (a @ c # b) = (a, b)"
  by (induction a) (auto simp: split_first_def)

lemma hex_val_digit: "d < 16 \<Longrightarrow> hex_val (hex_digit d) = Some d"
  by (auto simp: hex_val_def digit_val_def hex_digit_def)

lemma hex_digit_safe:
  assumes "d < 16"
  shows "always_safe (hex_digit d)"
proof -
  have "(of_char (hex_digit d) :: nat) = (if d < 10 then 48 + d else 55 + d)"
    using assms by (simp add: hex_digit_def)
  with assms show ?thesis by (auto simp: always_safe_def is_digit_def is_alpha_def Let_def)
qed

lemma always_safe_not: "always_safe c \<Longrightarrow> c \<notin> set ''/?#%&=+;: ''"
  by (auto simp: always_safe_def is_digit_def is_alpha_def Let_def)

lemma utf8_ascii: "list_all is_ascii s \<Longrightarrow> utf8_encode s = s"
  by (induction s) (auto simp: utf8_encode_def utf8_char_def is_ascii_def)

lemma quote_byte_chars:
  assumes "x \<in> set (quote_byte safe c)"
  shows "always_safe x \<or> safe x \<or> x = CHR ''%''"
proof -
  have "(of_char c :: nat) div 16 < 16" "(of_char c :: nat) mod 16 < 16"
    by (auto simp: less_mult_imp_div_less)
  with assms show ?thesis by (auto simp: quote_byte_def Let_def hex_digit_safe split: if_splits)
qed

text \<open>An escaped text has no delimiter, unless it was declared safe.\<close>

lemma url_escape_chars:
  "x \<in> set (url_escape safe s) \<Longrightarrow> always_safe x \<or> safe x \<or> x = CHR ''%''"
  by (auto simp: url_escape_def dest: quote_byte_chars)

lemma unquote_bytes_other: "p \<noteq> CHR ''%'' \<Longrightarrow> unquote_bytes (p # s) = p # unquote_bytes s"
  by (cases s rule: list.exhaust; cases "tl s") auto

lemma unquote_quote_byte:
  assumes "\<not> safe (CHR ''%'')"
  shows "unquote_bytes (quote_byte safe c @ s) = c # unquote_bytes s"
proof -
  let ?n = "of_char c :: nat"
  have "?n div 16 < 16" "?n mod 16 < 16" by (auto simp: less_mult_imp_div_less)
  moreover have "char_of (16 * (?n div 16) + ?n mod 16) = c" by simp
  moreover have "always_safe c \<or> safe c \<Longrightarrow> c \<noteq> CHR ''%''"
    using assms always_safe_not by auto
  ultimately show ?thesis
    by (auto simp: quote_byte_def Let_def hex_val_digit unquote_bytes_other)
qed

lemma unquote_bytes_quote:
  "\<not> safe (CHR ''%'') \<Longrightarrow> unquote_bytes (concat (map (quote_byte safe) bs)) = bs"
  by (induction bs) (simp_all add: unquote_quote_byte)

lemma always_safe_ascii: "always_safe c \<Longrightarrow> is_ascii c"
  by (auto simp: always_safe_def is_digit_def is_alpha_def is_ascii_def Let_def)

lemma unquote_runs_ascii:
  assumes "list_all is_ascii s" and "s \<noteq> []"
  shows "unquote_runs dec s = dec (unquote_bytes s)"
proof -
  obtain c t where s: "s = c # t" using assms(2) by (cases s) auto
  have t: "takeWhile is_ascii t = t" and d: "dropWhile is_ascii t = []" and c: "is_ascii c"
    using assms(1) by (auto simp: s list_all_iff takeWhile_eq_all_conv)
  show ?thesis by (simp add: s t d c)
qed

lemma unquote_escape_runs:
  assumes "\<And>c. safe c \<Longrightarrow> is_ascii c" and "\<not> safe (CHR ''%'')"
    and "CHR ''%'' \<in> set (url_escape safe s)"
  shows "unquote dec (url_escape safe s) = dec (utf8_encode s)"
proof -
  have "list_all is_ascii (url_escape safe s)"
    using url_escape_chars [of _ safe s] assms(1) always_safe_ascii
    by (fastforce simp: list_all_iff is_ascii_def)
  moreover have "url_escape safe s \<noteq> []" using assms(3) by auto
  moreover have "unquote_bytes (url_escape safe s) = utf8_encode s"
    using unquote_bytes_quote [of safe "utf8_encode s"] assms(2) by (simp add: url_escape_def)
  ultimately show ?thesis using assms(3) by (simp add: unquote_def unquote_runs_ascii)
qed

text \<open>Escaping is undone by \<open>unquote\<close>, when decoding undoes UTF-8.\<close>

lemma unquote_escape:
  assumes "\<And>s. dec (utf8_encode s) = s" and "\<And>c. safe c \<Longrightarrow> is_ascii c" and "\<not> safe (CHR ''%'')"
  shows "unquote dec (url_escape safe s) = s"
proof (cases "CHR ''%'' \<in> set (url_escape safe s)")
  case True
  then show ?thesis using unquote_escape_runs [of safe s dec] assms by simp
next
  case False
  then have u: "unquote dec (url_escape safe s) = url_escape safe s" by (simp add: unquote_def)
  have q: "\<forall>c \<in> set (utf8_encode s). quote_byte safe c = [c]"
    using False by (force simp: url_escape_def quote_byte_def Let_def split: if_splits)
  have "\<forall>c \<in> set bs. quote_byte safe c = [c] \<Longrightarrow> concat (map (quote_byte safe) bs) = bs" for bs
    by (induction bs) auto
  with q have e: "url_escape safe s = utf8_encode s" by (simp add: url_escape_def)
  have "list_all is_ascii (utf8_encode s)"
    using url_escape_chars [of _ safe s] False assms(2) always_safe_ascii e
    by (fastforce simp: list_all_iff)
  then have "utf8_encode (utf8_encode s) = utf8_encode s" by (rule utf8_ascii)
  with assms(1) have "utf8_encode s = s" by metis
  with u e show ?thesis by simp
qed

subsection \<open>URLs of Unix sockets\<close>

lemma takeWhile_drop_lead:
  "\<forall>x \<in> set nl. \<not> P x \<Longrightarrow> P c \<Longrightarrow>
   takeWhile (\<lambda>x. \<not> P x) (nl @ c # s) = nl \<and> dropWhile (\<lambda>x. \<not> P x) (nl @ c # s) = c # s"
  by (induction nl) auto

lemma split_unix:
  assumes "\<forall>x \<in> set nl. x \<notin> set ''/?#[]''"
  shows "split_scheme (''http+unix://'' @ nl @ CHR ''/'' # p) = (''http+unix'', ''//'' @ nl @ CHR ''/'' # p)
    \<and> split_netloc (''//'' @ nl @ CHR ''/'' # p) = Inr (nl, CHR ''/'' # p)"
proof
  show "split_scheme (''http+unix://'' @ nl @ CHR ''/'' # p) = (''http+unix'', ''//'' @ nl @ CHR ''/'' # p)"
    by (simp add: split_scheme_def Let_def scheme_char_def is_alpha_def is_digit_def py_lower_def
        lower_char_def)
  have "\<forall>x \<in> set nl. \<not> x \<in> set ''/?#''" using assms by auto
  from takeWhile_drop_lead [of nl "\<lambda>x. x \<in> set ''/?#''" "CHR ''/''" p, OF this]
  show "split_netloc (''//'' @ nl @ CHR ''/'' # p) = Inr (nl, CHR ''/'' # p)"
    using assms by (auto simp: split_netloc_def Let_def startswith_def)
qed

text \<open>Whatever follows the first slash, the part before it is the socket part.\<close>

lemma urlparse_unix_netloc:
  assumes "\<forall>x \<in> set nl. x \<notin> set ''/?#[]''"
  shows "\<exists>u. urlparse (''http+unix://'' @ nl @ CHR ''/'' # p) = Inr u \<and> u_scheme u = ''http+unix'' \<and> u_netloc u = nl"
  using split_unix [OF assms, of p]
  by (auto simp: urlparse_def uses_params_def split: prod.splits simp del: append.simps)

text \<open>The parts of an \<open>http+unix\<close> URL, whose socket part has no delimiters.\<close>

lemma urlparse_unix:
  assumes "\<forall>x \<in> set nl. x \<notin> set ''/?#[]''" and "\<forall>x \<in> set p. x \<notin> set ''?#''"
  shows "urlparse (''http+unix://'' @ nl @ CHR ''/'' # p) =
    Inr \<lparr>u_scheme = ''http+unix'', u_netloc = nl, u_path = CHR ''/'' # p, u_params = [],
         u_query = [], u_fragment = []\<rparr>"
proof -
  note split_unix [OF assms(1), of p]
  moreover have "split_first (CHR ''#'') (CHR ''/'' # p) = (CHR ''/'' # p, [])"
    "split_first (CHR ''?'') (CHR ''/'' # p) = (CHR ''/'' # p, [])"
    using assms(2) by (intro split_first_no; auto)+
  ultimately show ?thesis by (simp add: urlparse_def uses_params_def del: append.simps)
qed

lemma escaped_no_delim:
  "x \<in> set (url_escape (\<lambda>_. False) path) \<Longrightarrow> x \<notin> set ''/?#[]''"
  using url_escape_chars [of x "\<lambda>_. False" path]
  by (auto simp: always_safe_def is_alpha_def is_digit_def Let_def)

end
