(* ===== verification/Server.thy ===== *)
theory Server
  imports Consumer Authz Urls "HOL-Library.Word"
begin

text \<open>
  \<open>src/custodia/httpd/server.py\<close>: what the handler learns about the peer, how a request line
  becomes a request dict, the \<open>pipeline\<close> from authentication to the consumer, and what is sent
  back. The HTTP parser of the standard library, the sockets and the process table are
  arguments: the parsed request line and headers, the bytes of the credentials structure, the
  contents of \<open>/proc/PID/loginuid\<close>.

  \<open>None\<close> is a request that is never answered, which only the walk of \<open>SimplePathAuthz\<close> can
  cause.
\<close>

subsection \<open>The peer\<close>

definition SELINUX_CONTEXT_LEN :: nat where "SELINUX_CONTEXT_LEN = 256"
definition MAX_REQUEST_SIZE :: int where "MAX_REQUEST_SIZE = 10 * 1024 * 1024"

datatype family = AF_UNIX | AF_INET | AF_INET6 | AF_OTHER

record connection =
  cn_family :: family
  cn_peercred :: bytes
  cn_peersec :: "bytes res"
  cn_peername :: "string \<times> int"
  cn_cert :: peer_cert

text \<open>\<open>struct.unpack('iII', creds)\<close> on a little-endian machine: 12 bytes, a signed and two
  unsigned 32-bit integers.\<close>

definition le32 :: "bytes \<Rightarrow> 32 word" where
  "le32 bs = word_of_int (horner_sum (\<lambda>c. int (of_char c)) 256 bs)"

definition unpack_iII :: "bytes \<Rightarrow> (int \<times> int \<times> int) res" where
  "unpack_iII bs = (if length bs \<noteq> 12 then Inl OtherError
     else Inr (sint (le32 (take 4 bs)), uint (le32 (take 4 (drop 4 bs))), uint (le32 (drop 8 bs))))"

text \<open>\<open>dec8\<close> is \<open>bytes.decode('utf-8')\<close>; every failure there leaves the context out.\<close>

definition peer_creds :: "(bytes \<Rightarrow> string res) \<Rightarrow> connection \<Rightarrow> creds option res" where
  "peer_creds dec8 cn = (if cn_family cn \<noteq> AF_UNIX then Inr None
     else rbind (unpack_iII (cn_peercred cn)) (\<lambda>(pid, uid, gid).
       Inr (Some \<lparr>cr_pid = pid, cr_uid = uid, cr_gid = gid,
         cr_context = (case rbind (cn_peersec cn) (\<lambda>b. dec8 (rstrip_ch (CHR 0x00) b)) of
            Inr s \<Rightarrow> Some s | Inl _ \<Rightarrow> None)\<rparr>)))"

definition peer_info :: "connection \<Rightarrow> creds option \<Rightarrow> client_id" where
  "peer_info cn cr = (case cr of
      Some c \<Rightarrow> CidPid (cr_pid c)
    | None \<Rightarrow> if cn_family cn = AF_INET \<or> cn_family cn = AF_INET6
             then CidAddr (fst (cn_peername cn)) (snd (cn_peername cn)) else CidNone)"

text \<open>The file's contents, or that it does not exist, or another error.\<close>

datatype proc_file = PText string | PNoEnt | PError

definition get_loginuid :: "proc_file \<Rightarrow> int option res" where
  "get_loginuid f = (case f of
      PText t \<Rightarrow> rbind (py_int 10 t) (\<lambda>n. Inr (if n = -1 then None else Some n))
    | PNoEnt \<Rightarrow> Inr None
    | PError \<Rightarrow> Inl IOError)"

lemma unpack_iII_bounds:
  assumes "unpack_iII bs = Inr (pid, uid, gid)"
  shows "- (2 ^ 31) \<le> pid \<and> pid < 2 ^ 31 \<and> 0 \<le> uid \<and> uid < 2 ^ 32 \<and> 0 \<le> gid \<and> gid < 2 ^ 32"
proof -
  from assms have p: "pid = sint (le32 (take 4 bs))" and u: "uid = uint (le32 (take 4 (drop 4 bs)))"
    and g: "gid = uint (le32 (drop 8 bs))"
    by (auto simp: unpack_iII_def split: if_splits)
  have "- (2 ^ 31) \<le> sint (w :: 32 word) \<and> sint w < 2 ^ 31" for w
    using sint_ge [of w] sint_lt [of w] by simp
  moreover have "0 \<le> uint (w :: 32 word) \<and> uint w < 2 ^ 32" for w
    using uint_ge_0 [of w] uint_lt2p [of w] by simp
  ultimately show ?thesis unfolding p u g by blast
qed

text \<open>Credentials are only taken from a Unix socket, and they have the widths of the kernel's
  structure: a signed 32-bit process id, unsigned 32-bit user and group ids.\<close>

lemma peer_creds_bounds:
  assumes "peer_creds dec8 cn = Inr (Some cr)"
  shows "cn_family cn = AF_UNIX \<and> - (2 ^ 31) \<le> cr_pid cr \<and> cr_pid cr < 2 ^ 31
    \<and> 0 \<le> cr_uid cr \<and> cr_uid cr < 2 ^ 32 \<and> 0 \<le> cr_gid cr \<and> cr_gid cr < 2 ^ 32"
  using assms
  by (auto simp: peer_creds_def elim!: rbind_InrE split: if_splits dest: unpack_iII_bounds)


subsection \<open>From the request line to the request\<close>

definition parse_path :: "(bytes \<Rightarrow> string) \<Rightarrow> url \<Rightarrow> string list" where
  "parse_path dec url = map (unquote dec) (py_split (CHR ''/'') (u_path url))"

text \<open>
  \<open>parse_body\<close>: \<open>stream\<close> is everything the peer sends before it closes. \<open>rfile.read(n)\<close> reads
  \<open>n\<close> bytes, or all of them for \<open>-1\<close>, and rejects the other negative sizes.
\<close>

definition rfile_read :: "bytes \<Rightarrow> int \<Rightarrow> bytes res" where
  "rfile_read stream n = (if n = -1 then Inr stream
     else if n < 0 then Inl ValueError else Inr (take (nat n) stream))"

definition parse_content :: "(string \<times> string) list \<Rightarrow> bytes \<Rightarrow> bytes option res" where
  "parse_content headers stream =
     rbind (case header_get headers ''content-length'' of None \<Rightarrow> Inr 0 | Some v \<Rightarrow> py_int 10 v) (\<lambda>n.
       if n > MAX_REQUEST_SIZE then Inl (HTTPError 413)
       else if n = 0 then Inr None
       else rbind (rfile_read stream n) (\<lambda>b. Inr (Some b)))"

record incoming =
  in_conn :: connection
  in_loginuid :: proc_file
  in_line :: bytes
  in_parsed :: "(string \<times> string \<times> (string \<times> string) list) option"
  in_stream :: bytes

text \<open>What \<open>parse_request\<close> adds after the standard parser has succeeded.\<close>

definition parse_request ::
    "(bytes \<Rightarrow> string) \<Rightarrow> (bytes \<Rightarrow> string res) \<Rightarrow> incoming \<Rightarrow> string \<times> string \<times> (string \<times> string) list
     \<Rightarrow> 'w request res" where
  "parse_request dec dec8 inc line = (case line of (command, target, headers) \<Rightarrow>
     rbind (peer_creds dec8 (in_conn inc)) (\<lambda>cr.
     rbind (if cr = None then Inr None else get_loginuid (in_loginuid inc)) (\<lambda>_.
     rbind (urlparse target) (\<lambda>url.
       Inr \<lparr>rq_command = command, rq_path = u_path url, rq_path_chain = parse_path dec url,
            rq_query = parse_qs dec (u_query url), rq_headers = headers, rq_body = None,
            rq_creds = cr, rq_client_cert = cn_cert (in_conn inc),
            rq_client_id = peer_info (in_conn inc) cr, rq_remote_user = None,
            rq_default_namespace = None, rq_trail = None, rq_kkstore = None, rq_ipa = False\<rparr>))))"

text \<open>C27: However long a body the client announces, what is read is a part of what it sends and not
  longer than the limit, with one exception: for the announced length -1 everything the client
  sends is read.\<close>

theorem body_limit:
  assumes "parse_content headers stream = Inr (Some b)"
    and "header_get headers ''content-length'' = Some v"
  shows "prefix b stream
    \<and> (if py_int 10 v = Inr (-1) then b = stream else int (length b) \<le> MAX_REQUEST_SIZE)"
proof -
  from assms obtain n where n: "py_int 10 v = Inr n" "n \<le> MAX_REQUEST_SIZE"
    and r: "rfile_read stream n = Inr b"
    by (auto simp: parse_content_def not_less elim!: rbind_InrE split: if_splits)
  then show ?thesis
    by (auto simp: rfile_read_def take_is_prefix split: if_splits)
qed

theorem body_limit_witness:
  "parse_content [(''Content-Length'', ''-1'')] ''all of it'' = Inr (Some ''all of it'')
   \<and> parse_content [(''Content-Length'', ''3'')] ''all of it'' = Inr (Some ''all'')
   \<and> prefix ''all'' ''all of it''"
proof -
  have r: "parse_content [(''Content-Length'', ''-1'')] ''all of it'' = Inr (Some ''all of it'')"
    "parse_content [(''Content-Length'', ''3'')] ''all of it'' = Inr (Some ''all'')"
    "header_get [(''Content-Length'', ''3'')] ''content-length'' = Some ''3''" by code_simp+
  from body_limit [OF r(2,3)] r show ?thesis by blast
qed

lemma parse_path_join:
  "\<forall>x \<in> set segs. CHR ''/'' \<notin> set x \<Longrightarrow> segs \<noteq> [] \<Longrightarrow> u_path url = py_join ''/'' segs \<Longrightarrow>
   parse_path dec url = map (unquote dec) segs"
  by (simp add: parse_path_def py_split_join)

subsection \<open>The pipeline\<close>

record ('w, 'k) server_config =
  sc_authenticators :: "(string \<times> ('w, 'k) checker) list option"
  sc_authorizers :: "(string \<times> ('w, 'k) authorizer) list option"
  sc_consumers :: "(string list \<times> ('w, 'k) consumer) list"

fun run_authers ::
    "(string \<times> ('w, 'k) checker) list \<Rightarrow> bool \<Rightarrow> 'w request \<Rightarrow> ('w, 'k, bool \<times> 'w request) act" where
  "run_authers [] valid_once req = py_return (valid_once, req)"
| "run_authers ((name, h) # hs) valid_once req =
     py_bind (h req) (\<lambda>(valid, req').
       if valid = Some False then py_raise (HTTPError 403)
       else run_authers hs (valid = Some True \<or> valid_once) req')"

fun run_authzers ::
    "(string \<times> ('w, 'k) authorizer) list \<Rightarrow> bool option \<Rightarrow> 'w request \<Rightarrow> ('w, 'k) ctx
     \<Rightarrow> ((bool option \<times> 'w request) res \<times> ('w, 'k) ctx) option" where
  "run_authzers [] ok req c = Some (Inr (ok, req), c)"
| "run_authzers ((name, h) # hs) ok req c = (case h req of
      None \<Rightarrow> None
    | Some m \<Rightarrow> (case m c of
          (Inl e, c') \<Rightarrow> Some (Inl e, c')
        | (Inr (valid, req'), c') \<Rightarrow>
            if valid = Some True then run_authzers hs (Some True) req' c'
            else if valid = Some False then Some (Inr (Some False, req'), c')
            else run_authzers hs ok req' c'))"

text \<open>The walk from the leaf to the root over the unquoted path.\<close>

function select_consumer ::
    "(string list \<times> 'a) list \<Rightarrow> string list \<Rightarrow> string list \<Rightarrow> ('a \<times> string list) option" where
  "select_consumer consumers chain trail =
     (if chain = [] then None
      else (case dict_get consumers chain of
          Some con \<Rightarrow> Some (con, trail)
        | None \<Rightarrow> select_consumer consumers (butlast chain) (last chain # trail)))"
  by pat_completeness auto
termination
  by (relation "measure (\<lambda>(_, chain, _). length chain)") auto

declare select_consumer.simps [simp del]

definition handler_origin :: string where
  "handler_origin = ''HTTPRequestHandler''"

definition run_consumer ::
    "('k, 'jwe, 'jws) env \<Rightarrow> ('w, 'k) server_config \<Rightarrow> 'w request \<Rightarrow> ('w, 'k, response) act" where
  "run_consumer E cfg req = (case select_consumer (sc_consumers cfg) (rq_path_chain req) [] of
      None \<Rightarrow> py_raise (HTTPError 404)
    | Some (con, trail) \<Rightarrow>
        consumer_handle E con (if trail = [] then req else req\<lparr>rq_trail := Some trail\<rparr>))"

definition authorize ::
    "('k, 'jwe, 'jws) env \<Rightarrow> ('w, 'k) server_config \<Rightarrow> 'w request \<Rightarrow> ('w, 'k) ctx
     \<Rightarrow> (response res \<times> ('w, 'k) ctx) option" where
  "authorize E cfg req c = (case sc_authorizers cfg of
      None \<Rightarrow> Some (Inl (HTTPError 403), c)
    | Some authzers \<Rightarrow> (case run_authzers authzers None req c of
          None \<Rightarrow> None
        | Some (Inl e, c') \<Rightarrow> Some (Inl e, c')
        | Some (Inr (ok, req'), c') \<Rightarrow>
            if ok \<noteq> Some True
            then Some (Inl (HTTPError 403),
              snd (add_audit (audit_svc_entry handler_origin AUDIT_SVC_AUTHZ_FAIL
                (rq_client_id req') (AChain (rq_path_chain req))) c'))
            else Some (run_consumer E cfg (req'\<lparr>rq_path_chain := rq_path_chain req\<rparr>) c')))"

definition pipeline ::
    "('k, 'jwe, 'jws) env \<Rightarrow> ('w, 'k) server_config \<Rightarrow> 'w request \<Rightarrow> ('w, 'k) ctx
     \<Rightarrow> (response res \<times> ('w, 'k) ctx) option" where
  "pipeline E cfg req c =
     (if rq_path_chain req = [] \<or> hd (rq_path_chain req) \<noteq> [] then Some (Inl (HTTPError 400), c)
      else (case sc_authenticators cfg of
          None \<Rightarrow> Some (Inl (HTTPError 403), c)
        | Some authers \<Rightarrow> (case run_authers authers False req c of
              (Inl e, c') \<Rightarrow> Some (Inl e, c')
            | (Inr (valid_once, req'), c') \<Rightarrow>
                if \<not> valid_once
                then Some (Inl (HTTPError 403),
                  snd (add_audit (audit_svc_entry handler_origin AUDIT_SVC_AUTH_FAIL
                    (rq_client_id req') (AStr ''No auth'')) c'))
                else authorize E cfg (req'\<lparr>rq_path_chain := rq_path_chain req\<rparr>) c')))"

subsection \<open>One request\<close>

text \<open>What happens on the wire: the connection is closed, an error or a response is sent, or an
  exception leaves the handler.\<close>

datatype outcome =
    Closed
  | ErrorSent int
  | Sent int "(string \<times> string) list" "body option"
  | Escaped exn

definition send_result :: "response res \<Rightarrow> outcome" where
  "send_result r = (case r of
      Inl (HTTPError n) \<Rightarrow> ErrorSent n
    | Inl SocketTimeout \<Rightarrow> Closed
    | Inl _ \<Rightarrow> ErrorSent 500
    | Inr resp \<Rightarrow> Sent (case rs_code resp of None \<Rightarrow> 200 | Some n \<Rightarrow> n) (rs_headers resp) (rs_output resp))"

definition escape :: "exn \<Rightarrow> outcome" where
  "escape e = (if e = SocketTimeout then Closed else Escaped e)"

definition handle_one_request ::
    "('k, 'jwe, 'jws) env \<Rightarrow> (bytes \<Rightarrow> string) \<Rightarrow> (bytes \<Rightarrow> string res) \<Rightarrow> ('w, 'k) server_config option
     \<Rightarrow> incoming \<Rightarrow> ('w, 'k) ctx \<Rightarrow> (outcome \<times> ('w, 'k) ctx) option" where
  "handle_one_request E dec dec8 config inc c = (case config of
      None \<Rightarrow> Some (Closed, c)
    | Some cfg \<Rightarrow>
        if in_line inc = [] then Some (Closed, c)
        else if length (in_line inc) > 65536 then Some (ErrorSent 414, c)
        else (case in_parsed inc of
            None \<Rightarrow> Some (Closed, c)
          | Some line \<Rightarrow> (case parse_request dec dec8 inc line of
                Inl e \<Rightarrow> Some (escape e, c)
              | Inr req \<Rightarrow> (case parse_content (rq_headers req) (in_stream inc) of
                    Inl (HTTPError n) \<Rightarrow> Some (ErrorSent n, c)
                  | Inl e \<Rightarrow> Some (escape e, c)
                  | Inr b \<Rightarrow> (case pipeline E cfg (req\<lparr>rq_body := b\<rparr>) c of
                        None \<Rightarrow> None
                      | Some (r, c') \<Rightarrow> Some (send_result r, c'))))))"

subsection \<open>Who gets through\<close>

text \<open>
  The verdicts of a run, as a relation: the checkers run in order, each on the request and the
  state its predecessor left.
\<close>

inductive auth_run ::
    "(string \<times> ('w, 'k) checker) list \<Rightarrow> 'w request \<Rightarrow> ('w, 'k) ctx \<Rightarrow> bool option list
     \<Rightarrow> 'w request \<Rightarrow> ('w, 'k) ctx \<Rightarrow> bool" where
  auth_done: "auth_run [] req c [] req c"
| auth_step: "h req c = (Inr (v, req1), c1) \<Longrightarrow> auth_run hs req1 c1 vs req' c' \<Longrightarrow>
    auth_run ((name, h) # hs) req c (v # vs) req' c'"

inductive_cases auth_run_ConsE: "auth_run (x # hs) req c vs req' c'"
inductive_simps auth_run_Nil: "auth_run [] req c vs req' c'"

lemma run_authers_run:
  "run_authers hs once req c = (Inr (b, req'), c') \<longleftrightarrow>
     (\<exists>vs. auth_run hs req c vs req' c' \<and> Some False \<notin> set vs \<and> b = (Some True \<in> set vs \<or> once))"
proof (induction hs once req arbitrary: c rule: run_authers.induct)
  case (1 once req)
  show ?case by (auto simp: auth_run_Nil py_simps)
next
  case (2 name h hs once req)
  obtain r c1 where r: "h req c = (r, c1)" by fastforce
  show ?case
  proof (cases r)
    case (Inl e)
    then show ?thesis using r by (auto simp: py_bind_def elim!: auth_run_ConsE)
  next
    case (Inr vr)
    obtain v req1 where vr: "vr = (v, req1)" by fastforce
    have run: "auth_run ((name, h) # hs) req c ws req' c' \<longleftrightarrow>
        (\<exists>vs. ws = v # vs \<and> auth_run hs req1 c1 vs req' c')" for ws
      using r Inr vr by (auto elim!: auth_run_ConsE intro: auth_step)
    show ?thesis
    proof (cases "v = Some False")
      case True
      then show ?thesis using r Inr vr by (auto simp: py_bind_def py_raise_def run)
    next
      case False
      with 2 [of v req1 c1] r Inr vr show ?thesis
        by (auto simp: py_bind_def run)
    qed
  qed
qed

inductive authz_run ::
    "(string \<times> ('w, 'k) authorizer) list \<Rightarrow> 'w request \<Rightarrow> ('w, 'k) ctx \<Rightarrow> bool option list
     \<Rightarrow> 'w request \<Rightarrow> ('w, 'k) ctx \<Rightarrow> bool" where
  authz_done: "authz_run [] req c [] req c"
| authz_step: "h req = Some m \<Longrightarrow> m c = (Inr (v, req1), c1) \<Longrightarrow> authz_run hs req1 c1 vs req' c' \<Longrightarrow>
    authz_run ((name, h) # hs) req c (v # vs) req' c'"

inductive_cases authz_run_ConsE: "authz_run (x # hs) req c vs req' c'"
inductive_simps authz_run_Nil: "authz_run [] req c vs req' c'"

lemma run_authzers_True:
  "run_authzers hs ok req c = Some (Inr (Some True, req'), c') \<longleftrightarrow>
     (\<exists>vs. authz_run hs req c vs req' c' \<and> Some False \<notin> set vs
        \<and> (Some True \<in> set vs \<or> ok = Some True))"
proof (induction hs ok req c rule: run_authzers.induct)
  case (1 ok req c)
  show ?case by (auto simp: authz_run_Nil)
next
  case (2 name h hs ok req c)
  show ?case
  proof (cases "h req")
    case None
    then show ?thesis by (auto elim!: authz_run_ConsE)
  next
    case (Some m)
    obtain r c1 where r: "m c = (r, c1)" by fastforce
    show ?thesis
    proof (cases r)
      case (Inl e)
      then show ?thesis using r Some by (auto elim!: authz_run_ConsE)
    next
      case (Inr vr)
      obtain v req1 where vr: "vr = (v, req1)" by fastforce
      have run: "authz_run ((name, h) # hs) req c ws req' c' \<longleftrightarrow>
          (\<exists>vs. ws = v # vs \<and> authz_run hs req1 c1 vs req' c')" for ws
        using r Inr vr Some by (auto elim!: authz_run_ConsE intro: authz_step)
      note IH = 2 [OF Some r [symmetric] Inr vr [symmetric]]
      consider "v = Some True" | "v = Some False" | "v = None" by (cases v) auto
      then show ?thesis
        using IH r Inr vr Some by cases (auto simp: run)
    qed
  qed
qed

text \<open>A run of authorizers changes what each of them may change.\<close>

lemma authz_run_contract:
  assumes "authz_run hs req c vs req' c'" and "\<And>n h. (n, h) \<in> set hs \<Longrightarrow> authorizer h"
  shows "modest req c req' c'"
  using assms
proof (induction rule: authz_run.induct)
  case (authz_step h req m c v req1 c1 hs vs req' c' name)
  then have "authorizer h" by auto
  from authorizer.modest_step [OF this authz_step.hyps(1,2)] authz_step show ?case
    by (auto intro: modest_trans)
qed (simp add: modest_refl)

text \<open>
  A request gets an answer from a consumer only if no authenticator and no authorizer said no
  and at least one of each said yes.
\<close>

lemma pipeline_Inr:
  assumes "pipeline E cfg req c = Some (Inr resp, c')"
  obtains authers vs req1 c1 authzers ws req2 c2 where
    "sc_authenticators cfg = Some authers" and "auth_run authers req c vs req1 c1"
    and "Some False \<notin> set vs" and "Some True \<in> set vs"
    and "sc_authorizers cfg = Some authzers"
    and "authz_run authzers (req1\<lparr>rq_path_chain := rq_path_chain req\<rparr>) c1 ws req2 c2"
    and "Some False \<notin> set ws" and "Some True \<in> set ws"
    and "run_consumer E cfg (req2\<lparr>rq_path_chain := rq_path_chain req\<rparr>) c2 = (Inr resp, c')"
proof -
  from assms obtain authers req1 c1 where
    a: "sc_authenticators cfg = Some authers" "run_authers authers False req c = (Inr (True, req1), c1)"
    and z: "authorize E cfg (req1\<lparr>rq_path_chain := rq_path_chain req\<rparr>) c1 = Some (Inr resp, c')"
    by (auto simp: pipeline_def split: if_splits option.splits prod.splits sum.splits)
  from z obtain authzers req2 c2 where
    b: "sc_authorizers cfg = Some authzers"
      "run_authzers authzers None (req1\<lparr>rq_path_chain := rq_path_chain req\<rparr>) c1
        = Some (Inr (Some True, req2), c2)"
    and r: "run_consumer E cfg (req2\<lparr>rq_path_chain := rq_path_chain req\<rparr>) c2 = (Inr resp, c')"
    by (auto simp: authorize_def split: if_splits option.splits prod.splits sum.splits)
  from a(2) obtain vs where "auth_run authers req c vs req1 c1" "Some False \<notin> set vs" "Some True \<in> set vs"
    by (auto simp: run_authers_run)
  moreover from b(2) obtain ws where
    "authz_run authzers (req1\<lparr>rq_path_chain := rq_path_chain req\<rparr>) c1 ws req2 c2"
    "Some False \<notin> set ws" "Some True \<in> set ws"
    by (auto simp: run_authzers_True)
  ultimately show thesis using that a b r by blast
qed

lemma pipeline_consumer:
  assumes "pipeline E cfg req c = Some (Inr resp, c')"
  shows "\<exists>con t c2. consumer_handle E con t c2 = (Inr resp, c')"
  by (rule pipeline_Inr [OF assms])
     (auto simp: run_consumer_def py_raise_def split: option.splits)

text \<open>On a path that does not begin with two slashes the authorizers return.\<close>

lemma run_authzers_returns:
  "\<forall>(n, h) \<in> set hs. authorizer h \<Longrightarrow> \<not> startswith (rq_path req) ''//'' \<Longrightarrow>
   run_authzers hs ok req c \<noteq> None"
proof (induction hs ok req c rule: run_authzers.induct)
  case (2 name h hs ok req c)
  have own: "\<forall>(n, h) \<in> set hs. authorizer h" and h: "authorizer h" using "2.prems" by auto
  from authorizer.returns [OF h "2.prems"(2)] obtain m where m: "h req = Some m" by auto
  from authorizer.answers [OF h m, of c] obtain v req1 c1 where
    r: "m c = (Inr (v, req1), c1)" and "modest req c req1 c1" by blast
  then have path: "\<not> startswith (rq_path req1) ''//''" using "2.prems"(2) by (simp add: modest_same)
  note IH = "2.IH" [OF m r [symmetric] refl refl]
  consider "v = Some True" | "v = Some False" | "v = None" by (cases v) auto
  then show ?case using IH own path m r by cases simp_all
qed simp

subsection \<open>The consumer nearest to the leaf\<close>

lemma select_consumer_longest:
  assumes "select_consumer consumers chain trail = Some (con, t)"
  shows "\<exists>pre post. chain = pre @ post \<and> pre \<noteq> [] \<and> dict_get consumers pre = Some con
    \<and> t = post @ trail
    \<and> (\<forall>a b. chain = a @ b \<and> length pre < length a \<longrightarrow> dict_get consumers a = None)"
  using assms
proof (induction consumers chain trail rule: select_consumer.induct)
  case (1 consumers chain trail)
  show ?case
  proof (cases "dict_get consumers chain")
    case (Some k)
    with 1(2) have "chain \<noteq> []" "k = con" "t = trail"
      by (auto simp: select_consumer.simps [of consumers chain] split: if_splits)
    with Some show ?thesis by (intro exI [of _ chain] exI [of _ "[]"]) auto
  next
    case None
    with 1(2) have ne: "chain \<noteq> []"
      and "select_consumer consumers (butlast chain) (last chain # trail) = Some (con, t)"
      by (auto simp: select_consumer.simps [of consumers chain] split: if_splits)
    from 1(1) [OF ne None this(2)] obtain pre post where
      p: "butlast chain = pre @ post" "pre \<noteq> []" "dict_get consumers pre = Some con"
        "t = post @ last chain # trail"
      and longer: "\<And>a b. butlast chain = a @ b \<Longrightarrow> length pre < length a \<Longrightarrow> dict_get consumers a = None"
      by blast
    have chain: "chain = pre @ (post @ [last chain])"
      using p(1) ne by (metis append.assoc append_butlast_last_id)
    have "dict_get consumers a = None" if "chain = a @ b" "length pre < length a" for a b
    proof (cases b rule: rev_cases)
      case Nil
      then show ?thesis using that None by simp
    next
      case (snoc b' x)
      then have "butlast chain = a @ b'" using that by (simp add: butlast_append)
      then show ?thesis using longer that by blast
    qed
    with chain p show ?thesis by (intro exI [of _ pre] exI [of _ "post @ [last chain]"]) auto
  qed
qed

lemma select_consumer_None:
  "select_consumer consumers chain trail = None \<longleftrightarrow>
   (\<forall>a b. chain = a @ b \<and> a \<noteq> [] \<longrightarrow> dict_get consumers a = None)"
proof (induction consumers chain trail rule: select_consumer.induct)
  case (1 consumers chain trail)
  show ?case
  proof (cases "chain \<noteq> [] \<and> dict_get consumers chain = None")
    case False
    then show ?thesis
      by (auto simp: select_consumer.simps [of consumers chain] split: option.splits)
  next
    case True
    have "(\<forall>a b. chain = a @ b \<and> a \<noteq> [] \<longrightarrow> dict_get consumers a = None) \<longleftrightarrow>
          (\<forall>a b. butlast chain = a @ b \<and> a \<noteq> [] \<longrightarrow> dict_get consumers a = None)"
    proof (intro iffI allI impI)
      fix a b
      assume *: "\<forall>a b. chain = a @ b \<and> a \<noteq> [] \<longrightarrow> dict_get consumers a = None"
        and "butlast chain = a @ b \<and> a \<noteq> []"
      then have "chain = a @ (b @ [last chain])" "a \<noteq> []"
        using True by (metis append.assoc append_butlast_last_id, blast)
      with * show "dict_get consumers a = None" by blast
    next
      fix a b
      assume *: "\<forall>a b. butlast chain = a @ b \<and> a \<noteq> [] \<longrightarrow> dict_get consumers a = None"
        and ab: "chain = a @ b \<and> a \<noteq> []"
      show "dict_get consumers a = None"
      proof (cases b rule: rev_cases)
        case Nil
        then show ?thesis using ab True by simp
      next
        case (snoc b' x)
        then have "butlast chain = a @ b'" using ab by (simp add: butlast_append)
        then show ?thesis using * ab by blast
      qed
    qed
    with 1 True show ?thesis by (simp add: select_consumer.simps [of consumers chain])
  qed
qed

end
