(* ===== verification/Options.thy ===== *)
theory Options
  imports PyStrings
begin

text \<open>
  The plugin framework of \<open>src/custodia/plugin.py\<close>: reading a plugin's options from its section
  of the configuration file, configuring a plugin object, and the second initialization stage,
  in which plugins and stores are tied to the stores they name.

  The configuration is what \<open>configparser\<close> answers after interpolation: sections with their
  options, and the default section. \<open>float()\<close>, \<open>json.loads\<close>, \<open>re.compile\<close> and the user and
  group databases are the fields of \<open>conv\<close>.
\<close>

subsection \<open>The configuration parser\<close>

record cfg =
  cf_defaults :: "(string \<times> string) list"
  cf_sections :: "(string \<times> (string \<times> string) list) list"

definition DEFAULTSECT :: string where "DEFAULTSECT = ''DEFAULT''"

datatype lookup = NoSection | NoOption | Found string

definition cfg_lookup :: "cfg \<Rightarrow> string \<Rightarrow> string \<Rightarrow> lookup" where
  "cfg_lookup p section name =
     (case (if section = DEFAULTSECT then Some [] else dict_get (cf_sections p) section) of
        None \<Rightarrow> NoSection
      | Some opts \<Rightarrow> (case dict_get opts name of
            Some v \<Rightarrow> Found v
          | None \<Rightarrow> (case dict_get (cf_defaults p) name of Some v \<Rightarrow> Found v | None \<Rightarrow> NoOption)))"

definition has_option :: "cfg \<Rightarrow> string \<Rightarrow> string \<Rightarrow> bool" where
  "has_option p section name = (case cfg_lookup p section name of Found _ \<Rightarrow> True | _ \<Rightarrow> False)"

text \<open>\<open>parser.items(section)\<close>: the defaults, overridden and extended by the section.\<close>

definition cfg_items :: "cfg \<Rightarrow> string \<Rightarrow> (string \<times> string) list res" where
  "cfg_items p section = (case dict_get (cf_sections p) section of
      None \<Rightarrow> if section = DEFAULTSECT then Inr (cf_defaults p) else Inl KeyError
    | Some opts \<Rightarrow> Inr (dict_update (cf_defaults p) opts))"

subsection \<open>Option values\<close>

datatype optval =
    VNone
  | VBool bool
  | VInt int
  | VFloat rat
  | VStr string
  | VRegex string
  | VSet "string list"
  | VList "string list"
  | VJson json

datatype option_default = REQUIRED | INHERIT_GLOBAL optval | Default optval

record plugin_option =
  po_name :: string
  po_typ :: string
  po_default :: option_default

text \<open>\<open>PluginOption.__init__\<close>: a type object is replaced by its name.\<close>

datatype typ_arg = TypeObj string | TypeName string

definition PluginOption_init :: "typ_arg \<Rightarrow> option_default \<Rightarrow> plugin_option" where
  "PluginOption_init typ dflt = \<lparr>po_name = [],
     po_typ = (case typ of TypeObj n \<Rightarrow> n | TypeName n \<Rightarrow> n), po_default = dflt\<rparr>"

record conv =
  co_float :: "string \<Rightarrow> rat res"
  co_json :: "string \<Rightarrow> json res"
  co_regex :: "string \<Rightarrow> unit res"
  co_getpwnam :: "string \<Rightarrow> int option"
  co_getgrnam :: "string \<Rightarrow> int option"

text \<open>\<open>parser.get(section, name, fallback=default)\<close>.\<close>

definition get_fallback :: "cfg \<Rightarrow> string \<Rightarrow> string \<Rightarrow> optval \<Rightarrow> optval" where
  "get_fallback p section name dflt = (case cfg_lookup p section name of
      Found v \<Rightarrow> VStr v | _ \<Rightarrow> dflt)"

definition get_int :: "cfg \<Rightarrow> string \<Rightarrow> string \<Rightarrow> optval \<Rightarrow> optval res" where
  "get_int p section name dflt = (case cfg_lookup p section name of
      Found v \<Rightarrow> rbind (py_int 10 v) (\<lambda>n. Inr (VInt n)) | _ \<Rightarrow> Inr dflt)"

text \<open>\<open>int(value, base)\<close> takes a text only.\<close>

definition get_based :: "nat \<Rightarrow> cfg \<Rightarrow> string \<Rightarrow> string \<Rightarrow> optval \<Rightarrow> optval res" where
  "get_based base p section name dflt = (case get_fallback p section name dflt of
      VStr v \<Rightarrow> rbind (py_int base v) (\<lambda>n. Inr (VInt n)) | _ \<Rightarrow> Inl TypeError)"

definition get_float :: "conv \<Rightarrow> cfg \<Rightarrow> string \<Rightarrow> string \<Rightarrow> optval \<Rightarrow> optval res" where
  "get_float C p section name dflt = (case cfg_lookup p section name of
      Found v \<Rightarrow> rbind (co_float C v) (\<lambda>n. Inr (VFloat n)) | _ \<Rightarrow> Inr dflt)"

definition BOOLEAN_STATES :: "(string \<times> bool) list" where
  "BOOLEAN_STATES = [(''1'', True), (''yes'', True), (''true'', True), (''on'', True),
                     (''0'', False), (''no'', False), (''false'', False), (''off'', False)]"

definition to_boolean :: "string \<Rightarrow> bool res" where
  "to_boolean v = of_option ValueError (dict_get BOOLEAN_STATES (py_lower v))"

definition get_bool :: "cfg \<Rightarrow> string \<Rightarrow> string \<Rightarrow> optval \<Rightarrow> optval res" where
  "get_bool p section name dflt = (case cfg_lookup p section name of
      Found v \<Rightarrow> rbind (to_boolean v) (\<lambda>b. Inr (VBool b)) | _ \<Rightarrow> Inr dflt)"

fun value_truth :: "optval \<Rightarrow> bool" where
  "value_truth VNone = False"
| "value_truth (VBool b) = b"
| "value_truth (VInt i) = (i \<noteq> 0)"
| "value_truth (VFloat r) = (r \<noteq> 0)"
| "value_truth (VStr s) = (s \<noteq> [])"
| "value_truth (VRegex s) = True"
| "value_truth (VSet xs) = (xs \<noteq> [])"
| "value_truth (VList xs) = (xs \<noteq> [])"
| "value_truth (VJson j) = py_truth j"

definition get_regex :: "conv \<Rightarrow> cfg \<Rightarrow> string \<Rightarrow> string \<Rightarrow> optval \<Rightarrow> optval res" where
  "get_regex C p section name dflt = (let value = get_fallback p section name dflt in
     if \<not> value_truth value then Inr VNone
     else (case value of
        VStr s \<Rightarrow> rbind (co_regex C s) (\<lambda>_. Inr (VRegex s)) | _ \<Rightarrow> Inl TypeError))"

definition split_string :: "string \<Rightarrow> string list" where
  "split_string value =
     (let values = (if str_contains value '','' then py_split (CHR '','') value
                    else py_split (CHR '' '') value)
      in map py_strip (filter (\<lambda>v. py_strip v \<noteq> []) values))"

definition get_strings ::
    "(string list \<Rightarrow> optval) \<Rightarrow> cfg \<Rightarrow> string \<Rightarrow> string \<Rightarrow> optval \<Rightarrow> optval res" where
  "get_strings mk p section name dflt = (case cfg_lookup p section name of
      NoSection \<Rightarrow> Inl KeyError
    | NoOption \<Rightarrow> Inr dflt
    | Found v \<Rightarrow> if v = [] \<or> py_strip v = [] then Inr VNone else Inr (mk (split_string v)))"

text \<open>A number or a name; a name that is not known raises \<open>KeyError\<close>.\<close>

definition get_id ::
    "(string \<Rightarrow> int option) \<Rightarrow> cfg \<Rightarrow> string \<Rightarrow> string \<Rightarrow> optval \<Rightarrow> optval res" where
  "get_id byname p section name dflt = (case get_fallback p section name dflt of
      VStr s \<Rightarrow> (case py_int 10 s of
          Inr n \<Rightarrow> Inr (VInt n)
        | Inl _ \<Rightarrow> rbind (of_option KeyError (byname s)) (\<lambda>n. Inr (VInt n)))
    | VInt n \<Rightarrow> Inr (VInt n)
    | VBool b \<Rightarrow> Inr (VInt (if b then 1 else 0))
    | VFloat r \<Rightarrow> Inr (VInt (if r < 0 then \<lceil>r\<rceil> else \<lfloor>r\<rfloor>))
    | _ \<Rightarrow> Inl TypeError)"

definition get_json :: "conv \<Rightarrow> cfg \<Rightarrow> string \<Rightarrow> string \<Rightarrow> optval \<Rightarrow> optval res" where
  "get_json C p section name dflt = (case get_fallback p section name dflt of
      VStr s \<Rightarrow> rbind (co_json C s) (\<lambda>j. Inr (VJson j)) | _ \<Rightarrow> Inl TypeError)"

subsection \<open>\<open>OptionHandler\<close>\<close>

text \<open>The methods \<open>_get_<typ>\<close>, found by name.\<close>

definition option_handler ::
    "conv \<Rightarrow> cfg \<Rightarrow> string \<Rightarrow> (string \<Rightarrow> string \<Rightarrow> optval \<Rightarrow> optval res) option" where
  "option_handler C p typ = map_of
     [(''int'', get_int p), (''oct'', get_based 8 p), (''hex'', get_based 16 p),
      (''float'', get_float C p), (''bool'', get_bool p), (''regex'', get_regex C p),
      (''str'', \<lambda>s n d. Inr (get_fallback p s n d)), (''str_set'', get_strings VSet p),
      (''str_list'', get_strings VList p), (''store'', \<lambda>s n d. Inr (get_fallback p s n d)),
      (''pwd_uid'', get_id (co_getpwnam C) p), (''grp_gid'', get_id (co_getgrnam C) p),
      (''json'', get_json C p)] typ"

text \<open>\<open>get\<close> adds the option's name to \<open>seen\<close> once its type is known.\<close>

definition option_get ::
    "conv \<Rightarrow> cfg \<Rightarrow> string \<Rightarrow> plugin_option \<Rightarrow> (string list, optval) py" where
  "option_get C p section po = (case option_handler C p (po_typ po) of
      None \<Rightarrow> py_raise ValueError
    | Some handler \<Rightarrow>
        py_bind (py_modify (\<lambda>seen. po_name po # seen)) (\<lambda>_.
          py_lift
            (if has_option p section (po_name po)
             then handler section (po_name po)
               (case po_default po of Default d \<Rightarrow> d | INHERIT_GLOBAL d \<Rightarrow> d | REQUIRED \<Rightarrow> VNone)
             else (case po_default po of
                 REQUIRED \<Rightarrow> Inl NameError
               | INHERIT_GLOBAL d \<Rightarrow> handler ''global'' (po_name po) d
               | Default d \<Rightarrow> handler section (po_name po) d))))"

definition check_surplus :: "cfg \<Rightarrow> string \<Rightarrow> string list \<Rightarrow> string list res" where
  "check_surplus p section seen = rbind (cfg_items p section) (\<lambda>items.
     Inr (filter (\<lambda>name. name \<notin> set seen \<and> \<not> has_option p DEFAULTSECT name) (map fst items)))"

subsection \<open>Configuring a plugin\<close>

text \<open>
  The metaclass: the options of a class are its members that are options, in the order of
  their names, with \<open>debug\<close> added when the class does not define it.
\<close>

definition debug_option :: plugin_option where
  "debug_option = \<lparr>po_name = ''debug'', po_typ = ''bool'', po_default = INHERIT_GLOBAL (VBool False)\<rparr>"

definition class_options :: "(string \<times> plugin_option) list \<Rightarrow> plugin_option list" where
  "class_options members =
     (let ms = (if dict_get members ''debug'' = None then members @ [(''debug'', debug_option)] else members)
      in map (\<lambda>(n, po). po\<lparr>po_name := n\<rparr>) (sort_key fst ms))"

record plugin_obj =
  pg_attrs :: "(string \<times> optval) list"
  pg_store_name :: "optval option"
  pg_origin :: string
  pg_debug :: optval

fun configure_options ::
    "conv \<Rightarrow> cfg \<Rightarrow> string \<Rightarrow> plugin_option list \<Rightarrow> (string \<times> optval) list \<Rightarrow> optval option
     \<Rightarrow> (string list, (string \<times> optval) list \<times> optval option) py" where
  "configure_options C p section [] attrs st = py_return (attrs, st)"
| "configure_options C p section (po # pos) attrs st =
     py_bind (option_get C p section po) (\<lambda>v.
       if po_typ po = ''store'' then
         (if po_name po \<noteq> ''store'' then py_raise ValueError
          else configure_options C p section pos attrs (Some v))
       else configure_options C p section pos (dict_put (po_name po) v attrs) st)"

definition configure_new ::
    "conv \<Rightarrow> cfg \<Rightarrow> string \<Rightarrow> string \<Rightarrow> plugin_option list \<Rightarrow> plugin_obj res" where
  "configure_new C p classname section options =
     (case configure_options C p section options [] None [''handler''] of
        (Inl e, seen) \<Rightarrow> Inl e
      | (Inr (attrs, st), seen) \<Rightarrow>
          rbind (check_surplus p section seen) (\<lambda>surplus.
            if surplus \<noteq> [] then Inl ValueError
            else rbind (of_option AttributeError (dict_get attrs ''debug'')) (\<lambda>debug.
              Inr \<lparr>pg_attrs = attrs, pg_store_name = st,
                   pg_origin = classname @ ''-['' @ section @ '']'', pg_debug = debug\<rparr>)))"

definition configure_old :: "(string \<times> string) list \<Rightarrow> string \<Rightarrow> plugin_obj" where
  "configure_old config classname =
     \<lparr>pg_attrs = [], pg_store_name = map_option VStr (dict_get config ''store''),
      pg_origin = (case dict_get config ''facility_name'' of None \<Rightarrow> classname | Some f \<Rightarrow> f),
      pg_debug = VBool (py_lower (case dict_get config ''debug'' of None \<Rightarrow> ''false'' | Some d \<Rightarrow> d) = ''true'')\<rparr>"

subsection \<open>Attaching stores\<close>

text \<open>
  The second stage. A store plugin is known by its name in \<open>config['stores']\<close>; a node keeps the
  name of the store it wants and the one it has been given. \<open>finalize_store\<close> is
  \<open>finalize_init\<close> of the store \<open>name\<close>: it attaches the nested store and goes on with that one.
\<close>

record pnode =
  pn_store_name :: "string option"
  pn_store :: "string option"

definition waiting :: "pnode \<Rightarrow> bool" where
  "waiting n = (pn_store_name n \<noteq> None \<and> pn_store n = None)"

lemma waiting_decreases:
  "dict_get S name = Some n \<Longrightarrow> waiting n \<Longrightarrow>
   length (filter (\<lambda>(k, m). waiting m) (dict_put name (n\<lparr>pn_store := Some t\<rparr>) S))
     < length (filter (\<lambda>(k, m). waiting m) S)"
  by (induction S) (auto simp: waiting_def split: if_splits)

function finalize_store :: "(string \<times> pnode) list \<Rightarrow> string \<Rightarrow> (string \<times> pnode) list res" where
  "finalize_store S name = (case dict_get S name of
      None \<Rightarrow> Inl ValueError
    | Some n \<Rightarrow>
        if waiting n then
          (case pn_store_name n of
             None \<Rightarrow> Inr S
           | Some t \<Rightarrow>
               if dict_get S t = None then Inl ValueError
               else finalize_store (dict_put name (n\<lparr>pn_store := Some t\<rparr>) S) t)
        else Inr S)"
  by pat_completeness auto
termination
  by (relation "measure (\<lambda>(S, _). length (filter (\<lambda>(k, m). waiting m) S))") (auto simp: waiting_decreases)

declare finalize_store.simps [simp del]

text \<open>The loop over all stores, in the order of their names.\<close>

fun finalize_stores :: "(string \<times> pnode) list \<Rightarrow> string list \<Rightarrow> (string \<times> pnode) list res" where
  "finalize_stores S [] = Inr S"
| "finalize_stores S (name # names) =
     rbind (finalize_store S name) (\<lambda>S'. finalize_stores S' names)"

subsection \<open>Options\<close>

lemma has_option_lookup: "has_option p s n \<longleftrightarrow> (\<exists>v. cfg_lookup p s n = Found v)"
  by (auto simp: has_option_def split: lookup.splits)

lemma cfg_items_names:
  assumes "cfg_items p section = Inr items" and "section \<noteq> DEFAULTSECT"
    and "dict_get (cf_sections p) section = Some opts" and "n \<in> fst ` set opts"
  shows "n \<in> set (map fst items)"
proof -
  have keys: "set (map fst (dict_update d e)) = fst ` set d \<union> fst ` set e"
    for d e :: "(string \<times> string) list"
  proof (induction d e rule: dict_update.induct)
    case (2 d k v e)
    then show ?case using dict_put_keys [of k v d] by auto
  qed simp
  from assms have "items = dict_update (cf_defaults p) opts" by (simp add: cfg_items_def)
  with keys [of "cf_defaults p" opts] assms(4) show ?thesis by (simp only:) blast
qed

lemma option_get_seen:
  assumes "option_get C p section po seen = (Inr v, seen')"
  shows "seen' = po_name po # seen"
  using assms by (auto simp: option_get_def py_simps split: option.splits)

lemma option_get_required:
  assumes "po_default po = REQUIRED" and "\<not> has_option p section (po_name po)"
    and "option_handler C p (po_typ po) \<noteq> None"
  shows "fst (option_get C p section po seen) = Inl NameError"
  using assms by (auto simp: option_get_def py_simps split: option.splits)

lemma configure_options_seen:
  "configure_options C p section pos attrs st seen = (Inr r, seen') \<Longrightarrow>
   set seen' = set (map po_name pos) \<union> set seen"
proof (induction pos arbitrary: attrs st seen)
  case (Cons po pos)
  from Cons.prems obtain v seen1 where
    v: "option_get C p section po seen = (Inr v, seen1)"
    and r: "(if po_typ po = ''store'' then
         (if po_name po \<noteq> ''store'' then py_raise ValueError
          else configure_options C p section pos attrs (Some v))
       else configure_options C p section pos (dict_put (po_name po) v attrs) st) seen1 = (Inr r, seen')"
    by (auto simp: py_bind_def split: prod.splits sum.splits)
  from r have "set seen' = set (map po_name pos) \<union> set seen1"
    by (auto simp: py_raise_def split: if_splits dest: Cons.IH)
  then show ?case using option_get_seen [OF v] by auto
qed (simp add: py_return_def)

text \<open>A plugin that is configured has no option in its section that it does not know: every option
  there is \<open>handler\<close>, one of the options of its class, or an option of the default section.\<close>

lemma configure_new_known:
  assumes c: "configure_new C p classname section options = Inr obj"
    and s: "dict_get (cf_sections p) section = Some opts" "section \<noteq> DEFAULTSECT"
    and n: "n \<in> fst ` set opts"
  shows "n = ''handler'' \<or> n \<in> set (map po_name options) \<or> dict_get (cf_defaults p) n \<noteq> None"
proof -
  from c obtain attrs st seen where
    o: "configure_options C p section options [] None [''handler''] = (Inr (attrs, st), seen)"
    and sp: "check_surplus p section seen = Inr []"
    by (auto simp: configure_new_def split: prod.splits sum.splits if_splits elim!: rbind_InrE)
  from sp obtain items where i: "cfg_items p section = Inr items"
    and f: "filter (\<lambda>name. name \<notin> set seen \<and> \<not> has_option p DEFAULTSECT name) (map fst items) = []"
    by (auto simp: check_surplus_def elim!: rbind_InrE)
  from cfg_items_names [OF i s(2,1) n] f have "n \<in> set seen \<or> has_option p DEFAULTSECT n"
    by (auto simp: filter_empty_conv)
  with configure_options_seen [OF o] show ?thesis
    by (auto simp: has_option_lookup cfg_lookup_def split: option.splits)
qed

definition sample_conv :: conv where
  "sample_conv = \<lparr>co_float = (\<lambda>s. Inl ValueError), co_json = (\<lambda>s. Inl ValueError),
     co_regex = (\<lambda>s. Inl ValueError), co_getpwnam = (\<lambda>s. None), co_getgrnam = (\<lambda>s. None)\<rparr>"


lemma py_strip_no_space_ends: "py_strip s = [] \<or> (\<not> py_space (hd (py_strip s)) \<and> \<not> py_space (last (py_strip s)))"
proof (cases "py_strip s = []")
  case False
  define l where "l = lstrip_of py_space s"
  have p: "py_strip s = rev (dropWhile py_space (rev l))"
    by (simp add: py_strip_def rstrip_of_def l_def)
  with False have d: "dropWhile py_space (rev l) \<noteq> []" by simp
  have "last (py_strip s) = hd (dropWhile py_space (rev l))" using p d by (simp add: last_rev)
  then have 1: "\<not> py_space (last (py_strip s))" using hd_dropWhile [OF d] by simp
  from p have "prefix (py_strip s) l"
    using suffix_dropWhile [of py_space "rev l"] by (simp add: suffix_to_prefix)
  then have h: "hd (py_strip s) = hd l" using False by (cases l; cases "py_strip s") (auto simp: prefix_def)
  have "l \<noteq> []" using d by auto
  then have "\<not> py_space (hd l)" unfolding l_def lstrip_of_def by (rule hd_dropWhile)
  with 1 h show ?thesis by simp
qed simp

lemma split_string_parts:
  assumes "v \<in> set (split_string s)"
  shows "v \<noteq> [] \<and> \<not> py_space (hd v) \<and> \<not> py_space (last v)"
  using assms py_strip_no_space_ends by (auto simp: split_string_def Let_def)

lemma split_string_no_comma:
  assumes "v \<in> set (split_string s)"
  shows "CHR '','' \<notin> set v"
proof -
  have strip: "set (py_strip x) \<subseteq> set x" for x
  proof -
    have "set (dropWhile py_space (rev (dropWhile py_space x))) \<subseteq> set x"
      by (auto dest!: set_dropWhileD)
    then show ?thesis by (simp add: py_strip_def rstrip_of_def lstrip_of_def)
  qed
  show ?thesis
  proof (cases "str_contains s '',''")
    case True
    then obtain x where "x \<in> set (py_split (CHR '','') s)" "v = py_strip x"
      using assms by (auto simp: split_string_def Let_def)
    then show ?thesis using strip [of x] py_split_parts by blast
  next
    case False
    then obtain x where x: "x \<in> set (py_split (CHR '' '') s)" "v = py_strip x"
      using assms by (auto simp: split_string_def Let_def)
    have "py_join '' '' (py_split (CHR '' '') s) = s" by (rule py_join_split)
    moreover have "CHR '','' \<in> set x \<Longrightarrow> CHR '','' \<in> set (py_join '' '' xs)" if "x \<in> set xs" for xs
      using that by (induction xs) (auto simp: py_join_Cons)
    ultimately have "CHR '','' \<in> set x \<Longrightarrow> CHR '','' \<in> set s" using x(1) by metis
    moreover have "CHR '','' \<notin> set s"
      using False by (auto simp: str_contains_iff sublist_def in_set_conv_decomp)
    ultimately show ?thesis using strip [of x] x(2) by blast
  qed
qed

subsection \<open>The second stage\<close>

text \<open>
  A store that is done: the node that had the store name \<open>t\<close> before still has it and has been
  given the store \<open>t\<close>; one that names no store has none. The other nodes are as they were.
\<close>

definition attached_node :: "pnode \<Rightarrow> pnode" where
  "attached_node n = n\<lparr>pn_store := pn_store_name n\<rparr>"

definition settled :: "(string \<times> pnode) list \<Rightarrow> (string \<times> pnode) list \<Rightarrow> string \<Rightarrow> bool" where
  "settled S S' name = (\<exists>n. dict_get S name = Some n \<and> dict_get S' name = Some (attached_node n))"

definition only_attached :: "(string \<times> pnode) list \<Rightarrow> (string \<times> pnode) list \<Rightarrow> bool" where
  "only_attached S S' = (\<forall>m. dict_get S' m = dict_get S m \<or> settled S S' m)"

definition node_ok :: "(string \<times> pnode) list \<Rightarrow> pnode \<Rightarrow> bool" where
  "node_ok S n = (case pn_store n of None \<Rightarrow> True
     | Some t \<Rightarrow> pn_store_name n = Some t \<and> dict_get S t \<noteq> None)"

definition stores_ok :: "(string \<times> pnode) list \<Rightarrow> bool" where
  "stores_ok S = (\<forall>name n. dict_get S name = Some n \<longrightarrow> node_ok S n)"

lemma attached_node_simps [simp]:
  "pn_store_name (attached_node n) = pn_store_name n" "pn_store (attached_node n) = pn_store_name n"
  "attached_node (attached_node n) = attached_node n" "\<not> waiting (attached_node n)"
  by (simp_all add: attached_node_def waiting_def del: not_None_eq)

lemma attached_node_done: "node_ok S n \<Longrightarrow> \<not> waiting n \<Longrightarrow> attached_node n = n"
  by (cases n) (auto simp: attached_node_def node_ok_def waiting_def split: option.splits)

lemma only_attached_refl [simp]: "only_attached S S"
  by (simp add: only_attached_def)

lemma settled_later: "settled S S1 m \<Longrightarrow> only_attached S1 S' \<Longrightarrow> settled S S' m"
  unfolding only_attached_def settled_def by (metis attached_node_simps(3) option.inject)

lemma settled_earlier: "only_attached S S1 \<Longrightarrow> settled S1 S' m \<Longrightarrow> settled S S' m"
  unfolding only_attached_def settled_def by (metis attached_node_simps(3) option.inject)

lemma only_attached_trans: "only_attached S S1 \<Longrightarrow> only_attached S1 S' \<Longrightarrow> only_attached S S'"
  using settled_earlier settled_later unfolding only_attached_def by metis

lemma only_attached_names: "only_attached S S' \<Longrightarrow> (dict_get S m = None) = (dict_get S' m = None)"
  unfolding only_attached_def settled_def by (metis option.distinct(1))

lemma stores_ok_put:
  assumes "stores_ok S" and "dict_get S name = Some n" and "pn_store_name n = Some t" and "dict_get S t \<noteq> None"
  shows "stores_ok (dict_put name (n\<lparr>pn_store := Some t\<rparr>) S)"
  using assms by (auto simp: stores_ok_def node_ok_def split: option.splits if_splits)

lemma settled_put:
  assumes "dict_get S name = Some n" and "pn_store_name n = Some t"
  shows "settled S (dict_put name (n\<lparr>pn_store := Some t\<rparr>) S) name"
    and "only_attached S (dict_put name (n\<lparr>pn_store := Some t\<rparr>) S)"
  using assms by (auto simp: only_attached_def settled_def attached_node_def)

text \<open>
  Finalizing ends on every table, also one whose stores refer to each other in a circle; it
  leaves the store attached and attaches stores only as the configuration says.
\<close>

lemma finalize_store_Inr:
  "finalize_store S name = Inr S' \<Longrightarrow> stores_ok S \<Longrightarrow>
   stores_ok S' \<and> settled S S' name \<and> only_attached S S'"
proof (induction S name rule: finalize_store.induct)
  case (1 S name)
  then obtain n where n: "dict_get S name = Some n"
    by (auto simp: finalize_store.simps [of S name] split: option.splits)
  show ?case
  proof (cases "waiting n")
    case False
    moreover have "node_ok S n" using 1(3) n by (simp add: stores_ok_def)
    ultimately show ?thesis
      using 1 n attached_node_done [of S n] by (auto simp: finalize_store.simps [of S name] settled_def)
  next
    case True
    then obtain t where t: "pn_store_name n = Some t" by (auto simp: waiting_def)
    with 1(2) n True have td: "dict_get S t \<noteq> None"
      and f: "finalize_store (dict_put name (n\<lparr>pn_store := Some t\<rparr>) S) t = Inr S'"
      by (auto simp: finalize_store.simps [of S name] split: if_splits)
    from 1(1) [OF n True t td f stores_ok_put [OF 1(3) n t td]]
    show ?thesis
      using settled_later [OF settled_put(1) [OF n t]] only_attached_trans [OF settled_put(2) [OF n t]]
      by blast
  qed
qed

lemma finalize_stores_Inr:
  "finalize_stores S names = Inr S' \<Longrightarrow> stores_ok S \<Longrightarrow>
   stores_ok S' \<and> (\<forall>name \<in> set names. settled S S' name) \<and> only_attached S S'"
proof (induction names arbitrary: S)
  case (Cons name names)
  then obtain S1 where s1: "finalize_store S name = Inr S1" and s2: "finalize_stores S1 names = Inr S'"
    by (auto elim: rbind_InrE)
  from finalize_store_Inr [OF s1 Cons.prems(2)] Cons.IH [OF s2] show ?case
    using settled_later settled_earlier only_attached_trans by (metis set_ConsD)
qed simp

text \<open>When every store that is named is configured, finalizing succeeds, circles included.\<close>

definition refs_known :: "(string \<times> pnode) list \<Rightarrow> bool" where
  "refs_known S = (\<forall>name n t. dict_get S name = Some n \<longrightarrow> pn_store_name n = Some t \<longrightarrow> dict_get S t \<noteq> None)"

lemma refs_known_put:
  assumes "refs_known S" and "dict_get S name = Some n"
  shows "refs_known (dict_put name (n\<lparr>pn_store := Some t\<rparr>) S)"
  using assms by (auto simp: refs_known_def split: if_splits)

lemma finalize_store_ends:
  "refs_known S \<Longrightarrow> dict_get S name \<noteq> None \<Longrightarrow>
   \<exists>S'. finalize_store S name = Inr S' \<and> refs_known S' \<and> (\<forall>m. (dict_get S m = None) = (dict_get S' m = None))"
proof (induction S name rule: finalize_store.induct)
  case (1 S name)
  then obtain n where n: "dict_get S name = Some n" by auto
  show ?case
  proof (cases "waiting n")
    case False
    then show ?thesis using 1 n by (simp add: finalize_store.simps [of S name])
  next
    case True
    then obtain t where t: "pn_store_name n = Some t" by (auto simp: waiting_def)
    with 1(2) n have td: "dict_get S t \<noteq> None" by (auto simp: refs_known_def)
    let ?S = "dict_put name (n\<lparr>pn_store := Some t\<rparr>) S"
    have "dict_get ?S t \<noteq> None" using td by simp
    from 1(1) [OF n True t td refs_known_put [OF 1(2) n] this]
    obtain S' where f: "finalize_store ?S t = Inr S'" "refs_known S'"
      "\<forall>m. (dict_get ?S m = None) = (dict_get S' m = None)" by blast
    moreover have "finalize_store S name = finalize_store ?S t"
      using n True t td by (auto simp: finalize_store.simps [of S name])
    moreover have "(dict_get ?S m = None) = (dict_get S m = None)" for m using n by simp
    ultimately show ?thesis by simp
  qed
qed

text \<open>C30: When every store that is named is configured, the second stage ends and gives every store
  exactly the one it names, also when the stores name each other in a circle; a store that names
  none gets none. Any other store is left as it was or is given the one it names.\<close>

theorem stores_attached:
  assumes "refs_known S" and "stores_ok S" and "\<forall>name \<in> set names. dict_get S name \<noteq> None"
  shows "\<exists>S'. finalize_stores S names = Inr S' \<and> stores_ok S'
    \<and> (\<forall>name \<in> set names. \<exists>n. dict_get S name = Some n
         \<and> dict_get S' name = Some \<lparr>pn_store_name = pn_store_name n, pn_store = pn_store_name n\<rparr>)
    \<and> (\<forall>name. dict_get S' name = dict_get S name
         \<or> (\<exists>n. dict_get S name = Some n
              \<and> dict_get S' name = Some \<lparr>pn_store_name = pn_store_name n, pn_store = pn_store_name n\<rparr>))"
proof -
  have "\<exists>S'. finalize_stores S names = Inr S'" using assms(1,3)
  proof (induction names arbitrary: S)
    case (Cons name names)
    from finalize_store_ends [of S name] Cons.prems obtain S1 where
      "finalize_store S name = Inr S1" "refs_known S1" "\<forall>m. (dict_get S m = None) = (dict_get S1 m = None)"
      by auto
    with Cons.IH [of S1] Cons.prems show ?case by simp
  qed simp
  then obtain S' where f: "finalize_stores S names = Inr S'" ..
  have node: "attached_node n = \<lparr>pn_store_name = pn_store_name n, pn_store = pn_store_name n\<rparr>" for n
    by (cases n) (simp add: attached_node_def)
  from finalize_stores_Inr [OF f assms(2)] f show ?thesis
    unfolding only_attached_def settled_def node by blast
qed

theorem stores_attached_witness:
  "\<exists>S'. finalize_stores [(''a'', \<lparr>pn_store_name = Some ''b'', pn_store = None\<rparr>),
        (''b'', \<lparr>pn_store_name = Some ''a'', pn_store = None\<rparr>)] [''a'', ''b''] = Inr S'
    \<and> dict_get S' ''a'' = Some \<lparr>pn_store_name = Some ''b'', pn_store = Some ''b''\<rparr>
    \<and> dict_get S' ''b'' = Some \<lparr>pn_store_name = Some ''a'', pn_store = Some ''a''\<rparr>"
proof -
  let ?S = "[(''a'', \<lparr>pn_store_name = Some ''b'', pn_store = None\<rparr>),
        (''b'', \<lparr>pn_store_name = Some ''a'', pn_store = None\<rparr>)]"
  have "refs_known ?S" by (auto simp: refs_known_def split: if_splits)
  moreover have "stores_ok ?S" by (auto simp: stores_ok_def node_ok_def split: if_splits)
  ultimately show ?thesis using stores_attached [of ?S "[''a'', ''b'']"] by auto
qed

end
