(* ===== verification/EncStores.thy ===== *)
theory EncStores
  imports SqliteSpec Options
begin

text \<open>
  \<open>src/custodia/store/encgen.py\<close> and \<open>src/custodia/store/enclite.py\<close>: stores that keep their
  values encrypted. \<open>EncryptedOverlay\<close> works over any backing store, \<open>EncryptedStore\<close> is a
  subclass of the SQLite store.

  The JWE object of the package \<open>jwcrypto\<close> is the record \<open>jwe_lib\<close>. Encryption draws random
  numbers, so \<open>jw_seal\<close> has the number of the draw as an argument, and the state of an
  encrypted store is the state of its backing store with the draws made so far.

  Shown: over a backing store that satisfies the contract the overlay satisfies the contract on
  the decrypted view, in each of its modes; the SQLite variant is the overlay in its classic
  mode; a value moved to another key is rejected.
\<close>

subsection \<open>The JWE object\<close>

text \<open>
  \<^item> \<open>jw_seal n value header key\<close>: \<open>JWE(value, json_encode(header))\<close>, \<open>add_recipient(key)\<close>,
    \<open>serialize(compact=True)\<close>;
  \<^item> \<open>jw_open value key\<close>: \<open>deserialize(value, key)\<close>, then \<open>payload.decode('utf-8')\<close> and
    \<open>jose_header\<close>.
\<close>

record 'k jwe_lib =
  jw_seal :: "nat \<Rightarrow> json \<Rightarrow> (string \<times> string) list \<Rightarrow> 'k \<Rightarrow> string res"
  jw_open :: "json \<Rightarrow> 'k \<Rightarrow> (string \<times> (string \<times> string) list) res"

definition seal_value :: "'k jwe_lib \<Rightarrow> json \<Rightarrow> (string \<times> string) list \<Rightarrow> 'k \<Rightarrow> ('w \<times> nat, string) py" where
  "seal_value L value header key = (\<lambda>(w, n). (jw_seal L n value header key, (w, Suc n)))"

definition on_backing :: "('w, 'a) py \<Rightarrow> ('w \<times> nat, 'a) py" where
  "on_backing m = (\<lambda>(w, n). case m w of (r, w') \<Rightarrow> (r, (w', n)))"

subsection \<open>\<open>EncryptedOverlay\<close>\<close>

record ('w, 'k) overlay =
  ov_store :: "'w store_ops"
  ov_mkey :: 'k
  ov_master_enctype :: string
  ov_secret_protection :: optval

definition custodia_key :: string where "custodia_key = ''custodia.key''"

definition overlay_header :: "('w, 'k) overlay \<Rightarrow> string \<Rightarrow> (string \<times> string) list" where
  "overlay_header ov key =
     [(''alg'', ''dir''), (''enc'', ov_master_enctype ov)]
     @ (if ov_secret_protection ov \<noteq> VStr ''encrypt'' then [(custodia_key, key)] else [])"

definition overlay_set ::
    "'k jwe_lib \<Rightarrow> ('w, 'k) overlay \<Rightarrow> string \<Rightarrow> json \<Rightarrow> bool \<Rightarrow> ('w \<times> nat, unit) py" where
  "overlay_set L ov key value replace =
     py_bind (seal_value L value (overlay_header ov key) (ov_mkey ov)) (\<lambda>cvalue.
       on_backing (st_set (ov_store ov) key (JStr cvalue) replace))"

definition overlay_get :: "'k jwe_lib \<Rightarrow> ('w, 'k) overlay \<Rightarrow> string \<Rightarrow> ('w \<times> nat, json) py" where
  "overlay_get L ov key =
     py_bind (on_backing (st_get (ov_store ov) key)) (\<lambda>value.
       if value = JNull then py_return JNull
       else py_bind (py_try (py_lift (jw_open L value (ov_mkey ov))) (\<lambda>_. py_raise CSStoreError))
         (\<lambda>(payload, jose_header).
            if ov_secret_protection ov = VStr ''encrypt'' then py_return (JStr payload)
            else (case dict_get jose_header custodia_key of
                None \<Rightarrow>
                  if ov_secret_protection ov = VStr ''migrate''
                  then py_bind (overlay_set L ov key (JStr payload) True) (\<lambda>_. py_return (JStr payload))
                  else py_raise CSStoreError
              | Some pinned \<Rightarrow>
                  if pinned \<noteq> key then py_raise CSStoreError else py_return (JStr payload))))"

definition overlay_ops :: "'k jwe_lib \<Rightarrow> ('w, 'k) overlay \<Rightarrow> ('w \<times> nat) store_ops" where
  "overlay_ops L ov =
     \<lparr>st_get = overlay_get L ov, st_set = overlay_set L ov,
      st_span = (\<lambda>key. on_backing (st_span (ov_store ov) key)),
      st_list = (\<lambda>keyfilter. on_backing (st_list (ov_store ov) keyfilter)),
      st_cut = (\<lambda>key. on_backing (st_cut (ov_store ov) key))\<rparr>"

text \<open>
  \<open>__init__\<close>: the master key is generated when its file is missing and \<open>autogen_master_key\<close> is
  set. The file system is a map; \<open>generate\<close> is \<open>JWK(generate='oct', alg, size).export()\<close>,
  \<open>load\<close> is \<open>JWK(**json_decode(data))\<close>.
\<close>

definition key_sizes :: "(string \<times> nat) list" where
  "key_sizes = [(''A128CBC-HS256'', 256), (''A256CBC-HS512'', 512)]"

definition overlay_master_key ::
    "(string \<Rightarrow> nat \<Rightarrow> string) \<Rightarrow> (string \<Rightarrow> 'k res) \<Rightarrow> string \<Rightarrow> bool \<Rightarrow> string
     \<Rightarrow> (string \<Rightarrow> (string \<times> int) option, 'k) py" where
  "overlay_master_key generate load path autogen enctype =
     py_bind py_get (\<lambda>fs.
     py_bind (py_when (fs path = None \<and> autogen)
        (py_modify (\<lambda>fs. fs(path \<mapsto> (generate enctype
           (case dict_get key_sizes enctype of None \<Rightarrow> 512 | Some n \<Rightarrow> n), 384))))) (\<lambda>_.
     py_bind py_get (\<lambda>fs. case fs path of
         None \<Rightarrow> py_raise IOError
       | Some (data, mode) \<Rightarrow> py_lift (load data))))"

subsection \<open>\<open>EncryptedStore\<close>\<close>

definition enclite_get :: "'k jwe_lib \<Rightarrow> 'k \<Rightarrow> string \<Rightarrow> string \<Rightarrow> (db \<times> nat, json) py" where
  "enclite_get L mkey enctype key =
     py_bind (on_backing (sqlite_get key)) (\<lambda>value.
       if value = JNull then py_return JNull
       else py_try (py_bind (py_lift (jw_open L value mkey)) (\<lambda>(payload, _). py_return (JStr payload)))
              (\<lambda>_. py_raise CSStoreError))"

definition enclite_set ::
    "'k jwe_lib \<Rightarrow> 'k \<Rightarrow> string \<Rightarrow> string \<Rightarrow> json \<Rightarrow> bool \<Rightarrow> (db \<times> nat, unit) py" where
  "enclite_set L mkey enctype key value replace =
     py_bind (seal_value L value [(''alg'', ''dir''), (''enc'', enctype)] mkey) (\<lambda>cvalue.
       on_backing (sqlite_set key (JStr cvalue) replace))"

definition enclite_ops :: "'k jwe_lib \<Rightarrow> 'k \<Rightarrow> string \<Rightarrow> (db \<times> nat) store_ops" where
  "enclite_ops L mkey enctype =
     \<lparr>st_get = enclite_get L mkey enctype, st_set = enclite_set L mkey enctype,
      st_span = (\<lambda>key. on_backing (sqlite_span key)),
      st_list = (\<lambda>keyfilter. on_backing (sqlite_list keyfilter)),
      st_cut = (\<lambda>key. on_backing (sqlite_cut key))\<rparr>"

text \<open>The overlay in its classic mode over SQLite is the encrypted SQLite store.\<close>

lemma try_open_payload:
  "py_try (py_bind (py_lift r) (\<lambda>(p, _). py_return (JStr p))) (\<lambda>_. py_raise CSStoreError) =
   py_bind (py_try (py_lift r) (\<lambda>_. py_raise CSStoreError)) (\<lambda>(p, h). py_return (JStr p))"
  by (cases r) (auto simp: fun_eq_iff py_simps)

lemma enclite_get_overlay:
  "enclite_get L mkey enctype key =
   overlay_get L \<lparr>ov_store = sqlite_ops, ov_mkey = mkey, ov_master_enctype = enctype,
      ov_secret_protection = VStr ''encrypt''\<rparr> key"
  by (simp add: enclite_get_def overlay_get_def try_open_payload cong: if_cong)

lemma enclite_set_overlay:
  "enclite_set L mkey enctype key value r =
   overlay_set L \<lparr>ov_store = sqlite_ops, ov_mkey = mkey, ov_master_enctype = enctype,
      ov_secret_protection = VStr ''encrypt''\<rparr> key value r"
  by (simp add: enclite_set_def overlay_set_def overlay_header_def)

lemma enclite_overlay:
  "enclite_ops L mkey enctype =
   overlay_ops L \<lparr>ov_store = sqlite_ops, ov_mkey = mkey, ov_master_enctype = enctype,
      ov_secret_protection = VStr ''encrypt''\<rparr>"
  unfolding enclite_ops_def overlay_ops_def by (simp add: enclite_get_overlay enclite_set_overlay fun_eq_iff)

subsection \<open>The contract\<close>

text \<open>
  What the overlay relies on, for the headers it makes and no others: with its master key and its
  content encryption, which must be one the library knows and has a key of the right size for, a
  non-empty text is sealed under the name of the key, as a non-empty text that opens to the text
  and a header with the same members.
\<close>

definition jwe_lawful :: "'k jwe_lib \<Rightarrow> ('w, 'k) overlay \<Rightarrow> bool" where
  "jwe_lawful L ov = (\<forall>n s key. s \<noteq> [] \<longrightarrow> key_ok key \<longrightarrow>
     (\<exists>c h. jw_seal L n (JStr s) (overlay_header ov key) (ov_mkey ov) = Inr c \<and> c \<noteq> []
          \<and> jw_open L (JStr c) (ov_mkey ov) = Inr (s, h)
          \<and> (\<forall>x. dict_get h x = dict_get (overlay_header ov key) x)))"

definition pinned_ok :: "optval \<Rightarrow> string \<Rightarrow> (string \<times> string) list \<Rightarrow> bool" where
  "pinned_ok sp key h = (sp = VStr ''encrypt''
     \<or> (case dict_get h custodia_key of None \<Rightarrow> sp = VStr ''migrate'' | Some k \<Rightarrow> k = key))"

definition cipher_ok :: "'k jwe_lib \<Rightarrow> ('w, 'k) overlay \<Rightarrow> string \<Rightarrow> json \<Rightarrow> bool" where
  "cipher_ok L ov key c = (key_ok key \<and> storable c
     \<and> (\<exists>p h. jw_open L c (ov_mkey ov) = Inr (p, h) \<and> p \<noteq> []
              \<and> pinned_ok (ov_secret_protection ov) key h))"

definition plain_entry :: "'k jwe_lib \<Rightarrow> 'k \<Rightarrow> entry \<Rightarrow> entry" where
  "plain_entry L mkey e = (case e of
      Dir \<Rightarrow> Dir
    | Secret c \<Rightarrow> (case jw_open L c mkey of Inr (p, h) \<Rightarrow> Secret (JStr p) | Inl _ \<Rightarrow> Secret c))"

definition overlay_view ::
    "('w \<Rightarrow> view) \<Rightarrow> 'k jwe_lib \<Rightarrow> ('w, 'k) overlay \<Rightarrow> 'w \<times> nat \<Rightarrow> view" where
  "overlay_view V L ov wn = (\<lambda>k. map_option (plain_entry L (ov_mkey ov)) (V (fst wn) k))"

definition overlay_ok ::
    "('w \<Rightarrow> bool) \<Rightarrow> ('w \<Rightarrow> view) \<Rightarrow> 'k jwe_lib \<Rightarrow> ('w, 'k) overlay \<Rightarrow> 'w \<times> nat \<Rightarrow> bool" where
  "overlay_ok okB V L ov wn = (okB (fst wn) \<and> jwe_lawful L ov
     \<and> (\<forall>k c. V (fst wn) k = Some (Secret c) \<longrightarrow> cipher_ok L ov k c))"

lemma shown_plain [simp]: "shown_name cp k (plain_entry L mkey e) = shown_name cp k e"
  by (auto simp: shown_name_def plain_entry_def split: entry.splits sum.splits)

lemma child_names_plain:
  "child_names (\<lambda>k. map_option (plain_entry L mkey) (V k)) p = child_names V p"
proof -
  have "(\<exists>k e. x = shown_name cp k e \<and> map_option (plain_entry L mkey) (V k) = Some e \<and> is_child p k)
    \<longleftrightarrow> (\<exists>k e. x = shown_name cp k e \<and> V k = Some e \<and> is_child p k)" for x cp
    by (auto simp: map_option_case split: option.splits)
  then show ?thesis by (simp add: child_names_def)
qed

lemma container_there_plain:
  "container_there (\<lambda>k. map_option (plain_entry L mkey) (V k)) p = container_there V p"
  by (auto simp: container_there_def fun_eq_iff)

lemma list_spec_plain:
  "list_spec (\<lambda>k. map_option (plain_entry L mkey) (V k)) p r = list_spec V p r"
  by (simp add: list_spec_def child_names_plain container_there_plain split: option.splits)

lemma pinned_ok_header:
  "\<forall>x. dict_get h x = dict_get (overlay_header ov key) x \<Longrightarrow> pinned_ok (ov_secret_protection ov) key h"
  by (simp add: pinned_ok_def overlay_header_def custodia_key_def)

lemma seal_value_lawful:
  assumes "jwe_lawful L ov" and "storable v" and "key_ok k"
  shows "\<exists>c s h. v = JStr s \<and> s \<noteq> [] \<and> c \<noteq> []
    \<and> seal_value L v (overlay_header ov k) (ov_mkey ov) (w, n) = (Inr c, (w, Suc n))
    \<and> jw_open L (JStr c) (ov_mkey ov) = Inr (s, h) \<and> pinned_ok (ov_secret_protection ov) k h"
proof -
  from assms(2) obtain s where s: "v = JStr s" "s \<noteq> []" by (auto simp: storable_def)
  from assms(1,3) s(2) obtain c h where
    "jw_seal L n (JStr s) (overlay_header ov k) (ov_mkey ov) = Inr c" "c \<noteq> []"
    "jw_open L (JStr c) (ov_mkey ov) = Inr (s, h)" "\<forall>x. dict_get h x = dict_get (overlay_header ov k) x"
    unfolding jwe_lawful_def by blast
  with s pinned_ok_header [of h ov k] show ?thesis by (auto simp: seal_value_def)
qed

text \<open>One write through the overlay, in terms of the backing store.\<close>

locale enc_overlay = container_store B okB V
  for B :: "'w store_ops" and okB :: "'w \<Rightarrow> bool" and V :: "'w \<Rightarrow> view"
begin

lemma overlay_set_run:
  assumes "overlay_ok okB V L ov (w, n)" and "ov_store ov = B" and "storable v" and "key_ok k"
    and "V w k = None \<or> r"
  shows "\<exists>w' c s h. overlay_set L ov k v r (w, n) = (Inr (), (w', Suc n)) \<and> okB w'
    \<and> V w' = (V w)(k \<mapsto> Secret (JStr c)) \<and> v = JStr s \<and> s \<noteq> [] \<and> c \<noteq> []
    \<and> jw_open L (JStr c) (ov_mkey ov) = Inr (s, h) \<and> pinned_ok (ov_secret_protection ov) k h"
proof -
  have l: "jwe_lawful L ov" and o: "okB w" using assms(1) by (simp_all add: overlay_ok_def)
  from seal_value_lawful [OF l assms(3,4), of w n] obtain c s h where
    v: "v = JStr s" "s \<noteq> []"
    and c: "seal_value L v (overlay_header ov k) (ov_mkey ov) (w, n) = (Inr c, (w, Suc n))" "c \<noteq> []"
      "jw_open L (JStr c) (ov_mkey ov) = Inr (s, h)" "pinned_ok (ov_secret_protection ov) k h" by blast
  have "storable (JStr c)" using c(2) by (simp add: storable_def)
  from set_fresh [OF o this assms(4,5)] obtain w' where
    w: "st_set B k (JStr c) r w = (Inr (), w')" "okB w'" "V w' = (V w)(k \<mapsto> Secret (JStr c))" by blast
  have "overlay_set L ov k v r (w, n) = (Inr (), (w', Suc n))"
    using c(1) w(1) assms(2) by (simp add: overlay_set_def py_bind_def on_backing_def)
  with v c w show ?thesis by blast
qed

lemma overlay_put_ok:
  assumes "overlay_ok okB V L ov (w, n)" and "okB w'" and "V w' = (V w)(k \<mapsto> Secret (JStr c))"
    and "c \<noteq> []" and "s \<noteq> []" and "key_ok k"
    and "jw_open L (JStr c) (ov_mkey ov) = Inr (s, h)" and "pinned_ok (ov_secret_protection ov) k h"
  shows "overlay_ok okB V L ov (w', m)
    \<and> overlay_view V L ov (w', m) = (overlay_view V L ov (w, n))(k \<mapsto> Secret (JStr s))"
proof -
  have "cipher_ok L ov k (JStr c)"
    using assms by (auto simp: cipher_ok_def storable_def)
  then show ?thesis
    using assms(1-3,7) by (auto simp: overlay_ok_def overlay_view_def fun_eq_iff plain_entry_def)
qed

lemma overlay_get_secret:
  assumes ok: "overlay_ok okB V L ov (w, n)" and st: "ov_store ov = B"
    and v: "overlay_view V L ov (w, n) k = Some (Secret u)"
  shows "\<exists>wn'. overlay_get L ov k (w, n) = (Inr u, wn') \<and> overlay_ok okB V L ov wn'
    \<and> overlay_view V L ov wn' = overlay_view V L ov (w, n)"
proof -
  from v obtain e where e: "V w k = Some e" "plain_entry L (ov_mkey ov) e = Secret u"
    by (auto simp: overlay_view_def)
  then obtain c where c: "V w k = Some (Secret c)" by (cases e) (simp_all add: plain_entry_def)
  with ok have "cipher_ok L ov k c" by (simp add: overlay_ok_def)
  then obtain p h where ph: "jw_open L c (ov_mkey ov) = Inr (p, h)" "p \<noteq> []"
      "pinned_ok (ov_secret_protection ov) k h" and k: "key_ok k" and sc: "storable c"
    by (auto simp: cipher_ok_def)
  with v c have u: "u = JStr p" by (simp add: overlay_view_def plain_entry_def)
  have oB: "okB w" using ok by (simp add: overlay_ok_def)
  from get_secret [OF oB c] obtain w1 where
    g: "st_get B k w = (Inr c, w1)" "okB w1" "V w1 = V w" by blast
  have ok1: "overlay_ok okB V L ov (w1, n)" and v1: "overlay_view V L ov (w1, n) = overlay_view V L ov (w, n)"
    using ok g by (simp_all add: overlay_ok_def overlay_view_def)
  have b: "on_backing (st_get (ov_store ov) k) (w, n) = (Inr c, (w1, n))"
    using g st by (simp add: on_backing_def)
  have nn: "c \<noteq> JNull" using sc by (auto simp: storable_def)
  show ?thesis
  proof (cases "ov_secret_protection ov = VStr ''encrypt'' \<or> dict_get h custodia_key \<noteq> None")
    case True
    then have "overlay_get L ov k (w, n) = (Inr u, (w1, n))"
      using ph nn u by (auto simp: overlay_get_def py_bind_def b py_try_def py_lift_def py_return_def
          pinned_ok_def split: option.splits)
    with ok1 v1 show ?thesis by blast
  next
    case False
    then have m: "ov_secret_protection ov = VStr ''migrate''"
      using ph(3) by (auto simp: pinned_ok_def split: option.splits)
    have "storable (JStr p)" using ph(2) by (simp add: storable_def)
    from overlay_set_run [OF ok1 st this k, of True] obtain w2 c' h' where
      s: "overlay_set L ov k (JStr p) True (w1, n) = (Inr (), (w2, Suc n))" "okB w2"
        "V w2 = (V w1)(k \<mapsto> Secret (JStr c'))" "c' \<noteq> []"
        "jw_open L (JStr c') (ov_mkey ov) = Inr (p, h')" "pinned_ok (ov_secret_protection ov) k h'" by auto
    from overlay_put_ok [OF ok1 s(2,3,4) ph(2) k s(5,6), of "Suc n"] have
      o2: "overlay_ok okB V L ov (w2, Suc n)"
      and v2: "overlay_view V L ov (w2, Suc n) = (overlay_view V L ov (w, n))(k \<mapsto> Secret (JStr p))"
      using v1 by auto
    have "overlay_get L ov k (w, n) = (Inr u, (w2, Suc n))"
      using ph nn u False m s(1)
      by (auto simp: overlay_get_def py_bind_def b py_try_def py_lift_def py_return_def)
    moreover have "overlay_view V L ov (w2, Suc n) = overlay_view V L ov (w, n)"
      using v2 v u by (simp add: fun_upd_idem)
    ultimately show ?thesis using o2 by blast
  qed
qed

text \<open>The overlay keeps the whole contract of its backing store.\<close>

lemma overlay_container_store:
  assumes st: "ov_store ov = B"
  shows "container_store (overlay_ops L ov) (overlay_ok okB V L ov) (overlay_view V L ov)"
proof (unfold_locales, goal_cases)
  case (1 wn k)
  then obtain w n where [simp]: "wn = (w, n)" by fastforce
  from 1 have "st_get B k w = (Inr JNull, w)"
    using get_absent [of w k] by (simp add: overlay_ok_def overlay_view_def)
  then show ?case
    using st by (simp add: overlay_ops_def overlay_get_def py_bind_def on_backing_def py_return_def)
next
  case (2 wn k v)
  then show ?case using overlay_get_secret [OF _ st] by (cases wn) (simp add: overlay_ops_def)
next
  case (3 wn v k r)
  obtain w n where [simp]: "wn = (w, n)" by fastforce
  from 3(4) have "V w k = None \<or> r" by (simp add: overlay_view_def)
  from overlay_set_run [OF _ st 3(2,3) this, of L n] 3(1) obtain w' c s h where
    s: "overlay_set L ov k v r (w, n) = (Inr (), (w', Suc n))" "okB w'"
      "V w' = (V w)(k \<mapsto> Secret (JStr c))" "v = JStr s" "s \<noteq> []" "c \<noteq> []"
      "jw_open L (JStr c) (ov_mkey ov) = Inr (s, h)" "pinned_ok (ov_secret_protection ov) k h" by auto
  from overlay_put_ok [OF _ s(2,3,6,5) 3(3) s(7,8), of n "Suc n"] 3(1) s(1,4) show ?case
    by (auto simp: overlay_ops_def)
next
  case (4 wn v k)
  obtain w n where [simp]: "wn = (w, n)" by fastforce
  from 4(1) have l: "jwe_lawful L ov" and o: "okB w" by (simp_all add: overlay_ok_def)
  from seal_value_lawful [OF l 4(2,3), of w n] obtain c s where
    c: "seal_value L v (overlay_header ov k) (ov_mkey ov) (w, n) = (Inr c, (w, Suc n))" "c \<noteq> []" by blast
  have "storable (JStr c)" using c(2) by (simp add: storable_def)
  from set_taken [OF o this 4(3)] 4(4) obtain w' where
    "st_set B k (JStr c) False w = (Inl CSStoreExists, w')" "okB w'" "V w' = V w"
    by (auto simp: overlay_view_def)
  with 4(1) c(1) st show ?case
    by (simp add: overlay_ops_def overlay_set_def overlay_ok_def overlay_view_def py_bind_def on_backing_def)
next
  case (5 wn k)
  obtain w n where [simp]: "wn = (w, n)" by fastforce
  from 5 span_fresh [of w k] obtain w' where
    "st_span B k w = (Inr (), w')" "okB w'" "V w' = (V w)(list_path k \<mapsto> Dir)"
    by (auto simp: overlay_ok_def overlay_view_def)
  with 5(1) st show ?case
    by (auto simp: overlay_ops_def on_backing_def overlay_ok_def overlay_view_def fun_eq_iff plain_entry_def)
next
  case (6 wn k)
  obtain w n where [simp]: "wn = (w, n)" by fastforce
  from 6 span_taken [of w k] st show ?case
    by (auto simp: overlay_ops_def on_backing_def overlay_ok_def overlay_view_def)
next
  case (7 wn p)
  obtain w n where [simp]: "wn = (w, n)" by fastforce
  from 7 list_view [of w p] obtain r where "st_list B p w = (Inr r, w)" "list_spec (V w) p r"
    by (auto simp: overlay_ok_def)
  with st show ?case
    by (auto simp: overlay_ops_def on_backing_def overlay_view_def list_spec_plain)
next
  case (8 wn k)
  obtain w n where [simp]: "wn = (w, n)" by fastforce
  from 8 cut_there [of w k] obtain w' where
    "st_cut B k w = (Inr (CutBool True), w')" "okB w'" "V w' = (V w)(k := None)"
    by (auto simp: overlay_ok_def overlay_view_def)
  with 8(1) st show ?case
    by (auto simp: overlay_ops_def on_backing_def overlay_ok_def overlay_view_def fun_eq_iff)
next
  case (9 wn k)
  obtain w n where [simp]: "wn = (w, n)" by fastforce
  from 9 cut_absent [of w k] st show ?case
    by (auto simp: overlay_ops_def on_backing_def overlay_ok_def overlay_view_def)
qed

end

sublocale enc_overlay \<subseteq> enc: container_store "overlay_ops L (ov\<lparr>ov_store := B\<rparr>)"
    "overlay_ok okB V L (ov\<lparr>ov_store := B\<rparr>)" "overlay_view V L (ov\<lparr>ov_store := B\<rparr>)"
  for L :: "'k jwe_lib" and ov :: "('w, 'k) overlay"
  by (rule overlay_container_store) simp

interpretation ov_sqlite: enc_overlay sqlite_ops sqlite_ready sqlite_view
  by unfold_locales

text \<open>The overlay over SQLite and the encrypted SQLite store satisfy the contract.\<close>

definition sqlite_overlay :: "'k \<Rightarrow> string \<Rightarrow> optval \<Rightarrow> (db, 'k) overlay" where
  "sqlite_overlay mkey enctype sp =
     \<lparr>ov_store = sqlite_ops, ov_mkey = mkey, ov_master_enctype = enctype, ov_secret_protection = sp\<rparr>"

interpretation overlay: container_store "overlay_ops L (sqlite_overlay mkey enctype sp)"
    "overlay_ok sqlite_ready sqlite_view L (sqlite_overlay mkey enctype sp)"
    "overlay_view sqlite_view L (sqlite_overlay mkey enctype sp)"
  for L :: "'k jwe_lib" and mkey enctype sp
  by (rule ov_sqlite.overlay_container_store) (simp add: sqlite_overlay_def)

interpretation enclite: container_store "enclite_ops L mkey enctype"
    "overlay_ok sqlite_ready sqlite_view L (sqlite_overlay mkey enctype (VStr ''encrypt''))"
    "overlay_view sqlite_view L (sqlite_overlay mkey enctype (VStr ''encrypt''))"
  for L :: "'k jwe_lib" and mkey enctype
  using overlay.container_store_axioms [of L mkey enctype "VStr ''encrypt''"]
  by (simp add: enclite_overlay sqlite_overlay_def)

subsection \<open>Values in the wrong place\<close>

text \<open>A value that was sealed for another key is not given out, except in the classic mode.\<close>

lemma overlay_get_moved:
  assumes "fst (st_get (ov_store ov) k w) = Inr c" and "c \<noteq> JNull"
    and "jw_open L c (ov_mkey ov) = Inr (p, h)" and "dict_get h custodia_key = Some j" and "j \<noteq> k"
    and "ov_secret_protection ov \<noteq> VStr ''encrypt''"
  shows "fst (overlay_get L ov k (w, n)) = Inl CSStoreError"
  using assms
  by (cases "st_get (ov_store ov) k w")
     (simp add: overlay_get_def py_bind_def on_backing_def py_try_def py_lift_def py_raise_def)

text \<open>A value sealed without a name is refused unless the mode is classic or migrating.\<close>

lemma overlay_get_unpinned:
  assumes "fst (st_get (ov_store ov) k w) = Inr c" and "c \<noteq> JNull"
    and "jw_open L c (ov_mkey ov) = Inr (p, h)" and "dict_get h custodia_key = None"
    and "ov_secret_protection ov \<noteq> VStr ''encrypt''" and "ov_secret_protection ov \<noteq> VStr ''migrate''"
  shows "fst (overlay_get L ov k (w, n)) = Inl CSStoreError"
  using assms
  by (cases "st_get (ov_store ov) k w")
     (simp add: overlay_get_def py_bind_def on_backing_def py_try_def py_lift_def py_raise_def)

text \<open>A value that does not open is an error, never given out as it is.\<close>

lemma overlay_get_broken:
  assumes "fst (st_get (ov_store ov) k w) = Inr c" and "c \<noteq> JNull"
    and "jw_open L c (ov_mkey ov) = Inl e"
  shows "fst (overlay_get L ov k (w, n)) = Inl CSStoreError"
  using assms
  by (cases "st_get (ov_store ov) k w")
     (simp add: overlay_get_def py_bind_def on_backing_def py_try_def py_lift_def py_raise_def)

text \<open>The option as the class declares it: the default is \<open>False\<close>, the documentation string
  is \<open>encrypt\<close>.\<close>

definition secret_protection_option :: plugin_option where
  "secret_protection_option = (PluginOption_init (TypeObj ''str'') (Default (VBool False)))
     \<lparr>po_name := ''secret_protection''\<rparr>"

lemma secret_protection_default:
  assumes "\<not> has_option p section ''secret_protection''"
  shows "fst (option_get C p section secret_protection_option seen) = Inr (VBool False)"
  using assms
  by (auto simp: option_get_def secret_protection_option_def PluginOption_init_def option_handler_def
      py_simps get_fallback_def has_option_lookup split: lookup.splits)

subsection \<open>What the encrypted stores promise\<close>

text \<open>C26: The encrypted SQLite store behaves, method by method and error by error, like the overlay in
  its classic mode over the SQLite store.\<close>

theorem enclite_is_overlay:
  "enclite_ops L mkey enctype = overlay_ops L (sqlite_overlay mkey enctype (VStr ''encrypt''))"
  unfolding sqlite_overlay_def by (rule enclite_overlay)

text \<open>C24: What is stored through the overlay over SQLite is read back in the clear, in each of its
  modes, while the backing table only gets what the cipher made of it, sealed for its key as the
  mode demands, and changes nowhere else; a key that is taken is refused, unless it may be
  replaced.\<close>

theorem overlay_set_get:
  assumes "overlay_ok sqlite_ready sqlite_view L (sqlite_overlay mkey enctype sp) wn"
    and "s \<noteq> []" and "key_ok k"
  shows "if sqlite_view (fst wn) k = None \<or> r
    then \<exists>w1 w2 cipher h. overlay_set L (sqlite_overlay mkey enctype sp) k (JStr s) r wn = (Inr (), w1)
      \<and> overlay_get L (sqlite_overlay mkey enctype sp) k w1 = (Inr (JStr s), w2)
      \<and> sqlite_view (fst w1) = (sqlite_view (fst wn))(k \<mapsto> Secret (JStr cipher))
      \<and> jw_open L (JStr cipher) mkey = Inr (s, h) \<and> pinned_ok sp k h
    else \<exists>w1. overlay_set L (sqlite_overlay mkey enctype sp) k (JStr s) r wn = (Inl CSStoreExists, w1)
      \<and> sqlite_view (fst w1) = sqlite_view (fst wn)"
proof -
  let ?ov = "sqlite_overlay mkey enctype sp"
  obtain w n where wn: "wn = (w, n)" by fastforce
  have o: "ov_store ?ov = sqlite_ops" "ov_mkey ?ov = mkey" "ov_secret_protection ?ov = sp"
    by (simp_all add: sqlite_overlay_def)
  have st: "storable (JStr s)" using assms(2) by (simp add: storable_def)
  show ?thesis
  proof (cases "sqlite_view w k = None \<or> r")
    case True
    from ov_sqlite.overlay_set_run [OF assms(1) [unfolded wn] o(1) st assms(3) True]
    obtain w' c h where r: "overlay_set L ?ov k (JStr s) r (w, n) = (Inr (), (w', Suc n))"
      and q: "sqlite_ready w'" and v: "sqlite_view w' = (sqlite_view w)(k \<mapsto> Secret (JStr c))" and c: "c \<noteq> []"
      and op: "jw_open L (JStr c) mkey = Inr (s, h)" "pinned_ok sp k h"
      by (auto simp: o)
    from ov_sqlite.overlay_put_ok [OF assms(1) [unfolded wn] q v c assms(2,3), of h "Suc n"] op
    have ok: "overlay_ok sqlite_ready sqlite_view L ?ov (w', Suc n)"
      and view: "overlay_view sqlite_view L ?ov (w', Suc n) k = Some (Secret (JStr s))"
      by (simp_all add: o)
    from ov_sqlite.overlay_get_secret [OF ok o(1) view] obtain wn' where
      "overlay_get L ?ov k (w', Suc n) = (Inr (JStr s), wn')" by blast
    with True r v op wn show ?thesis by auto
  next
    case False
    have l: "jwe_lawful L ?ov" and ready: "sqlite_ready w" using assms(1) wn by (simp_all add: overlay_ok_def)
    from seal_value_lawful [OF l st assms(3), of w n] obtain c where
      c: "seal_value L (JStr s) (overlay_header ?ov k) (ov_mkey ?ov) (w, n) = (Inr c, (w, Suc n))" "c \<noteq> []" by blast
    have "storable (JStr c)" using c(2) by (simp add: storable_def)
    from sqlite.set_taken [OF ready this assms(3)] False obtain w' where
      "st_set sqlite_ops k (JStr c) False w = (Inl CSStoreExists, w')" "sqlite_view w' = sqlite_view w" by auto
    with False c(1) wn show ?thesis
      by (simp add: overlay_set_def py_bind_def on_backing_def o)
  qed
qed

text \<open>
  A cipher for concrete instances, which hides nothing: it writes the text and the header one
  after the other, each part after its length in unary. Like the library it takes a header only
  with the algorithm \<open>dir\<close> and a content encryption it knows.
\<close>

definition put_text :: "string \<Rightarrow> string" where
  "put_text x = replicate (length x) (CHR ''1'') @ CHR ''0'' # x"

definition get_text :: "string \<Rightarrow> string \<times> string" where
  "get_text s = (let n = length (takeWhile (\<lambda>c. c = CHR ''1'') s); t = drop (Suc n) s in (take n t, drop n t))"

fun put_pairs :: "(string \<times> string) list \<Rightarrow> string" where
  "put_pairs [] = []"
| "put_pairs ((a, b) # h) = put_text a @ put_text b @ put_pairs h"

fun get_pairs :: "nat \<Rightarrow> string \<Rightarrow> (string \<times> string) list" where
  "get_pairs 0 s = []"
| "get_pairs (Suc n) s = (if s = [] then []
     else let (a, r) = get_text s; (b, r') = get_text r in (a, b) # get_pairs n r')"

definition sample_jwe :: "string jwe_lib" where
  "sample_jwe = \<lparr>jw_seal = (\<lambda>n v h key. case v of
        JStr s \<Rightarrow> if dict_get h ''alg'' = Some ''dir'' \<and> dict_get h ''enc'' \<in> Some ` set (map fst key_sizes)
          then Inr (put_text s @ put_pairs h) else Inl ValueError
      | _ \<Rightarrow> Inl TypeError),
     jw_open = (\<lambda>v key. case v of
        JStr c \<Rightarrow> (let (s, r) = get_text c in Inr (s, get_pairs (length r) r)) | _ \<Rightarrow> Inl TypeError)\<rparr>"

lemma get_put_text [simp]: "get_text (put_text x @ r) = (x, r)"
proof -
  have "takeWhile (\<lambda>c. c = CHR ''1'') (replicate n (CHR ''1'') @ CHR ''0'' # t) = replicate n (CHR ''1'')" for n t
    by (induction n) auto
  then have "length (takeWhile (\<lambda>c. c = CHR ''1'') (put_text x @ r)) = length x" by (simp add: put_text_def)
  then show ?thesis by (simp add: get_text_def put_text_def)
qed

lemma put_text_not_Nil [simp]: "put_text x \<noteq> []"
  by (simp add: put_text_def)

lemma get_put_pairs: "length h \<le> n \<Longrightarrow> get_pairs n (put_pairs h) = h"
proof (induction h arbitrary: n rule: put_pairs.induct)
  case 1
  then show ?case by (cases n) simp_all
next
  case (2 a b h)
  then obtain m where "n = Suc m" "length h \<le> m" by (cases n) auto
  with 2 show ?case by simp
qed

lemma put_pairs_length: "length h \<le> length (put_pairs h)"
proof (induction h rule: put_pairs.induct)
  case (2 a b h)
  have "0 < length (put_text a)" by simp
  with 2 show ?case by (simp del: length_greater_0_conv)
qed simp

lemma sample_jwe_lawful:
  "ov_master_enctype ov \<in> set (map fst key_sizes) \<Longrightarrow> jwe_lawful sample_jwe ov"
proof -
  assume e: "ov_master_enctype ov \<in> set (map fst key_sizes)"
  have h: "dict_get (overlay_header ov key) ''alg'' = Some ''dir''"
    "dict_get (overlay_header ov key) ''enc'' = Some (ov_master_enctype ov)" for key
    by (simp_all add: overlay_header_def custodia_key_def)
  have "jw_seal sample_jwe n (JStr s) (overlay_header ov key) mkey = Inr (put_text s @ put_pairs (overlay_header ov key))"
    for n s key mkey using e by (simp add: sample_jwe_def h image_image [symmetric])
  moreover have "jw_open sample_jwe (JStr (put_text s @ put_pairs hd)) mkey = Inr (s, hd)" for s hd mkey
    by (simp add: sample_jwe_def get_put_pairs [OF put_pairs_length])
  ultimately show ?thesis by (simp add: jwe_lawful_def)
qed

theorem overlay_set_get_witness:
  "\<exists>w1 w2 cipher. overlay_set sample_jwe (sqlite_overlay ''m'' ''A256CBC-HS512'' (VBool False)) ''keys/u/c'' (JStr ''v'') False
      (\<lparr>db_rows = Some [], db_faults = []\<rparr>, 0) = (Inr (), w1)
    \<and> overlay_get sample_jwe (sqlite_overlay ''m'' ''A256CBC-HS512'' (VBool False)) ''keys/u/c'' w1 = (Inr (JStr ''v''), w2)
    \<and> sqlite_view (fst w1) ''keys/u/c'' = Some (Secret (JStr cipher))"
proof -
  have "jwe_lawful sample_jwe (sqlite_overlay ''m'' ''A256CBC-HS512'' (VBool False))"
    by (rule sample_jwe_lawful) (simp add: sqlite_overlay_def key_sizes_def)
  then have "overlay_ok sqlite_ready sqlite_view sample_jwe (sqlite_overlay ''m'' ''A256CBC-HS512'' (VBool False))
      (\<lparr>db_rows = Some [], db_faults = []\<rparr>, 0)"
    by (simp add: overlay_ok_def sqlite_ready_def sqlite_view_def)
  moreover have "key_ok ''keys/u/c''" by (simp add: key_ok_def endswith_char)
  moreover have "sqlite_view (fst (\<lparr>db_rows = Some [], db_faults = []\<rparr>, 0 :: nat)) ''keys/u/c'' = None"
    by (simp add: sqlite_view_def)
  ultimately show ?thesis
    using overlay_set_get [of sample_jwe "''m''" "''A256CBC-HS512''" "VBool False"
        "(\<lparr>db_rows = Some [], db_faults = []\<rparr>, 0)" "''v''" "''keys/u/c''" False] by fastforce
qed

text \<open>C25: A stored value that does not open with the master key, or that was sealed for another key
  than it is stored under (outside the classic mode), or without a key name (in the pinning
  mode), is never given out: reading it is an error.\<close>

theorem misplaced_value_refused:
  assumes "fst (st_get (ov_store ov) k w) = Inr c" and "c \<noteq> JNull"
    and "\<And>p h. jw_open L c (ov_mkey ov) = Inr (p, h) \<Longrightarrow> \<not> pinned_ok (ov_secret_protection ov) k h"
  shows "fst (overlay_get L ov k (w, n)) = Inl CSStoreError"
proof (cases "jw_open L c (ov_mkey ov)")
  case (Inl e)
  with assms(1,2) show ?thesis by (rule overlay_get_broken)
next
  case (Inr ph)
  obtain p h where ph: "ph = (p, h)" by fastforce
  have np: "\<not> pinned_ok (ov_secret_protection ov) k h" using assms(3) Inr ph by blast
  show ?thesis
  proof (cases "dict_get h custodia_key")
    case None
    with assms(1,2) Inr ph np show ?thesis by (intro overlay_get_unpinned) (auto simp: pinned_ok_def)
  next
    case (Some j)
    with assms(1,2) Inr ph np show ?thesis by (intro overlay_get_moved) (auto simp: pinned_ok_def)
  qed
qed

theorem misplaced_value_refused_witness:
  "fst (overlay_get sample_jwe (sqlite_overlay ''m'' ''e'' (VBool False)) ''keys/u/a'' (sample_db, 0))
     = Inl CSStoreError"
proof (rule misplaced_value_refused)
  show "fst (st_get (ov_store (sqlite_overlay ''m'' ''e'' (VBool False))) ''keys/u/a'' sample_db) = Inr (JStr ''x'')"
    by (simp add: sqlite_overlay_def) code_simp
  show "\<not> pinned_ok (ov_secret_protection (sqlite_overlay ''m'' ''e'' (VBool False))) ''keys/u/a'' h"
    if "jw_open sample_jwe (JStr ''x'') (ov_mkey (sqlite_overlay ''m'' ''e'' (VBool False))) = Inr (p, h)" for p h
    using that by (simp add: sample_jwe_def get_text_def pinned_ok_def sqlite_overlay_def dict_get_def)
qed simp

end
