(* ===== verification/IpaInterface.thy ===== *)
theory IpaInterface
  imports Authn Options Kem
begin

text \<open>
  \<open>src/custodia/ipa/interface.py\<close>: the plugin that owns the connection to FreeIPA. The package
  \<open>ipalib\<close> is the record \<open>ipa_api\<close> over a world \<open>'w\<close>; \<open>with self.ipa as ipa\<close> is \<open>with_ipa\<close>.

  Shown: the connection is closed after every use, however the use ends; the set-up runs once;
  the plugin keeps the contract of authenticators and never authenticates anybody.
\<close>

subsection \<open>The API\<close>

text \<open>
  \<^item> \<open>ia_principal\<close>: \<open>ipalib.krb_utils.get_principal()\<close>;
  \<^item> \<open>ia_connected\<close>, \<open>ia_connect\<close>, \<open>ia_disconnect\<close>: \<open>Backend.rpcclient\<close>;
  \<^item> \<open>ia_isdone\<close>: \<open>isdone('bootstrap')\<close>; \<open>ia_bootstrap\<close>: \<open>bootstrap(**config)\<close>, \<open>finalize()\<close>;
  \<^item> \<open>ia_ping\<close>: \<open>Command.ping()\<close>; \<open>ia_setenv\<close>: \<open>os.environ[name] = value\<close>;
  \<^item> \<open>ia_patch_cache_path\<close>: the assignments of \<open>USER_CACHE_PATH\<close> in \<open>ipalib\<close>'s modules.
\<close>

record 'w ipa_api =
  ia_principal :: "('w, string) py"
  ia_connected :: "'w \<Rightarrow> bool"
  ia_connect :: "('w, unit) py"
  ia_disconnect :: "('w, unit) py"
  ia_isdone :: "'w \<Rightarrow> bool"
  ia_bootstrap :: "(string \<times> optval) list \<Rightarrow> ('w, unit) py"
  ia_ping :: "('w, unit) py"
  ia_setenv :: "string \<Rightarrow> string \<Rightarrow> 'w \<Rightarrow> 'w"
  ia_patch_cache_path :: "string \<Rightarrow> 'w \<Rightarrow> 'w"

subsection \<open>The plugin\<close>

definition IPA_SECTIONNAME :: string where "IPA_SECTIONNAME = ''auth:ipa''"

record ipa_plugin =
  ip_section :: string
  ip_krb5config :: "string option"
  ip_keytab :: "string option"
  ip_ccache :: "string option"
  ip_principal :: "string option"
  ip_config :: "(string \<times> optval) list"

record ipa_options =
  io_krb5config :: "string option"
  io_keytab :: "string option"
  io_ccache :: "string option"
  io_confdir :: "string option"
  io_context :: string
  io_debug :: bool

definition IPAInterface_init ::
    "'w ipa_api \<Rightarrow> ipa_options \<Rightarrow> string \<Rightarrow> ('w, ipa_plugin) py" where
  "IPAInterface_init A opts section =
     (if section \<noteq> IPA_SECTIONNAME then py_raise ValueError
      else py_bind py_get (\<lambda>w.
        if ia_isdone A w then py_raise RuntimeError
        else py_return \<lparr>ip_section = section, ip_krb5config = io_krb5config opts,
          ip_keytab = io_keytab opts, ip_ccache = io_ccache opts, ip_principal = None,
          ip_config = [(''context'', VStr (io_context opts)), (''debug'', VBool (io_debug opts)),
                       (''log'', VNone)]
            @ (case io_confdir opts of None \<Rightarrow> [] | Some d \<Rightarrow> [(''confdir'', VStr d)])\<rparr>))"

text \<open>\<open>__enter__\<close> and \<open>__exit__\<close>, and the \<open>with\<close> statement around a body.\<close>

text \<open>\<open>_gssapi_cred\<close> logs a failure and passes it on.\<close>

definition gssapi_cred :: "'w ipa_api \<Rightarrow> ('w, string) py" where
  "gssapi_cred A = py_try (ia_principal A) (\<lambda>e. py_raise e)"

lemma gssapi_cred_eq [simp]: "gssapi_cred A = ia_principal A"
  by (rule ext) (simp add: gssapi_cred_def py_try_def py_raise_def split: prod.splits sum.splits)

definition ipa_enter :: "'w ipa_api \<Rightarrow> ('w, unit) py" where
  "ipa_enter A = py_bind (gssapi_cred A) (\<lambda>_.
     py_bind py_get (\<lambda>w. py_when (\<not> ia_connected A w) (ia_connect A)))"

definition ipa_exit :: "'w ipa_api \<Rightarrow> ('w, unit) py" where
  "ipa_exit A = py_bind py_get (\<lambda>w. py_when (ia_connected A w) (ia_disconnect A))"

definition with_ipa :: "'w ipa_api \<Rightarrow> ('w, 'a) py \<Rightarrow> ('w, 'a) py" where
  "with_ipa A body = py_bind (ipa_enter A) (\<lambda>_ w.
     case body w of (r, w1) \<Rightarrow> (case ipa_exit A w1 of
         (Inl e, w2) \<Rightarrow> (Inl e, w2)
       | (Inr _, w2) \<Rightarrow> (r, w2)))"

definition setenv_opt :: "'w ipa_api \<Rightarrow> string \<Rightarrow> string option \<Rightarrow> ('w, unit) py" where
  "setenv_opt A name v = (case v of
      None \<Rightarrow> py_return () | Some s \<Rightarrow> py_modify (ia_setenv A name s))"

definition gssapi_config :: "'w ipa_api \<Rightarrow> ipa_plugin \<Rightarrow> ('w, ipa_plugin) py" where
  "gssapi_config A ip =
     py_bind (setenv_opt A ''KRB5_CLIENT_KTNAME'' (ip_keytab ip)) (\<lambda>_.
     py_bind (setenv_opt A ''KRB5CCNAME'' (ip_ccache ip)) (\<lambda>_.
     py_bind (setenv_opt A ''KRB5_CONFIG'' (ip_krb5config ip)) (\<lambda>_.
     py_bind (gssapi_cred A) (\<lambda>p. py_return (ip\<lparr>ip_principal := Some p\<rparr>)))))"

definition ipa_bootstrap :: "'w ipa_api \<Rightarrow> ipa_plugin \<Rightarrow> ('w, unit) py" where
  "ipa_bootstrap A ip =
     py_bind (py_modify (ia_setenv A ''NSS_STRICT_NOFORK'' ''DISABLED'')) (\<lambda>_.
       ia_bootstrap A (ip_config ip))"

text \<open>
  \<open>finalize_init\<close> after the nested store is attached; \<open>rundir\<close> is the option of the plugin's own
  section. A principal that is set (not empty) means that the set-up has been done.
\<close>

definition IPAInterface_finalize ::
    "'w ipa_api \<Rightarrow> string option \<Rightarrow> ipa_plugin \<Rightarrow> ('w, ipa_plugin) py" where
  "IPAInterface_finalize A rundir ip =
     (if ip_principal ip \<noteq> None \<and> ip_principal ip \<noteq> Some [] then py_return ip
      else
        (let ip1 = (case rundir of
               None \<Rightarrow> ip
             | Some r \<Rightarrow> if r = [] then ip
                 else ip\<lparr>ip_config := dict_put ''home'' (VStr r) (dict_put ''dot_ipa'' (VStr r) (ip_config ip))\<rparr>)
         in py_bind (py_when (rundir \<noteq> None \<and> rundir \<noteq> Some [])
                (py_modify (ia_patch_cache_path A (case rundir of None \<Rightarrow> [] | Some r \<Rightarrow> r)))) (\<lambda>_.
            py_bind (gssapi_config A ip1) (\<lambda>ip2.
            py_bind (ipa_bootstrap A ip2) (\<lambda>_.
            py_bind (with_ipa A (ia_ping A)) (\<lambda>_. py_return ip2))))))"

text \<open>As an authenticator it only leaves itself in the request.\<close>

definition IPAInterface_handle :: "('w, 'k) checker" where
  "IPAInterface_handle req = py_return (None, req\<lparr>rq_ipa := True\<rparr>)"

interpretation ipa: authenticator IPAInterface_handle
proof
  fix req :: "'a request" and c :: "('a, 'b) ctx"
  have "accounted req [] False (req\<lparr>rq_ipa := True\<rparr>)"
    unfolding accounted_def by (intro exI [of _ "rq_remote_user req"] exI [of _ True]) simp
  then show "polite_result req c (IPAInterface_handle req c)"
    by (simp add: polite_result_def IPAInterface_handle_def py_return_def)
qed

text \<open>\<open>from_config\<close>: the stores find the plugin among the authenticators.\<close>

definition ipa_from_config :: "(string \<times> ipa_plugin) list option \<Rightarrow> ipa_plugin res" where
  "ipa_from_config authenticators = rbind (of_option KeyError authenticators) (\<lambda>d.
     of_option KeyError (dict_get d ''ipa''))"

subsection \<open>The connection\<close>

text \<open>What the connection does: \<open>connect\<close> connects or fails, \<open>disconnect\<close> succeeds and
  disconnects, asking for the principal changes neither.\<close>

definition ipa_lawful :: "'w ipa_api \<Rightarrow> bool" where
  "ipa_lawful A =
     ((\<forall>w. \<exists>w'. ia_disconnect A w = (Inr (), w') \<and> \<not> ia_connected A w')
      \<and> (\<forall>w r w'. ia_connect A w = (r, w') \<longrightarrow> ia_connected A w' = (r = Inr ()))
      \<and> (\<forall>w r w'. ia_principal A w = (r, w') \<longrightarrow> ia_connected A w' = ia_connected A w))"

lemma ipa_exit_closed:
  assumes "ipa_lawful A"
  shows "\<exists>w'. ipa_exit A w = (Inr (), w') \<and> \<not> ia_connected A w'"
  using assms by (auto simp: ipa_exit_def ipa_lawful_def py_simps)

lemma with_ipa_closed:
  assumes "ipa_lawful A" and "\<not> ia_connected A w" and "with_ipa A body w = (r, w')"
  shows "\<not> ia_connected A w'"
proof -
  obtain r1 w1 where e: "ipa_enter A w = (r1, w1)" by fastforce
  show ?thesis
  proof (cases r1)
    case (Inl x)
    obtain rp wp where p: "ia_principal A w = (rp, wp)" by fastforce
    with assms(1,2) have wp: "\<not> ia_connected A wp" by (auto simp: ipa_lawful_def)
    have "\<not> ia_connected A w1"
    proof (cases rp)
      case (Inl y)
      with e p wp show ?thesis by (simp add: ipa_enter_def py_bind_def)
    next
      case (Inr y)
      with e p wp have "ia_connect A wp = (Inl x, w1)"
        using \<open>r1 = Inl x\<close> by (simp add: ipa_enter_def py_bind_def py_get_def py_when_def)
      with assms(1) show ?thesis by (auto simp: ipa_lawful_def)
    qed
    with Inl e assms(3) show ?thesis by (simp add: with_ipa_def py_bind_def)
  next
    case (Inr u)
    obtain r2 w2 where b: "body w1 = (r2, w2)" by fastforce
    from ipa_exit_closed [OF assms(1), of w2] obtain w3 where
      "ipa_exit A w2 = (Inr (), w3)" "\<not> ia_connected A w3" by blast
    with Inr e b assms(3) show ?thesis by (simp add: with_ipa_def py_bind_def)
  qed
qed

text \<open>Inside, the outcome is that of the body.\<close>

lemma with_ipa_result:
  assumes "ipa_lawful A" and "ipa_enter A w = (Inr (), w1)"
  shows "fst (with_ipa A body w) = fst (body w1)"
proof -
  obtain r w2 where b: "body w1 = (r, w2)" by fastforce
  from ipa_exit_closed [OF assms(1), of w2] b assms(2) show ?thesis
    by (auto simp: with_ipa_def py_bind_def)
qed

lemma finalize_once:
  assumes "IPAInterface_finalize A rundir ip w = (Inr ip', w')" and "ip_principal ip' \<noteq> Some []"
  shows "IPAInterface_finalize A rundir ip' w' = (Inr ip', w')"
proof -
  from assms have "ip_principal ip' \<noteq> None"
    by (auto simp: IPAInterface_finalize_def gssapi_config_def Let_def py_return_def
        elim!: py_bind_InrE split: if_splits)
  with assms(2) show ?thesis by (simp add: IPAInterface_finalize_def py_return_def)
qed

text \<open>A concrete interface: the world says whether the connection is open.\<close>

definition sample_ipa :: "bool ipa_api" where
  "sample_ipa = \<lparr>ia_principal = py_return ''HTTP/host@REALM'', ia_connected = (\<lambda>w. w),
     ia_connect = (\<lambda>w. (Inr (), True)), ia_disconnect = (\<lambda>w. (Inr (), False)), ia_isdone = (\<lambda>w. False),
     ia_bootstrap = (\<lambda>c. py_return ()), ia_ping = py_return (), ia_setenv = (\<lambda>n v w. w),
     ia_patch_cache_path = (\<lambda>p w. w)\<rparr>"

lemma sample_ipa_lawful: "ipa_lawful sample_ipa"
  by (auto simp: ipa_lawful_def sample_ipa_def py_return_def)


end
