(* ===== verification/Traces.thy ===== *)
theory Traces
  imports Server EncStores IpaInterface
begin

text \<open>
  What holds over any sequence of requests. A request is a step of the server's state (its
  store, its audit log, its clock and key cache); the steps that can happen are an inductive
  relation, and the states reachable by them keep two things: an invariant of the store, and
  every audit entry that was ever written.

  The first part shows that each piece of the server keeps both, the second part is the
  relation itself and its instance for the SQLite store.
\<close>

subsection \<open>Stores and states\<close>

definition store_keeps :: "('w \<Rightarrow> bool) \<Rightarrow> 'w store_ops \<Rightarrow> bool" where
  "store_keeps Q S = ((\<forall>k. py_keeps Q (st_get S k)) \<and> (\<forall>k v r. py_keeps Q (st_set S k v r))
     \<and> (\<forall>k. py_keeps Q (st_span S k)) \<and> (\<forall>p. py_keeps Q (st_list S p))
     \<and> (\<forall>k. py_keeps Q (st_cut S k)))"

lemma sqlite_store_keeps: "store_keeps db_ok sqlite_ops"
  by (simp add: store_keeps_def sqlite_keeps)

definition ctx_inv :: "('w \<Rightarrow> bool) \<Rightarrow> audit_entry list \<Rightarrow> ('w, 'k) ctx \<Rightarrow> bool" where
  "ctx_inv Q l c = (Q (cx_store c) \<and> prefix l (cx_audit c))"

lemma keeps_on_store [py_keeps_intros]: "py_keeps Q m \<Longrightarrow> py_keeps (ctx_inv Q l) (on_store m)"
  by (auto simp: py_keeps_def ctx_inv_def on_store_def split: prod.splits)

lemma keeps_add_audit [py_keeps_intros]: "py_keeps (ctx_inv Q l) (add_audit e)"
  by (auto simp: py_keeps_def ctx_inv_def add_audit_apply intro: prefix_order.trans)

lemma keeps_upd_resp [py_keeps_intros]: "py_keeps (ctx_inv Q l) (upd_resp f)"
  by (simp add: py_keeps_def ctx_inv_def upd_resp_apply)

lemma keeps_read_time [py_keeps_intros]: "py_keeps (ctx_inv Q l) read_time"
  by (auto simp: py_keeps_def ctx_inv_def read_time_def split: list.splits)

lemma keeps_keys [py_keeps_intros]:
  "py_keeps (ctx_inv Q l) (py_modify (\<lambda>c. c\<lparr>cx_server_keys := f c\<rparr>))"
  "py_keeps (ctx_inv Q l) (py_modify (\<lambda>c. c\<lparr>cx_alg := g c\<rparr>))"
  by (simp_all add: py_keeps_def ctx_inv_def py_modify_def)

lemma py_keeps_bind_results:
  assumes "py_keeps P m" and "\<And>x s s'. m s = (Inr x, s') \<Longrightarrow> py_keeps P (f x)"
  shows "py_keeps P (py_bind m f)"
proof (rule py_keepsI)
  fix s assume s: "P s"
  obtain r s1 where m: "m s = (r, s1)" by fastforce
  with assms(1) s have s1: "P s1" by (auto dest: py_keepsD)
  show "P (snd (py_bind m f s))"
  proof (cases r)
    case (Inl e)
    then show ?thesis using m s1 by (simp add: py_bind_def)
  next
    case (Inr x)
    with m assms(2) s1 have "P (snd (f x s1))" by (simp add: py_keeps_def)
    then show ?thesis using m Inr by (simp add: py_bind_def)
  qed
qed

subsection \<open>Messages\<close>

text \<open>The key store a request or a handler carries uses a store that keeps the invariant.\<close>

definition kk_ok :: "('w \<Rightarrow> bool) \<Rightarrow> 'w kkstore \<Rightarrow> bool" where
  "kk_ok Q kk = store_keeps Q (kk_store kk)"

definition req_ok :: "('w \<Rightarrow> bool) \<Rightarrow> 'w request \<Rightarrow> bool" where
  "req_ok Q req = (\<forall>kk. rq_kkstore req = Some kk \<longrightarrow> kk_ok Q kk)"

fun handler_ok :: "('w \<Rightarrow> bool) \<Rightarrow> ('w, 'k) handler \<Rightarrow> bool" where
  "handler_ok Q (SimpleH n p t) = True"
| "handler_ok Q (KemH kk h) = kk_ok Q kk"

lemma find_key_keeps: "kk_ok Q kk \<Longrightarrow> py_keeps (ctx_inv Q l) (find_key kk kid u)"
  unfolding find_key_def
  by (auto intro!: py_keeps_intros simp: kk_ok_def store_keeps_def split: option.splits)

lemma server_key_keeps: "kk_ok Q kk \<Longrightarrow> py_keeps (ctx_inv Q l) (server_key J kk u)"
  unfolding server_key_def server_keys_def
  by (auto intro!: py_keeps_intros find_key_keeps split: option.splits)

lemma kk_alg_keeps: "kk_ok Q kk \<Longrightarrow> py_keeps (ctx_inv Q l) (kk_alg J kk)"
  unfolding kk_alg_def by (auto intro!: py_keeps_intros server_key_keeps split: option.splits)

lemma check_claims_keeps [py_keeps_intros]: "py_keeps (ctx_inv Q l) (check_kem_claims cl n)"
  unfolding check_kem_claims_def by (auto intro!: py_keeps_intros)

lemma kem_validate_keeps: "kk_ok Q kk \<Longrightarrow> py_keeps (ctx_inv Q l) (kem_validate J kk t)"
  unfolding kem_validate_def kem_signed_token_def kem_get_key_def
  by (auto intro!: py_keeps_intros find_key_keeps server_key_keeps split: option.splits token.splits)

lemma kem_parse_keeps: "kk_ok Q kk \<Longrightarrow> py_keeps (ctx_inv Q l) (kem_parse J kk msg n)"
  unfolding kem_parse_def
  by (auto intro!: py_keeps_intros kem_validate_keeps split: sum.splits prod.splits)

lemma make_enc_kem_keeps [py_keeps_intros]: "py_keeps (ctx_inv Q l) (make_enc_kem J n v sk a ek e)"
  unfolding make_enc_kem_def make_sig_kem_def by (auto intro!: py_keeps_intros)

lemma handler_reply_keeps: "handler_ok Q h \<Longrightarrow> py_keeps (ctx_inv Q l) (handler_reply J h out)"
  by (cases h) (auto simp: kem_reply_def intro!: py_keeps_intros server_key_keeps kk_alg_keeps)

lemma run_class_keeps: "req_ok Q req \<Longrightarrow> py_keeps (ctx_inv Q l) (run_class J req c m n)"
  unfolding run_class_def
  by (auto intro!: py_keeps_intros kem_parse_keeps simp: req_ok_def split: handler_class.splits option.splits)

lemma validator_parse_keeps: "req_ok Q req \<Longrightarrow> py_keeps (ctx_inv Q l) (validator_parse J v req m n)"
  unfolding validator_parse_def by (auto intro!: py_keeps_intros run_class_keeps split: prod.splits)

lemma run_class_handler:
  "run_class J req c m n s = (Inr h, s') \<Longrightarrow> req_ok Q req \<Longrightarrow> handler_ok Q h"
  by (auto simp: run_class_def py_lift_def simple_parse_def py_raise_def py_return_def req_ok_def
      elim!: py_bind_InrE split: handler_class.splits json.splits option.splits)

lemma validator_parse_handler:
  assumes "validator_parse J v req m n s = (Inr h, s')" and "req_ok Q req"
  shows "handler_ok Q h"
  using assms by (auto simp: validator_parse_def py_lift_def elim!: py_bind_InrE dest: run_class_handler
      split: prod.splits)

subsection \<open>The secrets\<close>

lemma as_http_keeps [py_keeps_intros]: "py_keeps P m \<Longrightarrow> py_keeps P (as_http n m)"
  unfolding as_http_def by (intro py_keeps_intros)

lemma as_http_Inr: "as_http n m s = (Inr x, s') \<Longrightarrow> m s = (Inr x, s')"
  by (auto simp: as_http_def py_try_def py_raise_def split: prod.splits sum.splits)

lemma store_error_keeps [py_keeps_intros]: "py_keeps P (on_store_error e)" "py_keeps P (on_set_error e)"
  by (cases e; simp add: on_store_error_def on_set_error_def py_keeps_raise)+

text \<open>The four parsing functions: they keep the state and give a handler of the request.\<close>

lemma parse_keeps:
  assumes "req_ok Q req"
  shows "py_keeps (ctx_inv Q l) (parse_query E se req n)"
    and "py_keeps (ctx_inv Q l) (parse_maybe_body E se req n)"
    and "py_keeps (ctx_inv Q l) (parse_set_body E se req n)"
  using assms
  by (auto simp: parse_query_def parse_maybe_body_def parse_set_body_def parse_bin_body_def
      parse_body_def secrets_parse_def
      intro!: py_keeps_intros validator_parse_keeps split: option.splits exn.splits)

lemma parse_handler:
  assumes "req_ok Q req"
  shows "parse_query E se req n s = (Inr h, s') \<Longrightarrow> handler_ok Q h"
    and "parse_maybe_body E se req n s = (Inr h, s') \<Longrightarrow> handler_ok Q h"
    and "parse_bin_body E se req n s = (Inr h, s') \<Longrightarrow> handler_ok Q h"
    and "parse_body E se req n s = (Inr h, s') \<Longrightarrow> handler_ok Q h"
  using assms validator_parse_handler
  by (auto simp: parse_query_def parse_maybe_body_def parse_bin_body_def parse_body_def
      secrets_parse_def py_lift_def py_raise_def elim!: py_bind_InrE split: option.splits) blast+

lemma set_error_not_Inr:
  "(case e of UnknownMessageType \<Rightarrow> py_raise (HTTPError 406)
        | UnallowedMessage \<Rightarrow> py_raise (HTTPError 406)
        | _ \<Rightarrow> py_raise (HTTPError 400)) u = (Inr x, u') \<Longrightarrow> False"
  by (cases e) (simp_all add: py_raise_def)

lemma parse_set_handler:
  assumes "parse_set_body E se req n s = (Inr h, s')" and "req_ok Q req"
  shows "handler_ok Q h"
  using assms(1) parse_handler(3,4) [OF assms(2), of E se n s h]
  by (auto simp: parse_set_body_def py_try_def py_raise_def split: if_splits prod.splits sum.splits
      dest!: set_error_not_Inr)

lemma reply_keeps:
  assumes "handler_ok Q h"
  shows "py_keeps (ctx_inv Q l) (reply_created E h)" and "py_keeps (ctx_inv Q l) (reply_deleted E h)"
    and "py_keeps (ctx_inv Q l) (format_reply E req h out)"
  using assms
  by (auto simp: reply_created_def reply_deleted_def format_reply_def
      intro!: py_keeps_intros handler_reply_keeps)

lemma parent_exists_keeps:
  "store_keeps Q (se_store se) \<Longrightarrow> py_keeps (ctx_inv Q l) (parent_exists se d t)"
  unfolding parent_exists_def by (auto intro!: py_keeps_intros simp: store_keeps_def)

lemma audited_keeps:
  fixes fn :: "('w, 'k, unit) act"
  assumes "py_keeps (ctx_inv Q l) fn"
  shows "py_keeps (ctx_inv Q l) (audited se a b fn t req)"
proof (rule py_keepsI)
  fix c :: "('w, 'k) ctx" assume c: "ctx_inv Q l c"
  obtain r c1 where f: "fn c = (r, c1)" by fastforce
  with assms c have "ctx_inv Q l c1" by (auto dest: py_keepsD)
  then show "ctx_inv Q l (snd (audited se a b fn t req c))"
    using c f by (auto simp: audited_def py_bind_def py_lift_def add_audit_apply ctx_inv_def
        intro: prefix_order.trans split: sum.splits)
qed

text \<open>Every method of the secrets consumer.\<close>

lemma secrets_keeps:
  assumes r: "req_ok Q req" and s: "store_keeps Q (se_store se)"
  shows "py_keeps (ctx_inv Q l) (secrets_GET E se req)"
    and "py_keeps (ctx_inv Q l) (secrets_PUT E se req)"
    and "py_keeps (ctx_inv Q l) (secrets_DELETE E se req)"
    and "py_keeps (ctx_inv Q l) (secrets_POST E se req)"
proof -
  have st: "py_keeps Q (st_get (se_store se) k)" "py_keeps Q (st_set (se_store se) k v b)"
    "py_keeps Q (st_span (se_store se) k)" "py_keeps Q (st_list (se_store se) k)"
    "py_keeps Q (st_cut (se_store se) k)" for k v b
    using s by (simp_all add: store_keeps_def)
  note ks = py_keeps_intros st parse_keeps [OF r] parent_exists_keeps [OF s] reply_keeps handler_reply_keeps
  have h1: "as_http n (parse_query E se req m) c = (Inr h, c') \<Longrightarrow> handler_ok Q h" for n m c h c'
    by (rule parse_handler(1) [OF r, OF as_http_Inr])
  have h2: "as_http n (parse_maybe_body E se req m) c = (Inr h, c') \<Longrightarrow> handler_ok Q h" for n m c h c'
    by (rule parse_handler(2) [OF r, OF as_http_Inr])
  have "py_keeps (ctx_inv Q l) (secrets_list E se t req)" for t
    unfolding secrets_list_def
    by (rule py_keeps_bind_results) (auto intro!: ks dest!: h1 split: option.splits)
  moreover have "py_keeps (ctx_inv Q l) (int_get_key E se t req)" for t
    unfolding int_get_key_def
    by (rule py_keeps_bind_results) (auto intro!: ks dest!: h1)
  ultimately show "py_keeps (ctx_inv Q l) (secrets_GET E se req)"
    by (simp add: secrets_GET_def Let_def get_key_def audited_keeps)
  have "py_keeps (ctx_inv Q l) (int_set_key E se t req)" for t
    unfolding int_set_key_def
    by (rule py_keeps_bind_results) (auto intro!: ks dest!: parse_set_handler [OF _ r])
  then show "py_keeps (ctx_inv Q l) (secrets_PUT E se req)"
    by (simp add: secrets_PUT_def Let_def set_key_def audited_keeps py_keeps_raise)
  have "py_keeps (ctx_inv Q l) (secrets_destroy E se t req)" for t
    unfolding secrets_destroy_def
    by (rule py_keeps_bind_results) (auto intro!: ks dest!: h2 split: option.splits)
  moreover have "py_keeps (ctx_inv Q l) (int_del_key E se t req)" for t
    unfolding int_del_key_def
    by (rule py_keeps_bind_results) (auto intro!: ks dest!: h2)
  ultimately show "py_keeps (ctx_inv Q l) (secrets_DELETE E se req)"
    by (simp add: secrets_DELETE_def Let_def del_key_def audited_keeps py_keeps_raise)
  have "py_keeps (ctx_inv Q l) (secrets_create E se t req)" for t
    unfolding secrets_create_def create_guarded_def
    by (rule py_keeps_bind_results) (auto intro!: ks dest!: h2)
  then show "py_keeps (ctx_inv Q l) (secrets_POST E se req)"
    by (simp add: secrets_POST_def Let_def py_keeps_raise)
qed

subsection \<open>Consumers\<close>

definition method_keeps :: "('w \<Rightarrow> bool) \<Rightarrow> ('w, 'k) http_method \<Rightarrow> bool" where
  "method_keeps Q m = (\<forall>l req. req_ok Q req \<longrightarrow> py_keeps (ctx_inv Q l) (m req))"

definition consumer_keeps :: "('w \<Rightarrow> bool) \<Rightarrow> ('w, 'k) consumer \<Rightarrow> bool" where
  "consumer_keeps Q con = (\<forall>req m req'. find_handler con req = Inr (m, req') \<longrightarrow>
     method_keeps Q m \<and> (req_ok Q req \<longrightarrow> req_ok Q req'))"

lemma no_output_keeps [py_keeps_intros]: "py_keeps P m \<Longrightarrow> py_keeps P (no_output m)"
  unfolding no_output_def by (intro py_keeps_intros)

lemma req_ok_trail [simp]: "req_ok Q (req\<lparr>rq_trail := t\<rparr>) = req_ok Q req"
  by (simp add: req_ok_def)

lemma find_handler_trail:
  "find_handler con req = Inr (m, req') \<Longrightarrow> \<exists>t. req' = req\<lparr>rq_trail := t\<rparr>"
  by (cases "rq_trail req")
     (auto simp: find_handler_def Let_def split: if_splits option.splits prod.splits
       intro: exI [of _ "rq_trail req"])

lemma find_handler_method:
  assumes "find_handler con req = Inr (m, req')"
  shows "\<exists>con'. (con' = con \<or> (\<exists>t. con' = fst (find_loop 0 t con)))
    \<and> dict_get (co_methods con') (rq_command req) = Some m"
proof (cases "rq_trail req")
  case None
  with assms show ?thesis
    by (auto simp: find_handler_def Let_def split: if_splits option.splits)
next
  case (Some t)
  obtain b u where "find_loop 0 t con = (b, u)" by fastforce
  with assms Some have "dict_get (co_methods (fst (find_loop 0 t con))) (rq_command req) = Some m"
    by (auto simp: find_handler_def Let_def split: if_splits option.splits)
  then show ?thesis by (intro exI [of _ "fst (find_loop 0 t con)"] conjI disjI2 exI [of _ t] refl)
qed

lemma secrets_methods_keep:
  assumes "store_keeps Q (se_store se)" and "dict_get (co_methods (secrets_consumer E se)) cmd = Some m"
  shows "method_keeps Q m"
proof -
  have "m = (\<lambda>req. no_output (secrets_GET E se req)) \<or> m = (\<lambda>req. no_output (secrets_PUT E se req))
    \<or> m = (\<lambda>req. no_output (secrets_DELETE E se req)) \<or> m = (\<lambda>req. no_output (secrets_POST E se req))"
    using assms(2) by (simp add: secrets_consumer_def split: if_splits)
  then show ?thesis
    unfolding method_keeps_def
    by (elim disjE) (simp_all add: no_output_keeps secrets_keeps [OF _ assms(1)])
qed

lemma root_loop:
  "fst (find_loop 0 t (root_consumer E (Some se))) = root_consumer E (Some se)
   \<or> fst (find_loop 0 t (root_consumer E (Some se))) = secrets_consumer E se"
proof (cases t)
  case Nil
  then show ?thesis by (simp add: find_loop.simps)
next
  case (Cons s rest)
  show ?thesis
  proof (cases "s = ''secrets''")
    case True
    then have "find_loop 0 t (root_consumer E (Some se)) = (secrets_consumer E se, rest)"
      unfolding Cons by (intro find_loop_sub) (simp_all add: root_subs)
    then show ?thesis by simp
  next
    case False
    then have "find_loop 0 t (root_consumer E (Some se)) = (root_consumer E (Some se), t)"
      unfolding Cons by (intro find_loop_other) (simp add: root_subs)
    then show ?thesis by simp
  qed
qed

lemma root_consumer_keeps:
  assumes "store_keeps Q (se_store se)"
  shows "consumer_keeps Q (root_consumer E (Some se))"
  unfolding consumer_keeps_def
proof (intro allI impI)
  fix req m req'
  assume f: "find_handler (root_consumer E (Some se)) req = Inr (m, req')"
  from find_handler_method [OF f] root_loop [of _ E se] obtain con' where
    "con' = root_consumer E (Some se) \<or> con' = secrets_consumer E se"
    and m: "dict_get (co_methods con') (rq_command req) = Some m" by metis
  then have "method_keeps Q m"
  proof (elim disjE)
    assume "con' = root_consumer E (Some se)"
    with m have "m = root_GET" by (simp add: root_consumer_def add_sub_def split: if_splits)
    then show ?thesis by (simp add: method_keeps_def root_GET_def [abs_def] py_keeps_return)
  next
    assume "con' = secrets_consumer E se"
    with m secrets_methods_keep [OF assms] show ?thesis by blast
  qed
  with find_handler_trail [OF f] show "method_keeps Q m \<and> (req_ok Q req \<longrightarrow> req_ok Q req')" by auto
qed

lemma bind_lift_Inr: "py_bind (py_lift (Inr x)) f = f x"
  by (simp add: fun_eq_iff py_simps)

lemma consumer_handle_keeps:
  assumes "consumer_keeps Q con" and "req_ok Q req"
  shows "py_keeps (ctx_inv Q l) (consumer_handle E con req)"
proof (cases "find_handler con req")
  case (Inl e)
  then show ?thesis by (simp add: consumer_handle_def py_keeps_def py_bind_def py_lift_def)
next
  case (Inr mr)
  obtain m req' where mr: "mr = (m, req')" by fastforce
  with Inr assms have "method_keeps Q m" "req_ok Q req'" by (auto simp: consumer_keeps_def)
  then have "py_keeps (ctx_inv Q l) (m req')" by (simp add: method_keeps_def)
  then have "py_keeps (ctx_inv Q l) (\<lambda>c. (py_bind (upd_resp (\<lambda>_. empty_response)) (\<lambda>_.
     py_bind (m req') (\<lambda>returned.
     py_bind py_get (\<lambda>c.
     py_bind (py_lift (finish (jo_json_encode (en_jose E)) returned (cx_resp c))) (\<lambda>r.
     py_bind (upd_resp (\<lambda>_. r)) (\<lambda>_. py_return r)))))) c)"
    by (intro py_keeps_intros)
  then show ?thesis
    using Inr mr by (simp add: consumer_handle_def bind_lift_Inr)
qed

subsection \<open>Checkers and the pipeline\<close>

definition checker_keeps :: "('w \<Rightarrow> bool) \<Rightarrow> ('w, 'k) checker \<Rightarrow> bool" where
  "checker_keeps Q h = (\<forall>req. req_ok Q req \<longrightarrow>
     (\<forall>l. py_keeps (ctx_inv Q l) (h req))
     \<and> (\<forall>c v req' c'. h req c = (Inr (v, req'), c') \<longrightarrow> req_ok Q req'))"

definition authorizer_keeps :: "('w \<Rightarrow> bool) \<Rightarrow> ('w, 'k) authorizer \<Rightarrow> bool" where
  "authorizer_keeps Q h = (\<forall>req m. h req = Some m \<longrightarrow> req_ok Q req \<longrightarrow>
     (\<forall>l. py_keeps (ctx_inv Q l) m)
     \<and> (\<forall>c v req' c'. m c = (Inr (v, req'), c') \<longrightarrow> req_ok Q req'))"

definition config_keeps :: "('w \<Rightarrow> bool) \<Rightarrow> ('w, 'k) server_config \<Rightarrow> bool" where
  "config_keeps Q cfg =
     ((\<forall>hs. sc_authenticators cfg = Some hs \<longrightarrow> (\<forall>(n, h) \<in> set hs. checker_keeps Q h))
      \<and> (\<forall>hs. sc_authorizers cfg = Some hs \<longrightarrow> (\<forall>(n, h) \<in> set hs. authorizer_keeps Q h))
      \<and> (\<forall>(p, con) \<in> set (sc_consumers cfg). consumer_keeps Q con))"

lemma verdict_keeps [py_keeps_intros]: "py_keeps (ctx_inv Q l) (verdict org act req name r)"
  unfolding verdict_def by (intro py_keeps_intros)

lemma req_ok_simps [simp]:
  "req_ok Q (req\<lparr>rq_remote_user := u\<rparr>) = req_ok Q req"
  "req_ok Q (req\<lparr>rq_default_namespace := u\<rparr>) = req_ok Q req"
  "req_ok Q (req\<lparr>rq_path_chain := p\<rparr>) = req_ok Q req"
  "req_ok Q (req\<lparr>rq_ipa := b\<rparr>) = req_ok Q req"
  "req_ok Q (req\<lparr>rq_body := bo\<rparr>) = req_ok Q req"
  by (simp_all add: req_ok_def)

lemma checker_keepsI:
  assumes "authenticator h" and "\<And>l req. py_keeps (ctx_inv Q l) (h req)"
  shows "checker_keeps Q h"
proof -
  have "req_ok Q req' = req_ok Q req" if "h req c = (Inr (v, req'), c')" for req c v req' c'
    using authenticator.changes_little [OF assms(1) that] by auto
  with assms(2) show ?thesis by (auto simp: checker_keeps_def)
qed

lemma authenticators_keep:
  "checker_keeps Q (SimpleCredsAuth_handle a)"
  "checker_keeps Q (SimpleHeaderAuth_handle b)"
  "checker_keeps Q (SimpleClientCertAuth_handle d)"
  "checker_keeps Q IPAInterface_handle"
  by (rule checker_keepsI, rule creds.authenticator_axioms header.authenticator_axioms cert.authenticator_axioms
        ipa.authenticator_axioms,
      auto simp: SimpleCredsAuth_handle_def SimpleHeaderAuth_handle_def SimpleClientCertAuth_handle_def
        IPAInterface_handle_def Let_def intro!: py_keeps_intros
        split: option.splits peer_cert.splits prod.splits list.splits)+

lemma auth_keys_keep:
  assumes "store_keeps Q (ak_store a)"
  shows "checker_keeps Q (SimpleAuthKeys_handle f a)"
  using assms
  by (intro checker_keepsI keys.authenticator_axioms)
     (auto simp: SimpleAuthKeys_handle_def sak_check_def Let_def store_keeps_def intro!: py_keeps_intros)

lemma UserNameSpace_keeps: "checker_keeps Q (UserNameSpace_handle a)"
  by (auto simp: checker_keeps_def UserNameSpace_handle_def Let_def verdict_apply py_return_apply
      intro!: py_keeps_intros split: option.splits if_splits)

lemma SimplePathAuthz_keeps:
  assumes "SimplePathAuthz_handle a req = Some m" and "req_ok Q req"
  shows "py_keeps (ctx_inv Q l) m \<and> (\<forall>c v req' c'. m c = (Inr (v, req'), c') \<longrightarrow> req_ok Q req')"
  using assms
  by (auto simp: SimplePathAuthz_handle_def Let_def verdict_apply py_return_apply
      intro!: py_keeps_intros split: option.splits if_splits)

lemma KEMKeysStore_keeps:
  assumes "KEMKeysStore_handle kk req = Some m" and "req_ok Q req" and "kk_ok Q kk"
  shows "py_keeps (ctx_inv Q l) m \<and> (\<forall>c v req' c'. m c = (Inr (v, req'), c') \<longrightarrow> req_ok Q req')"
proof -
  from assms(1) obtain m' where
    m': "SimplePathAuthz_handle \<lparr>pa_origin = kk_origin kk, pa_paths = kk_paths kk\<rparr> req = Some m'"
    and m: "m = py_bind m' (\<lambda>(inpath, req'). py_return (inpath,
            if inpath = Some True then req'\<lparr>rq_kkstore := Some kk\<rparr> else req'))"
    by (auto simp: KEMKeysStore_handle_def split: option.splits)
  from SimplePathAuthz_keeps [OF m' assms(2)] have k: "py_keeps (ctx_inv Q l) m'"
    and r: "m' c = (Inr (v, req'), c') \<Longrightarrow> req_ok Q req'" for c v req' c' by blast+
  have "py_keeps (ctx_inv Q l) m" unfolding m using k by (auto intro!: py_keeps_intros)
  moreover have "req_ok Q req'" if "m c = (Inr (v, req'), c')" for c v req' c'
    using that assms(3) unfolding m
    by (auto simp: py_return_def req_ok_def elim!: py_bind_InrE dest: r split: prod.splits if_splits)
  ultimately show ?thesis by blast
qed

lemma run_authers_keeps:
  "(\<And>n h. (n, h) \<in> set hs \<Longrightarrow> checker_keeps Q h) \<Longrightarrow> req_ok Q req \<Longrightarrow>
   py_keeps (ctx_inv Q l) (run_authers hs once req)
   \<and> (\<forall>c b req' c'. run_authers hs once req c = (Inr (b, req'), c') \<longrightarrow> req_ok Q req')"
proof (induction hs once req rule: run_authers.induct)
  case (1 once req)
  then show ?case by (auto simp: py_return_def py_keeps_def)
next
  case (2 name h hs once req)
  have h: "checker_keeps Q h" using "2.prems"(1) by auto
  have tail: "\<And>n h. (n, h) \<in> set hs \<Longrightarrow> checker_keeps Q h" using "2.prems"(1) by auto
  have step: "h req c = (Inr (v, req1), c1) \<Longrightarrow> req_ok Q req1" for c v req1 c1
    using h "2.prems"(2) unfolding checker_keeps_def by blast
  have "py_keeps (ctx_inv Q l) (run_authers ((name, h) # hs) once req)"
    unfolding run_authers.simps
  proof (rule py_keeps_bind_results)
    show "py_keeps (ctx_inv Q l) (h req)" using h "2.prems"(2) by (simp add: checker_keeps_def)
  next
    fix x c c1 assume x: "h req c = (Inr x, c1)"
    obtain v req1 where v: "x = (v, req1)" by fastforce
    with x step have "req_ok Q req1" by blast
    then show "py_keeps (ctx_inv Q l) (case x of (valid, req') \<Rightarrow>
        if valid = Some False then py_raise (HTTPError 403)
        else run_authers hs (valid = Some True \<or> once) req')"
      using "2.IH" [of v req1] tail v by (auto simp: py_keeps_raise)
  qed
  moreover have "req_ok Q req'" if "run_authers ((name, h) # hs) once req c = (Inr (b, req'), c')" for c b req' c'
  proof -
    from that obtain v req1 c1 where x: "h req c = (Inr (v, req1), c1)" "v \<noteq> Some False"
      "run_authers hs (v = Some True \<or> once) req1 c1 = (Inr (b, req'), c')"
      by (auto simp: py_raise_def elim!: py_bind_InrE split: if_splits)
    have "req_ok Q req1" by (rule step [OF x(1)])
    with "2.IH" [of v req1] x(2) tail have
      "\<forall>c b req' c'. run_authers hs (v = Some True \<or> once) req1 c = (Inr (b, req'), c') \<longrightarrow> req_ok Q req'"
      by blast
    with x(3) show ?thesis by blast
  qed
  ultimately show ?case by blast
qed

lemma run_authzers_keeps:
  assumes "\<And>n h req m. (n, h) \<in> set hs \<Longrightarrow> h req = Some m \<Longrightarrow> req_ok Q req \<Longrightarrow>
      py_keeps (ctx_inv Q l) m \<and> (\<forall>c v req' c'. m c = (Inr (v, req'), c') \<longrightarrow> req_ok Q req')"
    and "req_ok Q req" and "ctx_inv Q l c" and "run_authzers hs ok req c = Some (r, c')"
  shows "ctx_inv Q l c' \<and> (\<forall>v req'. r = Inr (v, req') \<longrightarrow> req_ok Q req')"
  using assms
proof (induction hs ok req c rule: run_authzers.induct)
  case (1 ok req c)
  then show ?case by auto
next
  case (2 name h hs ok req c)
  from "2.prems"(4) obtain m where m: "h req = Some m" by (auto split: option.splits)
  have k: "py_keeps (ctx_inv Q l) m \<and> (\<forall>c v req' c'. m c = (Inr (v, req'), c') \<longrightarrow> req_ok Q req')"
    using "2.prems"(1) [of name h req m] m "2.prems"(2) by simp
  have tail: "py_keeps (ctx_inv Q l) m' \<and> (\<forall>c v req' c'. m' c = (Inr (v, req'), c') \<longrightarrow> req_ok Q req')"
    if "(n, h') \<in> set hs" "h' rq = Some m'" "req_ok Q rq" for n h' rq m'
    using "2.prems"(1) [of n h' rq m'] that by simp
  obtain r1 c1 where r1: "m c = (r1, c1)" by fastforce
  have c1: "ctx_inv Q l c1" by (rule py_keepsD [OF conjunct1 [OF k] "2.prems"(3) r1])
  show ?case
  proof (cases r1)
    case (Inl e)
    then show ?thesis using "2.prems"(4) m r1 c1 by auto
  next
    case (Inr vr)
    obtain v req1 where vr: "vr = (v, req1)" by fastforce
    have ok1: "req_ok Q req1" using k r1 Inr vr by blast
    note IH = "2.IH" [OF m r1 [symmetric] Inr vr [symmetric]]
    have go: "ctx_inv Q l c' \<and> (\<forall>v req'. r = Inr (v, req') \<longrightarrow> req_ok Q req')"
      if "v = Some True \<Longrightarrow> run_authzers hs (Some True) req1 c1 = Some (r, c')"
        and "v = None \<Longrightarrow> run_authzers hs ok req1 c1 = Some (r, c')" and "v \<noteq> Some False"
    proof (cases v)
      case None
      show ?thesis using IH(2) [OF _ _ tail ok1 c1 that(2)] None by simp
    next
      case (Some b)
      then show ?thesis using IH(1) [OF _ tail ok1 c1 that(1)] that(3) by (cases b) simp_all
    qed
    have run: "run_authzers ((name, h) # hs) ok req c =
        (if v = Some True then run_authzers hs (Some True) req1 c1
         else if v = Some False then Some (Inr (Some False, req1), c1) else run_authzers hs ok req1 c1)"
      using m r1 Inr vr by simp
    show ?thesis
    proof (cases "v = Some False")
      case True
      then show ?thesis using "2.prems"(4) c1 ok1 unfolding run by auto
    next
      case False
      then show ?thesis using "2.prems"(4) unfolding run by (intro go) auto
    qed
  qed
qed

lemma select_consumer_in:
  "select_consumer cs chain t = Some (con, trail) \<Longrightarrow> \<exists>p. (p, con) \<in> set cs"
  using select_consumer_longest [of cs chain t con trail]
  by (auto simp: dict_get_def dest: map_of_SomeD)

lemma run_consumer_keeps:
  assumes "config_keeps Q cfg" and "req_ok Q req"
  shows "py_keeps (ctx_inv Q l) (run_consumer E cfg req)"
proof (cases "select_consumer (sc_consumers cfg) (rq_path_chain req) []")
  case None
  then show ?thesis by (simp add: run_consumer_def py_keeps_raise)
next
  case (Some ct)
  obtain con trail where ct: "ct = (con, trail)" by fastforce
  from select_consumer_in [OF Some [unfolded ct]] obtain p where "(p, con) \<in> set (sc_consumers cfg)" by blast
  with assms(1) have "consumer_keeps Q con" by (auto simp: config_keeps_def)
  then show ?thesis
    using Some ct assms(2) by (auto simp: run_consumer_def intro: consumer_handle_keeps)
qed

lemma ctx_inv_audit: "ctx_inv Q l c \<Longrightarrow> ctx_inv Q l (snd (add_audit e c))"
  by (auto simp: ctx_inv_def add_audit_apply intro: prefix_order.trans)

lemma authorize_keeps:
  assumes "config_keeps Q cfg" and "req_ok Q req" and "ctx_inv Q l c"
    and "authorize E cfg req c = Some (r, c')"
  shows "ctx_inv Q l c'"
proof (cases "sc_authorizers cfg")
  case None
  then show ?thesis using assms(3,4) by (simp add: authorize_def)
next
  case (Some hs)
  with assms(4) obtain r1 c1 where run: "run_authzers hs None req c = Some (r1, c1)"
    by (auto simp: authorize_def split: option.splits)
  have c1: "ctx_inv Q l c1 \<and> (\<forall>v req'. r1 = Inr (v, req') \<longrightarrow> req_ok Q req')"
  proof (rule run_authzers_keeps [OF _ assms(2,3) run])
    fix n h rq m
    assume "(n, h) \<in> set hs" "h rq = Some m" "req_ok Q rq"
    then show "py_keeps (ctx_inv Q l) m \<and> (\<forall>c v req' c'. m c = (Inr (v, req'), c') \<longrightarrow> req_ok Q req')"
      using assms(1) Some unfolding config_keeps_def authorizer_keeps_def by blast
  qed
  have "ctx_inv Q l (snd (run_consumer E cfg (req'\<lparr>rq_path_chain := p\<rparr>) c1))"
    if "req_ok Q req'" for req' p
    using run_consumer_keeps [OF assms(1), of "req'\<lparr>rq_path_chain := p\<rparr>" l E] that c1
    by (simp add: py_keeps_def)
  then show ?thesis
    using assms(4) Some run c1
    by (auto simp: authorize_def ctx_inv_audit split: sum.splits prod.splits if_splits)
       (metis snd_conv)+
qed

lemma pipeline_keeps:
  assumes "config_keeps Q cfg" and "req_ok Q req" and "ctx_inv Q l c"
    and "pipeline E cfg req c = Some (r, c')"
  shows "ctx_inv Q l c'"
proof (cases "rq_path_chain req = [] \<or> hd (rq_path_chain req) \<noteq> [] \<or> sc_authenticators cfg = None")
  case True
  then show ?thesis using assms(3,4) by (auto simp: pipeline_def split: if_splits)
next
  case False
  then obtain hs where hs: "sc_authenticators cfg = Some hs"
    and ch: "rq_path_chain req \<noteq> []" "hd (rq_path_chain req) = []" by auto
  obtain r1 c1 where run: "run_authers hs False req c = (r1, c1)" by fastforce
  have ks: "checker_keeps Q h" if "(n, h) \<in> set hs" for n h
    using assms(1) hs that unfolding config_keeps_def by blast
  have keep: "py_keeps (ctx_inv Q l) (run_authers hs False req)
    \<and> (\<forall>c b req' c'. run_authers hs False req c = (Inr (b, req'), c') \<longrightarrow> req_ok Q req')"
    by (rule run_authers_keeps [OF ks assms(2)])
  from py_keepsD [OF conjunct1 [OF keep] assms(3) run] have c1: "ctx_inv Q l c1" .
  have r1: "req_ok Q req'" if "r1 = Inr (b, req')" for b req'
    using keep run that by blast
  show ?thesis
    using assms(4) hs ch run c1 r1
    by (auto simp: pipeline_def ctx_inv_audit split: sum.splits prod.splits if_splits
        dest: authorize_keeps [OF assms(1) _ c1, rotated])
qed

text \<open>A request as it is read from the wire carries no key store yet.\<close>

lemma parse_request_req_ok:
  "parse_request dec dec8 inc lin = Inr req \<Longrightarrow> req_ok Q req"
  by (auto simp: parse_request_def req_ok_def Let_def elim!: rbind_InrE split: if_splits prod.splits)

lemma handle_one_request_keeps:
  assumes cfg: "\<And>x. config = Some x \<Longrightarrow> config_keeps Q x" and c: "ctx_inv Q l c"
    and h: "handle_one_request E dec dec8 config inc c = Some (out, c')"
  shows "ctx_inv Q l c'"
proof (cases config)
  case None
  then show ?thesis using c h by (simp add: handle_one_request_def)
next
  case (Some x)
  have run: "ctx_inv Q l c2" if "parse_request dec dec8 inc lin = Inr req"
    "pipeline E x (req\<lparr>rq_body := b\<rparr>) c = Some (r, c2)" for lin req b r c2
    using pipeline_keeps [OF cfg [OF Some] _ c that(2)] parse_request_req_ok [OF that(1), of Q] by simp
  show ?thesis
    using h Some c
    by (auto simp: handle_one_request_def split: if_splits option.splits sum.splits exn.splits prod.splits
        dest: run)
qed

subsection \<open>Sequences of requests\<close>

text \<open>
  The server forks for every connection: the child inherits the configuration and the caches
  as they were at start-up (empty), and what it leaves behind is the store and the audit log.
  \<open>fork\<close> is the state a child starts with, at a time and with clock readings of its own.
\<close>

definition fork :: "int \<Rightarrow> nat list \<Rightarrow> ('w, 'k) ctx \<Rightarrow> ('w, 'k) ctx" where
  "fork now ticks c = c\<lparr>cx_time := now, cx_ticks := ticks, cx_resp := empty_response,
     cx_server_keys := None, cx_alg := None\<rparr>"

inductive request_step ::
    "('k, 'jwe, 'jws) env \<Rightarrow> (bytes \<Rightarrow> string) \<Rightarrow> (bytes \<Rightarrow> string res) \<Rightarrow> ('w, 'k) server_config option
     \<Rightarrow> ('w, 'k) ctx \<Rightarrow> outcome \<Rightarrow> ('w, 'k) ctx \<Rightarrow> bool"
  for E dec dec8 config where
  "handle_one_request E dec dec8 config inc (fork now ticks c) = Some (out, c') \<Longrightarrow>
   request_step E dec dec8 config c out c'"

inductive_cases request_stepE: "request_step E dec dec8 config c out c'"
inductive_simps request_step_iff: "request_step E dec dec8 config c out c'"

inductive server_run ::
    "('k, 'jwe, 'jws) env \<Rightarrow> (bytes \<Rightarrow> string) \<Rightarrow> (bytes \<Rightarrow> string res) \<Rightarrow> ('w, 'k) server_config option
     \<Rightarrow> ('w, 'k) ctx \<Rightarrow> outcome list \<Rightarrow> ('w, 'k) ctx \<Rightarrow> bool"
  for E dec dec8 config where
  run_none: "server_run E dec dec8 config c [] c"
| run_more: "server_run E dec dec8 config c outs c1 \<Longrightarrow> request_step E dec dec8 config c1 out c2 \<Longrightarrow>
    server_run E dec dec8 config c (outs @ [out]) c2"

lemma ctx_inv_fork [simp]: "ctx_inv Q l (fork now ticks c) = ctx_inv Q l c"
  by (simp add: fork_def ctx_inv_def)

lemma request_step_keeps:
  assumes "request_step E dec dec8 config c out c'" and "\<And>x. config = Some x \<Longrightarrow> config_keeps Q x"
    and "ctx_inv Q l c"
  shows "ctx_inv Q l c'"
proof -
  from assms(1) obtain inc now ticks where
    "handle_one_request E dec dec8 config inc (fork now ticks c) = Some (out, c')"
    by (auto elim: request_stepE)
  from handle_one_request_keeps [OF assms(2) _ this] assms(3) show ?thesis by simp
qed

lemma server_run_keeps:
  assumes "server_run E dec dec8 config c outs c'" and "\<And>x. config = Some x \<Longrightarrow> config_keeps Q x"
    and "ctx_inv Q l c"
  shows "ctx_inv Q l c'"
  using assms(1,3)
proof (induction rule: server_run.induct)
  case (run_none c)
  then show ?case .
next
  case (run_more c outs c1 out c2)
  then show ?case using request_step_keeps [OF run_more.hyps(2) assms(2)] by blast
qed

subsection \<open>The configurations the program builds\<close>

text \<open>
  The authenticators, authorizers and consumers of the package, all of them on the stores that
  keep the invariant.
\<close>

inductive own_authenticator :: "'w store_ops set \<Rightarrow> ('w, 'k) checker \<Rightarrow> bool" for Ss where
  own_creds: "own_authenticator Ss (SimpleCredsAuth_handle a)"
| own_header: "own_authenticator Ss (SimpleHeaderAuth_handle b)"
| own_cert: "own_authenticator Ss (SimpleClientCertAuth_handle d)"
| own_ipa: "own_authenticator Ss IPAInterface_handle"
| own_keys: "ak_store k \<in> Ss \<Longrightarrow> own_authenticator Ss (SimpleAuthKeys_handle f k)"

inductive own_authorizer :: "'w store_ops set \<Rightarrow> ('w, 'k) authorizer \<Rightarrow> bool" for Ss where
  own_paths: "own_authorizer Ss (SimplePathAuthz_handle p)"
| own_users: "own_authorizer Ss (always_ends (UserNameSpace_handle u))"
| own_kem: "kk_store kk \<in> Ss \<Longrightarrow> own_authorizer Ss (KEMKeysStore_handle kk)"

inductive own_consumer ::
    "('k, 'jwe, 'jws) env \<Rightarrow> 'w store_ops set \<Rightarrow> ('w, 'k) consumer \<Rightarrow> bool" for E Ss where
  own_root: "se_store se \<in> Ss \<Longrightarrow> own_consumer E Ss (root_consumer E (Some se))"
| own_secrets: "se_store se \<in> Ss \<Longrightarrow> own_consumer E Ss (secrets_consumer E se)"

definition own_config ::
    "('k, 'jwe, 'jws) env \<Rightarrow> 'w store_ops set \<Rightarrow> ('w, 'k) server_config \<Rightarrow> bool" where
  "own_config E Ss cfg =
     ((\<forall>hs. sc_authenticators cfg = Some hs \<longrightarrow> (\<forall>(n, h) \<in> set hs. own_authenticator Ss h))
      \<and> (\<forall>hs. sc_authorizers cfg = Some hs \<longrightarrow> (\<forall>(n, h) \<in> set hs. own_authorizer Ss h))
      \<and> (\<forall>(p, con) \<in> set (sc_consumers cfg). own_consumer E Ss con))"

lemma own_authenticator_keeps:
  assumes "own_authenticator Ss h" and "\<And>S. S \<in> Ss \<Longrightarrow> store_keeps Q S"
  shows "checker_keeps Q h"
  using assms(1) by cases (simp_all add: authenticators_keep auth_keys_keep assms(2))

lemma own_authorizer_keeps:
  assumes "own_authorizer Ss h" and "\<And>S. S \<in> Ss \<Longrightarrow> store_keeps Q S"
  shows "authorizer_keeps Q h"
  using assms(1)
proof cases
  case (own_paths p)
  then show ?thesis using SimplePathAuthz_keeps unfolding authorizer_keeps_def by metis
next
  case (own_users u)
  then show ?thesis
    using UserNameSpace_keeps unfolding authorizer_keeps_def checker_keeps_def always_ends_def
    by (metis option.inject)
next
  case (own_kem kk)
  then have "kk_ok Q kk" using assms(2) by (simp add: kk_ok_def)
  then show ?thesis using own_kem(1) KEMKeysStore_keeps unfolding authorizer_keeps_def by metis
qed

lemma secrets_consumer_keeps:
  assumes "store_keeps Q (se_store se)"
  shows "consumer_keeps Q (secrets_consumer E se)"
  unfolding consumer_keeps_def
proof (intro allI impI)
  fix req m req'
  assume f: "find_handler (secrets_consumer E se) req = Inr (m, req')"
  have "fst (find_loop 0 t (secrets_consumer E se)) = secrets_consumer E se" for t
    by (simp add: find_loop_leaf)
  with find_handler_method [OF f]
  have "dict_get (co_methods (secrets_consumer E se)) (rq_command req) = Some m" by metis
  then have "method_keeps Q m" by (rule secrets_methods_keep [OF assms])
  with find_handler_trail [OF f] show "method_keeps Q m \<and> (req_ok Q req \<longrightarrow> req_ok Q req')" by auto
qed

lemma own_consumer_keeps:
  assumes "own_consumer E Ss con" and "\<And>S. S \<in> Ss \<Longrightarrow> store_keeps Q S"
  shows "consumer_keeps Q con"
  using assms(1) by cases (simp_all add: root_consumer_keeps secrets_consumer_keeps assms(2))

lemma own_config_keeps:
  assumes "own_config E Ss cfg" and s: "\<And>S. S \<in> Ss \<Longrightarrow> store_keeps Q S"
  shows "config_keeps Q cfg"
  unfolding config_keeps_def
proof (intro conjI allI impI)
  fix hs assume "sc_authenticators cfg = Some hs"
  with assms(1) have "\<forall>(n, h) \<in> set hs. own_authenticator Ss h" by (simp add: own_config_def)
  then show "\<forall>(n, h) \<in> set hs. checker_keeps Q h" using own_authenticator_keeps [OF _ s] by blast
next
  fix hs assume "sc_authorizers cfg = Some hs"
  with assms(1) have "\<forall>(n, h) \<in> set hs. own_authorizer Ss h" by (simp add: own_config_def)
  then show "\<forall>(n, h) \<in> set hs. authorizer_keeps Q h" using own_authorizer_keeps [OF _ s] by blast
next
  have "\<forall>(p, con) \<in> set (sc_consumers cfg). own_consumer E Ss con"
    using assms(1) by (simp add: own_config_def)
  then show "\<forall>(p, con) \<in> set (sc_consumers cfg). consumer_keeps Q con"
    using own_consumer_keeps [OF _ s] by blast
qed

text \<open>Authenticators: what they may change and what they leave in the log.\<close>

lemma own_authenticator_contract: "own_authenticator Ss h \<Longrightarrow> authenticator h"
  by (erule own_authenticator.cases)
     (simp_all add: creds.authenticator_axioms header.authenticator_axioms
        cert.authenticator_axioms keys.authenticator_axioms ipa.authenticator_axioms)

lemma auth_run_contract:
  assumes "auth_run hs req c vs req' c'" and "\<And>n h. (n, h) \<in> set hs \<Longrightarrow> authenticator h"
  shows "\<exists>es. cx_audit c' = cx_audit c @ es \<and> accounted req es (Some True \<in> set vs) req'"
  using assms
proof (induction rule: auth_run.induct)
  case (auth_step h req c v req1 c1 hs vs req' c' name)
  then have h: "authenticator h" and
    ih: "\<exists>es. cx_audit c' = cx_audit c1 @ es \<and> accounted req1 es (Some True \<in> set vs) req'" by auto
  from authenticator.evidence [OF h auth_step.hyps(1)] obtain es where
    1: "cx_audit c1 = cx_audit c @ es" "accounted req es (v = Some True) req1" by blast
  from ih obtain fs where
    2: "cx_audit c' = cx_audit c1 @ fs" "accounted req1 fs (Some True \<in> set vs) req'" by blast
  from accounted_trans [OF 1(2) 2(2)] 1(1) 2(1) show ?case
    by (intro exI [of _ "es @ fs"]) (simp add: eq_commute [of v])
qed simp

text \<open>C23: When the authenticators of the package let a request through, nothing in it has changed but
  the user's name and the mark that \<open>IPAInterface\<close> leaves, which is never taken away. The audit
  log has gained an entry of a passed login of the requesting client, and when the user's name has
  changed, an entry of a passed login that has exactly this name.\<close>

theorem authentication_evidence:
  assumes "\<And>n h. (n, h) \<in> set hs \<Longrightarrow> own_authenticator Ss h"
    and "run_authers hs False req c = (Inr (True, req'), c')"
  shows "\<exists>u i es. req' = req\<lparr>rq_remote_user := u, rq_ipa := i\<rparr> \<and> (rq_ipa req \<longrightarrow> i)
    \<and> cx_audit c' = cx_audit c @ es
    \<and> (\<exists>origin name. audit_svc_entry origin AUDIT_SVC_AUTH_PASS (rq_client_id req) name \<in> set es)
    \<and> (u \<noteq> rq_remote_user req \<longrightarrow> (\<exists>origin name. u = Some name
         \<and> audit_svc_entry origin AUDIT_SVC_AUTH_PASS (rq_client_id req) (AStr name) \<in> set es))"
proof -
  from assms(2) obtain vs where r: "auth_run hs req c vs req' c'" "Some True \<in> set vs"
    by (auto simp: run_authers_run)
  from auth_run_contract [OF r(1)] own_authenticator_contract [OF assms(1)] obtain es where
    "cx_audit c' = cx_audit c @ es" "accounted req es (Some True \<in> set vs) req'" by blast
  with r(2) show ?thesis unfolding accounted_def pass_entry_def by blast
qed

theorem authentication_evidence_witness:
  "\<exists>req' c'. run_authers [(''header'', SimpleHeaderAuth_handle
        \<lparr>ha_origin = ''header'', ha_header = ''REMOTE_USER'', ha_value = None\<rparr>), (''ipa'', IPAInterface_handle)] False
      (sample_request ''GET'' ''/'' [(''REMOTE_USER'', ''alice'')] :: unit request) (sample_ctx () :: (unit, unit) ctx)
      = (Inr (True, req'), c') \<and> cx_audit c' \<noteq> [] \<and> rq_remote_user req' = Some ''alice'' \<and> rq_ipa req'"
proof -
  let ?hs = "[(''header'', SimpleHeaderAuth_handle \<lparr>ha_origin = ''header'', ha_header = ''REMOTE_USER'', ha_value = None\<rparr>),
     (''ipa'', IPAInterface_handle)] :: (string \<times> (unit, unit) checker) list"
  have "header_get [(''REMOTE_USER'', ''alice'')] ''REMOTE_USER'' = Some ''alice''" by code_simp
  then obtain req' c' where
    r: "run_authers ?hs False (sample_request ''GET'' ''/'' [(''REMOTE_USER'', ''alice'')]) (sample_ctx ())
      = (Inr (True, req'), c')" "rq_remote_user req' = Some ''alice''" "rq_ipa req'"
    by (simp add: SimpleHeaderAuth_handle_def IPAInterface_handle_def py_simps)
  have "own_authenticator {} h" if "(n, h) \<in> set ?hs" for n h
    using that by (auto intro: own_authenticator.intros)
  from authentication_evidence [OF this r(1)] r show ?thesis by fastforce
qed

subsection \<open>Every other request is answered\<close>

lemma own_authorizer_contract: "own_authorizer Ss h \<Longrightarrow> authorizer h"
  by (erule own_authorizer.cases)
     (simp_all add: paths.authorizer_axioms namespaces.authorizer_axioms kem_paths.authorizer_axioms)

lemma pipeline_returns:
  assumes "own_config E Ss cfg" and "\<not> startswith (rq_path req) ''//''"
  shows "pipeline E cfg req c \<noteq> None"
proof
  assume none: "pipeline E cfg req c = None"
  then obtain authers b req1 c1 authzers where
    a: "sc_authenticators cfg = Some authers" "run_authers authers False req c = (Inr (b, req1), c1)"
    and z: "sc_authorizers cfg = Some authzers"
      "run_authzers authzers None (req1\<lparr>rq_path_chain := rq_path_chain req\<rparr>) c1 = None"
    by (auto simp: pipeline_def authorize_def split: if_splits option.splits prod.splits sum.splits)
  from a(2) obtain vs where "auth_run authers req c vs req1 c1" by (auto simp: run_authers_run)
  moreover have "\<And>n h. (n, h) \<in> set authers \<Longrightarrow> authenticator h"
    using assms(1) a(1) by (auto simp: own_config_def intro: own_authenticator_contract)
  ultimately have "rq_path req1 = rq_path req"
    using auth_run_contract [of authers req c vs req1 c1] by (auto simp: accounted_def)
  then have "\<not> startswith (rq_path (req1\<lparr>rq_path_chain := rq_path_chain req\<rparr>)) ''//''" using assms(2) by simp
  moreover have "\<forall>(n, h) \<in> set authzers. authorizer h"
    using assms(1) z(1) own_authorizer_contract by (fastforce simp: own_config_def)
  ultimately show False using run_authzers_returns z(2) by blast
qed

end
