(* ===== verification/Listener.thy ===== *)
theory Listener
  imports Server
begin

text \<open>
  The server classes and \<open>HTTPServer\<close> of \<open>src/custodia/httpd/server.py\<close>: from the server URL to
  a bound socket, systemd socket activation, and the TLS settings. System calls are recorded as
  events in their order; whether they succeed is an argument.

  Shown: the path of a Unix socket survives the detour through the URL; a socket that cannot
  be set up is closed; the socket file is world-writable only once it is bound; client
  certificates are required exactly when the option says so.
\<close>

subsection \<open>The address in the server URL\<close>

datatype server_class = ForkingHTTPServer | ForkingUnixHTTPServer | ForkingTLSServer

datatype address = UnixAddr string | InetAddr string int

text \<open>\<open>host, port = url.netloc.split(":")\<close>: any other number of parts is a \<open>ValueError\<close>.\<close>

definition host_port :: "string \<Rightarrow> address res" where
  "host_port netloc = (case py_split (CHR '':'') netloc of
      [host, port] \<Rightarrow> rbind (py_int 10 port) (\<lambda>n. Inr (InetAddr host n))
    | _ \<Rightarrow> Inl ValueError)"

definition get_serverclass ::
    "(bytes \<Rightarrow> string) \<Rightarrow> url \<Rightarrow> (server_class \<times> address) res" where
  "get_serverclass dec url =
     (if u_scheme url = ''http+unix'' then
        (let address = unquote dec (u_netloc url) in
         if address = [] then Inl ValueError else Inr (ForkingUnixHTTPServer, UnixAddr address))
      else if u_scheme url = ''http'' then
        rbind (host_port (u_netloc url)) (\<lambda>a. Inr (ForkingHTTPServer, a))
      else if u_scheme url = ''https'' then
        rbind (host_port (u_netloc url)) (\<lambda>a. Inr (ForkingTLSServer, a))
      else Inl ValueError)"

subsection \<open>Socket activation\<close>

text \<open>The \<open>systemd.daemon\<close> functions the code calls; they are not part of the repository.\<close>

record sd_daemon =
  sd_listen_fds :: "nat list"
  sd_is_socket_inet :: "nat \<Rightarrow> int \<Rightarrow> bool"
  sd_is_socket_unix :: "nat \<Rightarrow> string \<Rightarrow> bool"
  sd_booted :: bool

datatype sock_address = Bindable address | FromFd nat family

definition get_systemd_socket :: "sd_daemon \<Rightarrow> address \<Rightarrow> sock_address res" where
  "get_systemd_socket sd a = (case sd_listen_fds sd of
      [] \<Rightarrow> Inr (Bindable a)
    | [fd] \<Rightarrow>
        (case a of
           InetAddr host port \<Rightarrow>
             if sd_is_socket_inet sd fd port then Inr (FromFd fd AF_INET6) else Inl ValueError
         | UnixAddr path \<Rightarrow>
             if sd_is_socket_unix sd fd path then Inr (FromFd fd AF_UNIX) else Inl ValueError)
    | _ \<Rightarrow> Inl ValueError)"

definition HTTPServer_address ::
    "(bytes \<Rightarrow> string) \<Rightarrow> sd_daemon option \<Rightarrow> string \<Rightarrow> (server_class \<times> sock_address) res" where
  "HTTPServer_address dec sd srvurl =
     rbind (urlparse srvurl) (\<lambda>url.
     rbind (get_serverclass dec url) (\<lambda>(cls, address).
     rbind (case sd of None \<Rightarrow> Inr (Bindable address) | Some d \<Rightarrow> get_systemd_socket d address) (\<lambda>s.
       Inr (cls, s))))"

subsection \<open>Binding\<close>

datatype sys_event =
    EvSocket
  | EvUnlink string
  | EvAtExit string
  | EvMakedirs string int
  | EvBind address
  | EvChmod string int
  | EvListen
  | EvClose

text \<open>Which calls fail: the answers of \<open>makedirs\<close>, \<open>bind\<close>, \<open>chmod\<close>, \<open>listen\<close>, and \<open>isdir\<close>.\<close>

record os_world =
  os_isdir :: "string \<Rightarrow> bool"
  os_makedirs :: "unit res"
  os_bind :: "unit res"
  os_chmod :: "unit res"
  os_listen :: "unit res"

type_synonym 'a sys = "(sys_event list, 'a) py"

definition ev :: "sys_event \<Rightarrow> unit res \<Rightarrow> unit sys" where
  "ev e r = py_bind (py_modify (\<lambda>es. es @ [e])) (\<lambda>_. py_lift r)"

definition server_bind :: "os_world \<Rightarrow> server_class \<Rightarrow> address \<Rightarrow> unit sys" where
  "server_bind os cls a = (case (cls, a) of
      (ForkingUnixHTTPServer, UnixAddr path) \<Rightarrow>
        py_bind (ev (EvUnlink path) (Inr ())) (\<lambda>_.
        py_bind (ev (EvAtExit path) (Inr ())) (\<lambda>_.
        py_bind (py_when (\<not> os_isdir os (path_dirname path))
                  (ev (EvMakedirs (path_dirname path) 493) (os_makedirs os))) (\<lambda>_.
        py_bind (ev (EvBind a) (os_bind os)) (\<lambda>_.
          ev (EvChmod path 438) (os_chmod os)))))
    | _ \<Rightarrow> ev (EvBind a) (os_bind os))"

definition server_setup ::
    "os_world \<Rightarrow> server_class \<Rightarrow> sock_address \<Rightarrow> bool \<Rightarrow> unit sys" where
  "server_setup os cls s has_consumers =
     py_bind (case s of
         FromFd fd fam \<Rightarrow> py_return ()
       | Bindable a \<Rightarrow>
           py_bind (ev EvSocket (Inr ())) (\<lambda>_.
           py_try (py_bind (server_bind os cls a) (\<lambda>_. ev EvListen (os_listen os)))
             (\<lambda>e. py_bind (ev EvClose (Inr ())) (\<lambda>_. py_raise e)))) (\<lambda>_.
       if \<not> has_consumers then py_raise ValueError else py_return ())"

subsection \<open>TLS\<close>

record tls_config =
  tls_certfile :: "string option"
  tls_keyfile :: "string option"
  tls_cafile :: "string option"
  tls_capath :: "string option"
  tls_verify_client :: bool

datatype verify_mode = CERT_NONE | CERT_REQUIRED

record ssl_context =
  ssl_verify_mode :: verify_mode
  ssl_cas :: "string option \<times> string option"
  ssl_chain :: "string \<times> string option"

text \<open>The two calls that read files: \<open>create_default_context\<close> and \<open>load_cert_chain\<close>.\<close>

definition mkcontext ::
    "(string option \<Rightarrow> string option \<Rightarrow> unit res) \<Rightarrow> (string \<Rightarrow> string option \<Rightarrow> unit res) \<Rightarrow> tls_config
     \<Rightarrow> ssl_context res" where
  "mkcontext load_cas load_chain cfg =
     (let verifymode = (if tls_verify_client cfg then CERT_REQUIRED else CERT_NONE) in
      case tls_certfile cfg of
        None \<Rightarrow> Inl ValueError
      | Some certfile \<Rightarrow>
          if certfile = [] then Inl ValueError
          else rbind (load_cas (tls_cafile cfg) (tls_capath cfg)) (\<lambda>_.
               rbind (load_chain certfile (tls_keyfile cfg)) (\<lambda>_.
                 Inr \<lparr>ssl_verify_mode = verifymode, ssl_cas = (tls_cafile cfg, tls_capath cfg),
                      ssl_chain = (certfile, tls_keyfile cfg)\<rparr>)))"

text \<open>\<open>get_request\<close>: an accepted connection is wrapped before it is handed on.\<close>

definition TLS_get_request ::
    "ssl_context \<Rightarrow> ('c \<times> 'a) res \<Rightarrow> (ssl_context \<Rightarrow> 'c \<Rightarrow> 's res) \<Rightarrow> ('s \<times> 'a) res" where
  "TLS_get_request context accepted wrap_socket =
     rbind accepted (\<lambda>(conn, client_addr).
     rbind (wrap_socket context conn) (\<lambda>sslconn. Inr (sslconn, client_addr)))"

subsection \<open>The URL of a Unix socket\<close>

lemma HTTPServer_unix:
  assumes "\<And>s. dec (utf8_encode s) = s" and "path \<noteq> []"
  shows "HTTPServer_address dec None (''http+unix://'' @ url_escape (\<lambda>_. False) path @ ''/'') =
    Inr (ForkingUnixHTTPServer, Bindable (UnixAddr path))"
proof -
  have "unquote dec (url_escape (\<lambda>_. False) path) = path"
    using assms(1) by (intro unquote_escape) auto
  moreover have "urlparse (''http+unix://'' @ url_escape (\<lambda>_. False) path @ CHR ''/'' # []) =
    Inr \<lparr>u_scheme = ''http+unix'', u_netloc = url_escape (\<lambda>_. False) path, u_path = ''/'', u_params = [],
         u_query = [], u_fragment = []\<rparr>"
    by (intro urlparse_unix) (auto dest: escaped_no_delim)
  ultimately show ?thesis using assms(2)
    by (simp add: HTTPServer_address_def get_serverclass_def del: append.simps)
qed

subsection \<open>The order of the system calls\<close>

lemma ev_apply [py_simps]: "ev e r es = (r, es @ [e])"
  by (simp add: ev_def py_simps)

text \<open>A failed set-up closes the socket last; a successful one does not close it.\<close>

lemma setup_closed:
  assumes "server_setup os cls (Bindable a) True [] = (r, es)"
  shows "es \<noteq> [] \<and> (is_err r \<longrightarrow> last es = EvClose) \<and> (\<not> is_err r \<longrightarrow> EvClose \<notin> set es \<and> last es = EvListen)"
  using assms
  by (cases r; cases "os_makedirs os"; cases "os_bind os"; cases "os_chmod os"; cases "os_listen os")
     (auto simp: server_setup_def server_bind_def py_simps
       split: server_class.splits address.splits if_splits)

lemma chmod_after_bind:
  assumes "server_setup os cls (Bindable a) b [] = (r, es)" and "EvChmod p m \<in> set es"
  shows "sublist [EvBind (UnixAddr p), EvChmod p 438] es \<and> a = UnixAddr p \<and> m = 438"
  using assms
  by (cases "os_makedirs os"; cases "os_bind os"; cases "os_chmod os"; cases "os_listen os")
     (auto simp: server_setup_def server_bind_def py_simps sublist_Cons_right
       split: server_class.splits address.splits if_splits)

lemma mkcontext_verify:
  "mkcontext lc lch cfg = Inr ctx \<Longrightarrow> (ssl_verify_mode ctx = CERT_REQUIRED) = tls_verify_client cfg"
  by (auto simp: mkcontext_def Let_def elim!: rbind_InrE split: option.splits if_splits)

lemma systemd_one_socket:
  assumes "get_systemd_socket sd a = Inr (FromFd fd fam)"
  shows "sd_listen_fds sd = [fd]
    \<and> (case a of InetAddr h p \<Rightarrow> sd_is_socket_inet sd fd p \<and> fam = AF_INET6
        | UnixAddr p \<Rightarrow> sd_is_socket_unix sd fd p \<and> fam = AF_UNIX)"
  using assms by (auto simp: get_systemd_socket_def split: list.splits address.splits if_splits)

text \<open>C34: A socket whose set-up fails is closed, as the last call that is made; one whose set-up
  succeeds is listening and stays open; and the socket file is made world-writable only right
  after the socket has been bound to it.\<close>

theorem socket_setup:
  assumes "server_setup os cls (Bindable a) True [] = (r, es)"
  shows "(if is_err r then last es = EvClose else last es = EvListen \<and> EvClose \<notin> set es)
    \<and> (\<forall>p m. EvChmod p m \<in> set es \<longrightarrow> a = UnixAddr p \<and> sublist [EvBind a, EvChmod p 438] es)"
proof -
  have "\<forall>p m. EvChmod p m \<in> set es \<longrightarrow> a = UnixAddr p \<and> sublist [EvBind a, EvChmod p 438] es"
    using chmod_after_bind [OF assms] by blast
  with setup_closed [OF assms] show ?thesis by (simp only: if_bool_eq_conj) blast
qed

theorem socket_setup_witness:
  "\<exists>r es. server_setup \<lparr>os_isdir = (\<lambda>p. True), os_makedirs = Inr (), os_bind = Inr (), os_chmod = Inl IOError,
       os_listen = Inr ()\<rparr> ForkingUnixHTTPServer (Bindable (UnixAddr ''/run/c.sock'')) True [] = (r, es)
     \<and> is_err r \<and> last es = EvClose"
proof -
  have s: "server_setup \<lparr>os_isdir = (\<lambda>p. True), os_makedirs = Inr (), os_bind = Inr (), os_chmod = Inl IOError,
       os_listen = Inr ()\<rparr> ForkingUnixHTTPServer (Bindable (UnixAddr ''/run/c.sock'')) True []
     = (Inl IOError, [EvSocket, EvUnlink ''/run/c.sock'', EvAtExit ''/run/c.sock'',
          EvBind (UnixAddr ''/run/c.sock''), EvChmod ''/run/c.sock'' 438, EvClose])"
    by code_simp
  from socket_setup [OF s] s show ?thesis by simp
qed

end
