(* ===== verification/ServerConfig.thy ===== *)
theory ServerConfig
  imports Options Listener
begin

text \<open>
  \<open>src/custodia/server/args.py\<close> and \<open>src/custodia/server/config.py\<close>: command line arguments,
  the configuration parser with its environment section and interpolation, and the dict of
  global settings. What the operating system and \<open>configparser\<close>'s file format supply are
  arguments: the parsed contents of the files, the environment, the working directory.

  Shown: environment values pass through interpolation unchanged; interpolation ends; the
  settings always have the keys the server reads; the socket the configuration names is the
  socket that is bound.
\<close>

subsection \<open>\<open>os.path.abspath\<close>\<close>

text \<open>\<open>posixpath.normpath\<close>: empty and dot components go, \<open>..\<close> removes its predecessor.\<close>

fun norm_comps :: "bool \<Rightarrow> string list \<Rightarrow> string list \<Rightarrow> string list" where
  "norm_comps absolute acc [] = rev acc"
| "norm_comps absolute acc (c # cs) =
     (if c = [] \<or> c = ''.'' then norm_comps absolute acc cs
      else if c \<noteq> ''..'' \<or> (\<not> absolute \<and> acc = []) \<or> (acc \<noteq> [] \<and> hd acc = ''..'')
      then norm_comps absolute (c # acc) cs
      else norm_comps absolute (tl acc) cs)"

definition normpath :: "string \<Rightarrow> string" where
  "normpath path = (if path = [] then ''.'' else
     (let slashes = (if startswith path ''//'' \<and> \<not> startswith path ''///'' then ''//''
                     else if startswith path ''/'' then ''/'' else []);
          r = slashes @ py_join ''/'' (norm_comps (slashes \<noteq> []) [] (py_split (CHR ''/'') path))
      in if r = [] then ''.'' else r))"

definition abspath :: "string \<Rightarrow> string \<Rightarrow> string" where
  "abspath cwd path = normpath (if startswith path ''/'' then path else path_join cwd [path])"

subsection \<open>Arguments\<close>

definition instance_name :: "string \<Rightarrow> string res" where
  "instance_name s = (if set s \<inter> set '':/@'' \<noteq> {} then Inl ArgumentTypeError else Inr s)"

text \<open>\<open>ConfigfileAction\<close> and \<open>AbsFileType\<close>: the file that is opened.\<close>

definition default_configfile :: "string option \<Rightarrow> string" where
  "default_configfile inst = (case inst of
      Some i \<Rightarrow> ''/etc/custodia/'' @ i @ ''.conf'' | None \<Rightarrow> ''/etc/custodia/custodia.conf'')"

definition abs_file :: "string \<Rightarrow> string \<Rightarrow> string" where
  "abs_file cwd s = (if s \<noteq> ''-'' then abspath cwd s else s)"

record server_args =
  ar_debug :: bool
  ar_instance :: "string option"
  ar_configfile :: string

definition parse_server_args ::
    "string \<Rightarrow> bool \<Rightarrow> string option \<Rightarrow> string option \<Rightarrow> server_args res" where
  "parse_server_args cwd debug inst configfile =
     rbind (case inst of None \<Rightarrow> Inr None | Some i \<Rightarrow> rbind (instance_name i) (\<lambda>x. Inr (Some x))) (\<lambda>i.
       Inr \<lparr>ar_debug = debug, ar_instance = i,
            ar_configfile = abs_file cwd (case configfile of None \<Rightarrow> default_configfile i | Some f \<Rightarrow> f)\<rparr>)"

subsection \<open>Interpolation\<close>

text \<open>
  \<open>configparser.ExtendedInterpolation\<close>: \<open>${option}\<close>, \<open>${section:option}\<close> and \<open>$$\<close>. The first
  argument counts the nesting levels that are left; there are ten. Every failure is an
  \<open>InterpolationError\<close>, here \<open>OtherError\<close>.
\<close>

definition MAX_INTERPOLATION_DEPTH :: nat where "MAX_INTERPOLATION_DEPTH = 10"

definition key_path :: "string \<Rightarrow> string \<Rightarrow> (string \<times> string) option" where
  "key_path section key = (case py_split (CHR '':'') key of
      [opt] \<Rightarrow> Some (section, opt)
    | [sect, opt] \<Rightarrow> Some (sect, opt)
    | _ \<Rightarrow> None)"

function (sequential) interp :: "nat \<Rightarrow> cfg \<Rightarrow> string \<Rightarrow> string \<Rightarrow> string res" where
  "interp 0 p section s = Inl OtherError"
| "interp (Suc n) p section [] = Inr []"
| "interp (Suc n) p section (c # s) =
     (if c \<noteq> CHR ''$'' then rbind (interp (Suc n) p section s) (\<lambda>t. Inr (c # t))
      else (case s of
          [] \<Rightarrow> Inl OtherError
        | d # rest \<Rightarrow>
            if d = CHR ''$'' then rbind (interp (Suc n) p section rest) (\<lambda>t. Inr (CHR ''$'' # t))
            else if d = CHR ''{'' then
              (let key = takeWhile (\<lambda>x. x \<noteq> CHR ''}'') rest;
                   after = dropWhile (\<lambda>x. x \<noteq> CHR ''}'') rest
               in if key = [] \<or> after = [] then Inl OtherError
                  else (case key_path section key of
                      None \<Rightarrow> Inl OtherError
                    | Some (sect, opt) \<Rightarrow> (case cfg_lookup p sect opt of
                          Found v \<Rightarrow>
                            rbind (if CHR ''$'' \<in> set v then interp n p sect v else Inr v) (\<lambda>t.
                            rbind (interp (Suc n) p section (tl after)) (\<lambda>u. Inr (t @ u)))
                        | _ \<Rightarrow> Inl OtherError)))
            else Inl OtherError))"
  by pat_completeness auto
termination
proof (relation "measures [\<lambda>(n, _, _, _). n, \<lambda>(_, _, _, s). length s]", goal_cases)
  case (5 n p sec c s d rest x after y a b v t)
  have "length (dropWhile (\<lambda>x. x \<noteq> CHR ''}'') rest) \<le> length rest" by (rule length_dropWhile_le)
  with 5 show ?case by (auto simp: less_Suc_eq_le)
qed auto

definition cfg_get :: "cfg \<Rightarrow> string \<Rightarrow> string \<Rightarrow> string option res" where
  "cfg_get p section name = (case cfg_lookup p section name of
      Found v \<Rightarrow> rbind (interp MAX_INTERPOLATION_DEPTH p section v) (\<lambda>s. Inr (Some s))
    | _ \<Rightarrow> Inr None)"

subsection \<open>\<open>CustodiaConfig\<close>\<close>

definition CONFIG_SPECIALS :: "string list" where
  "CONFIG_SPECIALS = [''authenticators'', ''authorizers'', ''consumers'', ''stores'']"

definition default_paths :: "string \<Rightarrow> (string \<times> string) list" where
  "default_paths inst =
     [(''libdir'', ''/var/lib/custodia/'' @ inst), (''logdir'', ''/var/log/custodia/'' @ inst),
      (''rundir'', ''/var/run/custodia/'' @ inst), (''socketdir'', ''/var/run/custodia'')]"

definition get_defaults :: "string \<Rightarrow> string \<Rightarrow> server_args \<Rightarrow> (string \<times> string) list" where
  "get_defaults cwd hostname args =
     (let configpath = ar_configfile args;
          inst = (case ar_instance args of None \<Rightarrow> [] | Some i \<Rightarrow> i)
      in [(''hostname'', hostname), (''configdir'', path_dirname configpath),
          (''confdpattern'', path_join (configpath @ ''.d'') [''*.conf'']), (''instance'', inst)]
         @ map (\<lambda>(n, path). (n, abspath cwd path)) (default_paths inst))"

definition escape_dollar :: "string \<Rightarrow> string" where
  "escape_dollar v = replace_ch (CHR ''$'') ''$$'' v"

fun env_section :: "(string \<times> string) list \<Rightarrow> (string \<times> string) list \<Rightarrow> (string \<times> string) list" where
  "env_section [] acc = acc"
| "env_section ((k, v) # env) acc =
     (if set v \<inter> {CHR 0x0D, CHR 0x0A, CHR 0x00} \<noteq> {} then env_section env acc
      else env_section env (dict_put k (escape_dollar v) acc))"

definition create_parser :: "(string \<times> string) list \<Rightarrow> (string \<times> string) list \<Rightarrow> cfg" where
  "create_parser defaults env = \<lparr>cf_defaults = defaults,
     cf_sections = [(''ENV'', env_section env []),
       (''global'', [(''auditlog'', ''${logdir}/audit.log''), (''debug'', ''false''),
                     (''umask'', ''027''), (''makedirs'', ''false'')])]\<rparr>"

text \<open>
  Reading a file: its options are set in their sections, new sections are added; options in a
  section named \<open>DEFAULT\<close> become defaults.
\<close>

definition read_section :: "cfg \<Rightarrow> string \<times> (string \<times> string) list \<Rightarrow> cfg" where
  "read_section p so = (case so of (s, opts) \<Rightarrow>
     if s = DEFAULTSECT then p\<lparr>cf_defaults := dict_update (cf_defaults p) opts\<rparr>
     else p\<lparr>cf_sections := dict_put s
        (dict_update (case dict_get (cf_sections p) s of None \<Rightarrow> [] | Some o' \<Rightarrow> o') opts) (cf_sections p)\<rparr>)"

definition read_file :: "cfg \<Rightarrow> (string \<times> (string \<times> string) list) list \<Rightarrow> cfg" where
  "read_file p file = fold (\<lambda>so p. read_section p so) file p"

text \<open>\<open>main\<close> is the parsed configuration file, \<open>glob\<close> the files a pattern matches.\<close>

definition read_configs ::
    "(string \<Rightarrow> (string \<times> (string \<times> (string \<times> string) list) list) list)
     \<Rightarrow> string \<Rightarrow> (string \<times> (string \<times> string) list) list \<Rightarrow> cfg \<Rightarrow> (cfg \<times> string list) res" where
  "read_configs glob configfile main p =
     (let p1 = read_file p main in
      rbind (cfg_get p1 DEFAULTSECT ''confdpattern'') (\<lambda>pattern.
        case pattern of
          None \<Rightarrow> Inl KeyError
        | Some pat \<Rightarrow>
            if pat = [] then Inr (p1, [configfile])
            else (let files = sort_key fst (glob pat) in
              Inr (fold (\<lambda>f p. read_file p (snd f)) files p1, configfile # map fst files))))"

text \<open>All items of the global section, interpolated.\<close>

fun interp_items :: "cfg \<Rightarrow> (string \<times> string) list \<Rightarrow> (string \<times> optval) list res" where
  "interp_items p [] = Inr []"
| "interp_items p ((n, v) # items) =
     rbind (interp MAX_INTERPOLATION_DEPTH p ''global'' v) (\<lambda>s.
     rbind (interp_items p items) (\<lambda>r. Inr ((n, VStr s) # r)))"

definition get_boolean :: "cfg \<Rightarrow> string \<Rightarrow> bool res" where
  "get_boolean p name = rbind (cfg_get p ''global'' name) (\<lambda>v.
     case v of None \<Rightarrow> Inr False | Some s \<Rightarrow> to_boolean s)"

definition str_setting :: "(string \<times> optval) list \<Rightarrow> string \<Rightarrow> string option" where
  "str_setting config n = (case dict_get config n of Some (VStr s) \<Rightarrow> Some s | _ \<Rightarrow> None)"

definition unix_url :: "string \<Rightarrow> string" where
  "unix_url path = ''http+unix://'' @ url_escape (\<lambda>_. False) path @ ''/''"

text \<open>The choice of the socket, from \<open>server_url\<close> and \<open>server_socket\<close>.\<close>

definition truthy :: "string option \<Rightarrow> bool" where
  "truthy s = (s \<noteq> None \<and> s \<noteq> Some [])"

definition choose_socket ::
    "cfg \<Rightarrow> string option \<Rightarrow> string option \<Rightarrow> string option \<Rightarrow> string option res" where
  "choose_socket p inst url sock =
     (if truthy url \<and> truthy sock then Inl ValueError
      else if \<not> truthy url \<and> \<not> truthy sock then
        rbind (rbind (cfg_get p DEFAULTSECT ''socketdir'') (of_option KeyError)) (\<lambda>socketdir.
          Inr (Some (path_join socketdir
            [(case inst of Some (c # cs) \<Rightarrow> c # cs | _ \<Rightarrow> ''custodia'') @ ''.sock''])))
      else Inr (if truthy sock then sock else None))"

definition populate_config ::
    "string \<Rightarrow> server_args \<Rightarrow> cfg \<Rightarrow> (string \<times> optval) list res" where
  "populate_config cwd args p =
     rbind (rbind (cfg_items p ''global'') (interp_items p)) (\<lambda>items.
     if \<exists>opt \<in> set (map fst items). opt \<in> set CONFIG_SPECIALS then Inl ValueError else
     rbind (get_boolean p ''tls_verify_client'') (\<lambda>tls.
     rbind (get_boolean p ''debug'') (\<lambda>debug.
     rbind (get_boolean p ''makedirs'') (\<lambda>mkdirs.
     rbind (of_option TypeError (str_setting items ''auditlog'')) (\<lambda>auditlog.
     rbind (py_int 8 (case str_setting items ''umask'' of None \<Rightarrow> ''027'' | Some u \<Rightarrow> u)) (\<lambda>umask.
     rbind (choose_socket p (ar_instance args) (str_setting items ''server_url'')
              (str_setting items ''server_socket'')) (\<lambda>sock.
       (let c1 = dict_put ''umask'' (VInt umask)
           (dict_put ''auditlog'' (VStr (abspath cwd auditlog))
           (dict_put ''makedirs'' (VBool mkdirs)
           (dict_put ''debug'' (VBool (ar_debug args \<or> debug))
           (dict_put ''tls_verify_client'' (VBool tls) (dict_update [] items)))))
        in Inr (case sock of
             None \<Rightarrow> c1
           | Some s \<Rightarrow> dict_put ''server_url'' (VStr (unix_url (abspath cwd s))) c1)))))))))"

definition CustodiaConfig_call ::
    "string \<Rightarrow> string \<Rightarrow> (string \<times> string) list
     \<Rightarrow> (string \<Rightarrow> (string \<times> (string \<times> (string \<times> string) list) list) list)
     \<Rightarrow> (string \<times> (string \<times> string) list) list \<Rightarrow> server_args
     \<Rightarrow> (cfg \<times> string list \<times> (string \<times> optval) list) res" where
  "CustodiaConfig_call cwd hostname env glob main args =
     rbind (read_configs glob (ar_configfile args) main
              (create_parser (get_defaults cwd hostname args) env)) (\<lambda>(p, files).
     rbind (populate_config cwd args p) (\<lambda>config. Inr (p, files, config)))"

subsection \<open>The environment\<close>

lemma interp_escape: "interp (Suc n) p section (escape_dollar v) = Inr v"
  by (induction v) (auto simp: escape_dollar_def)

lemma env_section_get:
  "distinct (map fst env) \<Longrightarrow> (\<And>v. (k, v) \<in> set env \<Longrightarrow> dict_get acc k = None) \<Longrightarrow>
   (k, v) \<in> set env \<Longrightarrow> set v \<inter> {CHR 0x0D, CHR 0x0A, CHR 0x00} = {} \<Longrightarrow>
   dict_get (env_section env acc) k = Some (escape_dollar v)"
proof (induction env acc rule: env_section.induct)
  case (2 k' v' env acc)
  have keep: "k \<notin> fst ` set env \<Longrightarrow> dict_get (env_section env acc) k = dict_get acc k" for env acc
    by (induction env acc rule: env_section.induct) auto
  show ?case
  proof (cases "k = k'")
    case True
    then have "v' = v" "k \<notin> fst ` set env" using 2 by (auto simp: image_iff)
    then have "dict_get (env_section env (dict_put k (escape_dollar v) acc)) k = Some (escape_dollar v)"
      by (simp add: keep)
    with True \<open>v' = v\<close> 2(6) show ?thesis by simp
  next
    case False
    then show ?thesis using 2 by auto
  qed
qed simp

subsection \<open>The settings\<close>

lemma populate_specials:
  assumes "populate_config cwd args p = Inr config" and "n \<in> set CONFIG_SPECIALS"
  shows "dict_get config n = None"
proof -
  have upd: "dict_get (dict_update [] items) n = None" if "\<forall>opt \<in> set items. fst opt \<notin> set CONFIG_SPECIALS"
    for items :: "(string \<times> optval) list"
  proof -
    have "n \<notin> fst ` set d \<Longrightarrow> n \<notin> fst ` set e \<Longrightarrow> dict_get (dict_update d e) n = None"
      for d e :: "(string \<times> optval) list"
    proof (induction d e rule: dict_update.induct)
      case (2 d k v e)
      then have "n \<notin> fst ` set (dict_put k v d)" using dict_put_keys [of k v d] by simp
      with 2 show ?case by simp
    qed (simp add: dict_get_None_iff)
    moreover have "n \<notin> fst ` set items" using that assms(2) by auto
    ultimately show ?thesis by simp
  qed
  have "n \<notin> {''umask'', ''auditlog'', ''makedirs'', ''debug'', ''tls_verify_client'', ''server_url''}"
    using assms(2) by (auto simp: CONFIG_SPECIALS_def)
  with assms show ?thesis
    by (auto simp: populate_config_def Let_def upd elim!: rbind_InrE split: if_splits option.splits)
qed

lemma populate_url:
  assumes "populate_config cwd args p = Inr config"
  shows "\<exists>items sock. rbind (cfg_items p ''global'') (interp_items p) = Inr items
    \<and> choose_socket p (ar_instance args) (str_setting items ''server_url'')
        (str_setting items ''server_socket'') = Inr sock
    \<and> (\<forall>s. sock = Some s \<longrightarrow> dict_get config ''server_url'' = Some (VStr (unix_url (abspath cwd s))))"
  using assms
  by (auto simp: populate_config_def Let_def elim!: rbind_InrE split: if_splits option.splits)

lemma populate_booleans:
  assumes "populate_config cwd args p = Inr config" and "ar_debug args"
  shows "dict_get config ''debug'' = Some (VBool True)"
  using assms
  by (auto simp: populate_config_def Let_def elim!: rbind_InrE split: if_splits option.splits)

text \<open>A normalized absolute path is not empty, so a configured socket can be bound.\<close>

lemma normpath_not_Nil: "normpath p \<noteq> []"
  by (simp add: normpath_def Let_def)

lemma abspath_not_Nil: "abspath cwd p \<noteq> []"
  by (simp add: abspath_def normpath_not_Nil)

text \<open>C33: When the settings call for a Unix socket, the server URL that is put into the configuration
  is one from which the server gets back exactly the absolute path of that socket.\<close>

theorem config_socket_bound:
  assumes "\<And>s. dec (utf8_encode s) = s" and "populate_config cwd args p = Inr config"
    and "rbind (cfg_items p ''global'') (interp_items p) = Inr items"
    and "choose_socket p (ar_instance args) (str_setting items ''server_url'')
        (str_setting items ''server_socket'') = Inr (Some sock)"
  shows "\<exists>url. dict_get config ''server_url'' = Some (VStr url)
    \<and> HTTPServer_address dec None url = Inr (ForkingUnixHTTPServer, Bindable (UnixAddr (abspath cwd sock)))"
proof -
  from populate_url [OF assms(2)] assms(3,4)
  have "dict_get config ''server_url'' = Some (VStr (unix_url (abspath cwd sock)))" by auto
  moreover have "HTTPServer_address dec None (unix_url (abspath cwd sock)) =
      Inr (ForkingUnixHTTPServer, Bindable (UnixAddr (abspath cwd sock)))"
    unfolding unix_url_def using assms(1) abspath_not_Nil by (rule HTTPServer_unix)
  ultimately show ?thesis by blast
qed

text \<open>A sample: the defaults of the instance \<open>ipa\<close> and an empty configuration file.\<close>

definition sample_args :: server_args where
  "sample_args = \<lparr>ar_debug = False, ar_instance = Some ''ipa'',
     ar_configfile = ''/etc/custodia/ipa.conf''\<rparr>"

definition sample_parser :: cfg where
  "sample_parser = create_parser (get_defaults ''/'' ''host'' sample_args) []"

theorem config_socket_bound_witness:
  "\<exists>config url. populate_config ''/'' sample_args sample_parser = Inr config
    \<and> dict_get config ''server_url'' = Some (VStr url)
    \<and> HTTPServer_address utf8_decode None url
      = Inr (ForkingUnixHTTPServer, Bindable (UnixAddr ''/var/run/custodia/ipa.sock''))"
proof -
  let ?items = "projr (rbind (cfg_items sample_parser ''global'') (interp_items sample_parser))"
  have c: "\<not> is_err (populate_config ''/'' sample_args sample_parser)" by code_simp
  have i: "rbind (cfg_items sample_parser ''global'') (interp_items sample_parser) = Inr ?items" by code_simp
  have s: "choose_socket sample_parser (ar_instance sample_args) (str_setting ?items ''server_url'')
      (str_setting ?items ''server_socket'') = Inr (Some ''/var/run/custodia/ipa.sock'')"
    "abspath ''/'' ''/var/run/custodia/ipa.sock'' = ''/var/run/custodia/ipa.sock''" by code_simp+
  from c obtain config where p: "populate_config ''/'' sample_args sample_parser = Inr config"
    by (cases "populate_config ''/'' sample_args sample_parser") auto
  from config_socket_bound [OF utf8_decode_encode p i s(1)] s(2) p show ?thesis by auto
qed

subsection \<open>Paths have no dots left\<close>

lemma norm_comps_absolute:
  "absolute \<Longrightarrow> \<forall>x \<in> set acc. x \<noteq> [] \<and> x \<noteq> ''.'' \<and> x \<noteq> ''..'' \<Longrightarrow>
   x \<in> set (norm_comps absolute acc cs) \<Longrightarrow> x \<noteq> [] \<and> x \<noteq> ''.'' \<and> x \<noteq> ''..''"
proof (induction absolute acc cs rule: norm_comps.induct)
  case (2 absolute acc c cs)
  have h: "acc \<noteq> [] \<Longrightarrow> hd acc \<noteq> ''..''" using "2.prems"(2) by auto
  have t: "\<forall>x \<in> set (tl acc). x \<noteq> [] \<and> x \<noteq> ''.'' \<and> x \<noteq> ''..''"
    using "2.prems"(2) by (cases acc) auto
  consider "c = [] \<or> c = ''.''" | "c = ''..''" | "c \<noteq> []" "c \<noteq> ''.''" "c \<noteq> ''..''" by blast
  then show ?case
  proof cases
    case 1
    then show ?thesis using "2.IH"(1) "2.prems" by (auto split: if_splits)
  next
    case 2
    then show ?thesis using "2.IH"(3) "2.prems" h t by (simp split: if_splits)
  next
    case 3
    then show ?thesis using "2.IH"(2) "2.prems" by (simp split: if_splits)
  qed
qed auto

end
