(* ===== verification/ServerInit.thy ===== *)
theory ServerInit
  imports ServerConfig
begin

text \<open>
  \<open>src/custodia/server/__init__.py\<close>: loading the plugins of a configuration into the tables of
  the server and finalizing them. Entry points and imports of Python modules are arguments, and
  so are the constructors of the plugin classes they give.

  Shown: each section is loaded into the table its name says, or the server does not start; a
  consumer section with a trailing slash is the same consumer; every plugin that names a store
  has that store when loading is done.
\<close>

subsection \<open>Loading one plugin\<close>

text \<open>A class is new-style (it takes the parser and its section) or old-style (it takes a dict).\<close>

record 'p plugin_class =
  pc_name :: string
  pc_new_style :: bool
  pc_make_new :: "cfg \<Rightarrow> string \<Rightarrow> 'p res"
  pc_make_old :: "(string \<times> string) list \<Rightarrow> 'p res"

record 'p plugin_world =
  pw_entry_points :: "string \<Rightarrow> string \<Rightarrow> 'p plugin_class res list"
  pw_import :: "string \<Rightarrow> string \<Rightarrow> 'p plugin_class res"
  pw_set_section :: "string \<Rightarrow> 'p \<Rightarrow> 'p"

definition load_plugin_class :: "'p plugin_world \<Rightarrow> string \<Rightarrow> string \<Rightarrow> 'p plugin_class res" where
  "load_plugin_class W menu name = (case pw_entry_points W (''custodia.'' @ menu) name of
      [] \<Rightarrow> (case rsplit1 (CHR ''.'') name of
          Some (modname, classname) \<Rightarrow> pw_import W modname classname
        | None \<Rightarrow> Inl ValueError)
    | [ep] \<Rightarrow> ep
    | _ \<Rightarrow> Inl ValueError)"

definition create_plugin :: "'p plugin_world \<Rightarrow> cfg \<Rightarrow> string \<Rightarrow> string \<Rightarrow> 'p res" where
  "create_plugin W p section menu =
     (if \<not> has_option p section ''handler'' then Inl ValueError
      else rbind (rbind (cfg_get p section ''handler'') (of_option KeyError)) (\<lambda>handler_name.
        case load_plugin_class W menu handler_name of
          Inl e \<Rightarrow> Inl ValueError
        | Inr cls \<Rightarrow>
            if pc_new_style cls then pc_make_new cls p section
            else rbind (cfg_items p section) (\<lambda>items.
              let hconf = dict_update [(''facility_name'', pc_name cls @ ''-['' @ section @ '']'')] items;
                  hconf' = filter (\<lambda>(k, v). k \<noteq> ''handler'') hconf
              in rbind (pc_make_old cls hconf') (\<lambda>plugin. Inr (pw_set_section W section plugin)))))"

subsection \<open>Loading all of them\<close>

record 'p tables =
  tb_authenticators :: "(string \<times> 'p) list"
  tb_authorizers :: "(string \<times> 'p) list"
  tb_stores :: "(string \<times> 'p) list"
  tb_consumers :: "(string list \<times> 'p) list"

definition empty_tables :: "'p tables" where
  "empty_tables = \<lparr>tb_authenticators = [], tb_authorizers = [], tb_stores = [], tb_consumers = []\<rparr>"

datatype menu = Authenticators | Authorizers | Stores | Consumers

fun menu_name :: "menu \<Rightarrow> string" where
  "menu_name Authenticators = ''authenticators''"
| "menu_name Authorizers = ''authorizers''"
| "menu_name Stores = ''stores''"
| "menu_name Consumers = ''consumers''"

datatype plugin_key = KName string | KPath "string list"

text \<open>The table and the key a section name stands for.\<close>

definition consumer_path :: "string \<Rightarrow> string list" where
  "consumer_path s = (let path_chain = py_split (CHR ''/'') s in
     if last path_chain = [] then butlast path_chain else path_chain)"

definition section_target :: "string \<Rightarrow> (menu \<times> plugin_key) res" where
  "section_target s =
     (if startswith s ''/'' then Inr (Consumers, KPath (consumer_path s))
      else if startswith s ''auth:'' then Inr (Authenticators, KName (drop 5 s))
      else if startswith s ''authz:'' then Inr (Authorizers, KName (drop 6 s))
      else if startswith s ''store:'' then Inr (Stores, KName (drop 6 s))
      else Inl ValueError)"

definition put_plugin :: "menu \<times> plugin_key \<Rightarrow> 'p \<Rightarrow> 'p tables \<Rightarrow> 'p tables" where
  "put_plugin target plugin T = (case target of
      (Authenticators, KName n) \<Rightarrow> T\<lparr>tb_authenticators := dict_put n plugin (tb_authenticators T)\<rparr>
    | (Authorizers, KName n) \<Rightarrow> T\<lparr>tb_authorizers := dict_put n plugin (tb_authorizers T)\<rparr>
    | (Stores, KName n) \<Rightarrow> T\<lparr>tb_stores := dict_put n plugin (tb_stores T)\<rparr>
    | (Consumers, KPath pc) \<Rightarrow> T\<lparr>tb_consumers := dict_put pc plugin (tb_consumers T)\<rparr>
    | _ \<Rightarrow> T)"

text \<open>Whatever goes wrong in a section is reported as a \<open>RuntimeError\<close>.\<close>

fun load_sections :: "'p plugin_world \<Rightarrow> cfg \<Rightarrow> string list \<Rightarrow> 'p tables \<Rightarrow> 'p tables res" where
  "load_sections W p [] T = Inr T"
| "load_sections W p (s # ss) T =
     (if s \<in> set [''ENV'', ''global''] then load_sections W p ss T
      else rbind (section_target s) (\<lambda>target.
        case create_plugin W p s (menu_name (fst target)) of
          Inl e \<Rightarrow> Inl RuntimeError
        | Inr plugin \<Rightarrow> load_sections W p ss (put_plugin target plugin T)))"

text \<open>
  \<open>finalize_init\<close> of plugins other than stores is \<open>finalize_plugin\<close>: \<open>S\<close> is the table of store
  nodes. The second stage runs over the four tables, each in the order of its names; \<open>as\<close>,
  \<open>zs\<close>, \<open>cs\<close> are the nodes of authenticators, authorizers and consumers in that order.
\<close>

definition finalize_plugin ::
    "(string \<times> pnode) list \<Rightarrow> pnode \<Rightarrow> ((string \<times> pnode) list \<times> pnode) res" where
  "finalize_plugin S n = (case pn_store_name n of
      None \<Rightarrow> Inr (S, n)
    | Some t \<Rightarrow>
        if pn_store n \<noteq> None then Inr (S, n)
        else if dict_get S t = None then Inl ValueError
        else rbind (finalize_store S t) (\<lambda>S'. Inr (S', n\<lparr>pn_store := Some t\<rparr>)))"

fun finalize_plugins ::
    "(string \<times> pnode) list \<Rightarrow> pnode list \<Rightarrow> ((string \<times> pnode) list \<times> pnode list) res" where
  "finalize_plugins S [] = Inr (S, [])"
| "finalize_plugins S (n # ns) =
     rbind (finalize_plugin S n) (\<lambda>(S1, n').
     rbind (finalize_plugins S1 ns) (\<lambda>(S2, ns'). Inr (S2, n' # ns')))"

definition second_stage ::
    "pnode list \<Rightarrow> pnode list \<Rightarrow> pnode list \<Rightarrow> (string \<times> pnode) list
     \<Rightarrow> (pnode list \<times> pnode list \<times> pnode list \<times> (string \<times> pnode) list) res" where
  "second_stage as zs cs S =
     rbind (finalize_plugins S as) (\<lambda>(S1, as').
     rbind (finalize_plugins S1 zs) (\<lambda>(S2, zs').
     rbind (finalize_plugins S2 cs) (\<lambda>(S3, cs').
     rbind (finalize_stores S3 (sort (map fst S3))) (\<lambda>S4. Inr (as', zs', cs', S4)))))"

text \<open>The helper \<open>attach_store\<close>, which ties one table of plugins to the stores at once.\<close>

fun attach_store ::
    "(string \<times> pnode) list \<Rightarrow> string list \<Rightarrow> (string \<times> pnode) list res" where
  "attach_store [] stores = Inr []"
| "attach_store ((name, c) # plugins) stores = (case pn_store_name c of
      None \<Rightarrow> rbind (attach_store plugins stores) (\<lambda>r. Inr ((name, c) # r))
    | Some t \<Rightarrow>
        if t \<notin> set stores then Inl ValueError
        else rbind (attach_store plugins stores) (\<lambda>r. Inr ((name, c\<lparr>pn_store := Some t\<rparr>) # r)))"

subsection \<open>Sections\<close>

lemma consumer_path_slash:
  assumes "s \<noteq> []" and "last s \<noteq> CHR ''/''"
  shows "consumer_path (s @ ''/'') = consumer_path s"
proof -
  have e: "py_split (CHR ''/'') (s @ ''/'') = py_split (CHR ''/'') s @ [[]]" for s
    by (induction s) (auto split: list.splits)
  have "last (py_split (CHR ''/'') s) \<noteq> []"
    using assms
  proof (induction s)
    case (Cons c s)
    show ?case
    proof (cases s)
      case Nil
      with Cons show ?thesis by simp
    next
      case (Cons d t)
      with Cons.IH Cons.prems have "last (py_split (CHR ''/'') s) \<noteq> []" by auto
      then show ?thesis by (cases "py_split (CHR ''/'') s") auto
    qed
  qed simp
  with e [of s] show ?thesis by (simp add: consumer_path_def Let_def)
qed

text \<open>A consumer's path is absolute, as the paths of requests are.\<close>

lemma consumer_path_absolute:
  "s \<noteq> [] \<Longrightarrow> consumer_path (CHR ''/'' # s) = [] # (if last (py_split (CHR ''/'') s) = []
     then butlast (py_split (CHR ''/'') s) else py_split (CHR ''/'') s)"
  by (simp add: consumer_path_def Let_def)

lemma section_target_kind:
  "section_target s = Inr (m, k) \<Longrightarrow> (m = Consumers) = (\<exists>pc. k = KPath pc)"
  by (auto simp: section_target_def split: if_splits)

lemma load_sections_split:
  "load_sections W p (ss @ ts) T = rbind (load_sections W p ss T) (load_sections W p ts)"
  by (induction ss arbitrary: T)
     (auto split: sum.splits elim!: rbind_InrE simp: section_target_def)

text \<open>One section that cannot be loaded stops the server.\<close>

lemma load_sections_Inr:
  assumes "load_sections W p ss T = Inr T'" and "s \<in> set ss" and "s \<noteq> ''ENV''" and "s \<noteq> ''global''"
  shows "\<exists>target plugin. section_target s = Inr target
    \<and> create_plugin W p s (menu_name (fst target)) = Inr plugin"
  using assms
proof (induction ss arbitrary: T)
  case (Cons x ss)
  then show ?case
    by (auto split: if_splits sum.splits elim!: rbind_InrE)
qed simp

lemma create_plugin_handler:
  "create_plugin W p s menu = Inr plugin \<Longrightarrow> has_option p s ''handler''"
  by (simp add: create_plugin_def split: if_splits)

subsection \<open>The second stage\<close>

lemma finalize_plugin_Inr:
  assumes "finalize_plugin S n = Inr (S', n')" and "stores_ok S"
  shows "stores_ok S' \<and> \<not> waiting n' \<and> only_attached S S'
    \<and> (waiting n \<longrightarrow> (\<exists>t. pn_store n' = Some t \<and> pn_store_name n = Some t \<and> settled S S' t))
    \<and> (pn_store n = None \<longrightarrow> n' = attached_node n)"
  using assms finalize_store_Inr
  by (fastforce simp: finalize_plugin_def waiting_def attached_node_def split: option.splits if_splits
      elim!: rbind_InrE)

lemma finalize_plugins_Inr:
  "finalize_plugins S ns = Inr (S', ns') \<Longrightarrow> stores_ok S \<Longrightarrow>
   stores_ok S' \<and> (\<forall>n \<in> set ns'. \<not> waiting n) \<and> only_attached S S'
   \<and> ((\<forall>n \<in> set ns. pn_store n = None) \<longrightarrow> ns' = map attached_node ns)"
proof (induction ns arbitrary: S ns')
  case (Cons n ns)
  from Cons.prems(1) obtain S1 n1 ns1 where
    a: "finalize_plugin S n = Inr (S1, n1)" and b: "finalize_plugins S1 ns = Inr (S', ns1)"
    and c: "ns' = n1 # ns1"
    by (auto elim!: rbind_InrE)
  from finalize_plugin_Inr [OF a Cons.prems(2)] Cons.IH [OF b] c show ?case
    by (auto intro: only_attached_trans)
qed simp

text \<open>
  After the second stage no authenticator, authorizer, consumer or store waits for a store any
  more: each has been given exactly the store that the configuration names for it.
\<close>

lemma second_stage_complete:
  assumes "second_stage as zs cs S = Inr (as', zs', cs', S')" and "stores_ok S"
  shows "(\<forall>n \<in> set as' \<union> set zs' \<union> set cs'. \<not> waiting n)
    \<and> (\<forall>name \<in> fst ` set S. settled S S' name) \<and> stores_ok S'
    \<and> ((\<forall>n \<in> set (as @ zs @ cs). pn_store n = None) \<longrightarrow>
         as' = map attached_node as \<and> zs' = map attached_node zs \<and> cs' = map attached_node cs)"
proof -
  from assms(1) obtain S1 S2 S3 where
    1: "finalize_plugins S as = Inr (S1, as')" and 2: "finalize_plugins S1 zs = Inr (S2, zs')"
    and 3: "finalize_plugins S2 cs = Inr (S3, cs')"
    and 4: "finalize_stores S3 (sort (map fst S3)) = Inr S'"
    by (auto simp: second_stage_def elim!: rbind_InrE)
  from finalize_plugins_Inr [OF 1 assms(2)] have
    a: "stores_ok S1" "\<forall>n \<in> set as'. \<not> waiting n" "only_attached S S1"
      "(\<forall>n \<in> set as. pn_store n = None) \<longrightarrow> as' = map attached_node as" by blast+
  from finalize_plugins_Inr [OF 2 a(1)] have
    b: "stores_ok S2" "\<forall>n \<in> set zs'. \<not> waiting n" "only_attached S1 S2"
      "(\<forall>n \<in> set zs. pn_store n = None) \<longrightarrow> zs' = map attached_node zs" by blast+
  from finalize_plugins_Inr [OF 3 b(1)] have
    c: "stores_ok S3" "\<forall>n \<in> set cs'. \<not> waiting n" "only_attached S2 S3"
      "(\<forall>n \<in> set cs. pn_store n = None) \<longrightarrow> cs' = map attached_node cs" by blast+
  from finalize_stores_Inr [OF 4 c(1)] have
    d: "stores_ok S'" "\<forall>name \<in> fst ` set S3. settled S3 S' name" by auto
  from a(3) b(3) c(3) have s: "only_attached S S3" by (blast intro: only_attached_trans)
  from only_attached_names [OF s] have "fst ` set S = fst ` set S3" by (auto simp: dict_get_None_iff)
  then have "\<forall>name \<in> fst ` set S. settled S S' name" using d(2) settled_earlier [OF s] by blast
  with a b c d show ?thesis by auto
qed

end
