(* ===== verification/Client.thy ===== *)
theory Client
  imports Kem Urls
begin

text \<open>
  \<open>src/custodia/client.py\<close>: the HTTP client, the client for plain secrets and the client for
  signed and encrypted messages, and the connection classes for Unix sockets. The package
  \<open>requests\<close> is the argument \<open>lib\<close>: sending a call changes the world \<open>'w\<close> behind the connection
  and gives a reply. The state of a client call is that world with the client's
  \<open>_last_response\<close>; the clock is the one the messages read.

  Shown: how URLs and headers are put together, to which socket a URL leads, which calls an
  operation makes, and that the message client only returns what a verified and current reply
  says.
\<close>

subsection \<open>Calls and replies\<close>

record http_call =
  hc_url :: string
  hc_headers :: "(string \<times> string) list"
  hc_params :: "json option"
  hc_json :: "json option"
  hc_data :: "bytes option"
  hc_timeout :: "rat option"

record reply =
  rp_status :: int
  rp_content :: bytes

text \<open>\<open>session.<method>(url, ...)\<close>, \<open>reply.raise_for_status()\<close>, \<open>reply.json()\<close>.\<close>

record 'w http_lib =
  hl_send :: "string \<Rightarrow> http_call \<Rightarrow> ('w, reply) py"
  hl_raise :: "reply \<Rightarrow> unit res"
  hl_json :: "reply \<Rightarrow> json res"

type_synonym ('w, 'k, 'a) call = "('w \<times> reply option, 'k, 'a) act"

subsection \<open>Unix sockets\<close>

text \<open>
  \<open>HTTPUnixConnection\<close>: the host is always \<open>localhost\<close>; \<open>timeout\<close> is \<open>None\<close> when the argument is
  left out and \<open>Some None\<close> for no timeout. An open socket has its time limit and its peer. The
  answer of \<open>connect(2)\<close> is an argument; when it fails the connection has no socket.
\<close>

record unix_socket =
  us_timeout :: "rat option"
  us_peer :: string

record unix_connection =
  uc_host :: string
  uc_unix_socket :: string
  uc_timeout :: "rat option"
  uc_sock :: "unix_socket option"

definition HTTPUnixConnection_init :: "string \<Rightarrow> rat option option \<Rightarrow> unix_connection" where
  "HTTPUnixConnection_init host timeout = \<lparr>uc_host = ''localhost'', uc_unix_socket = host,
     uc_timeout = (case timeout of None \<Rightarrow> Some 60 | Some t \<Rightarrow> t), uc_sock = None\<rparr>"

definition HTTPUnixConnection_connect :: "(string \<Rightarrow> unit res) \<Rightarrow> (unix_connection, unit) py" where
  "HTTPUnixConnection_connect connect =
     py_bind py_get (\<lambda>self.
     let s = \<lparr>us_timeout = uc_timeout self, us_peer = uc_unix_socket self\<rparr> in
     py_bind (py_lift (connect (uc_unix_socket self))) (\<lambda>_.
       py_modify (\<lambda>self. self\<lparr>uc_sock := Some s\<rparr>)))"

record unix_pool =
  up_scheme :: string
  up_host :: string

definition HTTPUnixConnectionPool :: "string \<Rightarrow> unix_pool" where
  "HTTPUnixConnectionPool host = \<lparr>up_scheme = ''http+unix'', up_host = host\<rparr>"

text \<open>\<open>HTTPUnixAdapter.get_connection\<close>.\<close>

definition HTTPUnixAdapter_get_connection :: "(bytes \<Rightarrow> string) \<Rightarrow> string \<Rightarrow> unix_pool res" where
  "HTTPUnixAdapter_get_connection dec url =
     rbind (urlparse url) (\<lambda>u. Inr (HTTPUnixConnectionPool (unquote dec (u_netloc u))))"

subsection \<open>\<open>CustodiaHTTPClient\<close>\<close>

definition DEFAULT_HEADERS :: "(string \<times> string) list" where
  "DEFAULT_HEADERS = [(''Content-Type'', ''application/json'')]"

record client =
  cl_url :: string
  cl_headers :: "(string \<times> string) list"
  cl_timeout :: "rat option"
  cl_verify :: "string option"
  cl_cert :: "(string \<times> string option) option"
  cl_gssapi :: bool
  cl_mounts :: "string list"

text \<open>\<open>cl_mounts\<close> are the URL prefixes for which the session uses \<open>HTTPUnixAdapter\<close>.\<close>

definition new_client :: "string \<Rightarrow> client" where
  "new_client url = \<lparr>cl_url = url, cl_headers = DEFAULT_HEADERS, cl_timeout = None,
     cl_verify = None, cl_cert = None, cl_gssapi = False, cl_mounts = [''http+unix://'']\<rparr>"

definition set_simple_auth_keys :: "string \<Rightarrow> string \<Rightarrow> string \<Rightarrow> string \<Rightarrow> client \<Rightarrow> client" where
  "set_simple_auth_keys name key name_header key_header cl =
     cl\<lparr>cl_headers := dict_put key_header key (dict_put name_header name (cl_headers cl))\<rparr>"

definition set_ca_cert :: "string \<Rightarrow> client \<Rightarrow> client" where
  "set_ca_cert cafile cl = cl\<lparr>cl_verify := Some cafile\<rparr>"

definition set_client_cert :: "string \<Rightarrow> string option \<Rightarrow> client \<Rightarrow> client" where
  "set_client_cert certfile keyfile cl = cl\<lparr>cl_cert := Some (certfile, keyfile)\<rparr>"

text \<open>Without the package \<open>requests_gssapi\<close> this raises.\<close>

definition set_gssapi_auth :: "bool \<Rightarrow> client \<Rightarrow> client res" where
  "set_gssapi_auth available cl =
     (if available then Inr (cl\<lparr>cl_gssapi := True\<rparr>) else Inl ImportError)"

definition join_url :: "client \<Rightarrow> string \<Rightarrow> string" where
  "join_url cl path = rstrip_ch (CHR ''/'') (cl_url cl) @ ''/'' @ lstrip_ch (CHR ''/'') path"

definition add_headers :: "client \<Rightarrow> (string \<times> string) list option \<Rightarrow> (string \<times> string) list" where
  "add_headers cl headers =
     dict_update (case headers of None \<Rightarrow> [] | Some h \<Rightarrow> h) (cl_headers cl)"

text \<open>The keyword arguments of a call.\<close>

record kwargs =
  kw_headers :: "(string \<times> string) list option"
  kw_params :: "json option"
  kw_json :: "json option"
  kw_data :: "bytes option"

definition no_kwargs :: kwargs where
  "no_kwargs = \<lparr>kw_headers = None, kw_params = None, kw_json = None, kw_data = None\<rparr>"

definition the_call :: "client \<Rightarrow> string \<Rightarrow> kwargs \<Rightarrow> http_call" where
  "the_call cl path kw = \<lparr>hc_url = join_url cl path, hc_headers = add_headers cl (kw_headers kw),
     hc_params = kw_params kw, hc_json = kw_json kw, hc_data = kw_data kw, hc_timeout = cl_timeout cl\<rparr>"

definition client_request ::
    "'w http_lib \<Rightarrow> client \<Rightarrow> string \<Rightarrow> string \<Rightarrow> kwargs \<Rightarrow> ('w, 'k, reply) call" where
  "client_request lib cl cmd path kw = on_store (\<lambda>(w, old_response).
     case hl_send lib cmd (the_call cl path kw) w of
       (Inl e, w') \<Rightarrow> (Inl e, (w', None))
     | (Inr r, w') \<Rightarrow> (Inr r, (w', Some r)))"

text \<open>The calls \<open>delete\<close>, \<open>get\<close>, \<open>head\<close>, \<open>patch\<close>, \<open>post\<close> and \<open>put\<close>.\<close>

type_synonym ('w, 'k) client_method = "client \<Rightarrow> string \<Rightarrow> kwargs \<Rightarrow> ('w, 'k, reply) call"

definition client_delete :: "'w http_lib \<Rightarrow> ('w, 'k) client_method" where
  "client_delete lib cl path kw = client_request lib cl ''DELETE'' path kw"

definition client_get :: "'w http_lib \<Rightarrow> ('w, 'k) client_method" where
  "client_get lib cl path kw = client_request lib cl ''GET'' path kw"

definition client_head :: "'w http_lib \<Rightarrow> ('w, 'k) client_method" where
  "client_head lib cl path kw = client_request lib cl ''HEAD'' path kw"

definition client_patch :: "'w http_lib \<Rightarrow> ('w, 'k) client_method" where
  "client_patch lib cl path kw = client_request lib cl ''PATCH'' path kw"

definition client_post :: "'w http_lib \<Rightarrow> ('w, 'k) client_method" where
  "client_post lib cl path kw = client_request lib cl ''POST'' path kw"

definition client_put :: "'w http_lib \<Rightarrow> ('w, 'k) client_method" where
  "client_put lib cl path kw = client_request lib cl ''PUT'' path kw"

definition container_name :: "string \<Rightarrow> string" where
  "container_name name = (if endswith name ''/'' then name else name @ ''/'')"

text \<open>
  The operations of a client: the base class declares them and implements none, the two
  classes below supply them.
\<close>

record ('w, 'k) client_api =
  ca_create_container :: "string \<Rightarrow> ('w, 'k, unit) call"
  ca_list_container :: "string \<Rightarrow> ('w, 'k, json) call"
  ca_delete_container :: "string \<Rightarrow> ('w, 'k, unit) call"
  ca_get_secret :: "string \<Rightarrow> ('w, 'k, json) call"
  ca_set_secret :: "string \<Rightarrow> json \<Rightarrow> ('w, 'k, unit) call"
  ca_del_secret :: "string \<Rightarrow> ('w, 'k, unit) call"

definition CustodiaHTTPClient_api :: "('w, 'k) client_api" where
  "CustodiaHTTPClient_api = \<lparr>ca_create_container = (\<lambda>name. py_raise NotImplementedError),
     ca_list_container = (\<lambda>name. py_raise NotImplementedError),
     ca_delete_container = (\<lambda>name. py_raise NotImplementedError),
     ca_get_secret = (\<lambda>name. py_raise NotImplementedError),
     ca_set_secret = (\<lambda>name value. py_raise NotImplementedError),
     ca_del_secret = (\<lambda>name. py_raise NotImplementedError)\<rparr>"

subsection \<open>\<open>CustodiaSimpleClient\<close>\<close>

text \<open>A call whose reply must not be an error.\<close>

definition checked :: "'w http_lib \<Rightarrow> ('w, 'k, reply) call \<Rightarrow> ('w, 'k, reply) call" where
  "checked lib m = py_bind m (\<lambda>r. py_bind (py_lift (hl_raise lib r)) (\<lambda>_. py_return r))"

definition simple_create_container :: "'w http_lib \<Rightarrow> client \<Rightarrow> string \<Rightarrow> ('w, 'k, unit) call" where
  "simple_create_container lib cl name =
     py_bind (checked lib (client_post lib cl (container_name name) no_kwargs)) (\<lambda>_. py_return ())"

definition simple_delete_container :: "'w http_lib \<Rightarrow> client \<Rightarrow> string \<Rightarrow> ('w, 'k, unit) call" where
  "simple_delete_container lib cl name =
     py_bind (checked lib (client_delete lib cl (container_name name) no_kwargs)) (\<lambda>_. py_return ())"

definition simple_list_container :: "'w http_lib \<Rightarrow> client \<Rightarrow> string \<Rightarrow> ('w, 'k, json) call" where
  "simple_list_container lib cl name =
     py_bind (checked lib (client_get lib cl (container_name name) no_kwargs)) (\<lambda>r. py_lift (hl_json lib r))"

text \<open>\<open>d.get(k, None)\<close> and \<open>d[k]\<close> of a decoded reply.\<close>

definition reply_get :: "json \<Rightarrow> string \<Rightarrow> json res" where
  "reply_get j k = (case j of
      JDict d \<Rightarrow> Inr (case dict_get d k of None \<Rightarrow> JNull | Some v \<Rightarrow> v)
    | _ \<Rightarrow> Inl AttributeError)"

definition simple_value :: "json \<Rightarrow> json res" where
  "simple_value simple = rbind (reply_get simple ''type'') (\<lambda>ktype.
     if ktype \<noteq> JStr ''simple'' then Inl TypeError else json_getitem simple ''value'')"

definition simple_get_secret :: "'w http_lib \<Rightarrow> client \<Rightarrow> string \<Rightarrow> ('w, 'k, json) call" where
  "simple_get_secret lib cl name =
     py_bind (checked lib (client_get lib cl name no_kwargs)) (\<lambda>r.
       py_lift (rbind (hl_json lib r) simple_value))"

definition typed_value :: "string \<Rightarrow> json \<Rightarrow> json" where
  "typed_value t v = JDict [(''type'', JStr t), (''value'', v)]"

definition simple_set_secret :: "'w http_lib \<Rightarrow> client \<Rightarrow> string \<Rightarrow> json \<Rightarrow> ('w, 'k, unit) call" where
  "simple_set_secret lib cl name value =
     py_bind (checked lib (client_put lib cl name (no_kwargs\<lparr>kw_json := Some (typed_value ''simple'' value)\<rparr>)))
       (\<lambda>_. py_return ())"

definition simple_del_secret :: "'w http_lib \<Rightarrow> client \<Rightarrow> string \<Rightarrow> ('w, 'k, unit) call" where
  "simple_del_secret lib cl name =
     py_bind (checked lib (client_delete lib cl name no_kwargs)) (\<lambda>_. py_return ())"

definition CustodiaSimpleClient_api :: "'w http_lib \<Rightarrow> client \<Rightarrow> ('w, 'k) client_api" where
  "CustodiaSimpleClient_api lib cl = \<lparr>ca_create_container = simple_create_container lib cl,
     ca_list_container = simple_list_container lib cl, ca_delete_container = simple_delete_container lib cl,
     ca_get_secret = simple_get_secret lib cl, ca_set_secret = simple_set_secret lib cl,
     ca_del_secret = simple_del_secret lib cl\<rparr>"

subsection \<open>\<open>CustodiaKEMClient\<close>\<close>

record 'k kem_conn =
  ke_client :: client
  ke_cli_signing :: "'k option"
  ke_cli_decryption :: "'k option"
  ke_srv_verifying :: "'k option"
  ke_srv_encryption :: "'k option"
  ke_sig_alg :: "string option"
  ke_enc_alg :: "(string \<times> string) option"

definition new_kem_client :: "string \<Rightarrow> 'k kem_conn" where
  "new_kem_client url = \<lparr>ke_client = new_client url, ke_cli_signing = None, ke_cli_decryption = None,
     ke_srv_verifying = None, ke_srv_encryption = None, ke_sig_alg = None, ke_enc_alg = None\<rparr>"

datatype 'k key_arg = KNone | KJwk 'k | KDict "(string \<times> json) list" | KStr string | KOther

definition decode_key :: "('k, 'jwe, 'jws) jose \<Rightarrow> 'k key_arg \<Rightarrow> 'k option res" where
  "decode_key J key = (case key of
      KNone \<Rightarrow> Inr None
    | KJwk k \<Rightarrow> Inr (Some k)
    | KDict d \<Rightarrow> rbind (jo_jwk J (JDict d)) (\<lambda>k. Inr (Some k))
    | KStr s \<Rightarrow> rbind (rbind (jo_json_decode J s) (jo_jwk J)) (\<lambda>k. Inr (Some k))
    | KOther \<Rightarrow> Inl TypeError)"

definition set_server_public_keys ::
    "('k, 'jwe, 'jws) jose \<Rightarrow> 'k key_arg \<Rightarrow> 'k key_arg \<Rightarrow> 'k kem_conn \<Rightarrow> 'k kem_conn res" where
  "set_server_public_keys J sig enc kc =
     rbind (decode_key J sig) (\<lambda>s. rbind (decode_key J enc) (\<lambda>e.
       Inr (kc\<lparr>ke_srv_verifying := s, ke_srv_encryption := e\<rparr>)))"

definition set_client_keys ::
    "('k, 'jwe, 'jws) jose \<Rightarrow> 'k key_arg \<Rightarrow> 'k key_arg \<Rightarrow> 'k kem_conn \<Rightarrow> 'k kem_conn res" where
  "set_client_keys J sig enc kc =
     rbind (decode_key J sig) (\<lambda>s. rbind (decode_key J enc) (\<lambda>e.
       Inr (kc\<lparr>ke_cli_signing := s, ke_cli_decryption := e\<rparr>)))"

definition set_algorithms ::
    "string option \<Rightarrow> (string \<times> string) option \<Rightarrow> 'k kem_conn \<Rightarrow> 'k kem_conn" where
  "set_algorithms sig enc kc = kc\<lparr>ke_sig_alg := sig, ke_enc_alg := enc\<rparr>"

definition signing_algorithm :: "('k, 'jwe, 'jws) jose \<Rightarrow> 'k kem_conn \<Rightarrow> 'k \<Rightarrow> string res" where
  "signing_algorithm J kc key = (case ke_sig_alg kc of
      Some a \<Rightarrow> Inr a
    | None \<Rightarrow> if jo_key_type J key = ''RSA'' then Inr ''RS256''
             else if jo_key_type J key = ''EC'' then Inr ''ES256'' else Inl ValueError)"

definition encryption_algorithm ::
    "('k, 'jwe, 'jws) jose \<Rightarrow> 'k kem_conn \<Rightarrow> 'k \<Rightarrow> (string \<times> string) res" where
  "encryption_algorithm J kc key = (case ke_enc_alg kc of
      Some a \<Rightarrow> Inr a
    | None \<Rightarrow> if jo_key_type J key = ''RSA'' then Inr (''RSA-OAEP'', ''A256CBC-HS512'')
             else if jo_key_type J key = ''EC'' then Inr (''ECDH-ES+A256KW'', ''A256CBC-HS512'')
             else Inl ValueError)"

definition kem_wrap ::
    "('k, 'jwe, 'jws) jose \<Rightarrow> 'k kem_conn \<Rightarrow> string \<Rightarrow> json \<Rightarrow> ('w, 'k, string) act" where
  "kem_wrap J kc name value =
     py_bind (py_lift (of_option KeyError (ke_cli_signing kc))) (\<lambda>sk.
     py_bind (py_lift (of_option KeyError (ke_srv_encryption kc))) (\<lambda>ek.
     py_bind (py_lift (signing_algorithm J kc sk)) (\<lambda>sig_alg.
     py_bind (py_lift (encryption_algorithm J kc ek)) (\<lambda>enc_alg.
       make_enc_kem J name value sk sig_alg ek enc_alg))))"

definition kem_unwrap ::
    "('k, 'jwe, 'jws) jose \<Rightarrow> 'k kem_conn \<Rightarrow> string \<Rightarrow> json \<Rightarrow> ('w, 'k, json) act" where
  "kem_unwrap J kc name message =
     py_bind (py_lift (reply_get message ''type'')) (\<lambda>t.
     if t \<noteq> JStr ''kem'' then py_raise TypeError else
     py_bind (py_lift (of_option KeyError (ke_cli_decryption kc))) (\<lambda>dk.
     py_bind (py_lift (of_option KeyError (ke_srv_verifying kc))) (\<lambda>vk.
     py_bind (py_lift (json_getitem message ''value'')) (\<lambda>v.
     py_bind (py_lift (decode_enc_kem J v dk vk)) (\<lambda>claims.
     py_bind (check_kem_claims claims name) (\<lambda>_. py_return claims))))))"

text \<open>A wrapped call: the message goes out as JSON body or as query, the reply is unwrapped.\<close>

definition kem_call ::
    "('k, 'jwe, 'jws) jose \<Rightarrow> 'w http_lib \<Rightarrow> 'k kem_conn \<Rightarrow> ('w, 'k) client_method \<Rightarrow> string \<Rightarrow> json
     \<Rightarrow> bool \<Rightarrow> ('w, 'k, json) call" where
  "kem_call J lib kc call name value as_query =
     py_bind (kem_wrap J kc name value) (\<lambda>message.
     py_bind (checked lib (call (ke_client kc) name
        (if as_query then no_kwargs\<lparr>kw_params := Some (typed_value ''kem'' (JStr message))\<rparr>
         else no_kwargs\<lparr>kw_json := Some (typed_value ''kem'' (JStr message))\<rparr>))) (\<lambda>r.
     py_bind (py_lift (hl_json lib r)) (\<lambda>j. kem_unwrap J kc name j)))"

definition kem_create_container ::
    "('k, 'jwe, 'jws) jose \<Rightarrow> 'w http_lib \<Rightarrow> 'k kem_conn \<Rightarrow> string \<Rightarrow> ('w, 'k, unit) call" where
  "kem_create_container J lib kc name =
     py_bind (kem_call J lib kc (client_post lib) (container_name name) JNull False) (\<lambda>_. py_return ())"

definition kem_delete_container ::
    "('k, 'jwe, 'jws) jose \<Rightarrow> 'w http_lib \<Rightarrow> 'k kem_conn \<Rightarrow> string \<Rightarrow> ('w, 'k, unit) call" where
  "kem_delete_container J lib kc name =
     py_bind (kem_call J lib kc (client_delete lib) (container_name name) JNull False) (\<lambda>_. py_return ())"

definition kem_get_secret ::
    "('k, 'jwe, 'jws) jose \<Rightarrow> 'w http_lib \<Rightarrow> 'k kem_conn \<Rightarrow> string \<Rightarrow> ('w, 'k, json) call" where
  "kem_get_secret J lib kc name =
     py_bind (kem_call J lib kc (client_get lib) name JNull True) (\<lambda>claims.
       py_lift (json_getitem claims ''value''))"

definition kem_list_container ::
    "('k, 'jwe, 'jws) jose \<Rightarrow> 'w http_lib \<Rightarrow> 'k kem_conn \<Rightarrow> string \<Rightarrow> ('w, 'k, json) call" where
  "kem_list_container J lib kc name = kem_get_secret J lib kc (container_name name)"

definition kem_set_secret ::
    "('k, 'jwe, 'jws) jose \<Rightarrow> 'w http_lib \<Rightarrow> 'k kem_conn \<Rightarrow> string \<Rightarrow> json \<Rightarrow> ('w, 'k, unit) call" where
  "kem_set_secret J lib kc name value =
     py_bind (kem_call J lib kc (client_put lib) name value False) (\<lambda>_. py_return ())"

definition kem_del_secret ::
    "('k, 'jwe, 'jws) jose \<Rightarrow> 'w http_lib \<Rightarrow> 'k kem_conn \<Rightarrow> string \<Rightarrow> ('w, 'k, unit) call" where
  "kem_del_secret J lib kc name =
     py_bind (kem_call J lib kc (client_delete lib) name JNull False) (\<lambda>_. py_return ())"

definition CustodiaKEMClient_api ::
    "('k, 'jwe, 'jws) jose \<Rightarrow> 'w http_lib \<Rightarrow> 'k kem_conn \<Rightarrow> ('w, 'k) client_api" where
  "CustodiaKEMClient_api J lib kc = \<lparr>ca_create_container = kem_create_container J lib kc,
     ca_list_container = kem_list_container J lib kc, ca_delete_container = kem_delete_container J lib kc,
     ca_get_secret = kem_get_secret J lib kc, ca_set_secret = kem_set_secret J lib kc,
     ca_del_secret = kem_del_secret J lib kc\<rparr>"

subsection \<open>URLs and headers\<close>

text \<open>One slash joins the two parts, whatever slashes they have.\<close>

lemma join_url_slashes:
  "join_url (cl\<lparr>cl_url := cl_url cl @ ''/''\<rparr>) path = join_url cl path"
  "join_url cl (CHR ''/'' # path) = join_url cl path"
  by (simp_all add: join_url_def)

lemma new_client_join:
  assumes "url \<noteq> []" and "last url \<noteq> CHR ''/''" and "path = [] \<or> hd path \<noteq> CHR ''/''"
  shows "join_url (new_client url) path = url @ ''/'' @ path"
  using assms rstrip_ch_append_last [of url "CHR ''/''" "[]"]
  by (simp add: join_url_def new_client_def lstrip_ch_id)

text \<open>The headers of the client win over those of the call.\<close>

lemma add_headers_get:
  assumes "distinct (map fst (cl_headers cl))"
  shows "dict_get (add_headers cl h) n = (case dict_get (cl_headers cl) n of
     Some v \<Rightarrow> Some v | None \<Rightarrow> (case h of None \<Rightarrow> None | Some hs \<Rightarrow> dict_get hs n))"
  using assms by (auto simp: add_headers_def dict_get_update split: option.splits)

lemma set_keys_headers:
  assumes "n \<noteq> k"
  shows "dict_get (cl_headers (set_simple_auth_keys name key n k cl)) n = Some name
    \<and> dict_get (cl_headers (set_simple_auth_keys name key n k cl)) k = Some key"
  using assms by (simp add: set_simple_auth_keys_def)

lemma client_container_slash [simp]: "endswith (container_name name) ''/''"
  by (auto simp: container_name_def endswith_char)

lemma container_name_idem [simp]: "container_name (container_name name) = container_name name"
  by (simp add: container_name_def [of "container_name name"])

text \<open>
  A client of a Unix socket stays on that socket, whatever path it is asked for: its URL is the
  escaped socket path, with or without a URL path behind it.
\<close>

lemma escaped_end: "path \<noteq> [] \<Longrightarrow> url_escape (\<lambda>_. False) path \<noteq> []
    \<and> last (url_escape (\<lambda>_. False) path) \<noteq> CHR ''/''"
proof -
  assume "path \<noteq> []"
  moreover have "quote_byte (\<lambda>_. False) c \<noteq> []" for c by (simp add: quote_byte_def Let_def)
  moreover have "path \<noteq> [] \<Longrightarrow> utf8_encode path \<noteq> []" by (cases path) (auto simp: utf8_encode_def)
  ultimately have "url_escape (\<lambda>_. False) path \<noteq> []"
    by (cases "utf8_encode path") (auto simp: url_escape_def)
  then show ?thesis using escaped_no_delim [of "CHR ''/''" path] last_in_set by fastforce
qed

lemma join_url_unix:
  assumes "cl_url cl = ''http+unix://'' @ url_escape (\<lambda>_. False) sock @ s" and "s = [] \<or> hd s = CHR ''/''"
    and "sock \<noteq> []"
  shows "\<exists>rest. join_url cl path = ''http+unix://'' @ url_escape (\<lambda>_. False) sock @ CHR ''/'' # rest"
proof -
  let ?b = "''http+unix://'' @ url_escape (\<lambda>_. False) sock"
  have nb: "\<not> endswith ?b ''/''" using escaped_end [OF assms(3)] by (simp add: endswith_char)
  have "rstrip_ch (CHR ''/'') (?b @ s) = ?b @ rstrip_ch (CHR ''/'') s" by (rule rstrip_ch_append [OF nb])
  moreover obtain n where s: "s = rstrip_ch (CHR ''/'') s @ replicate n (CHR ''/'')" using rstrip_ch_split by blast
  moreover have "\<exists>r. rstrip_ch (CHR ''/'') s @ ''/'' @ x = CHR ''/'' # r" for x
    using assms(2) s by (cases "rstrip_ch (CHR ''/'') s") auto
  ultimately show ?thesis
    by (simp only: join_url_def assms(1) append.assoc) metis
qed

lemma adapter_socket:
  assumes "\<And>s. dec (utf8_encode s) = s" and "sock \<noteq> []"
    and "cl_url cl = ''http+unix://'' @ url_escape (\<lambda>_. False) sock @ s" and "s = [] \<or> hd s = CHR ''/''"
  shows "HTTPUnixAdapter_get_connection dec (join_url cl path) = Inr (HTTPUnixConnectionPool sock)"
proof -
  obtain rest where j: "join_url cl path = ''http+unix://'' @ url_escape (\<lambda>_. False) sock @ CHR ''/'' # rest"
    using join_url_unix [OF assms(3,4,2)] by blast
  obtain u where "urlparse (''http+unix://'' @ url_escape (\<lambda>_. False) sock @ CHR ''/'' # rest) = Inr u"
    "u_netloc u = url_escape (\<lambda>_. False) sock"
    using urlparse_unix_netloc [of "url_escape (\<lambda>_. False) sock" rest] escaped_no_delim by blast
  moreover have "unquote dec (url_escape (\<lambda>_. False) sock) = sock"
    using assms(1) by (intro unquote_escape) auto
  ultimately show ?thesis by (simp add: HTTPUnixAdapter_get_connection_def j del: append.simps)
qed

subsection \<open>What the message client trusts\<close>

lemma check_kem_claims_InrD:
  assumes "check_kem_claims claims name c = (Inr u, c')"
  obtains d e j where "claims = JDict d" and "dict_get d ''sub'' = Some (JStr name)"
    and "dict_get d ''exp'' = Some j" and "json_number j = Some e"
    and "e \<le> of_int (cx_time c) + 600" and "of_int (second_time c) \<le> e"
proof -
  have "\<exists>c'. check_kem_claims claims name c = (Inr (), c')" using assms by auto
  then show thesis using that unfolding check_kem_claims_iff by blast
qed

lemma kem_unwrap_Inr:
  assumes "kem_unwrap J kc name message c = (Inr claims, c')"
  obtains dk vk v d where "ke_cli_decryption kc = Some dk" and "ke_srv_verifying kc = Some vk"
    and "json_getitem message ''value'' = Inr v" and "decode_enc_kem J v dk vk = Inr claims"
    and "claims = JDict d" and "dict_get d ''sub'' = Some (JStr name)"
  using assms
  by (auto simp: kem_unwrap_def py_lift_def py_raise_def py_return_def
      elim!: py_bind_InrE of_option_InrE check_kem_claims_InrD split: if_splits)

end
