(* ===== verification/Cli.thy ===== *)
theory Cli
  imports Client ServerConfig
begin

text \<open>
  \<open>src/custodia/cli/__init__.py\<close>: the command line client. \<open>argparse\<close> splits the command line and
  is not modelled: its result is the record \<open>cli_args\<close>, on which the argument checks, the
  post-processing of \<open>parse_args\<close>, the commands, the plugin list and the error report are
  defined.

  Shown: the server argument becomes a URL whose socket part is the path that was given; the
  default socket is the one a server with the same instance name listens on; which
  combinations are refused; exit codes.
\<close>

subsection \<open>Argument checks\<close>

definition server_check :: "string \<Rightarrow> string \<Rightarrow> string res" where
  "server_check cwd arg =
     (if startswith arg ''http://'' \<or> startswith arg ''https://'' \<or> startswith arg ''http+unix://''
      then Inr arg
      else if startswith arg ''./''
      then Inr (''http+unix://'' @ url_escape (\<lambda>_. False) (abspath cwd arg))
      else if \<not> startswith arg ''/'' then Inl ArgumentTypeError
      else Inr (''http+unix://'' @ url_escape (\<lambda>_. False) arg))"

definition instance_check :: "string \<Rightarrow> string res" where
  "instance_check arg = (if set arg \<inter> set '':/@'' \<noteq> {} then Inl ArgumentTypeError else Inr arg)"

text \<open>\<open>name, value = arg.split('=')\<close>.\<close>

definition split_header :: "string \<Rightarrow> (string \<times> string) res" where
  "split_header arg = (case py_split (CHR ''='') arg of
      [name, val] \<Rightarrow> Inr (name, val) | _ \<Rightarrow> Inl ValueError)"

text \<open>The timeout; \<open>None\<close> means that there is none. \<open>float\<close> is an argument.\<close>

definition timeout_check :: "(string \<Rightarrow> rat res) \<Rightarrow> string \<Rightarrow> rat option res" where
  "timeout_check float_of arg = (case float_of arg of
      Inl TypeError \<Rightarrow> Inl ArgumentTypeError
    | Inl ValueError \<Rightarrow> Inl ArgumentTypeError
    | Inl e \<Rightarrow> Inl e
    | Inr r \<Rightarrow> if r < 0 then Inl ArgumentTypeError else if r = 0 then Inr None else Inr (Some r))"

subsection \<open>\<open>parse_args\<close>\<close>

record cli_args =
  ag_server :: "string option"
  ag_instance :: string
  ag_uds_urlpath :: string
  ag_header :: "(string \<times> string) list option"
  ag_verbose :: bool
  ag_debug :: bool
  ag_timeout :: "rat option"
  ag_cafile :: "string option"
  ag_certfile :: "string option"
  ag_keyfile :: "string option"
  ag_gssapi :: bool
  ag_sub :: string
  ag_command :: string
  ag_name :: string
  ag_value :: string

definition instance_socket :: "string \<Rightarrow> string" where
  "instance_socket inst = ''/var/run/custodia/'' @ inst @ ''.sock''"

text \<open>The URL of the server, from the arguments.\<close>

definition base_server :: "cli_args \<Rightarrow> string" where
  "base_server a = (case ag_server a of
      Some (c # cs) \<Rightarrow> c # cs
    | _ \<Rightarrow> ''http+unix://'' @ url_escape (\<lambda>_. False) (instance_socket (ag_instance a)))"

definition server_url :: "cli_args \<Rightarrow> string" where
  "server_url a =
     (let server = base_server a
      in if startswith server ''http+unix://'' \<and> \<not> endswith server ''/''
         then (let udspath = ag_uds_urlpath a in
               server @ (if \<not> startswith udspath ''/'' then CHR ''/'' # udspath else udspath))
         else server)"

text \<open>
  \<open>main_parser.error\<close> ends the program; here it is \<open>ArgumentTypeError\<close>. The first argument says
  whether the package \<open>requests_gssapi\<close> is there. The result has the arguments with their
  changes and the configured client.
\<close>

definition cli_client :: "cli_args \<Rightarrow> client" where
  "cli_client a =
     (let c0 = (new_client (server_url a))\<lparr>cl_timeout := ag_timeout a\<rparr>;
          c1 = (case ag_header a of None \<Rightarrow> c0
                | Some hs \<Rightarrow> c0\<lparr>cl_headers := dict_update (cl_headers c0) hs\<rparr>)
      in if truthy (ag_cafile a) then set_ca_cert (the (ag_cafile a)) c1 else c1)"

definition use_client_cert :: "cli_args \<Rightarrow> client \<Rightarrow> client" where
  "use_client_cert a c =
     (let c3 = set_client_cert (the (ag_certfile a)) (ag_keyfile a) c
      in c3\<lparr>cl_headers := dict_put ''CUSTODIA_CERT_AUTH'' ''true'' (cl_headers c3)\<rparr>)"

definition parse_args :: "bool \<Rightarrow> cli_args \<Rightarrow> (cli_args \<times> client) res" where
  "parse_args gssapi_there a =
     (if truthy (ag_keyfile a) \<and> \<not> truthy (ag_certfile a) then Inl ArgumentTypeError
      else if ag_gssapi a \<and> truthy (ag_certfile a) then Inl ArgumentTypeError
      else if ag_gssapi a \<and> \<not> gssapi_there then Inl ArgumentTypeError
      else
        rbind (if truthy (ag_certfile a) then Inr (use_client_cert a (cli_client a))
               else if ag_gssapi a then set_gssapi_auth gssapi_there (cli_client a)
               else Inr (cli_client a)) (\<lambda>c.
          Inr (a\<lparr>ag_verbose := ag_verbose a \<or> ag_debug a, ag_server := Some (server_url a)\<rparr>, c)))"

subsection \<open>Commands\<close>

datatype cli_result = RNone | RText json | RLines "string list"

text \<open>
  \<open>handle_plugins\<close>: for each group its heading, its entry points (shown when they resolve, and
  in verbose mode also when they do not), and an empty line, the last of which is dropped.
\<close>

definition PLUGINS :: "string list" where
  "PLUGINS = [''custodia.authenticators'', ''custodia.authorizers'', ''custodia.clients'',
              ''custodia.consumers'', ''custodia.stores'']"

record entry_point =
  ep_name :: string
  ep_text :: string
  ep_error :: "string option"

definition plugin_lines :: "bool \<Rightarrow> entry_point list \<Rightarrow> string list" where
  "plugin_lines verbose eps = concat (map (\<lambda>ep. case ep_error ep of
      None \<Rightarrow> [ep_text ep]
    | Some err \<Rightarrow> if verbose then [''**ERR** '' @ ep_text ep @ '' ('' @ err @ '')''] else [])
     (sort_key ep_name eps))"

definition handle_plugins :: "(string \<Rightarrow> entry_point list) \<Rightarrow> bool \<Rightarrow> string list" where
  "handle_plugins groups verbose = butlast (concat (map (\<lambda>p.
     [''['' @ p @ '']''] @ plugin_lines verbose (groups p) @ [[]]) PLUGINS))"

text \<open>\<open>handle_name\<close>, \<open>handle_name_value\<close> and the commands their sub-parsers select;
  another command is an error of the parser.\<close>

definition run_command :: "'w http_lib \<Rightarrow> (string \<Rightarrow> entry_point list) \<Rightarrow> client \<Rightarrow> cli_args
     \<Rightarrow> ('w, 'k, cli_result) call" where
  "run_command lib groups cl a =
     (if ag_sub a = ''mkdir'' then
        py_bind (simple_create_container lib cl (ag_name a)) (\<lambda>_. py_return RNone)
      else if ag_sub a = ''rmdir'' then
        py_bind (simple_delete_container lib cl (ag_name a)) (\<lambda>_. py_return RNone)
      else if ag_sub a = ''ls'' then
        py_bind (simple_list_container lib cl (ag_name a)) (\<lambda>j. py_return (RText j))
      else if ag_sub a = ''get'' then
        py_bind (simple_get_secret lib cl (ag_name a)) (\<lambda>j. py_return (RText j))
      else if ag_sub a = ''set'' then
        py_bind (simple_set_secret lib cl (ag_name a) (JStr (ag_value a))) (\<lambda>_. py_return RNone)
      else if ag_sub a = ''del'' then
        py_bind (simple_del_secret lib cl (ag_name a)) (\<lambda>_. py_return RNone)
      else if ag_sub a = ''plugins'' then py_return (RLines (handle_plugins groups (ag_verbose a)))
     else py_raise ArgumentTypeError)"

subsection \<open>Errors\<close>

definition E_HTTP_ERROR :: int where "E_HTTP_ERROR = 1"
definition E_CONNECTION_ERROR :: int where "E_CONNECTION_ERROR = 2"
definition E_JSON_ERROR :: int where "E_JSON_ERROR = 3"
definition E_OTHER :: int where "E_OTHER = 100"

text \<open>An exception, as the report sees it: its kind, its class name and its text.\<close>

datatype error_kind = HttpErr | ConnErr | JsonErr | OtherErr

record cli_error =
  er_kind :: error_kind
  er_class :: string
  er_text :: string
  er_inner :: string
  er_trace :: string

definition line :: "string \<Rightarrow> string" where
  "line s = s @ [CHR 0x0A]"

text \<open>
  The text is put together first and then filled in by \<open>format\<close>; \<open>parts\<close> are the filled-in
  pieces. A stack trace with braces in it makes \<open>format\<close> raise, which is not modelled: the
  trace is taken as it is.
\<close>

definition error_message ::
    "(bytes \<Rightarrow> string) \<Rightarrow> cli_args \<Rightarrow> string \<Rightarrow> cli_error \<Rightarrow> (int \<times> string) res" where
  "error_message dec a server e = rbind (urlparse server) (\<lambda>parts.
     let head = (if ag_debug a then line (er_trace e) else [])
           @ line (''ERROR: Custodia command '' @ squote (ag_sub a @ '' '' @ ag_name a) @ '' failed.'')
           @ (if ag_verbose a then line (''Custodia server '' @ squote server @ ''.'') else [])
     in Inr (case er_kind e of
          HttpErr \<Rightarrow> (E_HTTP_ERROR, head @ line (er_class e @ '': '' @ er_text e))
        | ConnErr \<Rightarrow> (E_CONNECTION_ERROR, head
            @ (if u_scheme parts = ''http+unix''
               then line (''Failed to connect to Unix socket '' @ squote (unquote dec (u_netloc parts)) @ '':'')
               else line (''Failed to connect to '' @ squote (u_netloc parts) @ '' ('' @ u_scheme parts @ ''):''))
            @ line (''    '' @ er_inner e))
        | JsonErr \<Rightarrow> (E_JSON_ERROR, head @ line ''Server returned invalid JSON response:''
            @ line (''    '' @ er_text e))
        | OtherErr \<Rightarrow> (E_OTHER, head @ line (er_class e @ '': '' @ er_text e))))"

text \<open>\<open>main\<close>: what is printed, or the exit code and the report.\<close>

definition cli_main ::
    "(bytes \<Rightarrow> string) \<Rightarrow> (exn \<Rightarrow> cli_error) \<Rightarrow> 'w http_lib \<Rightarrow> (string \<Rightarrow> entry_point list)
     \<Rightarrow> bool \<Rightarrow> cli_args \<Rightarrow> ('w, 'k, cli_result + (int \<times> string)) call" where
  "cli_main dec report lib groups gssapi_there a =
     py_bind (py_lift (parse_args gssapi_there a)) (\<lambda>(a1, cl) c.
       case run_command lib groups cl a1 c of
         (Inr r, c') \<Rightarrow> (Inr (Inl r), c')
       | (Inl e, c') \<Rightarrow>
           (rbind (error_message dec a1 (server_url a) (report e)) (\<lambda>m. Inr (Inr m)), c'))"

subsection \<open>The server's address\<close>

lemma server_check_unix:
  assumes "server_check cwd arg = Inr server" and "startswith arg ''/''"
  shows "server = ''http+unix://'' @ url_escape (\<lambda>_. False) arg"
  using assms by (cases arg) (auto simp: server_check_def startswith_def)

lemma unix_server_end:
  "path \<noteq> [] \<Longrightarrow> \<not> endswith (''http+unix://'' @ url_escape (\<lambda>_. False) path) ''/''"
  using escaped_end [of path] by (simp add: endswith_char)

text \<open>A socket path given on the command line is the socket part of the client's URL.\<close>

lemma server_url_unix:
  assumes "base_server a = ''http+unix://'' @ url_escape (\<lambda>_. False) path" and "path \<noteq> []"
  shows "\<exists>s. server_url a = ''http+unix://'' @ url_escape (\<lambda>_. False) path @ CHR ''/'' # s"
proof -
  have "startswith (''http+unix://'' @ s) ''http+unix://''" for s by (rule startswith_append)
  moreover have "\<exists>s. (if \<not> startswith p ''/'' then CHR ''/'' # p else p) = CHR ''/'' # s" for p
    by (cases p) (auto simp: startswith_def)
  ultimately show ?thesis
    using unix_server_end [OF assms(2)] by (simp add: server_url_def assms(1) Let_def startswith_def)
qed

lemma cl_selects:
  "cl_url (set_ca_cert f c) = cl_url c" "cl_timeout (set_ca_cert f c) = cl_timeout c"
  "cl_url (set_client_cert f k c) = cl_url c" "cl_timeout (set_client_cert f k c) = cl_timeout c"
  "cl_url (new_client u) = u"
  by (simp_all add: set_ca_cert_def set_client_cert_def new_client_def)

lemma cli_client_selects [simp]:
  "cl_url (cli_client a) = server_url a" "cl_timeout (cli_client a) = ag_timeout a"
  by (cases "ag_header a"; simp add: cli_client_def Let_def cl_selects)+

lemma use_client_cert_selects [simp]:
  "cl_url (use_client_cert a c) = cl_url c" "cl_timeout (use_client_cert a c) = cl_timeout c"
  "dict_get (cl_headers (use_client_cert a c)) ''CUSTODIA_CERT_AUTH'' = Some ''true''"
  by (simp_all add: use_client_cert_def Let_def cl_selects)

lemma parse_args_client:
  assumes "parse_args g a = Inr (a1, cl)"
  shows "cl_url cl = server_url a \<and> cl_timeout cl = ag_timeout a \<and> ag_server a1 = Some (server_url a)
    \<and> (truthy (ag_certfile a) \<longrightarrow> dict_get (cl_headers cl) ''CUSTODIA_CERT_AUTH'' = Some ''true''
         \<and> \<not> ag_gssapi a)"
  using assms by (auto simp: parse_args_def set_gssapi_auth_def split: if_splits)

lemma error_code:
  assumes "error_message dec a server e = Inr (n, msg)"
  shows "n \<in> {1, 2, 3, 100} \<and> (n = 1) = (er_kind e = HttpErr) \<and> (n = 2) = (er_kind e = ConnErr)
    \<and> (n = 3) = (er_kind e = JsonErr) \<and> last msg = CHR 0x0A"
  using assms
  by (auto simp: error_message_def Let_def E_HTTP_ERROR_def E_CONNECTION_ERROR_def E_JSON_ERROR_def
      E_OTHER_def line_def elim!: rbind_InrE split: error_kind.splits)

text \<open>C35: A client that is given an instance name and no server address connects, for every path it
  requests, to the very socket that a server of that instance listens on when its configuration
  names none.\<close>

theorem client_finds_server:
  assumes "\<And>s. dec (utf8_encode s) = s"
    and "cfg_get p DEFAULTSECT ''socketdir'' = Inr (Some ''/var/run/custodia'')"
    and "choose_socket p (Some inst) None None = Inr (Some sock)"
    and "instance_check inst = Inr (ag_instance a)" and "inst \<noteq> []" and "ag_server a = None"
    and "parse_args g a = Inr (a1, cl)"
  shows "HTTPUnixAdapter_get_connection dec (join_url cl path) = Inr (HTTPUnixConnectionPool sock)
    \<and> startswith (join_url cl path) ''http+unix://''"
proof -
  from assms(4) have i: "ag_instance a = inst" "\<not> startswith inst ''/''"
    by (auto simp: instance_check_def startswith_def prefix_def split: if_splits)
  have "sock = path_join ''/var/run/custodia'' [inst @ ''.sock'']"
    using assms(2,3,5) by (cases inst) (auto simp: choose_socket_def truthy_def)
  moreover have "\<not> startswith (inst @ ''.sock'') ''/''"
    using i(2) assms(5) by (cases inst) (auto simp: startswith_def)
  ultimately have sock: "sock = instance_socket inst"
    by (simp add: instance_socket_def endswith_char)
  then have b: "base_server a = ''http+unix://'' @ url_escape (\<lambda>_. False) sock"
    by (simp add: base_server_def assms(6) i)
  have ne: "sock \<noteq> []" by (simp add: sock instance_socket_def)
  from server_url_unix [OF b ne] parse_args_client [OF assms(7)] obtain s where
    u: "cl_url cl = ''http+unix://'' @ url_escape (\<lambda>_. False) sock @ CHR ''/'' # s" by auto
  have "HTTPUnixAdapter_get_connection dec (join_url cl path) = Inr (HTTPUnixConnectionPool sock)"
    by (rule adapter_socket [OF assms(1) ne u]) simp
  moreover obtain rest where "join_url cl path = ''http+unix://'' @ url_escape (\<lambda>_. False) sock @ CHR ''/'' # rest"
    using join_url_unix [OF u _ ne] by auto
  ultimately show ?thesis by (simp add: startswith_def)
qed

theorem client_finds_server_witness:
  "\<exists>a a1 cl. ag_instance a = ''ipa'' \<and> parse_args False a = Inr (a1, cl)
    \<and> HTTPUnixAdapter_get_connection utf8_decode (join_url cl ''alice/key'')
      = Inr (HTTPUnixConnectionPool ''/var/run/custodia/ipa.sock'')"
proof -
  define a where "a = \<lparr>ag_server = None, ag_instance = ''ipa'', ag_uds_urlpath = ''/secrets/'', ag_header = None,
    ag_verbose = False, ag_debug = False, ag_timeout = None, ag_cafile = None, ag_certfile = None,
    ag_keyfile = None, ag_gssapi = False, ag_sub = ''ls'', ag_command = ''ls'', ag_name = ''/'', ag_value = []\<rparr>"
  have p: "cfg_get sample_parser DEFAULTSECT ''socketdir'' = Inr (Some ''/var/run/custodia'')"
    "choose_socket sample_parser (Some ''ipa'') None None = Inr (Some ''/var/run/custodia/ipa.sock'')"
    "instance_check ''ipa'' = Inr ''ipa''" by code_simp+
  have a: "ag_instance a = ''ipa''" "ag_server a = None" by (simp_all add: a_def)
  obtain a1 cl where c: "parse_args False a = Inr (a1, cl)"
    by (simp add: parse_args_def a_def truthy_def)
  from client_finds_server [OF utf8_decode_encode p(1,2) _ _ a(2) c] p(3) a(1)
  have "HTTPUnixAdapter_get_connection utf8_decode (join_url cl ''alice/key'')
      = Inr (HTTPUnixConnectionPool ''/var/run/custodia/ipa.sock'')" by simp
  with a(1) c show ?thesis by blast
qed

end
