(* ===== verification/Forwarder.thy ===== *)
theory Forwarder
  imports Client Consumer
begin

text \<open>
  \<open>src/custodia/forwarder.py\<close>: a consumer that passes requests on to another server. The world
  behind its HTTP client is the world of the request, so it fits the consumers of the pipeline.

  Shown: the replies of the other server come back with their status, errors as errors; a
  forwarded request carries the identity of every forwarder it has passed, so that a request
  that comes back is refused before anything is sent; the path keeps the user's prefix.
\<close>

record forwarder =
  fw_client :: client
  fw_uuid :: string
  fw_headers :: "(string \<times> string) list"
  fw_prefix_remote_user :: bool

definition loop_header :: string where
  "loop_header = ''X-LOOP-CUSTODIA''"

text \<open>The options as the plugin has read them; \<open>uuid\<close> is \<open>str(uuid.uuid4())\<close>.\<close>

record forwarder_options =
  fo_forward_uri :: string
  fo_tls_cafile :: "string option"
  fo_tls_certfile :: "string option"
  fo_tls_keyfile :: "string option"
  fo_forward_headers :: "(string \<times> string) list"
  fo_prefix_remote_user :: bool
  fo_timeout :: rat

definition Forwarder_init :: "forwarder_options \<Rightarrow> string \<Rightarrow> forwarder" where
  "Forwarder_init fo uuid =
     (let c0 = new_client (fo_forward_uri fo);
          c1 = (case fo_tls_certfile fo of None \<Rightarrow> c0 | Some f \<Rightarrow> set_client_cert f (fo_tls_keyfile fo) c0);
          c2 = (case fo_tls_cafile fo of None \<Rightarrow> c1 | Some f \<Rightarrow> set_ca_cert f c1)
      in \<lparr>fw_client = c2\<lparr>cl_timeout := Some (fo_timeout fo)\<rparr>, fw_uuid = uuid,
          fw_headers = dict_put loop_header uuid (fo_forward_headers fo),
          fw_prefix_remote_user = fo_prefix_remote_user fo\<rparr>)"

definition forward_path :: "forwarder \<Rightarrow> 'w request \<Rightarrow> string" where
  "forward_path fw req =
     (let trail = (case rq_trail req of None \<Rightarrow> [] | Some t \<Rightarrow> t);
          prefix = (if fw_prefix_remote_user fw
             then [rstrip_ch (CHR ''/'') (case rq_remote_user req of None \<Rightarrow> ''guest'' | Some u \<Rightarrow> u)]
             else [])
      in py_join ''/'' (prefix @ trail))"

text \<open>A key that is not there cannot be extended: \<open>headers[k] += v\<close> raises \<open>KeyError\<close>.\<close>

definition forward_headers :: "forwarder \<Rightarrow> 'w request \<Rightarrow> (string \<times> string) list res" where
  "forward_headers fw req = (let headers = dict_update [] (fw_headers fw) in
     case header_get (rq_headers req) loop_header of
       None \<Rightarrow> Inr headers
     | Some loop \<Rightarrow> rbind (of_option KeyError (dict_get headers loop_header)) (\<lambda>old.
         Inr (dict_put loop_header (old @ '','' @ loop) headers)))"

definition forward_response :: "reply \<Rightarrow> ('w, 'k, unit) act" where
  "forward_response r =
     (if rp_status r < 200 \<or> rp_status r > 299 then py_raise (HTTPError (rp_status r))
      else py_bind (upd_resp (set_code (rp_status r))) (\<lambda>_.
        py_when (rp_content r \<noteq> [])
          (upd_resp (\<lambda>p. p\<lparr>rs_output := Some (OBytes (rp_content r))\<rparr>))))"

definition send_call ::
    "'w http_lib \<Rightarrow> client \<Rightarrow> string \<Rightarrow> string \<Rightarrow> kwargs \<Rightarrow> ('w, 'k, reply) act" where
  "send_call lib cl cmd path kw = on_store (hl_send lib cmd (the_call cl path kw))"

definition forward_request ::
    "'w http_lib \<Rightarrow> forwarder \<Rightarrow> string \<Rightarrow> 'w request \<Rightarrow> bool \<Rightarrow> ('w, 'k, unit) act" where
  "forward_request lib fw cmd req with_body =
     py_bind (py_lift (forward_headers fw req)) (\<lambda>headers.
       if str_contains (case header_get (rq_headers req) loop_header of None \<Rightarrow> [] | Some v \<Rightarrow> v)
            (fw_uuid fw)
       then py_raise (HTTPError 502)
       else py_bind (send_call lib (fw_client fw) cmd (forward_path fw req)
               \<lparr>kw_headers = Some headers, kw_params = Some (rq_query req), kw_json = None,
                kw_data = (if with_body then rq_body req else None)\<rparr>) forward_response)"

definition Forwarder_GET :: "'w http_lib \<Rightarrow> forwarder \<Rightarrow> 'w request \<Rightarrow> ('w, 'k, unit) act" where
  "Forwarder_GET lib fw req = forward_request lib fw ''GET'' req False"

definition Forwarder_PUT :: "'w http_lib \<Rightarrow> forwarder \<Rightarrow> 'w request \<Rightarrow> ('w, 'k, unit) act" where
  "Forwarder_PUT lib fw req = forward_request lib fw ''PUT'' req True"

definition Forwarder_DELETE :: "'w http_lib \<Rightarrow> forwarder \<Rightarrow> 'w request \<Rightarrow> ('w, 'k, unit) act" where
  "Forwarder_DELETE lib fw req = forward_request lib fw ''DELETE'' req False"

definition Forwarder_POST :: "'w http_lib \<Rightarrow> forwarder \<Rightarrow> 'w request \<Rightarrow> ('w, 'k, unit) act" where
  "Forwarder_POST lib fw req = forward_request lib fw ''POST'' req True"

definition forwarder_consumer :: "'w http_lib \<Rightarrow> forwarder \<Rightarrow> ('w, 'k) consumer" where
  "forwarder_consumer lib fw = ConsumerObj
     [(''GET'', \<lambda>req. no_output (Forwarder_GET lib fw req)),
      (''PUT'', \<lambda>req. no_output (Forwarder_PUT lib fw req)),
      (''DELETE'', \<lambda>req. no_output (Forwarder_DELETE lib fw req)),
      (''POST'', \<lambda>req. no_output (Forwarder_POST lib fw req))] []"

subsection \<open>Headers\<close>

definition fw_ok :: "forwarder \<Rightarrow> bool" where
  "fw_ok fw = (distinct (map fst (fw_headers fw)) \<and> dict_get (fw_headers fw) loop_header = Some (fw_uuid fw)
    \<and> cl_headers (fw_client fw) = DEFAULT_HEADERS)"

lemma Forwarder_init_ok:
  "distinct (map fst (fo_forward_headers fo)) \<Longrightarrow> fw_ok (Forwarder_init fo uuid)"
  by (auto simp: fw_ok_def Forwarder_init_def Let_def dict_put_distinct new_client_def set_ca_cert_def
      set_client_cert_def split: option.splits)

text \<open>The loop header of a request, empty when there is none.\<close>

definition loop_of :: "'w request \<Rightarrow> string" where
  "loop_of req = (case header_get (rq_headers req) loop_header of None \<Rightarrow> [] | Some v \<Rightarrow> v)"

lemma forward_headers_Inr:
  assumes "fw_ok fw"
  shows "\<exists>hs. forward_headers fw req = Inr hs
    \<and> dict_get hs loop_header = Some (case header_get (rq_headers req) loop_header of
         None \<Rightarrow> fw_uuid fw | Some l \<Rightarrow> fw_uuid fw @ '','' @ l)
    \<and> (\<forall>n. n \<noteq> loop_header \<longrightarrow> dict_get hs n = dict_get (fw_headers fw) n)"
  using assms
  by (auto simp: forward_headers_def fw_ok_def Let_def dict_get_update split: option.splits)

text \<open>What is sent has the forwarder's own mark and every mark the request came with.\<close>

lemma forward_marks:
  assumes "fw_ok fw" and "forward_headers fw req = Inr hs"
  shows "\<exists>l. dict_get hs loop_header = Some l \<and> str_contains l (fw_uuid fw)
    \<and> (\<forall>u. u \<noteq> [] \<and> str_contains (loop_of req) u \<longrightarrow> str_contains l u)"
proof -
  from forward_headers_Inr [OF assms(1), of req] assms(2) have
    l: "dict_get hs loop_header = Some (case header_get (rq_headers req) loop_header of
         None \<Rightarrow> fw_uuid fw | Some l \<Rightarrow> fw_uuid fw @ '','' @ l)" by auto
  show ?thesis
  proof (cases "header_get (rq_headers req) loop_header")
    case None
    then show ?thesis
      using l str_contains_append [of "[]" "fw_uuid fw" "[]"] by (simp add: loop_of_def)
  next
    case (Some v)
    then have "dict_get hs loop_header = Some (fw_uuid fw @ '','' @ v)" using l by simp
    moreover have "str_contains (fw_uuid fw @ '','' @ v) (fw_uuid fw)"
      using str_contains_append [of "[]"] by simp
    moreover have "str_contains v u \<Longrightarrow> str_contains (fw_uuid fw @ '','' @ v) u" for u
      using str_contains_mono [of v u "fw_uuid fw @ '',''" "[]"] by simp
    ultimately show ?thesis using Some by (auto simp: loop_of_def)
  qed
qed

text \<open>A request that has been here is refused and nothing is sent.\<close>

lemma loop_refused:
  assumes "fw_ok fw" and "str_contains (loop_of req) (fw_uuid fw)"
  shows "forward_request lib fw cmd req b c = (Inl (HTTPError 502), c)"
proof -
  from forward_headers_Inr [OF assms(1), of req] obtain hs where "forward_headers fw req = Inr hs" by blast
  with assms(2) show ?thesis
    by (simp add: forward_request_def loop_of_def py_bind_def py_lift_def py_raise_def)
qed

text \<open>A request that is new here is sent once, and the reply decides.\<close>

lemma forward_sent:
  assumes "fw_ok fw" and "\<not> str_contains (loop_of req) (fw_uuid fw)"
    and "forward_headers fw req = Inr hs"
  shows "forward_request lib fw cmd req b c =
    py_bind (send_call lib (fw_client fw) cmd (forward_path fw req)
       \<lparr>kw_headers = Some hs, kw_params = Some (rq_query req), kw_json = None,
        kw_data = (if b then rq_body req else None)\<rparr>) forward_response c"
  using assms by (simp add: forward_request_def loop_of_def py_bind_def py_lift_def)

text \<open>The path of the forwarded request starts with the user and keeps the segments.\<close>

lemma forward_path_prefix:
  assumes "fw_prefix_remote_user fw" and "rq_remote_user req = Some u" and "rq_trail req = Some t"
    and "t \<noteq> []"
  shows "forward_path fw req = rstrip_ch (CHR ''/'') u @ ''/'' @ py_join ''/'' t"
  using assms by (simp add: forward_path_def py_join_Cons)

subsection \<open>Loops\<close>

text \<open>The requests that arise from \<open>req\<close> when forwarders pass it on: each has the loop header its
  predecessor was sent with, and is free otherwise.\<close>

inductive travels :: "'w request \<Rightarrow> 'w request \<Rightarrow> bool" for req where
  here: "travels req req"
| pass: "travels req r1 \<Longrightarrow> fw_ok f \<Longrightarrow> forward_headers f r1 = Inr hs \<Longrightarrow>
    header_get (rq_headers r2) loop_header = dict_get hs loop_header \<Longrightarrow> travels req r2"

lemma loop_of_sent:
  assumes "fw_ok f" and "forward_headers f r1 = Inr hs"
    and "header_get (rq_headers r2) loop_header = dict_get hs loop_header"
  shows "str_contains (loop_of r2) (fw_uuid f)
    \<and> (u \<noteq> [] \<and> str_contains (loop_of r1) u \<longrightarrow> str_contains (loop_of r2) u)"
proof -
  from forward_marks [OF assms(1,2)] obtain l where
    "dict_get hs loop_header = Some l" "str_contains l (fw_uuid f)"
    "\<forall>u. u \<noteq> [] \<and> str_contains (loop_of r1) u \<longrightarrow> str_contains l u" by blast
  moreover from this assms(3) have "loop_of r2 = l" by (simp add: loop_of_def)
  ultimately show ?thesis by blast
qed

lemma travels_mark:
  "travels req r \<Longrightarrow> u \<noteq> [] \<Longrightarrow> str_contains (loop_of req) u \<Longrightarrow> str_contains (loop_of r) u"
  by (induction rule: travels.induct) (use loop_of_sent in blast)+

text \<open>C29: A request that a forwarder has passed on, and that comes back to it after any number of
  further forwarders, is refused with 502 and nothing is sent or changed.\<close>

theorem loop_broken:
  assumes "fw_ok fw" and "fw_uuid fw \<noteq> []" and "forward_headers fw req = Inr hs"
    and "header_get (rq_headers r1) loop_header = dict_get hs loop_header" and "travels r1 r2"
  shows "forward_request lib fw cmd r2 b c = (Inl (HTTPError 502), c)"
proof -
  have "str_contains (loop_of r1) (fw_uuid fw)" using loop_of_sent [OF assms(1,3,4)] by blast
  then have "str_contains (loop_of r2) (fw_uuid fw)" by (rule travels_mark [OF assms(5,2)])
  then show ?thesis by (rule loop_refused [OF assms(1)])
qed

definition sample_forwarder :: "string \<Rightarrow> forwarder" where
  "sample_forwarder uuid = Forwarder_init \<lparr>fo_forward_uri = ''https://next/secrets'', fo_tls_cafile = None,
     fo_tls_certfile = None, fo_tls_keyfile = None, fo_forward_headers = [], fo_prefix_remote_user = True,
     fo_timeout = 10\<rparr> uuid"

theorem loop_broken_witness:
  "forward_request \<lparr>hl_send = (\<lambda>cmd call. py_raise IOError), hl_raise = (\<lambda>r. Inr ()), hl_json = (\<lambda>r. Inr JNull)\<rparr> (sample_forwarder ''id-1'') ''GET''
     (sample_request ''GET'' ''/secrets/key'' [(''X-LOOP-CUSTODIA'', ''id-2,id-1'')]) False
     (sample_ctx () :: (unit, unit) ctx) = (Inl (HTTPError 502), sample_ctx ())"
proof -
  let ?r = "\<lambda>hs. sample_request ''GET'' ''/secrets/key'' hs :: unit request"
  have ok: "fw_ok (sample_forwarder u)" for u
    unfolding sample_forwarder_def by (rule Forwarder_init_ok) simp
  have id: "fw_uuid (sample_forwarder u) = u" "fw_headers (sample_forwarder u) = [(loop_header, u)]" for u
    by (simp_all add: sample_forwarder_def Forwarder_init_def)
  have g: "header_get [(''X-LOOP-CUSTODIA'', v)] loop_header = Some v" for v
    by (simp add: header_get_def loop_header_def)
  have h1: "forward_headers (sample_forwarder ''id-1'') (?r []) = Inr [(loop_header, ''id-1'')]"
    by (simp add: forward_headers_def id header_get_def)
  have h2: "forward_headers (sample_forwarder ''id-2'') (?r [(''X-LOOP-CUSTODIA'', ''id-1'')])
      = Inr [(loop_header, ''id-2,id-1'')]"
    by (simp add: forward_headers_def id g)
  have "travels (?r [(''X-LOOP-CUSTODIA'', ''id-1'')]) (?r [(''X-LOOP-CUSTODIA'', ''id-2,id-1'')])"
    by (rule pass [OF here ok h2]) (simp add: g)
  then show ?thesis
    by (intro loop_broken [OF ok _ h1, of "?r [(''X-LOOP-CUSTODIA'', ''id-1'')]"]) (simp_all add: id g)
qed

end
