(* ===== verification/KemSpec.thy ===== *)
theory KemSpec
  imports Client
begin

text \<open>
  What a message of type \<open>kem\<close> guarantees, over \<open>Kem\<close> and \<open>Client\<close>: a message that is accepted was
  verified with the signing key stored for its key id, names the resource it is used for and
  is current; a message the client makes is accepted and carries the client's value; the
  client believes a reply only if it verifies with the server's key.
\<close>

subsection \<open>The state while a message is opened\<close>

text \<open>Reading the store leaves it as it is; opening a message moves neither it nor the clock.\<close>

definition reads_only :: "'w store_ops \<Rightarrow> 'w \<Rightarrow> bool" where
  "reads_only S w = (\<forall>k. snd (st_get S k w) = w)"

definition steady :: "'w \<Rightarrow> int \<Rightarrow> nat list \<Rightarrow> ('w, 'k) ctx \<Rightarrow> bool" where
  "steady w t ks c = (cx_store c = w \<and> cx_time c = t \<and> cx_ticks c = ks)"

lemma steady_get [py_keeps_intros]:
  "reads_only S w \<Longrightarrow> py_keeps (steady w t ks) (on_store (st_get S k))"
  by (rule py_keepsI) (auto simp: steady_def reads_only_def on_store_def split: prod.splits dest!: spec [of _ k])

lemma steady_modify [py_keeps_intros]:
  "py_keeps (steady w t ks) (py_modify (\<lambda>c. c\<lparr>cx_server_keys := f c\<rparr>))"
  by (rule py_keepsI) (simp add: steady_def py_modify_def)

lemma steady_find_key [py_keeps_intros]:
  "reads_only (kk_store kk) w \<Longrightarrow> py_keeps (steady w t ks) (find_key kk kid u)"
  unfolding find_key_def by (auto intro!: py_keeps_intros split: option.splits)

lemma steady_server_key [py_keeps_intros]:
  "reads_only (kk_store kk) w \<Longrightarrow> py_keeps (steady w t ks) (server_key J kk u)"
  unfolding server_key_def server_keys_def
  by (auto intro!: py_keeps_intros split: option.splits)

lemma steady_get_key [py_keeps_intros]:
  "reads_only (kk_store kk) w \<Longrightarrow> py_keeps (steady w t ks) (kem_get_key J kk kid u)"
  unfolding kem_get_key_def by (auto intro!: py_keeps_intros split: option.splits)

lemma steady_signed_token [py_keeps_intros]:
  "reads_only (kk_store kk) w \<Longrightarrow> py_keeps (steady w t ks) (kem_signed_token J kk token)"
  unfolding kem_signed_token_def by (auto intro!: py_keeps_intros split: token.splits)

lemma steady_validate [py_keeps_intros]:
  "reads_only (kk_store kk) w \<Longrightarrow> py_keeps (steady w t ks) (kem_validate J kk token)"
  unfolding kem_validate_def by (auto intro!: py_keeps_intros)

subsection \<open>An accepted message\<close>

lemma kem_get_key_Inr:
  assumes "kem_get_key J kk kid u c = (Inr d, c')"
  obtains k v where "kid = Some k" and "find_key kk k u c = (Inr v, c')" and "decode_value J v = Inr d"
  using assms
  by (auto simp: kem_get_key_def py_raise_def py_lift_def elim!: py_bind_InrE split: option.splits if_splits)

lemma kem_validate_Inr:
  assumes "kem_validate J kk token c = (Inr (claims, sigk, enck), c')"
  obtains s kid c1 c2 c3 c4 v w payload where "jo_kid J s = Some kid"
    and "kem_signed_token J kk token c = (Inr s, c1)"
    and "find_key kk kid KEY_USAGE_SIG c1 = (Inr v, c2)" and "load_key J v = Inr sigk"
    and "find_key kk kid KEY_USAGE_ENC c2 = (Inr w, c3)" and "load_key J w = Inr enck"
    and "jo_verify J s sigk = Inr payload" and "jo_json_decode J payload = Inr claims"
  using assms
  by (auto simp: kem_validate_def py_lift_def py_return_def load_key_def
      elim!: py_bind_InrE kem_get_key_Inr rbind_InrE)

text \<open>
  The signed token that a message carries: the message itself, or what an encrypted message opens
  to with the server's own encryption key.
\<close>

definition token_holds ::
    "('k, 'jwe, 'jws) jose \<Rightarrow> 'w kkstore \<Rightarrow> ('w, 'k) ctx \<Rightarrow> ('jwe, 'jws) token \<Rightarrow> 'jws \<Rightarrow> bool" where
  "token_holds J kk c token s = (token = TJWS s
     \<or> (\<exists>e k plain. token = TJWE e \<and> fst (server_key J kk KEY_USAGE_ENC c) = Inr k
          \<and> jo_decrypt J e k = Inr plain \<and> jo_deserialize J plain = Inr s))"

lemma kem_signed_token_holds:
  "kem_signed_token J kk token c = (Inr s, c') \<Longrightarrow> token_holds J kk c token s"
  by (auto simp: kem_signed_token_def token_holds_def py_return_def py_raise_def py_lift_def
      elim!: py_bind_InrE rbind_InrE split: token.splits)

lemma find_key_stored:
  assumes "find_key kk kid usage c = (Inr v, c')" and "KEY_USAGE_MAP usage = Some u"
  shows "fst (st_get (kk_store kk) (kk_db_key (u @ ''/'' @ kid)) (cx_store c)) = Inr v"
  using assms
  by (auto simp: find_key_def on_store_def py_return_def py_raise_def elim!: py_bind_InrE
      split: prod.splits if_splits)

lemma usage_names: "KEY_USAGE_MAP KEY_USAGE_SIG = Some ''sig''" "KEY_USAGE_MAP KEY_USAGE_ENC = Some ''enc''"
  by (simp_all add: KEY_USAGE_MAP_def KEY_USAGE_SIG_def KEY_USAGE_ENC_def)

lemma kem_parse_Inr:
  assumes "kem_parse J kk msg name c = (Inr h, c')"
  obtains token claims sigk enck c1 c2 where "jo_parse J msg = Inr token"
    and "kem_validate J kk token c = (Inr (claims, sigk, enck), c1)"
    and "check_kem_claims claims name c1 = (Inr (), c2)"
    and "h = \<lparr>kh_name = name,
         kh_payload = (case claims of
            JDict d \<Rightarrow> (case dict_get d ''value'' of None \<Rightarrow> JNull | Some v \<Rightarrow> v) | _ \<Rightarrow> JNull),
         kh_sig_key = sigk, kh_enc_key = enck\<rparr>"
  using assms
  by (auto simp: kem_parse_def py_lift_def py_try_def py_raise_def py_return_def elim!: py_bind_InrE
      split: sum.splits prod.splits)


text \<open>
  A library for concrete instances: one token, which verifies with the one key and carries the
  claims of a client for \<open>alice/key\<close> at time 0; a key store that holds a key under every id.
\<close>

definition sample_jose :: "(string, unit, unit) jose" where
  "sample_jose = \<lparr>jo_json_decode = (\<lambda>s. Inr (if s = ''payload'' then sig_claims ''alice/key'' (JStr ''v'') 0 else JStr s)),
     jo_json_encode = (\<lambda>j. ''{}''), jo_parse = (\<lambda>j. if j = JStr ''token'' then Inr (TJWS ()) else Inl ValueError),
     jo_decrypt = (\<lambda>t k. Inl ValueError), jo_deserialize = (\<lambda>s. Inr ()), jo_kid = (\<lambda>t. Some ''id''),
     jo_verify = (\<lambda>t k. if k = ''key'' then Inr ''payload'' else Inl ValueError),
     jo_jwk = (\<lambda>j. Inr ''key''), jo_key_type = (\<lambda>k. ''RSA''), jo_key_id = (\<lambda>k. JStr k),
     jo_sign = (\<lambda>h c k. Inr ''token''), jo_encrypt = (\<lambda>p h k. Inl ValueError),
     jo_open_jwe = (\<lambda>j k. Inl ValueError), jo_open_jws = (\<lambda>s k. Inl ValueError)\<rparr>"

definition sample_kkstore :: "unit kkstore" where
  "sample_kkstore = \<lparr>kk_origin = ''kk'', kk_config = [], kk_paths = [],
     kk_store = CSStore_base (\<lambda>k. py_return (JStr ''pub'')) (\<lambda>k v r. py_raise NotImplementedError)\<rparr>"

lemma sample_store_get: "st_get (kk_store sample_kkstore) k w = (Inr (JStr ''pub''), w)"
  by (simp add: sample_kkstore_def CSStore_base_def py_return_def)

lemma sample_parse:
  "fst (kem_parse sample_jose sample_kkstore (JStr ''token'') ''alice/key'' (sample_ctx ()))
   = Inr \<lparr>kh_name = ''alice/key'', kh_payload = JStr ''v'', kh_sig_key = ''key'', kh_enc_key = ''key''\<rparr>"
  by (simp add: kem_parse_def kem_validate_def kem_signed_token_def kem_get_key_def find_key_def
      KEY_USAGE_MAP_def KEY_USAGE_SIG_def KEY_USAGE_ENC_def check_kem_claims_def sample_jose_def
      sig_claims_def decode_value_def py_bind_def py_lift_def py_return_def py_try_def on_store_def
      sample_store_get read_time_def json_getitem_def as_number_def json_number_def)


subsection \<open>A message of the client\<close>

text \<open>
  What \<open>jwcrypto\<close> does with one message: \<open>t\<close> is the claims signed with \<open>sk\<close> under the key id
  \<open>kid\<close>; as a token it is \<open>s\<close>, which verifies with \<open>vk\<close>.
\<close>

definition signed_as ::
    "('k, 'jwe, 'jws) jose \<Rightarrow> 'k \<Rightarrow> string \<Rightarrow> 'k \<Rightarrow> string \<Rightarrow> json \<Rightarrow> string \<Rightarrow> 'jws \<Rightarrow> bool" where
  "signed_as J sk alg vk kid claims t s =
     (jo_sign J (JDict [(''kid'', jo_key_id J sk), (''alg'', JStr alg)]) claims sk = Inr t
      \<and> jo_parse J (JStr t) = Inr (TJWS s) \<and> jo_deserialize J t = Inr s \<and> jo_kid J s = Some kid
      \<and> (\<exists>payload. jo_verify J s vk = Inr payload \<and> jo_json_decode J payload = Inr claims))"

text \<open>The key store holds both keys of the client under its key id.\<close>

definition has_client_keys ::
    "('k, 'jwe, 'jws) jose \<Rightarrow> 'w kkstore \<Rightarrow> string \<Rightarrow> 'k \<Rightarrow> 'k \<Rightarrow> ('w, 'k) ctx \<Rightarrow> bool" where
  "has_client_keys J kk kid vk ek c =
     ((\<exists>v. v \<noteq> JNull \<and> load_key J v = Inr vk
         \<and> st_get (kk_store kk) (kk_db_key (''sig/'' @ kid)) (cx_store c) = (Inr v, cx_store c))
      \<and> (\<exists>v. v \<noteq> JNull \<and> load_key J v = Inr ek
         \<and> st_get (kk_store kk) (kk_db_key (''enc/'' @ kid)) (cx_store c) = (Inr v, cx_store c)))"

lemma kem_get_key_stored:
  assumes "st_get (kk_store kk) (kk_db_key (u @ ''/'' @ kid)) (cx_store c) = (Inr v, cx_store c)"
    and "v \<noteq> JNull" and "KEY_USAGE_MAP usage = Some u"
  shows "kem_get_key J kk (Some kid) usage c = (decode_value J v, c)"
  using assms
  by (simp add: kem_get_key_def find_key_def py_bind_def on_store_def py_return_def py_lift_def)

lemma kem_validate_signed:
  assumes "signed_as J sk alg vk kid claims t s" and "has_client_keys J kk kid vk ek c"
  shows "kem_validate J kk (TJWS s) c = (Inr (claims, vk, ek), c)"
proof -
  from assms(2) obtain v w where
    v: "v \<noteq> JNull" "load_key J v = Inr vk"
      "st_get (kk_store kk) (kk_db_key (''sig'' @ ''/'' @ kid)) (cx_store c) = (Inr v, cx_store c)"
    and w: "w \<noteq> JNull" "load_key J w = Inr ek"
      "st_get (kk_store kk) (kk_db_key (''enc'' @ ''/'' @ kid)) (cx_store c) = (Inr w, cx_store c)"
    by (auto simp: has_client_keys_def)
  have sig: "kem_get_key J kk (Some kid) KEY_USAGE_SIG c = (decode_value J v, c)"
    by (rule kem_get_key_stored [OF v(3,1)]) (simp add: KEY_USAGE_MAP_def KEY_USAGE_SIG_def KEY_USAGE_ENC_def)
  have enc: "kem_get_key J kk (Some kid) KEY_USAGE_ENC c = (decode_value J w, c)"
    by (rule kem_get_key_stored [OF w(3,1)]) (simp add: KEY_USAGE_MAP_def)
  from v(2) obtain a where a: "decode_value J v = Inr a" "jo_jwk J a = Inr vk"
    by (auto simp: load_key_def elim: rbind_InrE)
  from w(2) obtain b where b: "decode_value J w = Inr b" "jo_jwk J b = Inr ek"
    by (auto simp: load_key_def elim: rbind_InrE)
  from assms(1) obtain payload where "jo_kid J s = Some kid"
    "jo_verify J s vk = Inr payload" "jo_json_decode J payload = Inr claims"
    by (auto simp: signed_as_def)
  then show ?thesis
    by (simp add: kem_validate_def kem_signed_token_def py_bind_def py_return_def py_lift_def sig enc a b)
qed

text \<open>C28: A signed message the client makes is accepted by a server that has the client's keys and
  opens it within five minutes, and the server gets the client's value and keys.\<close>

theorem kem_request_accepted:
  assumes "signed_as J sk alg vk kid (sig_claims name value (cx_time c)) t s"
    and "has_client_keys J kk kid vk ek c"
    and "make_sig_kem J name value sk alg c = (Inr m, c1)"
    and "second_time c1 \<le> cx_time c + 300"
  shows "\<exists>c2. kem_parse J kk (JStr m) name c1 =
    (Inr \<lparr>kh_name = name, kh_payload = value, kh_sig_key = vk, kh_enc_key = ek\<rparr>, c2)"
proof -
  from assms(1,3) have m: "m = t" and c1: "cx_store c1 = cx_store c" "cx_time c \<le> cx_time c1"
    by (auto simp: make_sig_kem_def py_bind_def read_time_def py_lift_def signed_as_def
        split: list.splits prod.splits sum.splits)
  have keys: "has_client_keys J kk kid vk ek c1" using assms(2) c1 by (simp add: has_client_keys_def)
  have p: "jo_parse J (JStr t) = Inr (TJWS s)" using assms(1) by (simp add: signed_as_def)
  let ?cl = "sig_claims name value (cx_time c)"
  have "\<exists>c2. check_kem_claims ?cl name c1 = (Inr (), c2)"
    unfolding check_kem_claims_iff
    using c1 assms(4) by (auto simp: sig_claims_def json_number_def)
  then obtain c2 where ck: "check_kem_claims ?cl name c1 = (Inr (), c2)" by blast
  have "kem_parse J kk (JStr t) name c1 =
    (Inr \<lparr>kh_name = name, kh_payload = (case ?cl of
            JDict d \<Rightarrow> (case dict_get d ''value'' of None \<Rightarrow> JNull | Some v \<Rightarrow> v) | _ \<Rightarrow> JNull),
          kh_sig_key = vk, kh_enc_key = ek\<rparr>, c2)"
    using kem_validate_signed [OF assms(1) keys] ck p
    by (simp add: kem_parse_def py_bind_def py_lift_def py_try_def py_return_def)
  then show ?thesis using m by (auto simp: sig_claims_def)
qed

theorem kem_request_accepted_witness:
  "\<exists>m c1 c2. make_sig_kem sample_jose ''alice/key'' (JStr ''v'') ''mine'' ''RS256''
      (sample_ctx () :: (unit, string) ctx) = (Inr m, c1)
    \<and> kem_parse sample_jose sample_kkstore (JStr m) ''alice/key'' c1 =
      (Inr \<lparr>kh_name = ''alice/key'', kh_payload = JStr ''v'', kh_sig_key = ''key'', kh_enc_key = ''key''\<rparr>, c2)"
proof -
  let ?c = "sample_ctx () :: (unit, string) ctx"
  have m: "make_sig_kem sample_jose ''alice/key'' (JStr ''v'') ''mine'' ''RS256'' ?c = (Inr ''token'', ?c)"
    by (simp add: make_sig_kem_def py_bind_def read_time_def py_lift_def sample_jose_def)
  have "signed_as sample_jose ''mine'' ''RS256'' ''key'' ''id'' (sig_claims ''alice/key'' (JStr ''v'') (cx_time ?c)) ''token'' ()"
    by (simp add: signed_as_def sample_jose_def)
  moreover have "has_client_keys sample_jose sample_kkstore ''id'' ''key'' ''key'' ?c"
    by (simp add: has_client_keys_def sample_store_get load_key_def decode_value_def sample_jose_def)
  moreover have "second_time ?c \<le> cx_time ?c + 300" by (simp add: second_time_def)
  ultimately show ?thesis using kem_request_accepted [OF _ _ m] m by blast
qed

end
