(* ===== verification/IpaVault.thy ===== *)
theory IpaVault
  imports IpaInterface
begin

text \<open>
  \<open>src/custodia/ipa/vault.py\<close>: a store in the vaults of FreeIPA. The vault commands are the
  fields of \<open>vault_api\<close>. \<open>get\<close> gives out the bytes the server returns, so this store is modelled
  with its own types and not as a \<open>store_ops\<close>.

  Shown: mangling is undone by the listing for keys without an underscore before a slash; two
  other keys share one vault; which errors the store reports; a failed archive leaves an
  empty vault behind.
\<close>

subsection \<open>Principals and vault arguments\<close>

definition krb5_unparse_principal_name :: "string \<Rightarrow> (string option \<times> string \<times> string) res" where
  "krb5_unparse_principal_name name = (case py_split (CHR ''@'') name of
      [pre, realm] \<Rightarrow> (case rsplit1 (CHR ''/'') pre of
          Some (service, host) \<Rightarrow> Inr (Some service, host, realm)
        | None \<Rightarrow> Inr (None, pre, realm))
    | _ \<Rightarrow> Inl ValueError)"

datatype vault_args = SharedVault | UserVault string | ServiceVault string

record vault =
  vt_type :: "string option"
  vt_user :: "string option"
  vt_principal :: "string option"

definition init_vault_args :: "vault \<Rightarrow> string option \<Rightarrow> string \<Rightarrow> (vault \<times> vault_args) res" where
  "init_vault_args vt service user_host =
     (let ty = (case vt_type vt of
            None \<Rightarrow> (if service = None then ''user'' else ''service'') | Some t \<Rightarrow> t);
          vt1 = vt\<lparr>vt_type := Some ty\<rparr>
      in if ty = ''shared'' then Inr (vt1, SharedVault)
         else if ty = ''user'' then
           (case vt_user vt of
              Some u \<Rightarrow> Inr (vt1, UserVault u)
            | None \<Rightarrow> if service \<noteq> None then Inl ValueError
                else Inr (vt1\<lparr>vt_user := Some user_host\<rparr>, UserVault user_host))
         else if ty = ''service'' then
           (case vt_principal vt of
              Some p \<Rightarrow> Inr (vt1, ServiceVault p)
            | None \<Rightarrow> (case service of
                None \<Rightarrow> Inl ValueError
              | Some s \<Rightarrow> Inr (vt1\<lparr>vt_principal := Some (s @ ''/'' @ user_host)\<rparr>,
                              ServiceVault (s @ ''/'' @ user_host))))
         else Inl ValueError)"

subsection \<open>Keys\<close>

definition mangle_key :: "string \<Rightarrow> string res" where
  "mangle_key key = (if str_contains key ''__'' then Inl ValueError
     else Inr (replace_ch (CHR ''/'') ''__'' key))"

definition unmangle :: "string \<Rightarrow> string" where
  "unmangle cn = replace_2 (CHR ''_'') (CHR ''_'') ''/'' cn"

subsection \<open>The store\<close>

record 'w vault_api =
  va_ipa :: "'w ipa_api"
  va_config_show :: "('w, string list) py"
  va_retrieve :: "string \<Rightarrow> vault_args \<Rightarrow> ('w, bytes) py"
  va_add :: "string \<Rightarrow> vault_args \<Rightarrow> ('w, unit) py"
  va_archive :: "string \<Rightarrow> bytes \<Rightarrow> vault_args \<Rightarrow> ('w, unit) py"
  va_find :: "vault_args \<Rightarrow> ('w, string list) py"
  va_del :: "string \<Rightarrow> vault_args \<Rightarrow> ('w, unit) py"

definition vault_get :: "'w vault_api \<Rightarrow> vault_args \<Rightarrow> string \<Rightarrow> ('w, bytes option) py" where
  "vault_get A args key = py_bind (py_lift (mangle_key key)) (\<lambda>k.
     with_ipa (va_ipa A)
       (py_try (py_bind (va_retrieve A k args) (\<lambda>d. py_return (Some d)))
          (\<lambda>e. if e = IpaNotFound then py_return None else py_raise CSStoreError)))"

definition on_archive_error :: "exn \<Rightarrow> ('w, 'a) py" where
  "on_archive_error e = (if e = IpaAuthorizationError then py_raise CSStoreDenied else py_raise CSStoreError)"

definition vault_set ::
    "'w vault_api \<Rightarrow> vault_args \<Rightarrow> string \<Rightarrow> string \<Rightarrow> bool \<Rightarrow> ('w, unit) py" where
  "vault_set A args key value replace = py_bind (py_lift (mangle_key key)) (\<lambda>k.
     with_ipa (va_ipa A)
       (py_bind
         (py_try (va_add A k args)
            (\<lambda>e. if e = IpaDuplicateEntry then
                    (if \<not> replace then py_raise CSStoreExists else py_return ())
                  else on_archive_error e))
         (\<lambda>_. py_try (va_archive A k (utf8_encode value) args) on_archive_error)))"

definition vault_span :: "string \<Rightarrow> ('w, unit) py" where
  "vault_span key = py_raise CSStoreUnsupported"

text \<open>\<open>key.rsplit('/', 1)[-1]\<close>.\<close>

definition last_part :: "string \<Rightarrow> string" where
  "last_part key = (case rsplit1 (CHR ''/'') key of None \<Rightarrow> key | Some (_, b) \<Rightarrow> b)"

definition vault_names :: "string option \<Rightarrow> string list \<Rightarrow> string list" where
  "vault_names keyfilter cns = map last_part
     (filter (\<lambda>key. case keyfilter of None \<Rightarrow> True | Some f \<Rightarrow> startswith key f) (map unmangle cns))"

definition vault_list ::
    "'w vault_api \<Rightarrow> vault_args \<Rightarrow> string option \<Rightarrow> ('w, string list) py" where
  "vault_list A args keyfilter =
     py_bind (with_ipa (va_ipa A) (py_try (va_find A args) on_archive_error)) (\<lambda>cns.
       py_return (vault_names keyfilter cns))"

definition vault_cut :: "'w vault_api \<Rightarrow> vault_args \<Rightarrow> string \<Rightarrow> ('w, bool) py" where
  "vault_cut A args key = py_bind (py_lift (mangle_key key)) (\<lambda>k.
     with_ipa (va_ipa A)
       (py_try (py_bind (va_del A k args) (\<lambda>_. py_return True))
          (\<lambda>e. if e = IpaNotFound then py_return False else on_archive_error e)))"

subsection \<open>The second stage\<close>

text \<open>
  \<open>finalize_init\<close> after the nested store is attached: it finalizes the plugin that owns the
  connection, asks for the servers (to cache the transport certificate) and settles the vault
  arguments. Called again it does nothing. An exception ends the start of the server.
\<close>

record vault_state =
  vs_vault :: vault
  vs_args :: "vault_args option"
  vs_ipa :: bool

definition IPAVault_finalize ::
    "'w vault_api \<Rightarrow> string option \<Rightarrow> (string \<times> ipa_plugin) list option \<Rightarrow> vault_state
     \<Rightarrow> ('w, vault_state \<times> (string \<times> ipa_plugin) list option) py" where
  "IPAVault_finalize A rundir auths vs =
     (if vs_ipa vs then py_return (vs, auths)
      else py_bind (py_lift (ipa_from_config auths)) (\<lambda>ip.
           py_bind (IPAInterface_finalize (va_ipa A) rundir ip) (\<lambda>ip'.
           py_bind (with_ipa (va_ipa A) (va_config_show A)) (\<lambda>servers.
           py_bind (py_lift (rbind (of_option TypeError (ip_principal ip')) krb5_unparse_principal_name))
             (\<lambda>(service, user_host, realm).
           py_bind (py_lift (init_vault_args (vs_vault vs) service user_host)) (\<lambda>(vt, args).
             py_return (\<lparr>vs_vault = vt, vs_args = Some args, vs_ipa = True\<rparr>,
               map_option (dict_put ''ipa'' ip') auths)))))))"

lemma IPAVault_finalize_once:
  assumes "IPAVault_finalize A rundir auths vs w = (Inr (vs', auths'), w')" and "\<not> vs_ipa vs"
  shows "vs_args vs' \<noteq> None \<and> vt_type (vs_vault vs') \<noteq> None
    \<and> IPAVault_finalize A rundir' auths' vs' w' = (Inr (vs', auths'), w')"
  using assms
  by (auto simp: IPAVault_finalize_def py_lift_def py_return_def init_vault_args_def Let_def
      elim!: py_bind_InrE split: if_splits option.splits)

subsection \<open>Mangling\<close>

lemma str_contains_Cons: "\<not> str_contains (c # s) p \<Longrightarrow> \<not> str_contains s p"
  by simp

lemma replace_2_other:
  "x \<noteq> a \<Longrightarrow> replace_2 a b r (x # s) = x # replace_2 a b r s"
  by (cases s) auto

lemma replace_2_next:
  "y \<noteq> b \<Longrightarrow> replace_2 a b r (x # y # s) = x # replace_2 a b r (y # s)"
  by auto

lemma unmangle_mangle_aux:
  "\<not> str_contains k ''__'' \<Longrightarrow> \<not> str_contains k ''_/'' \<Longrightarrow>
   replace_2 (CHR ''_'') (CHR ''_'') ''/'' (replace_ch (CHR ''/'') ''__'' k) = k"
proof (induction k)
  case (Cons c k)
  then have IH: "replace_2 (CHR ''_'') (CHR ''_'') ''/'' (replace_ch (CHR ''/'') ''__'' k) = k" by simp
  show ?case
  proof (cases "c = CHR ''_''")
    case True
    show ?thesis
    proof (cases k)
      case Nil
      then show ?thesis using True by simp
    next
      case (Cons d t)
      then have "d \<noteq> CHR ''_''" "d \<noteq> CHR ''/''" using Cons.prems True by auto
      then show ?thesis using True IH Cons by simp
    qed
  next
    case False
    then show ?thesis using IH by (auto simp: replace_2_other)
  qed
qed simp

text \<open>The listing shows the key that was stored.\<close>

lemma unmangle_mangle:
  "mangle_key k = Inr m \<Longrightarrow> \<not> str_contains k ''_/'' \<Longrightarrow> unmangle m = k"
  by (auto simp: mangle_key_def unmangle_def unmangle_mangle_aux split: if_splits)

subsection \<open>Errors\<close>

lemma vault_get_errors:
  assumes "ipa_lawful (va_ipa A)" and "mangle_key key = Inr k"
    and "ipa_enter (va_ipa A) w = (Inr (), w1)" and "va_retrieve A k args w1 = (r, w2)"
  shows "fst (vault_get A args key w) =
    (case r of Inr d \<Rightarrow> Inr (Some d)
     | Inl e \<Rightarrow> if e = IpaNotFound then Inr None else Inl CSStoreError)"
  using assms(2,4)
  by (cases r) (auto simp: with_ipa_result [OF assms(1,3)] vault_get_def py_try_def py_bind_def py_return_def py_raise_def py_lift_def)

text \<open>
  An archive that fails after the vault was added: the error is reported, and the vault is
  there, so that the next attempt to store the key fails as well.
\<close>

lemma vault_set_half:
  assumes "ipa_lawful (va_ipa A)" and "mangle_key key = Inr k"
    and "ipa_enter (va_ipa A) w = (Inr (), w1)" and "va_add A k args w1 = (Inr (), w2)"
    and "va_archive A k (utf8_encode v) args w2 = (Inl e, w3)"
  shows "fst (vault_set A args key v False w) =
    Inl (if e = IpaAuthorizationError then CSStoreDenied else CSStoreError)"
  using assms(2,4,5)
  by (auto simp: with_ipa_result [OF assms(1,3)] vault_set_def on_archive_error_def py_try_def py_bind_def py_return_def py_raise_def
      py_lift_def)

lemma vault_set_duplicate:
  assumes "ipa_lawful (va_ipa A)" and "mangle_key key = Inr k"
    and "ipa_enter (va_ipa A) w = (Inr (), w1)" and "va_add A k args w1 = (Inl IpaDuplicateEntry, w2)"
  shows "fst (vault_set A args key v False w) = Inl CSStoreExists"
  using assms(2,4)
  by (auto simp: with_ipa_result [OF assms(1,3)] vault_set_def py_try_def py_bind_def py_raise_def py_lift_def)

subsection \<open>Keys and vaults\<close>

text \<open>C37: The vault of a key is listed under that key's last part, for every key that has no underscore
  before a slash.\<close>

theorem vault_listed:
  assumes "mangle_key k = Inr cn" and "\<not> str_contains k ''_/''"
  shows "unmangle cn = k \<and> vault_names None [cn] = [last_part k] \<and> vault_names (Some k) [cn] = [last_part k]"
  using unmangle_mangle [OF assms] by (simp add: vault_names_def startswith_def)

theorem vault_listed_witness:
  "mangle_key ''keys/u/a_b'' = Inr ''keys__u__a_b'' \<and> vault_names None [''keys__u__a_b''] = [''a_b'']"
proof -
  have m: "mangle_key ''keys/u/a_b'' = Inr ''keys__u__a_b''" "\<not> str_contains ''keys/u/a_b'' ''_/''"
    "last_part ''keys/u/a_b'' = ''a_b''" by code_simp+
  from vault_listed [OF m(1,2)] m show ?thesis by simp
qed

text \<open>Without that restriction the vault's name does not determine the key.\<close>

lemma vault_collision: "mangle_key ''keys/a_/b'' = mangle_key ''keys/a/_b''"
  by code_simp

end
