(* ===== verification/IpaCert.thy ===== *)
theory IpaCert
  imports IpaInterface Base64
begin

text \<open>
  \<open>src/custodia/ipa/certrequest.py\<close>: a store whose values are certificates that FreeIPA signs on
  demand; a backing store caches them. The packages \<open>cryptography\<close> and \<open>ipalib\<close> are the records
  \<open>x509\<close> and \<open>cert_api\<close> over the store's world.

  Shown: only keys of an allowed service reach IPA or, except for a listing, the backing store; a cached certificate
  is not requested again; requesting fills the cache; the signing request is built from an
  outdated builder, so that one extension is lost; the answer of a deletion.
\<close>

subsection \<open>The interfaces\<close>

datatype extension =
    BasicConstraints bool "nat option"
  | ExtendedKeyUsage "string list"
  | SubjectAlternativeName "string list"

text \<open>
  A builder is a value: \<open>x_subject\<close> and \<open>x_add_extension\<close> return a new one. \<open>x_sign\<close> is
  \<open>builder.sign(key, SHA256)\<close> with its PEM text, \<open>x_load\<close> loads a DER certificate.
\<close>

record cert_info =
  ci_issuer :: "(string \<times> string) list"
  ci_subject :: "(string \<times> string) list"
  ci_serial :: string
  ci_not_before :: string
  ci_not_after :: string
  ci_pem :: string

record ('w, 'key, 'b) x509 =
  x_generate :: "nat \<Rightarrow> ('w, 'key) py"
  x_new :: 'b
  x_subject :: "(string \<times> string) list \<Rightarrow> 'b \<Rightarrow> 'b"
  x_add_extension :: "extension \<Rightarrow> bool \<Rightarrow> 'b \<Rightarrow> 'b"
  x_sign :: "'b \<Rightarrow> 'key \<Rightarrow> ('w, string) py"
  x_load :: "bytes \<Rightarrow> cert_info res"
  x_key_pem :: "'key \<Rightarrow> string"

record ipa_cert =
  ic_serial :: int
  ic_subject :: string
  ic_issuer :: string
  ic_revoked :: bool

record cert_response =
  cs_chain :: "bytes list"
  cs_certificate :: string

record cert_kwargs =
  ck_profile :: string
  ck_add :: bool
  ck_principal :: string
  ck_chain :: bool

record 'w cert_api =
  ca_ipa :: "'w ipa_api"
  ca_realm :: string
  ca_principal_name :: "string \<Rightarrow> string \<Rightarrow> string \<Rightarrow> string"
  ca_request :: "string \<Rightarrow> cert_kwargs \<Rightarrow> ('w, cert_response) py"
  ca_find :: "string \<Rightarrow> ('w, ipa_cert list) py"
  ca_revoke :: "int \<Rightarrow> int \<Rightarrow> ('w, unit) py"

record 'w cert_store =
  ce_store :: "'w store_ops"
  ce_key_size :: nat
  ce_cert_profile :: string
  ce_add_principal :: bool
  ce_chain :: bool
  ce_allowed_services :: "string set"
  ce_revocation_reason :: int

subsection \<open>The signing request\<close>

definition TLS_SERVERAUTH :: string where "TLS_SERVERAUTH = ''2.5.29.37.1''"

text \<open>\<open>build\<close> is made twice from the same \<open>builder\<close>.\<close>

definition build_csr :: "('w, 'key, 'b) x509 \<Rightarrow> string \<Rightarrow> string \<Rightarrow> 'b" where
  "build_csr X realm hostname =
     (let builder = x_subject X [(''commonName'', hostname), (''organizationName'', realm)] (x_new X);
          build = x_add_extension X (BasicConstraints False None) True builder;
          build = x_add_extension X (ExtendedKeyUsage [TLS_SERVERAUTH]) True builder;
          builder = x_add_extension X (SubjectAlternativeName [hostname]) False build
      in builder)"

definition dump_x509name :: "(string \<times> string) list \<Rightarrow> string" where
  "dump_x509name name = py_join '', '' (map (\<lambda>(n, v). n @ ''='' @ v) name)"

definition nl :: string where "nl = [CHR 0x0A]"

text \<open>The template of a certificate's text, dedented.\<close>

definition cert_template :: "string \<Rightarrow> string \<Rightarrow> cert_info \<Rightarrow> string \<Rightarrow> string" where
  "cert_template issuer subject c pem = ''Issuer: '' @ issuer @ nl
     @ ''Subject: '' @ subject @ nl
     @ ''Serial Number: '' @ ci_serial c @ nl
     @ ''Validity:'' @ nl
     @ ''    Not Before: '' @ ci_not_before c @ nl
     @ ''    Not After: '' @ ci_not_after c @ nl
     @ pem @ ''    ''"

definition dump_cert :: "cert_info \<Rightarrow> string" where
  "dump_cert c = cert_template (dump_x509name (ci_issuer c)) (dump_x509name (ci_subject c)) c (ci_pem c)"

fun load_certs :: "('w, 'key, 'b) x509 \<Rightarrow> bytes list \<Rightarrow> cert_info list res" where
  "load_certs X [] = Inr []"
| "load_certs X (d # ds) = rbind (x_load X d) (\<lambda>c. rbind (load_certs X ds) (\<lambda>cs. Inr (c # cs)))"

definition response_certs :: "('w, 'key, 'b) x509 \<Rightarrow> bool \<Rightarrow> cert_response \<Rightarrow> cert_info list res" where
  "response_certs X chain r = (if chain then load_certs X (cs_chain r)
     else rbind (b64decode (cs_certificate r)) (\<lambda>d. load_certs X [d]))"

text \<open>
  A generator is its private key, which is made when the generator is. The library turns keys and
  requests into PEM text.
\<close>

definition gen_private :: "('w, 'key, 'b) x509 \<Rightarrow> 'w cert_store \<Rightarrow> ('w, 'key) py" where
  "gen_private X ce = x_generate X (ce_key_size ce)"

definition sign_csr :: "('w, 'key, 'b) x509 \<Rightarrow> 'key \<Rightarrow> 'b \<Rightarrow> ('w, string) py" where
  "sign_csr X privkey builder = x_sign X builder privkey"

definition dump_privkey :: "('w, 'key, 'b) x509 \<Rightarrow> 'key \<Rightarrow> string" where
  "dump_privkey X privkey = x_key_pem X privkey"

definition cert_request :: "'w cert_api \<Rightarrow> 'w cert_store \<Rightarrow> string \<Rightarrow> string \<Rightarrow> ('w, cert_response) py" where
  "cert_request A ce pem_req princ = with_ipa (ca_ipa A) (ca_request A pem_req
     \<lparr>ck_profile = ce_cert_profile ce, ck_add = ce_add_principal ce, ck_principal = princ,
      ck_chain = ce_chain ce\<rparr>)"

definition generator_request_cert ::
    "('w, 'key, 'b) x509 \<Rightarrow> 'w cert_api \<Rightarrow> 'w cert_store \<Rightarrow> 'key \<Rightarrow> 'b \<Rightarrow> string \<Rightarrow> ('w, string) py" where
  "generator_request_cert X A ce privkey builder princ =
     py_bind (sign_csr X privkey builder) (\<lambda>csr_pem.
     py_bind (cert_request A ce csr_pem princ) (\<lambda>response.
     py_bind (py_lift (response_certs X (ce_chain ce) response)) (\<lambda>certs.
       py_return (py_join nl (dump_privkey X privkey # map dump_cert certs)))))"

definition request_cert ::
    "('w, 'key, 'b) x509 \<Rightarrow> 'w cert_api \<Rightarrow> 'w cert_store \<Rightarrow> string \<Rightarrow> string \<Rightarrow> ('w, string) py" where
  "request_cert X A ce hostname princ =
     py_bind (gen_private X ce) (\<lambda>privkey.
       generator_request_cert X A ce privkey (build_csr X (ca_realm A) hostname) princ)"

subsection \<open>The store\<close>

definition parse_key :: "'w cert_api \<Rightarrow> 'w cert_store \<Rightarrow> string \<Rightarrow> (string \<times> string \<times> string) res" where
  "parse_key A ce key = (case py_split (CHR ''/'') key of
      [k, service, hostname] \<Rightarrow>
        if k \<noteq> ''keys'' then Inl CSStoreDenied
        else if service \<notin> ce_allowed_services ce then Inl CSStoreDenied
        else Inr (''cert/'' @ service @ ''/'' @ hostname, hostname,
                  ca_principal_name A service hostname (ca_realm A))
    | _ \<Rightarrow> Inl CSStoreDenied)"

definition on_request_error :: "exn \<Rightarrow> ('w, 'a) py" where
  "on_request_error e = (if e = IpaAuthorizationError \<or> e = IpaNotFound then py_raise CSStoreDenied
     else py_raise CSStoreError)"

definition cert_get ::
    "('w, 'key, 'b) x509 \<Rightarrow> 'w cert_api \<Rightarrow> 'w cert_store \<Rightarrow> string \<Rightarrow> ('w, json) py" where
  "cert_get X A ce key = py_bind (py_lift (parse_key A ce key)) (\<lambda>(k, hostname, princ).
     py_bind (st_get (ce_store ce) k) (\<lambda>value.
       if value \<noteq> JNull then py_return value
       else py_bind (py_try (request_cert X A ce hostname princ) on_request_error) (\<lambda>data.
            py_bind (st_set (ce_store ce) k (JStr data) True) (\<lambda>_. py_return (JStr data)))))"

definition cert_set :: "'w cert_api \<Rightarrow> 'w cert_store \<Rightarrow> string \<Rightarrow> json \<Rightarrow> bool \<Rightarrow> ('w, unit) py" where
  "cert_set A ce key value replace = py_bind (py_lift (parse_key A ce key)) (\<lambda>(k, _, _).
     st_set (ce_store ce) k value replace)"

definition cert_span :: "'w cert_api \<Rightarrow> 'w cert_store \<Rightarrow> string \<Rightarrow> ('w, unit) py" where
  "cert_span A ce key = py_bind (py_lift (parse_key A ce key)) (\<lambda>(k, _, _). st_span (ce_store ce) k)"

definition cert_list :: "'w cert_store \<Rightarrow> string \<Rightarrow> ('w, string list option) py" where
  "cert_list ce keyfilter = st_list (ce_store ce) keyfilter"

fun revoke_all :: "'w cert_api \<Rightarrow> int \<Rightarrow> ipa_cert list \<Rightarrow> ('w, unit) py" where
  "revoke_all A reason [] = py_return ()"
| "revoke_all A reason (c # cs) =
     py_bind (ca_revoke A (ic_serial c) reason) (\<lambda>_. revoke_all A reason cs)"

definition revoke_certs :: "'w cert_api \<Rightarrow> 'w cert_store \<Rightarrow> string \<Rightarrow> ('w, ipa_cert list) py" where
  "revoke_certs A ce princ = with_ipa (ca_ipa A)
     (py_bind (ca_find A princ) (\<lambda>found.
        let certs = filter (\<lambda>c. \<not> ic_revoked c) found
        in py_bind (revoke_all A (ce_revocation_reason ce) certs) (\<lambda>_. py_return certs)))"

definition cert_json :: "ipa_cert \<Rightarrow> json" where
  "cert_json c = JDict [(''serial_number'', JInt (ic_serial c)), (''subject'', JStr (ic_subject c)),
     (''issuer'', JStr (ic_issuer c)), (''revoked'', JBool (ic_revoked c))]"

text \<open>\<open>self.store.cut(key) or certs\<close>.\<close>

definition cut_or :: "cut_result \<Rightarrow> json list \<Rightarrow> cut_result" where
  "cut_or r certs = (case r of
      CutBool b \<Rightarrow> if b then CutBool True else CutCerts certs
    | CutCerts cs \<Rightarrow> if cs \<noteq> [] then CutCerts cs else CutCerts certs)"

definition cert_cut :: "'w cert_api \<Rightarrow> 'w cert_store \<Rightarrow> string \<Rightarrow> ('w, cut_result) py" where
  "cert_cut A ce key = py_bind (py_lift (parse_key A ce key)) (\<lambda>(k, hostname, princ).
     py_bind (revoke_certs A ce princ) (\<lambda>certs.
     py_bind (st_cut (ce_store ce) k) (\<lambda>r. py_return (cut_or r (map cert_json certs)))))"

definition cert_ops ::
    "('w, 'key, 'b) x509 \<Rightarrow> 'w cert_api \<Rightarrow> 'w cert_store \<Rightarrow> 'w store_ops" where
  "cert_ops X A ce = \<lparr>st_get = cert_get X A ce, st_set = cert_set A ce, st_span = cert_span A ce,
     st_list = cert_list ce, st_cut = cert_cut A ce\<rparr>"

text \<open>\<open>finalize_init\<close> after the backing store is attached; the flag says that it has been done.\<close>

definition IPACertRequest_finalize ::
    "'w ipa_api \<Rightarrow> string option \<Rightarrow> (string \<times> ipa_plugin) list option \<Rightarrow> bool
     \<Rightarrow> ('w, bool \<times> (string \<times> ipa_plugin) list option) py" where
  "IPACertRequest_finalize A rundir auths done_before =
     (if done_before then py_return (True, auths)
      else py_bind (py_lift (ipa_from_config auths)) (\<lambda>ip.
           py_bind (IPAInterface_finalize A rundir ip) (\<lambda>ip'.
             py_return (True, map_option (dict_put ''ipa'' ip') auths))))"

subsection \<open>Keys\<close>

lemma parse_key_Inr:
  assumes "parse_key A ce key = Inr (k, hostname, princ)"
  obtains service where "service \<in> ce_allowed_services ce"
    and "key = ''keys/'' @ service @ ''/'' @ hostname" and "k = ''cert/'' @ service @ ''/'' @ hostname"
    and "princ = ca_principal_name A service hostname (ca_realm A)"
proof -
  from assms obtain service where s: "py_split (CHR ''/'') key = [''keys'', service, hostname]"
      "service \<in> ce_allowed_services ce" "k = ''cert/'' @ service @ ''/'' @ hostname"
      "princ = ca_principal_name A service hostname (ca_realm A)"
    by (auto simp: parse_key_def split: list.splits if_splits)
  have "key = ''keys/'' @ service @ ''/'' @ hostname"
    using py_join_split [of "CHR ''/''" key] by (simp add: s(1))
  with s that show thesis by blast
qed

lemma parse_key_denied:
  "parse_key A ce key = Inl e \<Longrightarrow> e = CSStoreDenied"
  by (auto simp: parse_key_def split: list.splits if_splits)

lemma parse_key_inj:
  assumes "parse_key A ce key1 = Inr (k, h1, p1)" and "parse_key A ce key2 = Inr (k, h2, p2)"
  shows "key1 = key2"
  using assms by (auto elim!: parse_key_Inr)

text \<open>A key that is not allowed touches nothing.\<close>

lemma cert_denied:
  assumes "parse_key A ce key = Inl e"
  shows "cert_get X A ce key w = (Inl CSStoreDenied, w)"
    and "cert_set A ce key v r w = (Inl CSStoreDenied, w)"
    and "cert_span A ce key w = (Inl CSStoreDenied, w)"
    and "cert_cut A ce key w = (Inl CSStoreDenied, w)"
  using assms parse_key_denied [OF assms]
  by (simp_all add: cert_get_def cert_set_def cert_span_def cert_cut_def py_bind_def py_lift_def)

lemma cert_get_cached:
  assumes "parse_key A ce key = Inr (k, h, p)" and "st_get (ce_store ce) k w = (Inr v, w')" and "v \<noteq> JNull"
  shows "cert_get X A ce key w = (Inr v, w')"
  using assms by (simp add: cert_get_def py_bind_def py_lift_def py_return_def)

text \<open>A certificate that had to be requested is in the cache afterwards.\<close>

lemma cert_get_fresh:
  assumes "parse_key A ce key = Inr (k, h, p)" and "st_get (ce_store ce) k w = (Inr JNull, w1)"
    and "cert_get X A ce key w = (Inr v, w')"
  shows "\<exists>data w2. request_cert X A ce h p w1 = (Inr data, w2) \<and> v = JStr data
    \<and> st_set (ce_store ce) k (JStr data) True w2 = (Inr (), w')"
proof -
  obtain r w2 where q: "request_cert X A ce h p w1 = (r, w2)" by fastforce
  with assms show ?thesis
    by (cases r) (auto simp: cert_get_def py_bind_def py_lift_def py_return_def py_try_def
        on_request_error_def py_raise_def split: prod.splits sum.splits if_splits)
qed

lemma cert_get_error:
  assumes "parse_key A ce key = Inr (k, h, p)" and "st_get (ce_store ce) k w = (Inr JNull, w1)"
    and "request_cert X A ce h p w1 = (Inl e, w2)"
  shows "cert_get X A ce key w =
    (Inl (if e = IpaAuthorizationError \<or> e = IpaNotFound then CSStoreDenied else CSStoreError), w2)"
  using assms
  by (auto simp: cert_get_def py_bind_def py_lift_def py_return_def py_try_def on_request_error_def
      py_raise_def)

text \<open>\<open>cut\<close> never answers \<open>False\<close>, also when there was nothing to delete.\<close>

lemma cert_cut_not_False:
  assumes "cert_cut A ce key w = (Inr r, w')"
  shows "r \<noteq> CutBool False"
  using assms
  by (auto simp: cert_cut_def cut_or_def py_lift_def py_return_def elim!: py_bind_InrE
      split: prod.splits cut_result.splits if_splits)

lemma build_csr_eq:
  "build_csr X realm hostname =
     x_add_extension X (SubjectAlternativeName [hostname]) False
       (x_add_extension X (ExtendedKeyUsage [TLS_SERVERAUTH]) True
         (x_subject X [(''commonName'', hostname), (''organizationName'', realm)] (x_new X)))"
  by (simp add: build_csr_def)

lemma response_certs_chain:
  "response_certs X False r = Inr cs \<Longrightarrow> length cs = 1"
  by (auto simp: response_certs_def elim!: rbind_InrE)

subsection \<open>Access\<close>

text \<open>C36: The operations get, set, span and cut of the certificate store are refused, and touch neither
  FreeIPA nor the backing store, unless their key is \<open>keys/service/host\<close> with an allowed service
  and no further slash. The exception is list: it checks nothing and is the list of the backing
  store for whatever filter it gets.\<close>

theorem only_allowed_services:
  assumes "\<not> (\<exists>service hostname. service \<in> ce_allowed_services ce \<and> CHR ''/'' \<notin> set service
    \<and> CHR ''/'' \<notin> set hostname \<and> key = ''keys/'' @ service @ ''/'' @ hostname)"
  shows "st_get (cert_ops X A ce) key w = (Inl CSStoreDenied, w)
    \<and> st_set (cert_ops X A ce) key v r w = (Inl CSStoreDenied, w)
    \<and> st_span (cert_ops X A ce) key w = (Inl CSStoreDenied, w)
    \<and> st_cut (cert_ops X A ce) key w = (Inl CSStoreDenied, w)
    \<and> st_list (cert_ops X A ce) key w = st_list (ce_store ce) key w"
proof (cases "parse_key A ce key")
  case (Inl e)
  from cert_denied [OF Inl] show ?thesis by (simp add: cert_ops_def cert_list_def)
next
  case (Inr khp)
  then obtain service hostname where s: "py_split (CHR ''/'') key = [''keys'', service, hostname]"
    "service \<in> ce_allowed_services ce"
    by (auto simp: parse_key_def split: list.splits if_splits)
  then have "CHR ''/'' \<notin> set service" "CHR ''/'' \<notin> set hostname"
    using py_split_parts [of service "CHR ''/''" key] py_split_parts [of hostname "CHR ''/''" key] by simp_all
  moreover have "key = ''keys/'' @ service @ ''/'' @ hostname"
    using py_join_split [of "CHR ''/''" key] s(1) by simp
  ultimately show ?thesis using assms s(2) by blast
qed

definition sample_certs :: "bool cert_store" where
  "sample_certs = \<lparr>ce_store = CSStore_base (\<lambda>k. py_return (JStr ''cached'')) (\<lambda>k v r. py_return ()),
     ce_key_size = 2048, ce_cert_profile = ''caIPAserviceCert'', ce_add_principal = True, ce_chain = True,
     ce_allowed_services = {''HTTP''}, ce_revocation_reason = 4\<rparr>"

definition sample_x509 :: "(bool, nat, extension list) x509" where
  "sample_x509 = \<lparr>x_generate = (\<lambda>n. py_return n), x_new = [], x_subject = (\<lambda>s b. b),
     x_add_extension = (\<lambda>e c b. b @ [e]), x_sign = (\<lambda>b k. py_return ''csr''),
     x_load = (\<lambda>d. Inl ValueError), x_key_pem = (\<lambda>k. ''pem'')\<rparr>"

definition sample_cert_api :: "bool cert_api" where
  "sample_cert_api = \<lparr>ca_ipa = sample_ipa, ca_realm = ''REALM'',
     ca_principal_name = (\<lambda>s h r. s @ ''/'' @ h @ ''@'' @ r), ca_request = (\<lambda>p k. py_raise IpaNotFound),
     ca_find = (\<lambda>p. py_return []), ca_revoke = (\<lambda>n r. py_return ())\<rparr>"

theorem only_allowed_services_witness:
  "st_get (cert_ops sample_x509 sample_cert_api sample_certs) ''keys/ldap/host'' True = (Inl CSStoreDenied, True)
    \<and> st_set (cert_ops sample_x509 sample_cert_api sample_certs) ''keys/HTTP/a/b'' (JStr ''x'') True True = (Inl CSStoreDenied, True)
    \<and> st_set (cert_ops sample_x509 sample_cert_api sample_certs) ''keys/HTTP/host'' (JStr ''x'') True True = (Inr (), True)"
proof -
  have "py_split (CHR ''/'') ''keys/HTTP/host'' = [''keys'', ''HTTP'', ''host'']" by code_simp
  then have "st_set (cert_ops sample_x509 sample_cert_api sample_certs) ''keys/HTTP/host'' (JStr ''x'') True True = (Inr (), True)"
    by (simp add: cert_ops_def cert_set_def parse_key_def sample_certs_def CSStore_base_def py_simps)
  moreover have "\<not> (\<exists>service hostname. service \<in> ce_allowed_services sample_certs \<and> CHR ''/'' \<notin> set service
      \<and> CHR ''/'' \<notin> set hostname \<and> ''keys/ldap/host'' = ''keys/'' @ service @ ''/'' @ hostname)"
    by (auto simp: sample_certs_def)
  moreover have "\<not> (\<exists>service hostname. service \<in> ce_allowed_services sample_certs \<and> CHR ''/'' \<notin> set service
      \<and> CHR ''/'' \<notin> set hostname \<and> ''keys/HTTP/a/b'' = ''keys/'' @ service @ ''/'' @ hostname)"
    by (auto simp: sample_certs_def)
  ultimately show ?thesis
    using only_allowed_services [of sample_certs "''keys/ldap/host''" sample_x509 sample_cert_api True]
      only_allowed_services [of sample_certs "''keys/HTTP/a/b''" sample_x509 sample_cert_api True "JStr ''x''" True]
    by blast
qed

end
