(* ===== verification/ClientServer.thy ===== *)
theory ClientServer
  imports SecretsApi Traces Client
begin

text \<open>
  The client of \<open>src/custodia/client.py\<close> against the server of \<open>src/custodia/httpd/server.py\<close>:
  \<open>CustodiaSimpleClient\<close> on one end of a Unix socket, the handler with its pipeline, the root
  consumer, \<open>Secrets\<close> and a store on the other. The world behind the client's HTTP library is
  the state of the server.

  What \<open>requests\<close> and the HTTP parser of the standard library do between the two is the
  hypothesis \<open>connected\<close>: a call arrives with its method, path, headers and body, and the answer
  comes back with its status and its bytes. Shown: under this hypothesis the client's
  operations are those of a map from keys to secrets.
\<close>

subsection \<open>The server\<close>

text \<open>
  A server as the example configuration has it: one local user is let in by
  \<open>SimpleCredsAuth\<close>, the paths by \<open>SimplePathAuthz\<close>, and \<open>Root\<close> with \<open>Secrets\<close> hangs on \<open>/\<close>.
\<close>

definition local_config ::
    "('k, 'jwe, 'jws) env \<Rightarrow> 'w secrets \<Rightarrow> creds_auth \<Rightarrow> path_authz \<Rightarrow> ('w, 'k) server_config" where
  "local_config E se a z = \<lparr>sc_authenticators = Some [(''creds'', SimpleCredsAuth_handle a)],
     sc_authorizers = Some [(''paths'', SimplePathAuthz_handle z)],
     sc_consumers = [([[]], root_consumer E (Some se))]\<rparr>"

text \<open>The user of the client's socket is the one that is let in, and \<open>/secrets\<close> is listed.\<close>

definition admits :: "(bytes \<Rightarrow> string res) \<Rightarrow> creds_auth \<Rightarrow> path_authz \<Rightarrow> connection \<Rightarrow> bool" where
  "admits dec8 a z conn = (''/secrets'' \<in> set (pa_paths z) \<and>
     (case peer_creds dec8 conn of Inr (Some cr) \<Rightarrow> ca_uid a \<noteq> -1 \<and> ca_uid a = cr_uid cr | _ \<Rightarrow> False))"

subsection \<open>Names that need no escapes\<close>

definition plain_name :: "string \<Rightarrow> bool" where
  "plain_name x = (x \<noteq> [] \<and> list_all always_safe x \<and> x \<noteq> ''.'' \<and> x \<noteq> ''..'')"

definition plain_trail :: "string list \<Rightarrow> bool" where
  "plain_trail t = (t \<noteq> [] \<and> hd t \<noteq> [] \<and> (\<forall>x \<in> set (butlast t). plain_name x) \<and> (last t = [] \<or> plain_name (last t)))"

lemma always_safe_no_delim: "always_safe c \<Longrightarrow> c \<notin> set ''/?#[]%;:''"
  by (auto simp: always_safe_def is_alpha_def is_digit_def Let_def)

lemma plain_name_chars: "plain_name x \<Longrightarrow> c \<in> set x \<Longrightarrow> c \<notin> set ''/?#[]%;:''"
  using always_safe_no_delim by (auto simp: plain_name_def list_all_iff)

lemma plain_trail_chars:
  assumes "plain_trail t" and "x \<in> set t" and "c \<in> set x"
  shows "c \<notin> set ''/?#[]%;:''"
proof -
  have "x \<in> set (butlast t) \<or> x = last t"
    using assms(2) by (metis append_butlast_last_id empty_iff empty_set in_set_butlast_appendI rotate1.simps(2)
        set_ConsD set_append Un_iff set_rotate1)
  then have "plain_name x" using assms by (auto simp: plain_trail_def)
  from plain_name_chars [OF this assms(3)] show ?thesis .
qed

lemma py_join_chars: "c \<in> set (py_join ''/'' xs) \<Longrightarrow> c = CHR ''/'' \<or> (\<exists>x \<in> set xs. c \<in> set x)"
  by (induction xs) (auto simp: py_join_Cons split: if_splits)

lemma plain_path_chars:
  assumes "plain_trail t"
  shows "c \<in> set (py_join ''/'' t) \<Longrightarrow> c \<notin> set ''?#[]%;:''"
  using py_join_chars [of c t] plain_trail_chars [OF assms] by fastforce

lemma plain_path_start: "plain_trail t \<Longrightarrow> py_join ''/'' t \<noteq> [] \<and> hd (py_join ''/'' t) \<noteq> CHR ''/''"
  using plain_trail_chars [of t "hd t"]
  by (cases t; cases "hd t") (auto simp: plain_trail_def py_join_Cons)

text \<open>The names of keys and of containers.\<close>

lemma plain_segment_name: "plain_name x \<Longrightarrow> plain_segment x"
  using plain_name_chars [of x "CHR ''/''"] by (auto simp: plain_name_def plain_segment_def)

lemma plain_trails:
  "t \<noteq> [] \<Longrightarrow> \<forall>x \<in> set t. plain_name x \<Longrightarrow> plain_trail t \<and> plain_trail (t @ [[]])"
  by (cases t) (auto simp: plain_trail_def plain_name_def dest: in_set_butlastD)

subsection \<open>What lies between client and server\<close>

text \<open>How an answer of the server looks to the client.\<close>

fun shows_reply :: "outcome \<Rightarrow> reply res \<Rightarrow> bool" where
  "shows_reply (Sent code hs out) r =
     (\<exists>b. r = Inr \<lparr>rp_status = code, rp_content = b\<rparr> \<and> (\<forall>x. out = Some (OBytes x) \<longrightarrow> b = x))"
| "shows_reply (ErrorSent n) r = (\<exists>b. r = Inr \<lparr>rp_status = n, rp_content = b\<rparr>)"
| "shows_reply Closed r = is_err r"
| "shows_reply (Escaped e) r = is_err r"

text \<open>
  What arrives for a call: \<open>dumps\<close> writes a JSON body. The caller's headers arrive, with an
  \<open>Accept\<close> header of \<open>requests\<close> and, for a body, its length.
\<close>

definition carries :: "(json \<Rightarrow> bytes) \<Rightarrow> connection \<Rightarrow> string \<Rightarrow> http_call \<Rightarrow> incoming \<Rightarrow> bool" where
  "carries dumps conn cmd hc inc =
     (in_conn inc = conn \<and> get_loginuid (in_loginuid inc) = Inr None
      \<and> in_line inc \<noteq> [] \<and> length (in_line inc) \<le> 65536
      \<and> (\<exists>u hs. urlparse (hc_url hc) = Inr u \<and> in_parsed inc = Some (cmd, u_path u, hs)
          \<and> (\<forall>n v. dict_get (hc_headers hc) n = Some v \<longrightarrow> header_get hs n = Some v)
          \<and> (dict_get (hc_headers hc) ''Accept'' = None \<longrightarrow> header_get hs ''Accept'' = Some ''*/*'')
          \<and> (case hc_json hc of
               None \<Rightarrow> in_stream inc = [] \<and> header_get hs ''content-length'' \<in> {None, Some ''0''}
             | Some j \<Rightarrow> in_stream inc = dumps j \<and> (\<exists>v. header_get hs ''content-length'' = Some v
                  \<and> py_int 10 v = Inr (int (length (dumps j)))))))"

text \<open>
  The calls for which this is assumed: a short URL without escapes, no query, no raw body, and
  headers whose names differ in more than case and leave the body's length to \<open>requests\<close>.
\<close>

definition plain_headers :: "(string \<times> string) list \<Rightarrow> bool" where
  "plain_headers hs = (distinct (map (py_lower \<circ> fst) hs)
     \<and> (\<forall>n \<in> fst ` set hs. py_lower n \<noteq> ''content-length'' \<and> (py_lower n = ''accept'' \<longrightarrow> n = ''Accept'')))"

definition plain_call :: "http_call \<Rightarrow> bool" where
  "plain_call hc = (hc_params hc = None \<and> hc_data hc = None \<and> length (hc_url hc) \<le> 60000
     \<and> plain_headers (hc_headers hc)
     \<and> (\<exists>nl t. plain_trail t \<and> (\<forall>x \<in> set nl. x \<notin> set ''/?#[]'') \<and> hc_url hc = ''http+unix://'' @ nl @ ''/'' @ py_join ''/'' t))"

definition connected ::
    "('k, 'jwe, 'jws) env \<Rightarrow> (bytes \<Rightarrow> string) \<Rightarrow> (bytes \<Rightarrow> string res) \<Rightarrow> ('w, 'k) server_config
     \<Rightarrow> connection \<Rightarrow> (json \<Rightarrow> bytes) \<Rightarrow> ('w, 'k) ctx http_lib \<Rightarrow> bool" where
  "connected E dec dec8 cfg conn dumps lib =
     ((\<forall>cmd hc c. cmd \<in> set SUPPORTED_COMMANDS \<longrightarrow> plain_call hc \<longrightarrow>
         (\<exists>inc now ticks. carries dumps conn cmd hc inc
            \<and> (\<forall>out c'. handle_one_request E dec dec8 (Some cfg) inc (fork now ticks c) = Some (out, c') \<longrightarrow>
                 (\<exists>r. shows_reply out r \<and> hl_send lib cmd hc c = (r, c')))))
      \<and> (\<forall>r. hl_raise lib r = (if 400 \<le> rp_status r \<and> rp_status r < 600 then Inl (HTTPError (rp_status r)) else Inr ()))
      \<and> (\<forall>n s. hl_json lib \<lparr>rp_status = n, rp_content = utf8_encode (jo_json_encode (en_jose E) (simple_msg s))\<rparr>
           = Inr (simple_msg s))
      \<and> (\<forall>n ns. hl_json lib \<lparr>rp_status = n, rp_content = utf8_encode (jo_json_encode (en_jose E) (names_json ns))\<rparr>
           = Inr (names_json ns))
      \<and> (\<forall>s. dumps (simple_msg s) \<noteq> [] \<and> en_loads E (dumps (simple_msg s)) = Inr (simple_msg s)))"

subsection \<open>The request that arrives\<close>

text \<open>The client's URL for a path below \<open>/secrets\<close>, and what the server reads from its target.\<close>

lemma client_url:
  assumes "cl_url cl = ''http+unix://'' @ nl @ ''/secrets''" and "plain_trail t"
    and "\<forall>x \<in> set nl. x \<notin> set ''/?#[]''"
  shows "join_url cl (py_join ''/'' t) = ''http+unix://'' @ nl @ ''/'' @ py_join ''/'' (''secrets'' # t)"
    and "urlparse (join_url cl (py_join ''/'' t)) = Inr \<lparr>u_scheme = ''http+unix'', u_netloc = nl,
      u_path = CHR ''/'' # py_join ''/'' (''secrets'' # t), u_params = [], u_query = [], u_fragment = []\<rparr>"
proof -
  have "t \<noteq> []" using assms(2) by (simp add: plain_trail_def)
  moreover have "rstrip_ch (CHR ''/'') ((''http+unix://'' @ nl) @ ''/secrets'') = (''http+unix://'' @ nl) @ ''/secrets''"
    by (rule rstrip_ch_append_last) simp_all
  moreover have "lstrip_ch (CHR ''/'') (py_join ''/'' t) = py_join ''/'' t"
    using plain_path_start [OF assms(2)] by (simp add: lstrip_ch_id)
  ultimately show j: "join_url cl (py_join ''/'' t) = ''http+unix://'' @ nl @ ''/'' @ py_join ''/'' (''secrets'' # t)"
    by (simp add: join_url_def assms(1) py_join_Cons)
  have "\<forall>x \<in> set (py_join ''/'' (''secrets'' # t)). x \<notin> set ''?#''"
    using plain_path_chars [OF assms(2)] by (auto simp: py_join_Cons)
  from urlparse_unix [OF assms(3) this] show "urlparse (join_url cl (py_join ''/'' t)) =
      Inr \<lparr>u_scheme = ''http+unix'', u_netloc = nl, u_path = CHR ''/'' # py_join ''/'' (''secrets'' # t),
        u_params = [], u_query = [], u_fragment = []\<rparr>"
    by (simp only: j) simp
qed

lemma target_parsed:
  assumes "plain_trail t" and p: "p = CHR ''/'' # py_join ''/'' (''secrets'' # t)"
  shows "urlparse p = Inr \<lparr>u_scheme = [], u_netloc = [], u_path = p, u_params = [], u_query = [], u_fragment = []\<rparr>"
    and "u_path u = p \<Longrightarrow> parse_path dec u = [] # ''secrets'' # t"
    and "''/secrets'' \<in> set (path_parents p)" and "\<not> startswith p ''//''"
proof -
  have c: "c \<notin> set ''?#[]%;:''" if "c \<in> set p" for c
    using that plain_path_chars [OF assms(1)] by (auto simp: p py_join_Cons split: if_splits)
  have "CHR ''#'' \<notin> set p" "CHR ''?'' \<notin> set p" "CHR '';'' \<notin> set p" "CHR '':'' \<notin> set p"
    using c [of "CHR ''#''"] c [of "CHR ''?''"] c [of "CHR '';''"] c [of "CHR '':''"] by auto
  moreover show ns: "\<not> startswith p ''//''" by (simp add: p startswith_def py_join_Cons)
  ultimately show "urlparse p = Inr \<lparr>u_scheme = [], u_netloc = [], u_path = p, u_params = [], u_query = [], u_fragment = []\<rparr>"
    by (simp add: urlparse_def split_scheme_def split_netloc_def split_first_no Let_def)
  have seg: "CHR ''/'' \<notin> set x" "CHR ''%'' \<notin> set x" if "x \<in> set ([] # ''secrets'' # t)" for x
    using that plain_trail_chars [OF assms(1)] by auto
  have join: "p = py_join ''/'' ([] # ''secrets'' # t)" by (simp add: p py_join_Cons)
  show "parse_path dec u = [] # ''secrets'' # t" if "u_path u = p"
  proof -
    have "parse_path dec u = map (unquote dec) ([] # ''secrets'' # t)"
      using seg(1) that join by (intro parse_path_join) auto
    also have "\<dots> = [] # ''secrets'' # t" using seg(2) by (intro map_idI) (auto simp: unquote_def)
    finally show ?thesis .
  qed
  have "py_join ''/'' (x # xs) = x @ concat (map (\<lambda>y. ''/'' @ y) xs)" for x xs
    by (induction xs arbitrary: x) (simp_all add: py_join_Cons)
  then have q: "p = ''/secrets'' @ concat (map (\<lambda>y. ''/'' @ y) t)" by (simp add: p)
  have "\<forall>x \<in> set (butlast t). x \<noteq> []" using assms(1) by (auto simp: plain_trail_def plain_name_def)
  moreover have "length t < length p"
  proof -
    have "length t \<le> length (concat (map (\<lambda>y. ''/'' @ y) t))" by (induction t) auto
    then show ?thesis by (simp add: q)
  qed
  ultimately have "''/secrets'' \<in> set (parents_n (length p) (''/secrets'' @ concat (map (\<lambda>y. ''/'' @ y) t)))"
    using seg(1) by (intro parents_prefix) auto
  then show "''/secrets'' \<in> set (path_parents p)" by (simp add: path_parents_def q)
qed

lemma select_root: "select_consumer [([[]], con)] ([] # xs) acc = Some (con, xs @ acc)"
proof (induction xs arbitrary: acc rule: rev_induct)
  case (snoc x xs)
  have "select_consumer [([[]], con)] ([] # xs @ [x]) acc = select_consumer [([[]], con)] ([] # xs) (x # acc)"
    by (subst select_consumer.simps) simp
  with snoc show ?case by simp
qed (simp add: select_consumer.simps)

text \<open>The request passes the pipeline and comes to the root consumer.\<close>

lemma local_pipeline:
  assumes "rq_creds req = Some cr" and "ca_uid a \<noteq> -1" and "ca_uid a = cr_uid cr"
    and "''/secrets'' \<in> set (pa_paths z)" and "rq_path_chain req = [] # ''secrets'' # t"
    and "\<not> startswith (rq_path req) ''//''" and "''/secrets'' \<in> set (path_parents (rq_path req))"
  shows "\<exists>es. pipeline E (local_config E se a z) req c = Some (consumer_handle E (root_consumer E (Some se))
      (req\<lparr>rq_trail := Some (''secrets'' # t)\<rparr>) (c\<lparr>cx_audit := cx_audit c @ es\<rparr>))"
proof -
  obtain es1 where creds: "SimpleCredsAuth_handle a req c = (Inr (Some True, req), c\<lparr>cx_audit := cx_audit c @ es1\<rparr>)"
    using assms(1-3) by (auto simp: SimpleCredsAuth_handle_def Let_def py_simps)
  let ?c1 = "c\<lparr>cx_audit := cx_audit c @ es1\<rparr>"
  have "set (path_parents (rq_path req)) \<inter> set (pa_paths z) \<noteq> {}" using assms(4,7) by blast
  with path_authorization [OF assms(6), of z ?c1] obtain m where
    m: "SimplePathAuthz_handle z req = Some m" "fst (m ?c1) = Inr (Some True, req)" by auto
  from paths.answers [OF m(1), of ?c1] m(2) obtain c2 where
    authz: "m ?c1 = (Inr (Some True, req), c2)" and "modest req ?c1 req c2" by auto
  then obtain es2 where c2: "c2 = c\<lparr>cx_audit := cx_audit c @ es1 @ es2\<rparr>" by (auto simp: modest_def)
  have same: "req\<lparr>rq_path_chain := [] # ''secrets'' # t\<rparr> = req" using assms(5) by simp
  have "run_consumer E (local_config E se a z) req =
      consumer_handle E (root_consumer E (Some se)) (req\<lparr>rq_trail := Some (''secrets'' # t)\<rparr>)"
    by (simp add: run_consumer_def local_config_def assms(5) select_root)
  with creds m(1) authz c2 show ?thesis
    by (intro exI [of _ "es1 @ es2"])
       (simp add: pipeline_def authorize_def local_config_def assms(5) py_simps same)
qed

text \<open>What a handler finds in the request of a call.\<close>

definition arrived :: "(json \<Rightarrow> bytes) \<Rightarrow> string \<Rightarrow> string list \<Rightarrow> http_call \<Rightarrow> 'w request \<Rightarrow> bool" where
  "arrived dumps cmd t hc req =
     (below_secrets req t \<and> rq_command req = cmd \<and> rq_body req = map_option dumps (hc_json hc)
      \<and> no_query req \<and> (\<exists>name. client_name req = Inr name) \<and> rq_default_namespace req = None
      \<and> (\<forall>n v. dict_get (hc_headers hc) n = Some v \<longrightarrow> header_get (rq_headers req) n = Some v)
      \<and> (dict_get (hc_headers hc) ''Accept'' = None \<longrightarrow> header_get (rq_headers req) ''Accept'' = Some ''*/*''))"

definition fits :: "(json \<Rightarrow> bytes) \<Rightarrow> json option \<Rightarrow> bool" where
  "fits dumps j = (case j of None \<Rightarrow> True
     | Some v \<Rightarrow> dumps v \<noteq> [] \<and> int (length (dumps v)) \<le> MAX_REQUEST_SIZE)"

lemma carried_body:
  assumes "fits dumps j"
    and "case j of None \<Rightarrow> stream = [] \<and> header_get hs ''content-length'' \<in> {None, Some ''0''}
      | Some v \<Rightarrow> stream = dumps v \<and> (\<exists>n. header_get hs ''content-length'' = Some n
          \<and> py_int 10 n = Inr (int (length (dumps v))))"
  shows "parse_content hs stream = Inr (map_option dumps j)"
proof -
  have "py_int 10 ''0'' = Inr 0" by code_simp
  moreover have "\<not> 0 > MAX_REQUEST_SIZE" by (simp add: MAX_REQUEST_SIZE_def)
  ultimately show ?thesis
    using assms by (auto simp: parse_content_def fits_def rfile_read_def split: option.splits)
qed

lemma call_served:
  fixes se :: "'w secrets"
  assumes "carries dumps conn cmd hc inc" and t: "plain_trail t" and u: "urlparse (hc_url hc) = Inr u"
    "u_path u = CHR ''/'' # py_join ''/'' (''secrets'' # t)"
    and "admits dec8 a z conn" and "fits dumps (hc_json hc)"
  shows "\<exists>req es. arrived dumps cmd t hc req
    \<and> handle_one_request E dec dec8 (Some (local_config E se a z)) inc c
      = Some (case consumer_handle E (root_consumer E (Some se)) req (c\<lparr>cx_audit := cx_audit c @ es\<rparr>) of
          (r, c') \<Rightarrow> (send_result r, c'))"
proof -
  let ?p = "CHR ''/'' # py_join ''/'' (''secrets'' # t)"
  from assms(1) u obtain hs where
    i: "in_conn inc = conn" "get_loginuid (in_loginuid inc) = Inr None" "in_line inc \<noteq> []"
      "length (in_line inc) \<le> 65536" "in_parsed inc = Some (cmd, ?p, hs)"
    and h: "\<forall>n v. dict_get (hc_headers hc) n = Some v \<longrightarrow> header_get hs n = Some v"
      "dict_get (hc_headers hc) ''Accept'' = None \<longrightarrow> header_get hs ''Accept'' = Some ''*/*''"
    and b: "case hc_json hc of
               None \<Rightarrow> in_stream inc = [] \<and> header_get hs ''content-length'' \<in> {None, Some ''0''}
             | Some j \<Rightarrow> in_stream inc = dumps j \<and> (\<exists>v. header_get hs ''content-length'' = Some v
                  \<and> py_int 10 v = Inr (int (length (dumps j))))"
    by (auto simp: carries_def)
  from assms(5) obtain cr where
    cr: "peer_creds dec8 conn = Inr (Some cr)" "ca_uid a \<noteq> -1" "ca_uid a = cr_uid cr" "''/secrets'' \<in> set (pa_paths z)"
    by (auto simp: admits_def split: sum.splits option.splits)
  note path = target_parsed [OF t refl]
  define req :: "'w request" where "req = \<lparr>rq_command = cmd, rq_path = ?p, rq_path_chain = [] # ''secrets'' # t,
      rq_query = JDict [], rq_headers = hs, rq_body = map_option dumps (hc_json hc), rq_creds = Some cr,
      rq_client_cert = cn_cert conn, rq_client_id = peer_info conn (Some cr), rq_remote_user = None,
      rq_default_namespace = None, rq_trail = None, rq_kkstore = None, rq_ipa = False\<rparr>"
  have "parse_qs dec [] = JDict []" by (simp add: parse_qs_def split_first_def)
  then have "\<exists>r0. parse_request dec dec8 inc (cmd, ?p, hs) = Inr r0 \<and> rq_headers r0 = hs
      \<and> r0\<lparr>rq_body := map_option dumps (hc_json hc)\<rparr> = req"
    using path(1) path(2) [of "\<lparr>u_scheme = [], u_netloc = [], u_path = ?p, u_params = [], u_query = [], u_fragment = []\<rparr>" dec]
    by (simp add: parse_request_def i cr req_def)
  then obtain r0 where r0: "parse_request dec dec8 inc (cmd, ?p, hs) = Inr r0" "rq_headers r0 = hs"
    "r0\<lparr>rq_body := map_option dumps (hc_json hc)\<rparr> = req" by blast
  obtain es where "pipeline E (local_config E se a z) req c = Some (consumer_handle E (root_consumer E (Some se))
      (req\<lparr>rq_trail := Some (''secrets'' # t)\<rparr>) (c\<lparr>cx_audit := cx_audit c @ es\<rparr>))"
    using local_pipeline [of req cr a z t E se c] cr path by (auto simp: req_def)
  moreover have "parse_content hs (in_stream inc) = Inr (map_option dumps (hc_json hc))"
    by (rule carried_body [OF assms(6) b])
  ultimately have "handle_one_request E dec dec8 (Some (local_config E se a z)) inc c
      = Some (case consumer_handle E (root_consumer E (Some se)) (req\<lparr>rq_trail := Some (''secrets'' # t)\<rparr>)
          (c\<lparr>cx_audit := cx_audit c @ es\<rparr>) of (r, c') \<Rightarrow> (send_result r, c'))"
    using i r0 by (simp add: handle_one_request_def split: prod.splits)
  moreover have "arrived dumps cmd t hc (req\<lparr>rq_trail := Some (''secrets'' # t)\<rparr>)"
    using h by (simp add: arrived_def req_def below_secrets_def no_query_def client_name_def)
  ultimately show ?thesis by blast
qed

subsection \<open>A call and its answer\<close>

definition local_client :: "client \<Rightarrow> bool" where
  "local_client cl =
     ((\<exists>nl. cl_url cl = ''http+unix://'' @ nl @ ''/secrets'' \<and> (\<forall>x \<in> set nl. x \<notin> set ''/?#[]''))
      \<and> plain_headers (add_headers cl None) \<and> dict_get (add_headers cl None) ''Accept'' = None
      \<and> dict_get (add_headers cl None) ''Content-Type'' = Some ''application/json'')"

definition short_name :: "client \<Rightarrow> string list \<Rightarrow> bool" where
  "short_name cl t = (length (join_url cl (py_join ''/'' t)) \<le> 60000)"

text \<open>What the root consumer does with the request decides what the client gets.\<close>

lemma call_answered:
  assumes con: "connected E dec dec8 (local_config E se a z) conn dumps lib" and "admits dec8 a z conn"
    and cl: "local_client cl" and t: "plain_trail t" and "short_name cl t"
    and "cmd \<in> set SUPPORTED_COMMANDS" and "fits dumps j" and s: "cx_store s = (c, old)"
    and handled: "\<And>req now ticks es. arrived dumps cmd t (the_call cl (py_join ''/'' t) (no_kwargs\<lparr>kw_json := j\<rparr>)) req \<Longrightarrow>
      \<exists>x c'. consumer_handle E (root_consumer E (Some se)) req
          ((fork now ticks c)\<lparr>cx_audit := cx_audit c @ es\<rparr>) = (x, c') \<and> P x c'"
  shows "\<exists>x c' r. P x c' \<and> shows_reply (send_result x) r
    \<and> client_request lib cl cmd (py_join ''/'' t) (no_kwargs\<lparr>kw_json := j\<rparr>) s
      = (r, s\<lparr>cx_store := (c', case r of Inl _ \<Rightarrow> None | Inr rp \<Rightarrow> Some rp)\<rparr>)"
proof -
  let ?hc = "the_call cl (py_join ''/'' t) (no_kwargs\<lparr>kw_json := j\<rparr>)"
  from cl obtain nl where nl: "cl_url cl = ''http+unix://'' @ nl @ ''/secrets''" "\<forall>x \<in> set nl. x \<notin> set ''/?#[]''"
    by (auto simp: local_client_def)
  note url = client_url [OF nl(1) t nl(2)]
  have hc: "hc_url ?hc = join_url cl (py_join ''/'' t)" "hc_params ?hc = None" "hc_data ?hc = None" "hc_json ?hc = j"
    by (simp_all add: the_call_def no_kwargs_def)
  have "plain_trail (''secrets'' # t)"
  proof -
    have "plain_name ''secrets''" by code_simp
    with t show ?thesis by (auto simp: plain_trail_def)
  qed
  moreover have "plain_headers (hc_headers ?hc)"
    using cl by (simp add: the_call_def no_kwargs_def local_client_def)
  ultimately have "plain_call ?hc"
    using url(1) assms(5) hc nl(2) unfolding plain_call_def short_name_def by metis
  with con assms(6) obtain inc now ticks where
    car: "carries dumps conn cmd ?hc inc" and
    sent: "\<And>out c'. handle_one_request E dec dec8 (Some (local_config E se a z)) inc (fork now ticks c) = Some (out, c')
      \<Longrightarrow> \<exists>r. shows_reply out r \<and> hl_send lib cmd ?hc c = (r, c')"
    unfolding connected_def by blast
  have u: "urlparse (hc_url ?hc) = Inr \<lparr>u_scheme = ''http+unix'', u_netloc = nl,
      u_path = CHR ''/'' # py_join ''/'' (''secrets'' # t), u_params = [], u_query = [], u_fragment = []\<rparr>"
    using url(2) hc(1) by simp
  have "fits dumps (hc_json ?hc)" using assms(7) hc(4) by simp
  from call_served [OF car t u _ assms(2) this, where E = E and se = se and dec = dec and c = "fork now ticks c"]
  obtain req es where
    "arrived dumps cmd t ?hc req" and
    h: "handle_one_request E dec dec8 (Some (local_config E se a z)) inc (fork now ticks c)
      = Some (case consumer_handle E (root_consumer E (Some se)) req
          ((fork now ticks c)\<lparr>cx_audit := cx_audit (fork now ticks c) @ es\<rparr>) of (r, c') \<Rightarrow> (send_result r, c'))"
    by auto
  from handled [OF this(1), where now = now and ticks = ticks and es = es] obtain x c' where
    "consumer_handle E (root_consumer E (Some se)) req ((fork now ticks c)\<lparr>cx_audit := cx_audit c @ es\<rparr>) = (x, c')"
    and P: "P x c'" by blast
  then have "handle_one_request E dec dec8 (Some (local_config E se a z)) inc (fork now ticks c) = Some (send_result x, c')"
    using h by (simp add: fork_def)
  from sent [OF this] obtain r where r: "shows_reply (send_result x) r" "hl_send lib cmd ?hc c = (r, c')" by blast
  then have "client_request lib cl cmd (py_join ''/'' t) (no_kwargs\<lparr>kw_json := j\<rparr>) s
      = (r, s\<lparr>cx_store := (c', case r of Inl _ \<Rightarrow> None | Inr rp \<Rightarrow> Some rp)\<rparr>)"
    using s by (cases r) (simp_all add: client_request_def py_simps)
  with P r show ?thesis by blast
qed

text \<open>The headers of the client, as \<open>Secrets\<close> reads them.\<close>

lemma arrived_facts:
  assumes "arrived dumps cmd t (the_call cl p (no_kwargs\<lparr>kw_json := j\<rparr>)) req" and "local_client cl"
  shows "below_secrets req t" and "rq_command req = cmd" and "rq_body req = map_option dumps j" and "no_query req"
    and "\<exists>name. client_name req = Inr name" and "rq_default_namespace req = None"
    and "content_type_value req = ''application/json''" and "\<not> wants_binary req"
proof -
  let ?hc = "the_call cl p (no_kwargs\<lparr>kw_json := j\<rparr>)"
  have hc: "hc_json ?hc = j" "hc_headers ?hc = add_headers cl None" by (simp_all add: the_call_def no_kwargs_def)
  show "below_secrets req t" "rq_command req = cmd" "rq_body req = map_option dumps j" "no_query req"
    "\<exists>name. client_name req = Inr name" "rq_default_namespace req = None"
    using assms(1) hc by (simp_all add: arrived_def)
  have "header_get (rq_headers req) ''Content-Type'' = Some ''application/json''"
    "header_get (rq_headers req) ''Accept'' = Some ''*/*''"
    using assms hc(2) by (auto simp: arrived_def local_client_def)
  moreover have "py_strip (hd (py_split (CHR '';'') ''application/json'')) = ''application/json''"
    "\<not> accept_binary False (py_split (CHR '','') ''*/*'')" by code_simp+
  ultimately show "content_type_value req = ''application/json''" "\<not> wants_binary req"
    by (simp_all add: content_type_value_def wants_binary_def)
qed

subsection \<open>The client's operations, over any lawful store\<close>

text \<open>Everything the operations need: the two ends, the connection, and a name that fits.\<close>

definition linked ::
    "('k, 'jwe, 'jws) env \<Rightarrow> (bytes \<Rightarrow> string) \<Rightarrow> (bytes \<Rightarrow> string res) \<Rightarrow> 'w secrets \<Rightarrow> (json \<Rightarrow> bytes)
     \<Rightarrow> ('w, 'k) ctx http_lib \<Rightarrow> client \<Rightarrow> bool" where
  "linked E dec dec8 se dumps lib cl = (allows_simple se \<and> local_client cl
     \<and> (\<exists>a z conn. admits dec8 a z conn \<and> connected E dec dec8 (local_config E se a z) conn dumps lib))"

definition remote_key :: "client \<Rightarrow> string list \<Rightarrow> bool" where
  "remote_key cl t = (2 \<le> length t \<and> (\<forall>x \<in> set t. plain_name x) \<and> short_name cl t)"

definition remote_dir :: "client \<Rightarrow> string list \<Rightarrow> bool" where
  "remote_dir cl t = (t \<noteq> [] \<and> (\<forall>x \<in> set t. plain_name x) \<and> short_name cl (t @ [[]]))"

lemma remote_key_facts:
  assumes "remote_key cl t"
  shows "plain_trail t" and "key_trail t" and "short_name cl t"
proof -
  have "t \<noteq> []" using assms by (auto simp: remote_key_def)
  then show "plain_trail t" "key_trail t" "short_name cl t"
    using assms plain_trails [of t] plain_segment_name by (auto simp: remote_key_def key_trail_def)
qed

lemma remote_dir_facts:
  assumes "remote_dir cl t"
  shows "plain_trail (t @ [[]])" and "dir_name t" and "short_name cl (t @ [[]])"
    and "container_name (py_join ''/'' t) = py_join ''/'' (t @ [[]])"
proof -
  show "plain_trail (t @ [[]])" "dir_name t" "short_name cl (t @ [[]])"
    using assms plain_trails [of t] plain_segment_name by (auto simp: remote_dir_def dir_name_def)
  have ne: "t \<noteq> []" "plain_name (last t)" using assms by (auto simp: remote_dir_def)
  then have "last t \<noteq> []" "last (last t) \<noteq> CHR ''/''"
    using plain_name_chars [of "last t" "last (last t)"] by (auto simp: plain_name_def)
  then have "\<not> endswith (py_join ''/'' t) ''/''" using ne(1) by (simp add: endswith_char py_join_last)
  then show "container_name (py_join ''/'' t) = py_join ''/'' (t @ [[]])"
    using ne(1) by (simp add: container_name_def py_join_append)
qed

lemma linked_facts:
  assumes "linked E dec dec8 se dumps lib cl"
  shows "allows_simple se"
    and "hl_raise lib r = (if 400 \<le> rp_status r \<and> rp_status r < 600 then Inl (HTTPError (rp_status r)) else Inr ())"
    and "hl_json lib \<lparr>rp_status = n, rp_content = utf8_encode (jo_json_encode (en_jose E) (simple_msg v))\<rparr> = Inr (simple_msg v)"
    and "hl_json lib \<lparr>rp_status = n, rp_content = utf8_encode (jo_json_encode (en_jose E) (names_json ns))\<rparr> = Inr (names_json ns)"
    and "dumps (simple_msg v) \<noteq> []" and "en_loads E (dumps (simple_msg v)) = Inr (simple_msg v)"
  using assms by (auto simp: linked_def connected_def)

text \<open>The server's state as the client's state has it, and \<open>call_answered\<close> in these terms.\<close>

definition server_of :: "(('w, 'k) ctx \<times> reply option, 'k2) ctx \<Rightarrow> ('w, 'k) ctx" where
  "server_of s = fst (cx_store s)"

text \<open>The state of the child that answers: the server's, with what was logged on the way in.\<close>

definition child_state :: "int \<Rightarrow> nat list \<Rightarrow> audit_entry list \<Rightarrow> ('w, 'k) ctx \<Rightarrow> ('w, 'k) ctx" where
  "child_state now ticks es c = (fork now ticks c)\<lparr>cx_audit := cx_audit c @ es\<rparr>"

lemma child_state_simps [simp]:
  "cx_store (child_state now ticks es c) = cx_store c" "cx_audit (child_state now ticks es c) = cx_audit c @ es"
  by (simp_all add: child_state_def fork_def)

text \<open>What the consumers see of a call.\<close>

definition received :: "(json \<Rightarrow> bytes) \<Rightarrow> string \<Rightarrow> string list \<Rightarrow> json option \<Rightarrow> string \<Rightarrow> 'w request \<Rightarrow> bool" where
  "received dumps cmd t j name req = (below_secrets req t \<and> rq_command req = cmd
     \<and> rq_body req = map_option dumps j \<and> no_query req \<and> content_type_value req = ''application/json''
     \<and> \<not> wants_binary req \<and> client_name req = Inr name \<and> rq_default_namespace req = None)"

lemma linked_call:
  fixes se :: "'w secrets"
  assumes L: "linked E dec dec8 se dumps lib cl" and "plain_trail t" and "short_name cl t"
    and "cmd \<in> set SUPPORTED_COMMANDS" and "fits dumps j"
    and handled: "\<And>req now ticks es name. received dumps cmd t j name req \<Longrightarrow>
      \<exists>x c'. consumer_handle E (root_consumer E (Some se)) req (child_state now ticks es (server_of s)) = (x, c') \<and> P x c'"
  shows "\<exists>x r s'. P x (server_of s') \<and> shows_reply (send_result x) r
    \<and> client_request lib cl cmd (py_join ''/'' t) (no_kwargs\<lparr>kw_json := j\<rparr>) s = (r, s')"
proof -
  from L obtain a z conn where l: "local_client cl" "admits dec8 a z conn"
    "connected E dec dec8 (local_config E se a z) conn dumps lib" by (auto simp: linked_def)
  obtain c old where s: "cx_store s = (c, old)" by fastforce
  have "\<exists>x c' r. P x c' \<and> shows_reply (send_result x) r
    \<and> client_request lib cl cmd (py_join ''/'' t) (no_kwargs\<lparr>kw_json := j\<rparr>) s
      = (r, s\<lparr>cx_store := (c', case r of Inl _ \<Rightarrow> None | Inr rp \<Rightarrow> Some rp)\<rparr>)"
  proof (rule call_answered [OF l(3,2,1) assms(2-5) s])
    fix req :: "'w request" and now ticks es
    assume "arrived dumps cmd t (the_call cl (py_join ''/'' t) (no_kwargs\<lparr>kw_json := j\<rparr>)) req"
    note f = arrived_facts [OF this l(1)]
    from f(5) obtain name where "received dumps cmd t j name req" using f by (auto simp: received_def)
    from handled [OF this] s
    show "\<exists>x c'. consumer_handle E (root_consumer E (Some se))
          req ((fork now ticks c)\<lparr>cx_audit := cx_audit c @ es\<rparr>) = (x, c') \<and> P x c'"
      by (simp add: server_of_def child_state_def)
  qed
  then show ?thesis by (fastforce simp: server_of_def)
qed

text \<open>What \<open>raise_for_status\<close> makes of an error and of a response.\<close>

lemma checked_error:
  assumes "linked E dec dec8 se dumps lib cl" and "shows_reply (send_result (Inl (HTTPError n))) r"
    and "m s = (r, s')" and "400 \<le> n" and "n < 600"
  shows "checked lib m s = (Inl (HTTPError n), s')"
  using assms(2-5) linked_facts(2) [OF assms(1)] by (auto simp: checked_def send_result_def py_simps)

definition accepted :: "response \<Rightarrow> bool" where
  "accepted resp = (case rs_code resp of None \<Rightarrow> True | Some n \<Rightarrow> n < 400)"

lemma checked_response:
  assumes "linked E dec dec8 se dumps lib cl" and "shows_reply (send_result (Inr resp)) r"
    and "m s = (r, s')" and "accepted resp"
  shows "\<exists>rp. checked lib m s = (Inr rp, s') \<and> (\<forall>b. rs_output resp = Some (OBytes b) \<longrightarrow> rp_content rp = b)"
proof -
  define n where "n = (case rs_code resp of None \<Rightarrow> 200 | Some n \<Rightarrow> n)"
  have "n < 400" using assms(4) by (simp add: n_def accepted_def split: option.splits)
  have "send_result (Inr resp) = Sent n (rs_headers resp) (rs_output resp)" by (simp add: send_result_def n_def)
  with assms(2) obtain b where b: "r = Inr \<lparr>rp_status = n, rp_content = b\<rparr>"
    "\<forall>x. rs_output resp = Some (OBytes x) \<longrightarrow> b = x" by (metis shows_reply.simps(1))
  have "hl_raise lib \<lparr>rp_status = n, rp_content = b\<rparr> = Inr ()"
    using \<open>n < 400\<close> by (simp add: linked_facts(2) [OF assms(1)])
  with assms(3) b(1) have "checked lib m s = (Inr \<lparr>rp_status = n, rp_content = b\<rparr>, s')"
    by (simp add: checked_def py_simps)
  with b(2) show ?thesis by fastforce
qed

lemma linked_error:
  fixes se :: "'w secrets"
  assumes L: "linked E dec dec8 se dumps lib cl" and "plain_trail t" and "short_name cl t"
    and "cmd \<in> set SUPPORTED_COMMANDS" and "fits dumps j" and n: "400 \<le> n" "n < 600"
    and handled: "\<And>req now ticks es name. received dumps cmd t j name req \<Longrightarrow>
      \<exists>c'. consumer_handle E (root_consumer E (Some se)) req (child_state now ticks es (server_of s)) = (Inl (HTTPError n), c') \<and> P c'"
  shows "\<exists>s'. checked lib (client_request lib cl cmd (py_join ''/'' t) (no_kwargs\<lparr>kw_json := j\<rparr>)) s
      = (Inl (HTTPError n), s') \<and> P (server_of s')"
proof -
  have "\<exists>x r s'. (x = Inl (HTTPError n) \<and> P (server_of s')) \<and> shows_reply (send_result x) r
    \<and> client_request lib cl cmd (py_join ''/'' t) (no_kwargs\<lparr>kw_json := j\<rparr>) s = (r, s')"
  proof (rule linked_call [OF L assms(2-5), where P = "\<lambda>x c'. x = Inl (HTTPError n) \<and> P c'"], goal_cases)
    case (1 req now ticks es name)
    from handled [OF this, where now = now and ticks = ticks and es = es] show ?case by blast
  qed
  then obtain r s' where h: "P (server_of s')" "shows_reply (send_result (Inl (HTTPError n))) r"
    "client_request lib cl cmd (py_join ''/'' t) (no_kwargs\<lparr>kw_json := j\<rparr>) s = (r, s')" by blast
  from checked_error [OF L h(2), where m = "client_request lib cl cmd (py_join ''/'' t) (no_kwargs\<lparr>kw_json := j\<rparr>)", OF h(3) n] h(1) show ?thesis by blast
qed

lemma linked_response:
  fixes se :: "'w secrets"
  assumes L: "linked E dec dec8 se dumps lib cl" and "plain_trail t" and "short_name cl t"
    and "cmd \<in> set SUPPORTED_COMMANDS" and "fits dumps j"
    and handled: "\<And>req now ticks es name. received dumps cmd t j name req \<Longrightarrow>
      \<exists>resp c'. consumer_handle E (root_consumer E (Some se)) req (child_state now ticks es (server_of s)) = (Inr resp, c')
        \<and> accepted resp \<and> P resp c'"
  shows "\<exists>resp rp s'. checked lib (client_request lib cl cmd (py_join ''/'' t) (no_kwargs\<lparr>kw_json := j\<rparr>)) s
      = (Inr rp, s') \<and> (\<forall>b. rs_output resp = Some (OBytes b) \<longrightarrow> rp_content rp = b) \<and> P resp (server_of s')"
proof -
  let ?P = "\<lambda>x c'. \<exists>resp. x = Inr resp \<and> accepted resp \<and> P resp c'"
  have "\<exists>x r s'. ?P x (server_of s') \<and> shows_reply (send_result x) r
    \<and> client_request lib cl cmd (py_join ''/'' t) (no_kwargs\<lparr>kw_json := j\<rparr>) s = (r, s')"
  proof (rule linked_call [OF L assms(2-5), where P = ?P], goal_cases)
    case (1 req now ticks es name)
    from handled [OF this, where now = now and ticks = ticks and es = es] show ?case by blast
  qed
  then obtain resp r s' where h: "accepted resp" "P resp (server_of s')" "shows_reply (send_result (Inr resp)) r"
    "client_request lib cl cmd (py_join ''/'' t) (no_kwargs\<lparr>kw_json := j\<rparr>) s = (r, s')" by blast
  from checked_response [OF L h(3), where m = "client_request lib cl cmd (py_join ''/'' t) (no_kwargs\<lparr>kw_json := j\<rparr>)", OF h(4,1)] h(2) show ?thesis by blast
qed

text \<open>The last entry of the audit log.\<close>

definition logs :: "'w secrets \<Rightarrow> nat \<Rightarrow> string list \<Rightarrow> audit_entry list \<Rightarrow> audit_entry list \<Rightarrow> bool" where
  "logs se code t l l' = (\<exists>es name. l' = l @ es @ [audit_key_entry (se_origin se) code name (py_join ''/'' t)])"

lemma logs_entry [simp]: "logs se code t l (l @ es @ [audit_key_entry (se_origin se) code name (py_join ''/'' t)])"
  by (auto simp: logs_def)

lemma fits_None: "fits dumps None"
  by (simp add: fits_def)

lemma no_kwargs_json: "no_kwargs\<lparr>kw_json := None\<rparr> = no_kwargs"
  by (simp add: no_kwargs_def)

end
