(* ===== verification/ClientSession.thy ===== *)
theory ClientSession
  imports ClientServer KemSpec
begin

text \<open>
  Sessions of a client: what the operations of \<open>CustodiaSimpleClient\<close> mean to their caller, as
  steps on the contents of the store, and the proof that the client, the server and a lawful
  store together take exactly these steps. The SQLite store is such a store.
\<close>

subsection \<open>What a caller sees\<close>

datatype client_op =
    SetSecret "string list" string
  | GetSecret "string list"
  | DelSecret "string list"
  | CreateContainer "string list"
  | DeleteContainer "string list"
  | ListContainer "string list"

fun run_op :: "'w http_lib \<Rightarrow> client \<Rightarrow> client_op \<Rightarrow> ('w, 'k, json option) call" where
  "run_op lib cl (SetSecret t v) =
     py_bind (simple_set_secret lib cl (py_join ''/'' t) (JStr v)) (\<lambda>_. py_return None)"
| "run_op lib cl (GetSecret t) = py_bind (simple_get_secret lib cl (py_join ''/'' t)) (\<lambda>j. py_return (Some j))"
| "run_op lib cl (DelSecret t) = py_bind (simple_del_secret lib cl (py_join ''/'' t)) (\<lambda>_. py_return None)"
| "run_op lib cl (CreateContainer t) =
     py_bind (simple_create_container lib cl (py_join ''/'' t)) (\<lambda>_. py_return None)"
| "run_op lib cl (DeleteContainer t) =
     py_bind (simple_delete_container lib cl (py_join ''/'' t)) (\<lambda>_. py_return None)"
| "run_op lib cl (ListContainer t) =
     py_bind (simple_list_container lib cl (py_join ''/'' t)) (\<lambda>j. py_return (Some j))"

fun run_ops ::
    "'w http_lib \<Rightarrow> client \<Rightarrow> client_op list \<Rightarrow> ('w \<times> reply option, 'k) ctx
     \<Rightarrow> json option res list \<times> ('w \<times> reply option, 'k) ctx" where
  "run_ops lib cl [] s = ([], s)"
| "run_ops lib cl (op # ops) s = (case run_op lib cl op s of
     (r, s1) \<Rightarrow> (case run_ops lib cl ops s1 of (rs, s2) \<Rightarrow> (r # rs, s2)))"

text \<open>
  The contract: a map from keys to texts and to marks of containers. A secret needs a container
  that is there, a container needs its parent, and only empty containers can be deleted. The
  path of a container may name a secret as well, which is then deleted.
\<close>

inductive vault_step :: "view \<Rightarrow> client_op \<Rightarrow> json option res \<Rightarrow> view \<Rightarrow> bool" where
  set_new: "known V (parent_base t) \<Longrightarrow> V (key_of t) = None \<Longrightarrow>
    vault_step V (SetSecret t v) (Inr None) (V(key_of t \<mapsto> Secret (JStr v)))"
| set_taken: "known V (parent_base t) \<Longrightarrow> V (key_of t) \<noteq> None \<Longrightarrow>
    vault_step V (SetSecret t v) (Inl (HTTPError 409)) V"
| set_orphan: "\<not> known V (parent_base t) \<Longrightarrow> vault_step V (SetSecret t v) (Inl (HTTPError 404)) V"
| get_there: "V (key_of t) = Some (Secret j) \<Longrightarrow> vault_step V (GetSecret t) (Inr (Some j)) V"
| get_container: "V (key_of t) = Some Dir \<Longrightarrow> vault_step V (GetSecret t) (Inl (HTTPError 406)) V"
| get_absent: "V (key_of t) = None \<Longrightarrow> vault_step V (GetSecret t) (Inl (HTTPError 404)) V"
| del_there: "V (key_of t) \<noteq> None \<Longrightarrow> vault_step V (DelSecret t) (Inr None) (V(key_of t := None))"
| del_absent: "V (key_of t) = None \<Longrightarrow> vault_step V (DelSecret t) (Inl (HTTPError 404)) V"
| create_new: "parent_there V t \<Longrightarrow> V (key_of t) = None \<Longrightarrow>
    vault_step V (CreateContainer t) (Inr None) (V(key_of t \<mapsto> Dir))"
| create_again: "parent_there V t \<Longrightarrow> V (key_of t) \<noteq> None \<Longrightarrow> vault_step V (CreateContainer t) (Inr None) V"
| create_orphan: "\<not> parent_there V t \<Longrightarrow> vault_step V (CreateContainer t) (Inl (HTTPError 404)) V"
| delete_empty: "child_names V (key_of t @ ''/'') = {} \<Longrightarrow> V (key_of t) \<noteq> None \<Longrightarrow>
    vault_step V (DeleteContainer t) (Inr None) (V(key_of t := None))"
| delete_full: "child_names V (key_of t @ ''/'') \<noteq> {} \<Longrightarrow>
    vault_step V (DeleteContainer t) (Inl (HTTPError 409)) V"
| delete_unknown: "\<not> known V (key_of t @ ''/'') \<Longrightarrow> vault_step V (DeleteContainer t) (Inl (HTTPError 404)) V"
| list_known: "known V (key_of t @ ''/'') \<Longrightarrow> sorted names \<Longrightarrow> set names = child_names V (key_of t @ ''/'') \<Longrightarrow>
    vault_step V (ListContainer t) (Inr (Some (names_json names))) V"
| list_unknown: "\<not> known V (key_of t @ ''/'') \<Longrightarrow> vault_step V (ListContainer t) (Inl (HTTPError 404)) V"

inductive_cases vault_step_cases:
  "vault_step V (SetSecret t v) r V'" "vault_step V (GetSecret t) r V'" "vault_step V (DelSecret t) r V'"
  "vault_step V (CreateContainer t) r V'" "vault_step V (DeleteContainer t) r V'"
  "vault_step V (ListContainer t) r V'"

inductive vault_run :: "view \<Rightarrow> client_op list \<Rightarrow> json option res list \<Rightarrow> view \<Rightarrow> bool" where
  run_nil: "vault_run V [] [] V"
| run_cons: "vault_step V op r V1 \<Longrightarrow> vault_run V1 ops rs V2 \<Longrightarrow> vault_run V (op # ops) (r # rs) V2"

inductive_simps vault_run_simps: "vault_run V [] rs V'" "vault_run V (op # ops) rs V'"

text \<open>Names and values the operations are specified for.\<close>

fun op_fits :: "(json \<Rightarrow> bytes) \<Rightarrow> client \<Rightarrow> client_op \<Rightarrow> bool" where
  "op_fits dumps cl (SetSecret t v) = (remote_key cl t \<and> v \<noteq> [] \<and> fits dumps (Some (simple_msg v)))"
| "op_fits dumps cl (GetSecret t) = remote_key cl t"
| "op_fits dumps cl (DelSecret t) = remote_key cl t"
| "op_fits dumps cl (CreateContainer t) = remote_dir cl t"
| "op_fits dumps cl (DeleteContainer t) = remote_dir cl t"
| "op_fits dumps cl (ListContainer t) = remote_dir cl t"

text \<open>What every view of a store filled through these operations looks like.\<close>

definition text_view :: "view \<Rightarrow> bool" where
  "text_view V = (\<forall>k e. V k = Some e \<longrightarrow> key_ok k \<and> (e = Dir \<or> (\<exists>v. e = Secret (JStr v) \<and> v \<noteq> [])))"

lemma text_view_update:
  "text_view V \<Longrightarrow> text_view (V(k := None))"
  "text_view V \<Longrightarrow> key_ok k \<Longrightarrow> text_view (V(k \<mapsto> Dir))"
  "text_view V \<Longrightarrow> key_ok k \<Longrightarrow> v \<noteq> [] \<Longrightarrow> text_view (V(k \<mapsto> Secret (JStr v)))"
  by (auto simp: text_view_def)

lemma key_names_ok:
  "remote_key cl t \<Longrightarrow> key_ok (key_of t)" "remote_dir cl t \<Longrightarrow> key_ok (key_of t)"
  using key_trail_facts(2) remote_key_facts(2) path_join_dir(2) remote_dir_facts(2)
  by (auto simp: key_ok_def)

lemma vault_step_text:
  "vault_step V op r V' \<Longrightarrow> text_view V \<Longrightarrow> op_fits dumps cl op \<Longrightarrow> text_view V'"
  by (induction rule: vault_step.induct) (auto intro: text_view_update key_names_ok simp del: fun_upd_apply)

text \<open>The audit entry an operation on a key leaves.\<close>

fun op_logged :: "'w secrets \<Rightarrow> client_op \<Rightarrow> 'a res \<Rightarrow> audit_entry list \<Rightarrow> audit_entry list \<Rightarrow> bool" where
  "op_logged se (SetSecret t v) r l l' = logs se (if is_err r then AUDIT_SET_DENIED else AUDIT_SET_ALLOWED) t l l'"
| "op_logged se (GetSecret t) r l l' = logs se (if is_err r then AUDIT_GET_DENIED else AUDIT_GET_ALLOWED) t l l'"
| "op_logged se (DelSecret t) r l l' = logs se (if is_err r then AUDIT_DEL_DENIED else AUDIT_DEL_ALLOWED) t l l'"
| "op_logged se op r l l' = True"

subsection \<open>Each operation takes a step\<close>

abbreviation store_of :: "(('w, 'k) ctx \<times> reply option, 'k2) ctx \<Rightarrow> 'w" where
  "store_of s \<equiv> cx_store (server_of s)"

abbreviation log_of :: "(('w, 'k) ctx \<times> reply option, 'k2) ctx \<Rightarrow> audit_entry list" where
  "log_of s \<equiv> cx_audit (server_of s)"

lemma received_facts:
  assumes "received dumps cmd t j name req"
  shows "below_secrets req t" and "rq_command req = cmd" and "client_name req = Inr name" and "no_query req"
    and "\<not> wants_binary req" and "rq_default_namespace req = None" and "j = None \<Longrightarrow> rq_body req = None"
  using assms by (simp_all add: received_def)

lemma received_value:
  "received dumps cmd t (Some (simple_msg v)) name req \<Longrightarrow> linked E dec dec8 se dumps lib cl \<Longrightarrow> puts_value E req v"
  using linked_facts(6) by (fastforce simp: puts_value_def received_def)

lemma accepted_coded: "n < 400 \<Longrightarrow> accepted (coded n)"
  by (simp add: accepted_def coded_def set_code_def)

text \<open>The answer \<open>r\<close> and the state \<open>c'\<close> of the server fit the contract.\<close>

definition op_settled ::
    "('w \<Rightarrow> bool) \<Rightarrow> ('w \<Rightarrow> view) \<Rightarrow> 'w secrets \<Rightarrow> client_op \<Rightarrow> ('w, 'k) ctx \<Rightarrow> json option res \<Rightarrow> ('w, 'k) ctx \<Rightarrow> bool" where
  "op_settled ok view se op c r c' = (ok (cx_store c') \<and> vault_step (view (cx_store c)) op r (view (cx_store c'))
     \<and> op_logged se op r (cx_audit c) (cx_audit c'))"

definition op_refines ::
    "('w \<Rightarrow> bool) \<Rightarrow> ('w \<Rightarrow> view) \<Rightarrow> 'w secrets \<Rightarrow> ('w, 'k) ctx http_lib \<Rightarrow> client \<Rightarrow> client_op
     \<Rightarrow> (('w, 'k) ctx \<times> reply option, 'k2) ctx \<Rightarrow> bool" where
  "op_refines ok view se lib cl op s =
     (\<exists>r s'. run_op lib cl op s = (r, s') \<and> op_settled ok view se op (server_of s) r (server_of s'))"

lemma refines_error:
  fixes se :: "'w secrets"
    and s :: "(('w, 'k) ctx \<times> reply option, 'k2) ctx"
  assumes form: "run_op lib cl op = (py_bind (checked lib (client_request lib cl cmd (py_join ''/'' t) (no_kwargs\<lparr>kw_json := j\<rparr>))) k
      :: (('w, 'k) ctx, 'k2, json option) call)"
    and call: "linked E dec dec8 se dumps lib cl" "plain_trail t" "short_name cl t"
      "cmd \<in> set SUPPORTED_COMMANDS" "fits dumps j"
    and n: "400 \<le> n" "n < 600"
    and handled: "\<And>req now ticks es name. received dumps cmd t j name req \<Longrightarrow>
      \<exists>c'. consumer_handle E (root_consumer E (Some se)) req (child_state now ticks es (server_of s)) = (Inl (HTTPError n), c')
        \<and> op_settled ok view se op (server_of s) (Inl (HTTPError n)) c'"
  shows "op_refines ok view se lib cl op s"
proof -
  have "\<exists>s'. checked lib (client_request lib cl cmd (py_join ''/'' t) (no_kwargs\<lparr>kw_json := j\<rparr>)) s
      = (Inl (HTTPError n), s') \<and> op_settled ok view se op (server_of s) (Inl (HTTPError n)) (server_of s')"
    by (rule linked_error [OF call n]) (rule handled)
  then obtain s' where
    "checked lib (client_request lib cl cmd (py_join ''/'' t) (no_kwargs\<lparr>kw_json := j\<rparr>)) s = (Inl (HTTPError n), s')"
    "op_settled ok view se op (server_of s) (Inl (HTTPError n)) (server_of s')" by blast
  then show ?thesis by (auto simp: op_refines_def form py_simps)
qed

lemma refines_response:
  fixes se :: "'w secrets"
    and s :: "(('w, 'k) ctx \<times> reply option, 'k2) ctx"
  assumes form: "run_op lib cl op = (py_bind (checked lib (client_request lib cl cmd (py_join ''/'' t) (no_kwargs\<lparr>kw_json := j\<rparr>))) k
      :: (('w, 'k) ctx, 'k2, json option) call)"
    and call: "linked E dec dec8 se dumps lib cl" "plain_trail t" "short_name cl t"
      "cmd \<in> set SUPPORTED_COMMANDS" "fits dumps j"
    and handled: "\<And>req now ticks es name. received dumps cmd t j name req \<Longrightarrow>
      \<exists>resp c'. consumer_handle E (root_consumer E (Some se)) req (child_state now ticks es (server_of s)) = (Inr resp, c')
        \<and> accepted resp
        \<and> (\<exists>x. (\<forall>rp s'. (\<forall>b. rs_output resp = Some (OBytes b) \<longrightarrow> rp_content rp = b) \<longrightarrow> k rp s' = (Inr x, s'))
            \<and> op_settled ok view se op (server_of s) (Inr x) c')"
  shows "op_refines ok view se lib cl op s"
proof -
  let ?P = "\<lambda>(resp :: response) c'. \<exists>x. (\<forall>rp s'. (\<forall>b. rs_output resp = Some (OBytes b) \<longrightarrow> rp_content rp = b) \<longrightarrow> k rp s' = (Inr x, s'))
      \<and> op_settled ok view se op (server_of s) (Inr x) c'"
  have "\<exists>resp rp s'. checked lib (client_request lib cl cmd (py_join ''/'' t) (no_kwargs\<lparr>kw_json := j\<rparr>)) s = (Inr rp, s')
      \<and> (\<forall>b. rs_output resp = Some (OBytes b) \<longrightarrow> rp_content rp = b) \<and> ?P resp (server_of s')"
    by (rule linked_response [OF call, where P = ?P]) (rule handled)
  then obtain resp rp s' where a:
    "checked lib (client_request lib cl cmd (py_join ''/'' t) (no_kwargs\<lparr>kw_json := j\<rparr>)) s = (Inr rp, s')"
    "\<forall>b. rs_output resp = Some (OBytes b) \<longrightarrow> rp_content rp = b" "?P resp (server_of s')"
    by (elim exE conjE) (rule that, assumption+, intro exI conjI)
  from a(3) obtain x where
    k: "\<forall>rp s'. (\<forall>b. rs_output resp = Some (OBytes b) \<longrightarrow> rp_content rp = b) \<longrightarrow> k rp s' = (Inr x, s')"
    and x: "op_settled ok view se op (server_of s) (Inr x) (server_of s')" by (elim exE conjE) (rule that)
  from mp [OF spec [OF spec [OF k, of rp], of s'] a(2)] have "k rp s' = (Inr x, s')" .
  with a(1) have "run_op lib cl op s = (Inr x, s')" by (simp add: form py_bind_apply)
  with x show ?thesis unfolding op_refines_def by (intro exI conjI)
qed

text \<open>The calls behind the operations.\<close>

lemma key_op_forms:
  "run_op lib cl (SetSecret t v) =
     py_bind (checked lib (client_request lib cl ''PUT'' (py_join ''/'' t) (no_kwargs\<lparr>kw_json := Some (simple_msg v)\<rparr>)))
       (\<lambda>_. py_return None)"
  "run_op lib cl (GetSecret t) =
     py_bind (checked lib (client_request lib cl ''GET'' (py_join ''/'' t) (no_kwargs\<lparr>kw_json := None\<rparr>)))
       (\<lambda>r. py_bind (py_lift (rbind (hl_json lib r) simple_value)) (\<lambda>j. py_return (Some j)))"
  "run_op lib cl (DelSecret t) =
     py_bind (checked lib (client_request lib cl ''DELETE'' (py_join ''/'' t) (no_kwargs\<lparr>kw_json := None\<rparr>)))
       (\<lambda>_. py_return None)"
  by (simp_all add: simple_set_secret_def simple_get_secret_def simple_del_secret_def client_put_def client_get_def
      client_delete_def typed_value_def simple_msg_def no_kwargs_json py_bind_assoc py_bind_return)

lemma container_op_forms:
  assumes "remote_dir cl t"
  shows "run_op lib cl (CreateContainer t) =
     py_bind (checked lib (client_request lib cl ''POST'' (py_join ''/'' (t @ [[]])) (no_kwargs\<lparr>kw_json := None\<rparr>)))
       (\<lambda>_. py_return None)"
  and "run_op lib cl (DeleteContainer t) =
     py_bind (checked lib (client_request lib cl ''DELETE'' (py_join ''/'' (t @ [[]])) (no_kwargs\<lparr>kw_json := None\<rparr>)))
       (\<lambda>_. py_return None)"
  and "run_op lib cl (ListContainer t) =
     py_bind (checked lib (client_request lib cl ''GET'' (py_join ''/'' (t @ [[]])) (no_kwargs\<lparr>kw_json := None\<rparr>)))
       (\<lambda>r. py_bind (py_lift (hl_json lib r)) (\<lambda>j. py_return (Some j)))"
  by (simp_all add: simple_create_container_def simple_delete_container_def simple_list_container_def
      client_post_def client_get_def client_delete_def no_kwargs_json py_bind_assoc py_bind_return remote_dir_facts(4) [OF assms])

context container_store begin

lemma set_refines:
  assumes L: "linked E dec dec8 se dumps lib cl" and o: "op_fits dumps cl (SetSecret t v)"
    and S: "ok (store_of s)" "se_store se = S"
  shows "op_refines ok view se lib cl (SetSecret t v) s"
proof -
  from o have t: "remote_key cl t" and v: "v \<noteq> []" and f: "fits dumps (Some (simple_msg v))" by auto
  note call = key_op_forms(1) L remote_key_facts(1,3) [OF t] supported(2) f
  note api = S(2) linked_facts(1) [OF L] received_facts(1,2) remote_key_facts(2) [OF t] received_facts(3) received_value [OF _ L]
  show ?thesis
  proof (cases "known (view (store_of s)) (parent_base t)")
    case False
    show ?thesis
    proof (rule refines_error [OF call, where n = 404], goal_cases)
      case (3 req now ticks es name)
      from api_put_no_parent [where c = "child_state now ticks es (server_of s)" and E = E, OF _ api, OF _ 3 3 3 3]
        received_facts(6) [OF 3] S False
      show ?case by (auto simp: op_settled_def intro: vault_step.set_orphan)
    qed simp_all
  next
    case True
    show ?thesis
    proof (cases "view (store_of s) (key_of t) = None")
      case fresh: True
      show ?thesis
      proof (rule refines_response [OF call], goal_cases)
        case (1 req now ticks es name)
        from api_put_fresh [where c = "child_state now ticks es (server_of s)" and E = E, OF _ api v, OF _ 1 1 1 1]
          S True fresh vault_step.set_new [OF True fresh, of v]
        show ?case by (auto simp: op_settled_def accepted_coded py_return_apply simp del: fun_upd_apply)
      qed
    next
      case taken: False
      show ?thesis
      proof (rule refines_error [OF call, where n = 409], goal_cases)
        case (3 req now ticks es name)
        from api_put_taken [where c = "child_state now ticks es (server_of s)" and E = E, OF _ api v, OF _ 3 3 3 3]
          S True taken vault_step.set_taken [OF True taken, of v]
        show ?case by (auto simp: op_settled_def)
      qed simp_all
    qed
  qed
qed

lemma get_refines:
  assumes L: "linked E dec dec8 se dumps lib cl" and o: "op_fits dumps cl (GetSecret t)"
    and S: "ok (store_of s)" "se_store se = S" and tv: "text_view (view (store_of s))"
    and nd: "view (store_of s) (key_of t) \<noteq> Some Dir"
  shows "op_refines ok view se lib cl (GetSecret t) s"
proof -
  from o have t: "remote_key cl t" by simp
  note call = key_op_forms(2) L remote_key_facts(1,3) [OF t] supported(1) fits_None
  note api = S(2) linked_facts(1) [OF L] received_facts(1,2) remote_key_facts(2) [OF t] received_facts(3,4)
  show ?thesis
  proof (cases "view (store_of s) (key_of t)")
    case None
    show ?thesis
    proof (rule refines_error [OF call, where n = 404], goal_cases)
      case (3 req now ticks es name)
      from api_get_absent [where c = "child_state now ticks es (server_of s)" and E = E, OF _ api, OF _ 3 3 3 3]
        S None vault_step.get_absent [of "view (store_of s)" t]
      show ?case by (auto simp: op_settled_def)
    qed simp_all
  next
    case (Some e)
    with tv nd obtain v where v: "e = Secret (JStr v)" "v \<noteq> []" by (auto simp: text_view_def)
    let ?out = "utf8_encode (jo_json_encode (en_jose E) (simple_msg v))"
    have decoded: "rp_content rp = ?out \<Longrightarrow> hl_json lib rp = Inr (simple_msg v)" for rp
      using linked_facts(3) [OF L, of "rp_status rp"] by (cases rp) simp
    have "simple_value (simple_msg v) = Inr (JStr v)"
      by (simp add: simple_value_def reply_get_def simple_msg_def json_getitem_def)
    show ?thesis
    proof (rule refines_response [OF call], goal_cases)
      case (1 req now ticks es name)
      from api_get [where c = "child_state now ticks es (server_of s)" and E = E, OF _ api received_facts(5) v(2), OF _ 1 1 1 1 1]
        S Some v obtain r c' where
        r: "consumer_handle E (root_consumer E (Some se)) req (child_state now ticks es (server_of s)) = (Inr r, c')"
          "rs_code r = None" "rs_output r = Some (OBytes ?out)" "ok (cx_store c')" "view (cx_store c') = view (store_of s)"
          "cx_audit c' = cx_audit (child_state now ticks es (server_of s)) @ [audit_key_entry (se_origin se) AUDIT_GET_ALLOWED name (py_join ''/'' t)]"
        by auto
      have "op_settled ok view se (GetSecret t) (server_of s) (Inr (Some (JStr v))) c'"
        using r(4-6) vault_step.get_there [of "view (store_of s)" t "JStr v"] Some v by (simp add: op_settled_def)
      moreover have "\<forall>rp s'. (\<forall>b. rs_output r = Some (OBytes b) \<longrightarrow> rp_content rp = b) \<longrightarrow>
          py_bind (py_lift (rbind (hl_json lib rp) simple_value)) (\<lambda>j. py_return (Some j)) s' = (Inr (Some (JStr v)), s')"
        using decoded \<open>simple_value (simple_msg v) = Inr (JStr v)\<close> r(3) by (simp add: py_simps)
      ultimately show ?case using r(1,2) by (auto simp: accepted_def)
    qed
  qed
qed

lemma del_refines:
  assumes L: "linked E dec dec8 se dumps lib cl" and o: "op_fits dumps cl (DelSecret t)"
    and S: "ok (store_of s)" "se_store se = S"
  shows "op_refines ok view se lib cl (DelSecret t) s"
proof -
  from o have t: "remote_key cl t" by simp
  note call = key_op_forms(3) L remote_key_facts(1,3) [OF t] supported(3) fits_None
  note api = S(2) linked_facts(1) [OF L] received_facts(1,2) remote_key_facts(2) [OF t] received_facts(3)
    received_facts(7) [OF _ refl]
  show ?thesis
  proof (cases "view (store_of s) (key_of t) = None")
    case True
    show ?thesis
    proof (rule refines_error [OF call, where n = 404], goal_cases)
      case (3 req now ticks es name)
      from api_delete_absent [where c = "child_state now ticks es (server_of s)" and E = E, OF _ api, OF _ 3 3 3 3]
        S True vault_step.del_absent [of "view (store_of s)" t]
      show ?case by (auto simp: op_settled_def)
    qed simp_all
  next
    case False
    show ?thesis
    proof (rule refines_response [OF call], goal_cases)
      case (1 req now ticks es name)
      from api_delete [where c = "child_state now ticks es (server_of s)" and E = E, OF _ api, OF _ 1 1 1 1]
        S False vault_step.del_there [of "view (store_of s)" t]
      show ?case by (auto simp: op_settled_def accepted_coded py_return_apply simp del: fun_upd_apply)
    qed
  qed
qed

lemma create_refines:
  assumes L: "linked E dec dec8 se dumps lib cl" and o: "op_fits dumps cl (CreateContainer t)"
    and S: "ok (store_of s)" "se_store se = S"
  shows "op_refines ok view se lib cl (CreateContainer t) s"
proof -
  let ?V = "view (store_of s)"
  from o have t: "remote_dir cl t" by simp
  note call = container_op_forms(1) [OF t] L remote_dir_facts(1,3) [OF t] supported(4) fits_None
  note api = S(2) linked_facts(1) [OF L] received_facts(1,2) remote_dir_facts(2) [OF t] received_facts(7) [OF _ refl]
  show ?thesis
  proof (cases "parent_there ?V t")
    case False
    show ?thesis
    proof (rule refines_error [OF call, where n = 404], goal_cases)
      case (3 req now ticks es name)
      from api_mkdir_orphan [where c = "child_state now ticks es (server_of s)" and E = E, OF _ api received_facts(6), OF _ 3 3 3 3]
        S False vault_step.create_orphan [OF False]
      show ?case by (auto simp: op_settled_def)
    qed simp_all
  next
    case True
    show ?thesis
    proof (cases "?V (key_of t) = None")
      case fresh: True
      show ?thesis
      proof (rule refines_response [OF call], goal_cases)
        case (1 req now ticks es name)
        from api_mkdir_fresh [where c = "child_state now ticks es (server_of s)" and E = E, OF _ api, OF _ 1 1 1]
          S True fresh vault_step.create_new [OF True fresh]
        show ?case by (auto simp: op_settled_def accepted_coded py_return_apply simp del: fun_upd_apply)
      qed
    next
      case taken: False
      show ?thesis
      proof (rule refines_response [OF call], goal_cases)
        case (1 req now ticks es name)
        from api_mkdir_taken [where c = "child_state now ticks es (server_of s)" and E = E, OF _ api, OF _ 1 1 1]
          S True taken vault_step.create_again [OF True taken]
        show ?case by (auto simp: op_settled_def accepted_coded py_return_apply)
      qed
    qed
  qed
qed

text \<open>A container that is known and empty is marked, when no key ends in a slash.\<close>

lemma known_marked:
  assumes "text_view V" and "remote_dir cl t" and "known V (key_of t @ ''/'')" and "child_names V (key_of t @ ''/'') = {}"
  shows "V (key_of t) \<noteq> None"
proof -
  have "key_of t \<noteq> []" by (simp add: key_of_def py_join_Cons)
  then have p: "list_path (key_of t @ ''/'') = key_of t" "child_prefix (key_of t @ ''/'') = key_of t @ ''/''"
    using dir_base(2) [OF remote_dir_facts(2) [OF assms(2)]] remote_dir_facts(2) [OF assms(2)]
      key_names_ok(2) [OF assms(2)]
    by (simp_all add: dir_base(1) child_prefix_def Let_def)
  have "\<not> key_ok (key_of t @ ''/'')" by (simp add: key_ok_def endswith_char)
  then have "V (key_of t @ ''/'') = None" using assms(1) unfolding text_view_def by (metis option.exhaust)
  with assms(3,4) p show ?thesis by (auto simp: known_def container_there_def)
qed

lemma delete_refines:
  assumes L: "linked E dec dec8 se dumps lib cl" and o: "op_fits dumps cl (DeleteContainer t)"
    and S: "ok (store_of s)" "se_store se = S" and tv: "text_view (view (store_of s))"
  shows "op_refines ok view se lib cl (DeleteContainer t) s"
proof -
  let ?V = "view (store_of s)"
  from o have t: "remote_dir cl t" by simp
  note call = container_op_forms(2) [OF t] L remote_dir_facts(1,3) [OF t] supported(3) fits_None
  note api = S(2) linked_facts(1) [OF L] received_facts(1,2) remote_dir_facts(2) [OF t] received_facts(7) [OF _ refl]
  consider "\<not> known ?V (key_of t @ ''/'')" | "child_names ?V (key_of t @ ''/'') \<noteq> {}"
    | "child_names ?V (key_of t @ ''/'') = {}" "?V (key_of t) \<noteq> None"
    using known_marked [OF tv t] by blast
  then show ?thesis
  proof cases
    case 1
    show ?thesis
    proof (rule refines_error [OF call, where n = 404], goal_cases)
      case (3 req now ticks es name)
      from api_rmdir_refused(2) [where c = "child_state now ticks es (server_of s)" and E = E, OF _ api, OF _ 3 3 3]
        S 1 vault_step.delete_unknown [OF 1]
      show ?case by (auto simp: op_settled_def)
    qed simp_all
  next
    case 2
    show ?thesis
    proof (rule refines_error [OF call, where n = 409], goal_cases)
      case (3 req now ticks es name)
      from api_rmdir_refused(1) [where c = "child_state now ticks es (server_of s)" and E = E, OF _ api, OF _ 3 3 3]
        S 2 vault_step.delete_full [OF 2]
      show ?case by (auto simp: op_settled_def)
    qed simp_all
  next
    case 3
    show ?thesis
    proof (rule refines_response [OF call], goal_cases)
      case (1 req now ticks es name)
      from api_rmdir_empty [where c = "child_state now ticks es (server_of s)" and E = E, OF _ api, OF _ 1 1 1]
        S 3 vault_step.delete_empty [OF 3]
      show ?case by (auto simp: op_settled_def accepted_coded py_return_apply simp del: fun_upd_apply)
    qed
  qed
qed

lemma list_refines:
  assumes L: "linked E dec dec8 se dumps lib cl" and o: "op_fits dumps cl (ListContainer t)"
    and S: "ok (store_of s)" "se_store se = S"
  shows "op_refines ok view se lib cl (ListContainer t) s"
proof -
  let ?V = "view (store_of s)"
  from o have t: "remote_dir cl t" by simp
  note call = container_op_forms(3) [OF t] L remote_dir_facts(1,3) [OF t] supported(1) fits_None
  note api = S(2) linked_facts(1) [OF L] received_facts(1,2) remote_dir_facts(2) [OF t] received_facts(4)
  show ?thesis
  proof (cases "known ?V (key_of t @ ''/'')")
    case False
    show ?thesis
    proof (rule refines_error [OF call, where n = 404], goal_cases)
      case (3 req now ticks es name)
      from api_list_unknown [where c = "child_state now ticks es (server_of s)" and E = E, OF _ api, OF _ 3 3 3]
        S False vault_step.list_unknown [OF False]
      show ?case by (auto simp: op_settled_def)
    qed simp_all
  next
    case True
    show ?thesis
    proof (rule refines_response [OF call], goal_cases)
      case (1 req now ticks es name)
      from api_list [where c = "child_state now ticks es (server_of s)" and E = E, OF _ api, OF _ 1 1 1] S True
      obtain r c' names where
        r: "consumer_handle E (root_consumer E (Some se)) req (child_state now ticks es (server_of s)) = (Inr r, c')"
          "rs_code r = None" "rs_output r = Some (OBytes (utf8_encode (jo_json_encode (en_jose E) (names_json names))))"
          "sorted names" "set names = child_names ?V (key_of t @ ''/'')" "cx_store c' = store_of s"
        by auto
      have "op_settled ok view se (ListContainer t) (server_of s) (Inr (Some (names_json names))) c'"
        using r(6) S vault_step.list_known [OF True r(4,5)] by (simp add: op_settled_def)
      moreover have "hl_json lib rp = Inr (names_json names)"
        if "\<forall>b. rs_output r = Some (OBytes b) \<longrightarrow> rp_content rp = b" for rp
        using that r(3) linked_facts(4) [OF L, of "rp_status rp" names] by (cases rp) simp
      ultimately show ?case using r(1,2) by (auto simp: accepted_def py_simps)
    qed
  qed
qed

end

context marked_store begin

lemma get_container_refines:
  assumes L: "linked E dec dec8 se dumps lib cl" and o: "op_fits dumps cl (GetSecret t)"
    and S: "ok (store_of s)" "se_store se = S" and d: "view (store_of s) (key_of t) = Some Dir"
  shows "op_refines ok view se lib cl (GetSecret t) s"
proof -
  from o have t: "remote_key cl t" by simp
  note call = key_op_forms(2) L remote_key_facts(1,3) [OF t] supported(1) fits_None
  note api = S(2) linked_facts(1) [OF L] received_facts(1,2) remote_key_facts(2) [OF t] received_facts(3,4)
  show ?thesis
  proof (rule refines_error [OF call, where n = 406], goal_cases)
    case (3 req now ticks es name)
    from api_get_mark [where c = "child_state now ticks es (server_of s)" and E = E, OF _ api, OF _ 3 3 3 3]
      S d vault_step.get_container [of "view (store_of s)" t]
    show ?case by (auto simp: op_settled_def)
  qed simp_all
qed

lemma every_op_refines:
  assumes "linked E dec dec8 se dumps lib cl" and "op_fits dumps cl op"
    and "ok (store_of s)" and "se_store se = S" and "text_view (view (store_of s))"
  shows "op_refines ok view se lib cl op s"
proof (cases op)
  case (GetSecret t)
  then show ?thesis
    using get_refines [of E dec dec8 se dumps lib cl t s] get_container_refines [of E dec dec8 se dumps lib cl t s] assms
    by (cases "view (store_of s) (key_of t) = Some Dir") auto
qed (use assms set_refines [OF assms(1) _ assms(3,4)] del_refines [OF assms(1) _ assms(3,4)]
    create_refines [OF assms(1) _ assms(3,4)] delete_refines [OF assms(1) _ assms(3-5)]
    list_refines [OF assms(1) _ assms(3,4)] in simp_all)

lemma session_refines:
  assumes "linked E dec dec8 se dumps lib cl" and "list_all (op_fits dumps cl) ops"
    and "ok (store_of s)" and "se_store se = S" and "text_view (view (store_of s))"
    and "run_ops lib cl ops s = (rs, s')"
  shows "vault_run (view (store_of s)) ops rs (view (store_of s')) \<and> ok (store_of s')
    \<and> text_view (view (store_of s'))"
  using assms(2,3,5,6)
proof (induction ops arbitrary: s rs)
  case (Cons op ops)
  then obtain r s1 rs1 where r: "run_op lib cl op s = (r, s1)" "run_ops lib cl ops s1 = (rs1, s')" "rs = r # rs1"
    by (auto split: prod.splits)
  from every_op_refines [OF assms(1) _ Cons.prems(2) assms(4) Cons.prems(3), of op] Cons.prems(1) r(1)
  have "ok (store_of s1)" and step: "vault_step (view (store_of s)) op r (view (store_of s1))"
    by (auto simp: op_refines_def op_settled_def)
  moreover from vault_step_text [OF step Cons.prems(3)] Cons.prems(1) have "text_view (view (store_of s1))" by auto
  ultimately show ?case using Cons.IH [of s1 rs1] Cons.prems(1) r(2,3) by (auto simp: vault_run_simps)
qed (auto simp: vault_run_simps)

end

subsection \<open>What sessions keep\<close>

lemma vault_step_keeps:
  "vault_step V op r V' \<Longrightarrow> V k = Some e \<Longrightarrow>
   (\<And>t. op = DelSecret t \<or> op = DeleteContainer t \<Longrightarrow> key_of t \<noteq> k) \<Longrightarrow> V' k = Some e"
  by (induction rule: vault_step.induct) auto

lemma vault_run_keeps:
  "vault_run V ops rs V' \<Longrightarrow> V k = Some e \<Longrightarrow>
   (\<And>t. DelSecret t \<in> set ops \<or> DeleteContainer t \<in> set ops \<Longrightarrow> key_of t \<noteq> k) \<Longrightarrow> V' k = Some e"
  by (induction rule: vault_run.induct) (auto dest: vault_step_keeps)

lemma vault_run_snoc:
  "vault_run V (ops @ [op]) rs V' \<Longrightarrow>
   \<exists>rs1 r V1. rs = rs1 @ [r] \<and> vault_run V ops rs1 V1 \<and> vault_step V1 op r V'"
proof (induction ops arbitrary: V rs)
  case Nil
  then show ?case by (auto simp: vault_run_simps)
next
  case (Cons a ops)
  then obtain r rs1 V1 where "rs = r # rs1" "vault_step V a r V1" "vault_run V1 (ops @ [op]) rs1 V'"
    by (auto simp: vault_run_simps)
  with Cons.IH [OF this(3)] show ?case by (force simp: vault_run_simps)
qed

text \<open>Different names are different keys.\<close>

lemma key_names_inj:
  assumes "remote_key cl t \<or> remote_dir cl t" and "remote_key cl u \<or> remote_dir cl u" and "key_of t = key_of u"
  shows "t = u"
proof -
  have p: "\<forall>x \<in> set w. plain_segment x" if "remote_key cl w \<or> remote_dir cl w" for w
    using that plain_segment_name by (auto simp: remote_key_def remote_dir_def)
  have "''keys'' # t = ''keys'' # u"
    using assms(3) p [OF assms(1)] p [OF assms(2)]
    by (intro py_join_inj [of _ _ "CHR ''/''"]) (auto simp: key_of_def plain_segment_def)
  then show ?thesis by simp
qed

subsection \<open>Client, server and SQLite store\<close>

text \<open>C4: Every operation of \<open>CustodiaSimpleClient\<close> against a server over a SQLite store answers, changes
  the contents and leaves the audit entry the contract of the operation asks for.\<close>

theorem client_refines_vault:
  assumes "linked E dec dec8 se dumps lib cl" and "se_store se = sqlite_ops" and "op_fits dumps cl op"
    and "text_db (store_of s)" and "text_view (sqlite_view (store_of s))"
  shows "\<exists>r s'. run_op lib cl op s = (r, s') \<and> text_db (store_of s')
    \<and> vault_step (sqlite_view (store_of s)) op r (sqlite_view (store_of s'))
    \<and> op_logged se op r (log_of s) (log_of s')"
  using marked.every_op_refines [OF assms(1,3,4,2,5)] by (auto simp: op_refines_def op_settled_def)

lemma run_ops_snoc:
  "run_ops lib cl (ops @ [op]) s = (case run_ops lib cl ops s of (rs, s1) \<Rightarrow>
     case run_op lib cl op s1 of (r, s2) \<Rightarrow> (rs @ [r], s2))"
  by (induction ops arbitrary: s) (auto split: prod.splits)

text \<open>The last read of a session that stored a secret and did not delete it.\<close>

lemma session_keeps:
  assumes "linked E dec dec8 se dumps lib cl" and "se_store se = sqlite_ops"
    and "text_db (store_of s)" and "text_view (sqlite_view (store_of s))"
    and "list_all (op_fits dumps cl) (SetSecret t v # ops)"
    and "DelSecret t \<notin> set ops" and "DeleteContainer t \<notin> set ops"
    and "run_ops lib cl (SetSecret t v # ops) s = (Inr None # rs, s1)"
  shows "\<exists>s2. run_op lib cl (GetSecret t) s1 = (Inr (Some (JStr v)), s2)"
proof -
  let ?all = "SetSecret t v # ops @ [GetSecret t]"
  obtain r2 s2 where get: "run_op lib cl (GetSecret t) s1 = (r2, s2)" by fastforce
  have run: "run_ops lib cl ?all s = (Inr None # rs @ [r2], s2)"
    using run_ops_snoc [of lib cl "SetSecret t v # ops" "GetSecret t" s] assms(8) get by simp
  have "list_all (op_fits dumps cl) ?all" using assms(5) by simp
  from marked.session_refines [OF assms(1) this assms(3,2,4) run]
  have "vault_run (sqlite_view (store_of s)) ?all (Inr None # rs @ [r2]) (sqlite_view (store_of s2))" by simp
  then obtain V1 V2 where first: "vault_step (sqlite_view (store_of s)) (SetSecret t v) (Inr None) V1"
    and rest: "vault_run V1 ops rs V2" and final: "vault_step V2 (GetSecret t) r2 (sqlite_view (store_of s2))"
    by (auto simp: vault_run_simps dest: vault_run_snoc)
  from first have "V1 (key_of t) = Some (Secret (JStr v))" by (auto elim: vault_step_cases)
  moreover have "key_of u \<noteq> key_of t" if "DelSecret u \<in> set ops \<or> DeleteContainer u \<in> set ops" for u
  proof -
    have "remote_key cl u \<or> remote_dir cl u" "remote_key cl t" "u \<noteq> t"
      using that assms(5-7) by (auto simp: list_all_iff)
    then show ?thesis using key_names_inj [of cl u t] by blast
  qed
  ultimately have "V2 (key_of t) = Some (Secret (JStr v))" by (rule vault_run_keeps [OF rest])
  with final have "r2 = Inr (Some (JStr v))" by (auto elim: vault_step_cases)
  with get show ?thesis by simp
qed

text \<open>C3: A secret that was stored is read back by name after any session that does not delete it,
  whatever else the session stores, reads, lists or deletes.\<close>

theorem client_reads_back:
  assumes "linked E dec dec8 se dumps lib cl" and "se_store se = sqlite_ops"
    and "text_db (store_of s)" and "text_view (sqlite_view (store_of s))"
    and "list_all (op_fits dumps cl) (SetSecret t v # ops)"
    and "DelSecret t \<notin> set ops" and "DeleteContainer t \<notin> set ops"
    and "fst (run_op lib cl (SetSecret t v) s) = Inr None"
  shows "last (fst (run_ops lib cl (SetSecret t v # ops @ [GetSecret t]) s)) = Inr (Some (JStr v))"
proof -
  obtain rs s1 where run: "run_ops lib cl (SetSecret t v # ops) s = (Inr None # rs, s1)"
    using assms(8) by (cases "run_op lib cl (SetSecret t v) s"; cases "run_ops lib cl ops (snd (run_op lib cl (SetSecret t v) s))")
      (simp del: run_op.simps)
  from session_keeps [OF assms(1-7) run] obtain s2 where
    "run_op lib cl (GetSecret t) s1 = (Inr (Some (JStr v)), s2)" by blast
  then show ?thesis using run_ops_snoc [of lib cl "SetSecret t v # ops" "GetSecret t" s] run by simp
qed

subsection \<open>A connection that satisfies the hypothesis\<close>

text \<open>A notation for the values that travel, with its reader.\<close>

definition note_json :: "json \<Rightarrow> string" where
  "note_json j = (case j of
      JDict [_, (_, JStr s)] \<Rightarrow> CHR ''s'' # s
    | JList xs \<Rightarrow> CHR ''n'' # concat (map (\<lambda>x. case x of
        JStr s \<Rightarrow> replicate (length s) (CHR ''1'') @ ''0'' @ s | _ \<Rightarrow> []) xs)
    | _ \<Rightarrow> [])"

function read_names :: "string \<Rightarrow> json list" where
  "read_names s = (if s = [] then []
     else let n = length (takeWhile (\<lambda>c. c = CHR ''1'') s)
          in JStr (take n (drop (Suc n) s)) # read_names (drop n (drop (Suc n) s)))"
  by auto

termination by (relation "measure length") auto

declare read_names.simps [simp del]

definition read_note :: "string \<Rightarrow> json res" where
  "read_note s = (case s of
      [] \<Rightarrow> Inl ValueError
    | c # t \<Rightarrow> Inr (if c = CHR ''s'' then simple_msg t else JList (read_names t)))"

lemma read_names_note:
  "read_names (concat (map (\<lambda>s. replicate (length s) (CHR ''1'') @ CHR ''0'' # s) ns)) = map JStr ns"
proof (induction ns)
  case (Cons s ns)
  have "takeWhile (\<lambda>c. c = CHR ''1'') (replicate n (CHR ''1'') @ CHR ''0'' # r) = replicate n (CHR ''1'')" for n r
    by (induction n) simp_all
  with Cons show ?case by (subst read_names.simps) simp
qed (simp add: read_names.simps)

lemma read_note_json:
  "read_note (note_json (simple_msg s)) = Inr (simple_msg s)"
  "read_note (note_json (names_json ns)) = Inr (names_json ns)"
  using read_names_note [of ns]
  by (simp_all add: read_note_def note_json_def simple_msg_def names_json_def comp_def)

definition sample_env :: "(string, unit, unit) env" where
  "sample_env = \<lparr>en_jose = sample_jose\<lparr>jo_json_encode := note_json\<rparr>, en_loads = read_note\<rparr>"

text \<open>A wire that hands the call over as it is, and the answer back.\<close>

definition wired :: "connection \<Rightarrow> string \<Rightarrow> http_call \<Rightarrow> incoming" where
  "wired conn cmd hc = \<lparr>in_conn = conn, in_loginuid = PNoEnt, in_line = ''GET'',
     in_parsed = (case urlparse (hc_url hc) of Inl e \<Rightarrow> None | Inr u \<Rightarrow> Some (cmd, u_path u,
       hc_headers hc @ (if dict_get (hc_headers hc) ''Accept'' = None then [(''Accept'', ''*/*'')] else [])
       @ (case hc_json hc of None \<Rightarrow> [] | Some j \<Rightarrow> [(''Content-Length'', show_nat (length (note_json j)))]))),
     in_stream = (case hc_json hc of None \<Rightarrow> [] | Some j \<Rightarrow> note_json j)\<rparr>"

fun wired_reply :: "outcome \<Rightarrow> reply res" where
  "wired_reply (Sent code hs out) =
     Inr \<lparr>rp_status = code, rp_content = (case out of Some (OBytes b) \<Rightarrow> b | _ \<Rightarrow> [])\<rparr>"
| "wired_reply (ErrorSent n) = Inr \<lparr>rp_status = n, rp_content = []\<rparr>"
| "wired_reply Closed = Inl IOError"
| "wired_reply (Escaped e) = Inl IOError"

definition wire ::
    "('w, string) server_config \<Rightarrow> connection \<Rightarrow> ('w, string) ctx http_lib" where
  "wire cfg conn = \<lparr>
     hl_send = (\<lambda>cmd hc c. case handle_one_request sample_env utf8_decode Inr (Some cfg) (wired conn cmd hc) (fork 0 [] c) of
        None \<Rightarrow> (Inl IOError, c) | Some (out, c') \<Rightarrow> (wired_reply out, c')),
     hl_raise = (\<lambda>r. if 400 \<le> rp_status r \<and> rp_status r < 600 then Inl (HTTPError (rp_status r)) else Inr ()),
     hl_json = (\<lambda>r. read_note (utf8_decode (rp_content r)))\<rparr>"

lemma wired_reply_shown: "shows_reply out (wired_reply out)"
  by (cases out) (auto split: option.splits body.splits)

lemma header_get_dict:
  assumes "distinct (map (py_lower \<circ> fst) hs)" and "dict_get hs n = Some v"
  shows "header_get (hs @ hs') n = Some v"
proof -
  have "(n, v) \<in> set hs" using assms(2) by (auto simp: dict_get_def dest: map_of_SomeD)
  then have "(py_lower n, v) \<in> set (map (\<lambda>(n, v). (py_lower n, v)) hs)" by force
  moreover have "map fst (map (\<lambda>(n, v). (py_lower n, v)) hs) = map (py_lower \<circ> fst) hs"
    by (induction hs) auto
  then have "distinct (map fst (map (\<lambda>(n, v). (py_lower n, v)) hs))" using assms(1) by (simp only:)
  ultimately have "map_of (map (\<lambda>(n, v). (py_lower n, v)) hs) (py_lower n) = Some v"
    by (intro map_of_is_SomeI)
  then show ?thesis by (simp add: header_get_def map_add_def)
qed

lemma header_get_none:
  "\<forall>m \<in> fst ` set hs. py_lower m \<noteq> py_lower n \<Longrightarrow> header_get (hs @ hs') n = header_get hs' n"
proof -
  assume "\<forall>m \<in> fst ` set hs. py_lower m \<noteq> py_lower n"
  then have "map_of (map (\<lambda>(n, v). (py_lower n, v)) hs) (py_lower n) = None"
    by (auto simp: map_of_eq_None_iff)
  then show ?thesis by (simp add: header_get_def map_add_def)
qed

lemma wired_carries:
  assumes "plain_call hc"
  shows "carries note_json conn cmd hc (wired conn cmd hc)"
proof -
  from assms obtain nl t where t: "plain_trail t" "\<forall>x \<in> set nl. x \<notin> set ''/?#[]''"
    "hc_url hc = ''http+unix://'' @ nl @ ''/'' @ py_join ''/'' t"
    and h: "plain_headers (hc_headers hc)" by (auto simp: plain_call_def)
  have "\<forall>x \<in> set (py_join ''/'' t). x \<notin> set ''?#''" using plain_path_chars [OF t(1)] by auto
  from urlparse_unix [OF t(2) this] obtain u where u: "urlparse (hc_url hc) = Inr u" using t(3) by auto
  let ?hs = "hc_headers hc"
  let ?acc = "if dict_get ?hs ''Accept'' = None then [(''Accept'', ''*/*'')] else []"
  let ?len = "case hc_json hc of None \<Rightarrow> [] | Some j \<Rightarrow> [(''Content-Length'', show_nat (length (note_json j)))]"
  have lower: "py_lower ''Accept'' = ''accept''" "py_lower ''content-length'' = ''content-length''"
    "py_lower ''Content-Length'' = ''content-length''" by code_simp+
  have kept: "header_get (?hs @ ?acc @ ?len) n = Some v" if "dict_get ?hs n = Some v" for n v
    using header_get_dict [OF _ that] h by (simp add: plain_headers_def)
  have accept: "header_get (?hs @ ?acc @ ?len) ''Accept'' = Some ''*/*''" if "dict_get ?hs ''Accept'' = None"
  proof -
    have "''Accept'' \<notin> fst ` set ?hs" using that by (simp add: dict_get_def map_of_eq_None_iff)
    moreover have "\<forall>m \<in> fst ` set ?hs. py_lower m = ''accept'' \<longrightarrow> m = ''Accept''"
      using h by (simp add: plain_headers_def)
    ultimately have "\<forall>m \<in> fst ` set ?hs. py_lower m \<noteq> py_lower ''Accept''"
      unfolding lower(1) by metis
    then have "header_get (?hs @ ?acc @ ?len) ''Accept'' = header_get (?acc @ ?len) ''Accept''" by (rule header_get_none)
    also have "\<dots> = Some ''*/*''" by (simp add: header_get_def that)
    finally show ?thesis .
  qed
  have "\<forall>m \<in> fst ` set (?hs @ ?acc). py_lower m \<noteq> py_lower ''content-length''"
    using h lower by (auto simp: plain_headers_def)
  from header_get_none [OF this, of ?len]
  have "header_get (?hs @ ?acc @ ?len) ''content-length'' = (case hc_json hc of None \<Rightarrow> None
      | Some j \<Rightarrow> Some (show_nat (length (note_json j))))"
    using lower by (auto simp: header_get_def split: option.splits)
  with u kept accept show ?thesis
    by (auto simp: carries_def wired_def get_loginuid_def py_int_show_nat split: option.splits)
qed

lemma wire_connected:
  "connected sample_env utf8_decode Inr cfg conn note_json (wire cfg conn)"
proof -
  have "\<exists>inc now ticks. carries note_json conn cmd hc inc
      \<and> (\<forall>out c'. handle_one_request sample_env utf8_decode Inr (Some cfg) inc (fork now ticks c) = Some (out, c') \<longrightarrow>
          (\<exists>r. shows_reply out r \<and> hl_send (wire cfg conn) cmd hc c = (r, c')))"
    if "plain_call hc" for cmd hc c
  proof (intro exI conjI allI impI)
    show "carries note_json conn cmd hc (wired conn cmd hc)" by (rule wired_carries [OF that])
    fix out c'
    assume "handle_one_request sample_env utf8_decode Inr (Some cfg) (wired conn cmd hc) (fork 0 [] c) = Some (out, c')"
    then show "hl_send (wire cfg conn) cmd hc c = (wired_reply out, c')" by (simp add: wire_def)
    show "shows_reply out (wired_reply out)" by (rule wired_reply_shown)
  qed
  moreover have "note_json (simple_msg s) \<noteq> []" "en_loads sample_env (note_json (simple_msg s)) = Inr (simple_msg s)" for s
    by (simp_all add: note_json_def sample_env_def simple_msg_def read_note_def)
  moreover have "jo_json_encode (en_jose sample_env) = note_json" by (simp add: sample_env_def)
  ultimately show ?thesis
    unfolding connected_def by (simp add: wire_def read_note_json)
qed

text \<open>A local user with a container, its client, and the two ends of the socket.\<close>

definition sample_secrets :: "db secrets" where
  "sample_secrets = \<lparr>se_origin = ''Secrets'', se_validator = Validator (AllowText ''simple''), se_store = sqlite_ops\<rparr>"

definition sample_conn :: connection where
  "sample_conn = \<lparr>cn_family = AF_UNIX,
     cn_peercred = [CHR 0x07, CHR 0x00, CHR 0x00, CHR 0x00, CHR 0xE8, CHR 0x03, CHR 0x00, CHR 0x00,
                    CHR 0x64, CHR 0x00, CHR 0x00, CHR 0x00],
     cn_peersec = Inl IOError, cn_peername = ([], 0), cn_cert = NoTLS\<rparr>"

definition sample_user :: creds_auth where
  "sample_user = \<lparr>ca_origin = ''creds'', ca_uid = 1000, ca_gid = -1\<rparr>"

definition sample_paths :: path_authz where
  "sample_paths = \<lparr>pa_origin = ''paths'', pa_paths = [''/secrets'']\<rparr>"

definition sample_lib :: "(db, string) ctx http_lib" where
  "sample_lib = wire (local_config sample_env sample_secrets sample_user sample_paths) sample_conn"

definition sample_client :: client where
  "sample_client = new_client ''http+unix://%2Frun%2Fcustodia.sock/secrets''"

definition sample_state :: "((db, string) ctx \<times> reply option, string) ctx" where
  "sample_state = sample_ctx (sample_ctx \<lparr>db_rows = Some [(''keys/alice'', JStr [])], db_faults = []\<rparr>, None)"

lemma sample_linked:
  "linked sample_env utf8_decode Inr sample_secrets note_json sample_lib sample_client"
proof -
  have "allows_simple sample_secrets"
    by (simp add: allows_simple_def sample_secrets_def Validator_def key_types_def dict_get_def)
  moreover have "admits Inr sample_user sample_paths sample_conn"
    by (simp add: admits_def sample_user_def sample_paths_def) code_simp
  moreover have "local_client sample_client"
  proof -
    have "add_headers sample_client None = [(''Content-Type'', ''application/json'')]" by code_simp
    moreover have "plain_headers [(''Content-Type'', ''application/json'')]" by code_simp
    moreover have "cl_url sample_client = ''http+unix://'' @ ''%2Frun%2Fcustodia.sock'' @ ''/secrets''"
      by (simp add: sample_client_def new_client_def)
    ultimately show ?thesis unfolding local_client_def by (simp add: dict_get_def)
  qed
  ultimately show ?thesis
    using wire_connected unfolding linked_def sample_lib_def by blast
qed

lemma sample_store:
  "store_of sample_state = \<lparr>db_rows = Some [(''keys/alice'', JStr [])], db_faults = []\<rparr>"
  by (simp add: sample_state_def sample_ctx_def server_of_def)

lemma sample_view: "sqlite_view (store_of sample_state) = [''keys/alice'' \<mapsto> Dir]"
  by (auto simp: sample_store sqlite_view_def row_entry_def fun_eq_iff)

lemma sample_vault:
  "text_db (store_of sample_state)" "text_view (sqlite_view (store_of sample_state))"
  by (auto simp: sample_store text_db_def text_rows_def text_table_def sqlite_ready_def table_ok_def
      key_ok_def endswith_char text_view_def sample_view [unfolded sample_store])

lemma sample_plain: "plain_name ''alice''" "plain_name ''key''" "plain_name ''other''"
  by code_simp+

lemma sample_names:
  "op_fits note_json sample_client (SetSecret [''alice'', ''key''] ''pw'')"
  "op_fits note_json sample_client (SetSecret [''alice'', ''other''] ''x'')"
  "op_fits note_json sample_client (ListContainer [''alice''])"
  "op_fits note_json sample_client (DelSecret [''alice'', ''other''])"
proof -
  have fits: "fits note_json (Some (simple_msg v))" if "length v < 100" for v
    using that by (simp add: fits_def note_json_def simple_msg_def MAX_REQUEST_SIZE_def)
  have short: "short_name sample_client t" if "t \<in> {[''alice'', ''key''], [''alice'', ''other''], [''alice'', []]}" for t
    using that by (elim insertE emptyE; simp only:; unfold short_name_def sample_client_def join_url_def new_client_def; simp add: rstrip_ch_def rstrip_of_def)
  show "op_fits note_json sample_client (SetSecret [''alice'', ''key''] ''pw'')"
    "op_fits note_json sample_client (SetSecret [''alice'', ''other''] ''x'')"
    "op_fits note_json sample_client (ListContainer [''alice''])"
    "op_fits note_json sample_client (DelSecret [''alice'', ''other''])"
    using sample_plain by (simp_all add: fits short remote_key_def remote_dir_def)
qed

lemma sample_set:
  assumes "vault_step (sqlite_view (store_of sample_state)) (SetSecret [''alice'', ''key''] ''pw'') r V"
  shows "r = Inr None" and "V = [''keys/alice'' \<mapsto> Dir, ''keys/alice/key'' \<mapsto> Secret (JStr ''pw'')]"
proof -
  have k: "key_of [''alice'', ''key''] = ''keys/alice/key''" "list_path (parent_base [''alice'', ''key'']) = ''keys/alice''"
    by code_simp+
  then have "known (sqlite_view (store_of sample_state)) (parent_base [''alice'', ''key''])"
    by (simp add: known_def container_there_def sample_view)
  with assms k show "r = Inr None" "V = [''keys/alice'' \<mapsto> Dir, ''keys/alice/key'' \<mapsto> Secret (JStr ''pw'')]"
    by (auto elim!: vault_step_cases simp: sample_view)
qed

theorem client_refines_vault_witness:
  "\<exists>s'. run_op sample_lib sample_client (SetSecret [''alice'', ''key''] ''pw'') sample_state = (Inr None, s')
    \<and> sqlite_view (store_of s') ''keys/alice/key'' = Some (Secret (JStr ''pw''))"
proof -
  have "se_store sample_secrets = sqlite_ops" by (simp add: sample_secrets_def)
  from client_refines_vault [OF sample_linked this sample_names(1) sample_vault] sample_set
  show ?thesis by fastforce
qed

theorem client_reads_back_witness:
  "last (fst (run_ops sample_lib sample_client
     [SetSecret [''alice'', ''key''] ''pw'', SetSecret [''alice'', ''other''] ''x'', ListContainer [''alice''],
      DelSecret [''alice'', ''other''], GetSecret [''alice'', ''key'']] sample_state)) = Inr (Some (JStr ''pw''))"
proof -
  let ?ops = "[SetSecret [''alice'', ''other''] ''x'', ListContainer [''alice''], DelSecret [''alice'', ''other'']]"
  have S: "se_store sample_secrets = sqlite_ops" by (simp add: sample_secrets_def)
  from marked.every_op_refines [OF sample_linked sample_names(1) sample_vault(1) S sample_vault(2)] sample_set(1)
  have "fst (run_op sample_lib sample_client (SetSecret [''alice'', ''key''] ''pw'') sample_state) = Inr None"
    by (auto simp: op_refines_def op_settled_def)
  moreover have "list_all (op_fits note_json sample_client) (SetSecret [''alice'', ''key''] ''pw'' # ?ops)"
    using sample_names by simp
  ultimately show ?thesis
    using client_reads_back [OF sample_linked S sample_vault, of "[''alice'', ''key'']" "''pw''" ?ops] by simp
qed

end
