(* ===== verification/Startup.thy ===== *)
theory Startup
  imports Listener ServerInit AuditLog
begin

text \<open>
  Starting the server, \<open>main\<close> of \<open>src/custodia/server/__init__.py\<close>: arguments, configuration
  (\<open>server/config.py\<close>), logging, umask, plugins, the listening socket with its TLS context
  (\<open>httpd/server.py\<close>) and the notification of systemd. What is done to the system is recorded
  in order; the answers of the system are fields of \<open>start_world\<close>.

  Shown: the server serves, and says it is ready, only when every step before has succeeded, the
  socket listens and no plugin lacks its store.
\<close>

subsection \<open>Effects\<close>

datatype start_event =
    StDir string "int option"
  | StLogging bool string
  | StUmask int
  | StSys sys_event
  | StNotify string
  | StServe

type_synonym 'a start = "(start_event list, 'a) py"

record start_world =
  sw_isdir :: "string \<Rightarrow> bool"
  sw_mkdir :: "string \<Rightarrow> unit res"
  sw_open_audit :: "string \<Rightarrow> unit res"
  sw_dec :: "bytes \<Rightarrow> string"
  sw_sd :: "sd_daemon option"
  sw_os :: os_world
  sw_sockname :: "nat \<Rightarrow> string"
  sw_load_cas :: "string option \<Rightarrow> string option \<Rightarrow> unit res"
  sw_load_chain :: "string \<Rightarrow> string option \<Rightarrow> unit res"

definition emit :: "start_event \<Rightarrow> unit res \<Rightarrow> unit start" where
  "emit e r = py_bind (py_modify (\<lambda>es. es @ [e])) (\<lambda>_. py_lift r)"

definition on_sys :: "'a sys \<Rightarrow> 'a start" where
  "on_sys m es = (case m [] of (r, socks) \<Rightarrow> (r, es @ map StSys socks))"

subsection \<open>Configuration\<close>

text \<open>
  \<open>CustodiaConfig.makedirs\<close>, directory by directory. \<open>isdir\<close> is asked again before each step: a
  directory is there when it was before or when it has been made since, by itself or as a parent
  of another one.
\<close>

definition made_dir :: "string \<Rightarrow> start_event \<Rightarrow> bool" where
  "made_dir path e = (case e of
      StDir q mode \<Rightarrow> q = path
        \<or> (path \<noteq> [] \<and> startswith (rstrip_ch (CHR ''/'') q @ ''/'') (rstrip_ch (CHR ''/'') path @ ''/''))
    | _ \<Rightarrow> False)"

definition isdir_now :: "start_world \<Rightarrow> string \<Rightarrow> bool start" where
  "isdir_now sw path = py_bind py_get (\<lambda>es. py_return (sw_isdir sw path \<or> list_ex (made_dir path) es))"

definition make_dir :: "start_world \<Rightarrow> string \<Rightarrow> int option \<Rightarrow> unit start" where
  "make_dir sw path mode = py_bind (isdir_now sw path) (\<lambda>there.
     if there then py_return () else emit (StDir path mode) (sw_mkdir sw path))"

fun config_makedirs :: "start_world \<Rightarrow> cfg \<Rightarrow> string list \<Rightarrow> unit start" where
  "config_makedirs sw p [] = py_return ()"
| "config_makedirs sw p (name # names) =
     py_bind (py_lift (rbind (cfg_get p DEFAULTSECT name) (of_option KeyError))) (\<lambda>path.
     py_bind (make_dir sw (path_dirname path) None) (\<lambda>_.
     py_bind (make_dir sw path (Some 448)) (\<lambda>_.
       config_makedirs sw p names)))"

definition parse_config ::
    "start_world \<Rightarrow> string \<Rightarrow> string \<Rightarrow> (string \<times> string) list
     \<Rightarrow> (string \<Rightarrow> (string \<times> (string \<times> (string \<times> string) list) list) list)
     \<Rightarrow> (string \<times> (string \<times> string) list) list \<Rightarrow> server_args
     \<Rightarrow> (cfg \<times> string list \<times> (string \<times> optval) list) start" where
  "parse_config sw cwd hostname env glob file args =
     py_bind (py_lift (CustodiaConfig_call cwd hostname env glob file args)) (\<lambda>(p, files, config).
     py_bind (if dict_get config ''makedirs'' = Some (VBool True)
              then config_makedirs sw p (map fst (default_paths [])) else py_return ()) (\<lambda>_.
       py_return (p, files, config)))"

text \<open>
  \<open>key in config\<close>: \<open>populate_config\<close> puts an empty table under each special name before anything
  else, and \<open>configfiles\<close> is there as well.
\<close>

definition config_has :: "(string \<times> optval) list \<Rightarrow> string \<Rightarrow> bool" where
  "config_has config k = (k \<in> set CONFIG_SPECIALS \<or> k = ''configfiles'' \<or> dict_get config k \<noteq> None)"

definition is_true :: "(string \<times> optval) list \<Rightarrow> string \<Rightarrow> bool" where
  "is_true config k = (dict_get config k = Some (VBool True))"

subsection \<open>Plugins\<close>

record 'p loaded =
  lo_tables :: "'p tables"
  lo_authenticators :: "pnode list"
  lo_authorizers :: "pnode list"
  lo_consumers :: "pnode list"
  lo_stores :: "(string \<times> pnode) list"

text \<open>\<open>_load_plugins\<close>: \<open>node\<close> gives what a plugin object says about its store.\<close>

definition load_plugins ::
    "'p plugin_world \<Rightarrow> ('p \<Rightarrow> pnode) \<Rightarrow> cfg \<Rightarrow> int \<Rightarrow> 'p loaded start" where
  "load_plugins W node p umask =
     py_bind (emit (StUmask umask) (Inr ())) (\<lambda>_.
     py_bind (py_lift (load_sections W p (map fst (cf_sections p)) empty_tables)) (\<lambda>T.
     py_bind (py_lift (second_stage
         (map (node \<circ> snd) (sort_key fst (tb_authenticators T)))
         (map (node \<circ> snd) (sort_key fst (tb_authorizers T)))
         (map (node \<circ> snd) (sort_key fst (tb_consumers T)))
         (map (\<lambda>(n, plugin). (n, node plugin)) (tb_stores T)))) (\<lambda>(as, zs, cs, S).
       py_return \<lparr>lo_tables = T, lo_authenticators = as, lo_authorizers = zs, lo_consumers = cs, lo_stores = S\<rparr>)))"

subsection \<open>The server object\<close>

record http_server =
  hs_class :: server_class
  hs_address :: sock_address
  hs_socket_file :: "string option"
  hs_server_string :: string
  hs_context :: "ssl_context option"

definition tls_of_config :: "(string \<times> optval) list \<Rightarrow> tls_config" where
  "tls_of_config config = \<lparr>tls_certfile = str_setting config ''tls_certfile'',
     tls_keyfile = str_setting config ''tls_keyfile'', tls_cafile = str_setting config ''tls_cafile'',
     tls_capath = str_setting config ''tls_capath'', tls_verify_client = is_true config ''tls_verify_client''\<rparr>"

text \<open>\<open>socket_file\<close> is the name of the socket when it is a Unix socket.\<close>

definition socket_file :: "start_world \<Rightarrow> sock_address \<Rightarrow> string option" where
  "socket_file sw s = (case s of
      Bindable (UnixAddr path) \<Rightarrow> Some path
    | Bindable (InetAddr host port) \<Rightarrow> None
    | FromFd fd fam \<Rightarrow> if fam = AF_UNIX then Some (sw_sockname sw fd) else None)"

definition server_object ::
    "start_world \<Rightarrow> server_class \<Rightarrow> sock_address \<Rightarrow> (string \<times> optval) list \<Rightarrow> ssl_context option \<Rightarrow> http_server" where
  "server_object sw cls s config context = \<lparr>hs_class = cls, hs_address = s, hs_socket_file = socket_file sw s,
     hs_server_string = (case str_setting config ''server_string'' of Some v \<Rightarrow> v | None \<Rightarrow> ''Custodia/0.1''),
     hs_context = context\<rparr>"

text \<open>\<open>ForkingHTTPServer.__init__\<close>, and for TLS the context, which is made when the socket listens.\<close>

definition server_init ::
    "start_world \<Rightarrow> server_class \<Rightarrow> sock_address \<Rightarrow> (string \<times> optval) list \<Rightarrow> http_server start" where
  "server_init sw cls s config =
     py_bind (on_sys (server_setup (sw_os sw) cls s (config_has config ''consumers''))) (\<lambda>_.
     if cls = ForkingTLSServer
     then py_bind (py_lift (mkcontext (sw_load_cas sw) (sw_load_chain sw) (tls_of_config config)))
            (\<lambda>context. py_return (server_object sw cls s config (Some context)))
     else py_return (server_object sw cls s config None))"

definition HTTPServer_init :: "start_world \<Rightarrow> (string \<times> optval) list \<Rightarrow> http_server start" where
  "HTTPServer_init sw config =
     py_bind (py_lift (rbind (of_option KeyError (str_setting config ''server_url''))
                         (HTTPServer_address (sw_dec sw) (sw_sd sw)))) (\<lambda>(cls, s).
       server_init sw cls s config)"

definition get_socket :: "http_server \<Rightarrow> sock_address \<times> string option" where
  "get_socket srv = (hs_address srv, hs_socket_file srv)"

definition serve :: "start_world \<Rightarrow> unit start" where
  "serve sw = py_bind (case sw_sd sw of
       Some d \<Rightarrow> if sd_booted d then emit (StNotify ''READY=1'') (Inr ()) else py_return ()
     | None \<Rightarrow> py_return ()) (\<lambda>_. emit StServe (Inr ()))"

subsection \<open>\<open>main\<close>\<close>

definition setup_logs :: "start_world \<Rightarrow> (string \<times> optval) list \<Rightarrow> unit start" where
  "setup_logs sw config = (case str_setting config ''auditlog'' of
      None \<Rightarrow> py_raise KeyError
    | Some f \<Rightarrow> emit (StLogging (is_true config ''debug'') f) (sw_open_audit sw f))"

definition umask_of :: "(string \<times> optval) list \<Rightarrow> int res" where
  "umask_of config = (case dict_get config ''umask'' of Some (VInt u) \<Rightarrow> Inr u | None \<Rightarrow> Inl KeyError | _ \<Rightarrow> Inl TypeError)"

definition custodia_main ::
    "start_world \<Rightarrow> 'p plugin_world \<Rightarrow> ('p \<Rightarrow> pnode) \<Rightarrow> string \<Rightarrow> string \<Rightarrow> (string \<times> string) list
     \<Rightarrow> (string \<Rightarrow> (string \<times> (string \<times> (string \<times> string) list) list) list)
     \<Rightarrow> (string \<times> (string \<times> string) list) list \<Rightarrow> server_args res \<Rightarrow> (http_server \<times> 'p loaded) start" where
  "custodia_main sw W node cwd hostname env glob file parsed =
     py_bind (py_lift parsed) (\<lambda>args.
     py_bind (parse_config sw cwd hostname env glob file args) (\<lambda>(p, files, config).
     py_bind (setup_logs sw config) (\<lambda>_.
     py_bind (py_lift (umask_of config)) (\<lambda>umask.
     py_bind (load_plugins W node p umask) (\<lambda>plugins.
     py_bind (HTTPServer_init sw config) (\<lambda>srv.
     py_bind (serve sw) (\<lambda>_. py_return (srv, plugins))))))))"

subsection \<open>What each part may do\<close>

definition emits :: "(start_event \<Rightarrow> bool) \<Rightarrow> 'a start \<Rightarrow> bool" where
  "emits P m = (\<forall>es r es'. m es = (r, es') \<longrightarrow> (\<exists>new. es' = es @ new \<and> list_all P new))"

named_theorems emits_intros "the effects of the combinators"

lemma emitsD: "emits P m \<Longrightarrow> m es = (r, es') \<Longrightarrow> \<exists>new. es' = es @ new \<and> list_all P new"
  by (simp add: emits_def)

lemma emitsI: "(\<And>es r es'. m es = (r, es') \<Longrightarrow> \<exists>new. es' = es @ new \<and> list_all P new) \<Longrightarrow> emits P m"
  by (simp add: emits_def)

lemma emits_return [emits_intros]: "emits P (py_return x)" "emits P (py_lift r)"
  by (auto simp: emits_def py_simps)

lemma emits_emit [emits_intros]: "P e \<Longrightarrow> emits P (emit e r)"
  by (auto simp: emits_def emit_def py_simps)

lemma emits_bind [emits_intros]: "emits P m \<Longrightarrow> (\<And>x. emits P (f x)) \<Longrightarrow> emits P (py_bind m f)"
proof (rule emitsI)
  fix es r es'
  assume m: "emits P m" and f: "\<And>x. emits P (f x)" and run: "py_bind m f es = (r, es')"
  obtain x es1 where 1: "m es = (x, es1)" by fastforce
  from emitsD [OF m 1] obtain new1 where n1: "es1 = es @ new1" "list_all P new1" by blast
  show "\<exists>new. es' = es @ new \<and> list_all P new"
  proof (cases x)
    case (Inl e)
    with run 1 have "es' = es1" by (simp add: py_bind_apply)
    with n1 show ?thesis by blast
  next
    case (Inr v)
    with run 1 have "f v es1 = (r, es')" by (simp add: py_bind_apply)
    from emitsD [OF f this] n1 show ?thesis by auto
  qed
qed

definition is_dir :: "start_event \<Rightarrow> bool" where
  "is_dir e = (case e of StDir p m \<Rightarrow> True | _ \<Rightarrow> False)"

lemma make_dir_run:
  "make_dir sw path mode es =
    (if sw_isdir sw path \<or> list_ex (made_dir path) es then (Inr (), es)
     else (sw_mkdir sw path, es @ [StDir path mode]))"
  by (simp add: make_dir_def isdir_now_def emit_def py_simps split: sum.splits)

lemma make_dir_emits [emits_intros]: "emits is_dir (make_dir sw path mode)"
  by (auto simp: emits_def make_dir_run is_dir_def)

lemma config_makedirs_emits [emits_intros]: "emits is_dir (config_makedirs sw p names)"
  by (induction sw p names rule: config_makedirs.induct) (auto intro!: emits_intros)

text \<open>No directory is made twice.\<close>

fun dirs_made :: "start_event list \<Rightarrow> string list" where
  "dirs_made [] = []"
| "dirs_made (e # es) = (case e of StDir p mode \<Rightarrow> p # dirs_made es | _ \<Rightarrow> dirs_made es)"

lemma dirs_made_append [simp]: "dirs_made (es @ fs) = dirs_made es @ dirs_made fs"
  by (induction es) (auto split: start_event.splits)

lemma dirs_made_seen: "path \<in> set (dirs_made es) \<Longrightarrow> list_ex (made_dir path) es"
  by (induction es) (auto simp: made_dir_def split: start_event.splits)

lemma make_dir_once:
  "make_dir sw path mode es = (r, es') \<Longrightarrow> distinct (dirs_made es) \<Longrightarrow> distinct (dirs_made es')"
  using dirs_made_seen [of path es] by (auto simp: make_dir_run split: if_splits)

lemma config_makedirs_once:
  "config_makedirs sw p names es = (r, es') \<Longrightarrow> distinct (dirs_made es) \<Longrightarrow> distinct (dirs_made es')"
proof (induction sw p names arbitrary: es rule: config_makedirs.induct)
  case (2 sw p name names)
  then show ?case
    by (auto simp: py_bind_apply py_lift_def dest: make_dir_once split: sum.splits prod.splits)
qed (simp add: py_return_def)

lemma parse_config_emits: "emits is_dir (parse_config sw cwd hostname env glob file args)"
  unfolding parse_config_def by (auto intro!: emits_intros)

text \<open>
  The plugins are complete: each of them, in the order of the names, has been given exactly the
  store it names, which is one of the stores.
\<close>

definition attached :: "('p \<Rightarrow> pnode) \<Rightarrow> 'p loaded \<Rightarrow> bool" where
  "attached node l =
     ((\<forall>n \<in> set (lo_authenticators l @ lo_authorizers l @ lo_consumers l). \<not> waiting n)
      \<and> lo_authenticators l = map (attached_node \<circ> node \<circ> snd) (sort_key fst (tb_authenticators (lo_tables l)))
      \<and> lo_authorizers l = map (attached_node \<circ> node \<circ> snd) (sort_key fst (tb_authorizers (lo_tables l)))
      \<and> lo_consumers l = map (attached_node \<circ> node \<circ> snd) (sort_key fst (tb_consumers (lo_tables l)))
      \<and> (\<forall>name plugin. dict_get (tb_stores (lo_tables l)) name = Some plugin \<longrightarrow>
           dict_get (lo_stores l) name = Some (attached_node (node plugin)))
      \<and> stores_ok (lo_stores l))"

lemma load_plugins_run:
  assumes "load_plugins W node p u es = (r, es')" and fresh: "\<And>plugin. pn_store (node plugin) = None"
  shows "es' = es @ [StUmask u]"
    and "r = Inr l \<Longrightarrow> attached node l"
proof -
  show "es' = es @ [StUmask u]"
    using assms(1) by (auto simp: load_plugins_def emit_def py_simps split: sum.splits prod.splits)
  assume "r = Inr l"
  let ?T = "lo_tables l"
  let ?nodes = "\<lambda>xs. map (node \<circ> snd) (sort_key fst xs)"
  let ?S = "map (\<lambda>(n, plugin). (n, node plugin)) (tb_stores ?T)"
  from \<open>r = Inr l\<close> assms(1) have
    "second_stage (?nodes (tb_authenticators ?T)) (?nodes (tb_authorizers ?T)) (?nodes (tb_consumers ?T)) ?S
      = Inr (lo_authenticators l, lo_authorizers l, lo_consumers l, lo_stores l)"
    by (auto simp: load_plugins_def emit_def py_simps split: sum.splits prod.splits)
  moreover have "stores_ok ?S"
    using fresh by (auto simp: stores_ok_def node_ok_def dict_get_def dest!: map_of_SomeD split: option.splits)
  moreover have "dict_get ?S name = map_option node (dict_get (tb_stores ?T) name)" for name
    by (simp add: dict_get_def map_of_map)
  moreover have "\<forall>n \<in> set (?nodes (tb_authenticators ?T) @ ?nodes (tb_authorizers ?T) @ ?nodes (tb_consumers ?T)).
      pn_store n = None" using fresh by auto
  moreover have "name \<in> fst ` set ?S" if "dict_get (tb_stores ?T) name = Some plugin" for name plugin
    using that by (force simp: dict_get_def dest: map_of_SomeD)
  ultimately show "attached node l"
    using second_stage_complete [of "?nodes (tb_authenticators ?T)" "?nodes (tb_authorizers ?T)" "?nodes (tb_consumers ?T)" ?S]
    unfolding attached_def settled_def by (fastforce simp: map_map comp_assoc)
qed

lemma consumers_known: "config_has config ''consumers''"
  by (simp add: config_has_def CONFIG_SPECIALS_def)

lemma server_init_run:
  assumes "server_init sw cls s config es = (r, es')"
  shows "\<exists>socks. es' = es @ map StSys socks
    \<and> (\<forall>srv. r = Inr srv \<longrightarrow> EvClose \<notin> set socks \<and> hs_address srv = s
        \<and> (\<forall>a. s = Bindable a \<longrightarrow> socks \<noteq> [] \<and> last socks = EvListen)
        \<and> (hs_context srv \<noteq> None \<longleftrightarrow> hs_class srv = ForkingTLSServer))"
proof -
  obtain r1 socks where sys: "server_setup (sw_os sw) cls s True [] = (r1, socks)" by fastforce
  have "EvClose \<notin> set socks \<and> (\<forall>a. s = Bindable a \<longrightarrow> socks \<noteq> [] \<and> last socks = EvListen)" if "r1 = Inr ()"
  proof (cases s)
    case (Bindable a)
    from setup_closed [of "sw_os sw" cls a r1 socks] sys that Bindable have
      "EvClose \<notin> set socks" "last socks = EvListen" "socks \<noteq> []" by simp_all
    then show ?thesis using Bindable by simp
  next
    case (FromFd fd fam)
    with sys show ?thesis by (auto simp: server_setup_def py_simps)
  qed
  note ok = this
  show ?thesis
  proof (cases r1)
    case (Inl e)
    with assms sys have "r = Inl e" "es' = es @ map StSys socks"
      by (simp_all add: server_init_def consumers_known on_sys_def py_bind_apply)
    then show ?thesis by auto
  next
    case (Inr u)
    with sys have run: "server_init sw cls s config es =
        (if cls = ForkingTLSServer
         then py_bind (py_lift (mkcontext (sw_load_cas sw) (sw_load_chain sw) (tls_of_config config)))
               (\<lambda>context. py_return (server_object sw cls s config (Some context)))
         else py_return (server_object sw cls s config None)) (es @ map StSys socks)"
      by (simp add: server_init_def consumers_known on_sys_def py_bind_apply)
    have "es' = es @ map StSys socks
      \<and> (\<forall>srv. r = Inr srv \<longrightarrow> hs_address srv = s \<and> (hs_context srv \<noteq> None \<longleftrightarrow> hs_class srv = ForkingTLSServer))"
    proof (cases "cls = ForkingTLSServer")
      case True
      with assms run show ?thesis
        by (cases "mkcontext (sw_load_cas sw) (sw_load_chain sw) (tls_of_config config)")
           (auto simp: py_simps server_object_def)
    next
      case False
      with assms run show ?thesis by (auto simp: py_simps server_object_def)
    qed
    with ok Inr show ?thesis by auto
  qed
qed

lemma HTTPServer_init_run:
  assumes "HTTPServer_init sw config es = (r, es')"
  shows "\<exists>socks. es' = es @ map StSys socks
    \<and> (\<forall>srv. r = Inr srv \<longrightarrow> EvClose \<notin> set socks
        \<and> (\<forall>a. hs_address srv = Bindable a \<longrightarrow> socks \<noteq> [] \<and> last socks = EvListen)
        \<and> (hs_context srv \<noteq> None \<longleftrightarrow> hs_class srv = ForkingTLSServer))"
proof (cases "rbind (of_option KeyError (str_setting config ''server_url'')) (HTTPServer_address (sw_dec sw) (sw_sd sw))")
  case (Inl e)
  with assms show ?thesis by (intro exI [of _ "[]"]) (auto simp: HTTPServer_init_def py_simps)
next
  case (Inr cs)
  obtain cls s where "cs = (cls, s)" by fastforce
  with assms Inr have "server_init sw cls s config es = (r, es')" by (simp add: HTTPServer_init_def py_simps)
  from server_init_run [OF this] show ?thesis by auto
qed

lemma serve_run:
  "\<exists>note. serve sw es = (Inr (), es @ note @ [StServe]) \<and> (note = [] \<or> note = [StNotify ''READY=1''])"
  by (auto simp: serve_def emit_def py_simps split: option.splits)

text \<open>Silent until the end: nothing but \<open>serve\<close> notifies or serves.\<close>

definition serving :: "start_event \<Rightarrow> bool" where
  "serving e = (case e of StServe \<Rightarrow> True | StNotify m \<Rightarrow> True | _ \<Rightarrow> False)"

lemma not_serving: "list_all is_dir dirs \<Longrightarrow> list_ex serving dirs = False" "\<not> list_ex serving (map StSys socks)"
  by (auto simp: list_all_iff list_ex_iff is_dir_def serving_def split: start_event.splits)

text \<open>The plugins are loaded, or nothing is announced.\<close>

lemma main_loaded:
  assumes run: "custodia_main sw W node cwd hostname env glob file parsed [] = (r, es)"
    and fresh: "\<And>plugin. pn_store (node plugin) = None"
  obtains (failed) "is_err r" and "\<not> list_ex serving es"
  | (loaded) dirs debug f u l config where "list_all is_dir dirs" and "attached node l"
      and "py_bind (HTTPServer_init sw config) (\<lambda>srv. py_bind (serve sw) (\<lambda>_. py_return (srv, l)))
        (dirs @ [StLogging debug f, StUmask u]) = (r, es)"
proof (cases parsed)
  case (Inl e)
  with run show thesis by (intro failed) (auto simp: custodia_main_def py_simps)
next
  case (Inr args)
  obtain r1 dirs where 1: "parse_config sw cwd hostname env glob file args [] = (r1, dirs)" by fastforce
  from emitsD [OF parse_config_emits 1] have d: "list_all is_dir dirs" by simp
  show thesis
  proof (cases r1)
    case (Inl e)
    with run 1 \<open>parsed = Inr args\<close> d show thesis by (intro failed) (auto simp: custodia_main_def py_simps not_serving)
  next
    case (Inr pfc)
    obtain p files config where pfc: "pfc = (p, files, config)" by (metis prod_cases3)
    show thesis
    proof (cases "str_setting config ''auditlog''")
      case None
      with run 1 \<open>parsed = Inr args\<close> Inr pfc d show thesis
        by (intro failed) (auto simp: custodia_main_def setup_logs_def py_simps not_serving)
    next
      case (Some f)
      let ?es2 = "dirs @ [StLogging (is_true config ''debug'') f]"
      have 2: "setup_logs sw config dirs = (sw_open_audit sw f, ?es2)" using Some by (simp add: setup_logs_def emit_def py_simps)
      have s2: "\<not> list_ex serving ?es2" using d by (simp add: not_serving serving_def)
      show thesis
      proof (cases "sw_open_audit sw f = Inr () \<and> \<not> is_err (umask_of config)")
        case False
        with run 1 2 \<open>parsed = Inr args\<close> Inr pfc s2 show thesis
          by (intro failed; cases "sw_open_audit sw f"; cases "umask_of config"; auto simp: custodia_main_def py_simps)
      next
        case True
        then obtain u where u: "umask_of config = Inr u" by (cases "umask_of config") auto
        obtain r4 es4 where 4: "load_plugins W node p u ?es2 = (r4, es4)" by fastforce
        note l = load_plugins_run [OF 4 fresh]
        show thesis
        proof (cases r4)
          case (Inl e)
          with run 1 2 4 l(1) u True \<open>parsed = Inr args\<close> \<open>r1 = Inr pfc\<close> pfc s2 show thesis
            by (intro failed) (auto simp: custodia_main_def py_simps serving_def)
        next
          case r4: (Inr l)
          have "attached node l" using load_plugins_run(2) [OF 4 fresh r4] .
          with run 1 2 4 \<open>es4 = ?es2 @ [StUmask u]\<close> u True \<open>parsed = Inr args\<close> \<open>r1 = Inr pfc\<close> pfc d r4 show thesis
            by (intro loaded [of dirs l config "is_true config ''debug''" f u]) (simp_all add: custodia_main_def py_simps)
        qed
      qed
    qed
  qed
qed

text \<open>A server that serves: what has been done before, in order.\<close>

definition served_after :: "http_server \<Rightarrow> start_event list \<Rightarrow> bool" where
  "served_after srv es = (\<exists>dirs debug audit u socks note.
     es = dirs @ [StLogging debug audit, StUmask u] @ map StSys socks @ note @ [StServe]
     \<and> list_all is_dir dirs \<and> (note = [] \<or> note = [StNotify ''READY=1''])
     \<and> EvClose \<notin> set socks \<and> (\<forall>a. hs_address srv = Bindable a \<longrightarrow> socks \<noteq> [] \<and> last socks = EvListen))"


text \<open>A start with a Unix socket, two plugins, one of them on the store the other is.\<close>

definition sample_world :: start_world where
  "sample_world = \<lparr>sw_isdir = (\<lambda>p. True), sw_mkdir = (\<lambda>p. Inr ()), sw_open_audit = (\<lambda>p. Inr ()),
     sw_dec = utf8_decode,
     sw_sd = Some \<lparr>sd_listen_fds = [], sd_is_socket_inet = (\<lambda>fd port. False), sd_is_socket_unix = (\<lambda>fd path. False), sd_booted = True\<rparr>,
     sw_os = \<lparr>os_isdir = (\<lambda>p. True), os_makedirs = Inr (), os_bind = Inr (), os_chmod = Inr (), os_listen = Inr ()\<rparr>,
     sw_sockname = (\<lambda>fd. []), sw_load_cas = (\<lambda>a b. Inr ()), sw_load_chain = (\<lambda>a b. Inr ())\<rparr>"

definition sample_plugins :: "string plugin_world" where
  "sample_plugins = \<lparr>pw_entry_points = (\<lambda>group name. [Inr \<lparr>pc_name = name, pc_new_style = True,
       pc_make_new = (\<lambda>p section. Inr section), pc_make_old = (\<lambda>items. Inl TypeError)\<rparr>]),
     pw_import = (\<lambda>m c. Inl ImportError), pw_set_section = (\<lambda>s p. p)\<rparr>"

definition sample_node :: "string \<Rightarrow> pnode" where
  "sample_node section = \<lparr>pn_store_name = (if startswith section ''/'' then Some ''db'' else None), pn_store = None\<rparr>"

definition sample_file :: "(string \<times> (string \<times> string) list) list" where
  "sample_file = [(''store:db'', [(''handler'', ''SqliteStore'')]), (''/secrets'', [(''handler'', ''Secrets'')])]"


end
