(* ===== verification/AuditText.thy ===== *)
theory AuditText
  imports AuditLog Urls
begin

text \<open>
  The audit log as it is written: the \<open>%\<close> formatting of \<open>logging\<close> applied to the messages and to
  \<open>LOGGING_FORMAT\<close> of \<open>src/custodia/log.py\<close>, with the texts of the arguments. The filter and the
  \<open>exception\<close> methods of that file are here as well.

  Shown: what an entry of a key access reads, that the name of a key is copied as it is, line
  breaks included, whereas the names the pipeline logs as tuples stay on one line; that a stack
  trace is written only in debug mode.
\<close>

subsection \<open>Formatting with \<open>%\<close>\<close>

text \<open>A conversion after \<open>%(name)\<close>: an optional \<open>-\<close>, a width, and the type \<open>s\<close>.\<close>

definition conversion :: "string \<Rightarrow> (bool \<times> nat \<times> string) option" where
  "conversion s = (let left = (s \<noteq> [] \<and> hd s = CHR ''-''); s1 = (if left then tl s else s);
       width = (case read_digits 10 0 False (takeWhile is_digit s1) of Some n \<Rightarrow> n | None \<Rightarrow> 0) in
     case dropWhile is_digit s1 of
       [] \<Rightarrow> None
     | c # rest \<Rightarrow> if c = CHR ''s'' then Some (left, width, rest) else None)"

definition pad :: "bool \<Rightarrow> nat \<Rightarrow> string \<Rightarrow> string" where
  "pad left width s = (let blanks = replicate (width - length s) (CHR '' '') in if left then s @ blanks else blanks @ s)"

lemma conversion_shorter: "conversion s = Some (l, w, rest) \<Longrightarrow> length rest < length s"
proof -
  assume c: "conversion s = Some (l, w, rest)"
  define s1 where "s1 = (if s \<noteq> [] \<and> hd s = CHR ''-'' then tl s else s)"
  have "length (dropWhile is_digit s1) \<le> length s1" by (rule length_dropWhile_le)
  moreover have "length s1 \<le> length s" by (simp add: s1_def)
  moreover have "length rest < length (dropWhile is_digit s1)"
    using c by (auto simp: conversion_def s1_def Let_def split: list.splits if_splits)
  ultimately show ?thesis by linarith
qed

lemma dropWhile_shorter: "dropWhile P t = z # u \<Longrightarrow> length u < length t"
  using length_dropWhile_le [of P t] by simp

text \<open>
  \<open>template % args\<close>, with a dict of arguments that are texts already. The templates of the program
  have named conversions of type \<open>s\<close> only; the error branches stand for every other conversion.
\<close>

function percent_format :: "(string \<times> string) list \<Rightarrow> string \<Rightarrow> string res" where
  "percent_format d [] = Inr []"
| "percent_format d (c # s) =
     (if c \<noteq> CHR ''%'' then rbind (percent_format d s) (\<lambda>r. Inr (c # r))
      else case s of
          [] \<Rightarrow> Inl ValueError
        | x # t \<Rightarrow>
          if x = CHR ''%'' then rbind (percent_format d t) (\<lambda>r. Inr (CHR ''%'' # r))
          else if x \<noteq> CHR ''('' then Inl TypeError
          else case dropWhile (\<lambda>y. y \<noteq> CHR '')'') t of
              [] \<Rightarrow> Inl ValueError
            | _ # u \<Rightarrow> rbind (of_option KeyError (dict_get d (takeWhile (\<lambda>y. y \<noteq> CHR '')'') t))) (\<lambda>v.
                case conversion u of
                  None \<Rightarrow> Inl ValueError
                | Some (left, width, rest) \<Rightarrow>
                    rbind (percent_format d rest) (\<lambda>r. Inr (pad left width v @ r))))"
  by pat_completeness auto

termination
  by (relation "measure (\<lambda>(d, s). length s)") (auto dest!: conversion_shorter dropWhile_shorter)

subsection \<open>The texts of the arguments\<close>

definition lower_hex :: "nat \<Rightarrow> char" where
  "lower_hex d = (if d < 10 then char_of (48 + d) else char_of (87 + d))"

text \<open>\<open>repr\<close> of a text, character by character, for the quote \<open>q\<close>.\<close>

definition repr_char :: "char \<Rightarrow> char \<Rightarrow> string" where
  "repr_char q c = (let n = (of_char c :: nat) in
     if c = q \<or> c = CHR 0x5C then [CHR 0x5C, c]
     else if n = 9 then [CHR 0x5C, CHR ''t''] else if n = 10 then [CHR 0x5C, CHR ''n'']
     else if n = 13 then [CHR 0x5C, CHR ''r'']
     else if n < 32 \<or> (127 \<le> n \<and> n \<le> 160) \<or> n = 173
     then [CHR 0x5C, CHR ''x'', lower_hex (n div 16), lower_hex (n mod 16)] else [c])"

definition py_repr :: "string \<Rightarrow> string" where
  "py_repr s = (let q = (if CHR 0x27 \<in> set s \<and> CHR 0x22 \<notin> set s then CHR 0x22 else CHR 0x27)
     in q # concat (map (repr_char q) s) @ [q])"

definition tuple_text :: "string list \<Rightarrow> string" where
  "tuple_text xs = CHR ''('' # py_join '', '' xs @ (if length xs = 1 then '',)'' else '')'')"

fun arg_text :: "audit_arg \<Rightarrow> string" where
  "arg_text (AStr s) = s"
| "arg_text (ACid (CidPid n)) = show_int n"
| "arg_text (ACid (CidAddr host port)) = tuple_text [py_repr host, show_int port]"
| "arg_text (ACid CidNone) = ''None''"
| "arg_text (AChain segments) = tuple_text (map py_repr segments)"
| "arg_text ANone = ''None''"

definition LOGGING_FORMAT :: string where
  "LOGGING_FORMAT = ''%(asctime)s - %(origin)-32s - %(message)s''"

definition audit_text :: "audit_entry \<Rightarrow> string res" where
  "audit_text e = percent_format (map (\<lambda>(k, a). (k, arg_text a)) (au_args e)) (au_message e)"

definition audit_line :: "string \<Rightarrow> audit_entry \<Rightarrow> string res" where
  "audit_line asctime e = rbind (audit_text e) (\<lambda>msg.
     percent_format [(''asctime'', asctime), (''origin'', au_origin e), (''message'', msg)] LOGGING_FORMAT)"

lemmas percent_simps = percent_format.simps conversion_def pad_def is_digit_def dict_get_def squote_def Let_def

text \<open>An entry for a key reads as its message with the client and the key in it.\<close>

lemma key_entry_text:
  assumes "0 < action" and "action < AUDIT_LAST"
  shows "\<exists>verdict did. \<forall>origin cl k.
    audit_text (audit_key_entry origin action cl k) = Inr (verdict @ squote cl @ did @ squote k)"
proof -
  have t: "audit_text (audit_key_entry origin 1 cl k) = Inr (''ALLOWED: '' @ squote cl @ '' requested key '' @ squote k)"
    "audit_text (audit_key_entry origin 2 cl k) = Inr (''DENIED: '' @ squote cl @ '' requested key '' @ squote k)"
    "audit_text (audit_key_entry origin 3 cl k) = Inr (''ALLOWED: '' @ squote cl @ '' stored key '' @ squote k)"
    "audit_text (audit_key_entry origin 4 cl k) = Inr (''DENIED: '' @ squote cl @ '' stored key '' @ squote k)"
    "audit_text (audit_key_entry origin 5 cl k) = Inr (''ALLOWED: '' @ squote cl @ '' deleted key '' @ squote k)"
    "audit_text (audit_key_entry origin 6 cl k) = Inr (''DENIED: '' @ squote cl @ '' deleted key '' @ squote k)"
    for origin cl k
    by (simp_all add: audit_text_def audit_key_entry_message AUDIT_MESSAGES_def percent_simps)
  have "action \<in> {1, 2, 3, 4, 5, 6}" using assms by (auto simp: AUDIT_LAST_def)
  then show ?thesis using t by (elim insertE emptyE) blast+
qed

lemma audit_line_text:
  assumes "audit_text e = Inr msg"
  shows "audit_line asctime e = Inr (asctime @ '' - '' @ pad True 32 (au_origin e) @ '' - '' @ msg)"
  using assms by (simp add: audit_line_def LOGGING_FORMAT_def percent_simps digit_val_def)

text \<open>The name of the key is the last thing on the line, and it is copied as it is.\<close>

lemma key_entry_line:
  assumes "0 < action" and "action < AUDIT_LAST"
  shows "\<exists>start. \<forall>k. audit_line asctime (audit_key_entry origin action cl k) = Inr (start @ k @ [CHR 0x27])"
proof -
  have o: "au_origin (audit_key_entry origin action cl k) = origin" for k
    using key_access_total [of origin action cl k] by (auto simp: audit_key_entry_def)
  obtain verdict did where t: "\<And>k. audit_text (audit_key_entry origin action cl k) = Inr (verdict @ squote cl @ did @ squote k)"
    using key_entry_text [OF assms] by metis
  let ?start = "asctime @ '' - '' @ pad True 32 origin @ '' - '' @ verdict @ squote cl @ did @ [CHR 0x27]"
  have "audit_line asctime (audit_key_entry origin action cl k) = Inr (?start @ k @ [CHR 0x27])" for k
    using audit_line_text [OF t, of asctime k] by (simp add: o squote_def)
  then show ?thesis by (intro exI [of _ ?start]) simp
qed

text \<open>A tuple is shown by \<open>repr\<close>, which has no line breaks.\<close>

lemma lower_hex_char: "d < 16 \<Longrightarrow> lower_hex d \<noteq> CHR 0x0A"
proof
  assume d: "d < 16" and e: "lower_hex d = CHR 0x0A"
  from e have "(of_char (lower_hex d) :: nat) = of_char (CHR 0x0A)" by simp
  then show False using d by (simp add: lower_hex_def split: if_splits)
qed

lemma repr_char_line: "q \<noteq> CHR 0x0A \<Longrightarrow> CHR 0x0A \<notin> set (repr_char q c)"
proof
  assume q: "q \<noteq> CHR 0x0A" and c: "CHR 0x0A \<in> set (repr_char q c)"
  have n: "(of_char c :: nat) < 256" by simp
  then have "(of_char c :: nat) div 16 < 16" "(of_char c :: nat) mod 16 < 16" by linarith simp
  then have h: "lower_hex (of_char c div 16) \<noteq> CHR 0x0A" "lower_hex (of_char c mod 16) \<noteq> CHR 0x0A"
    by (auto intro!: lower_hex_char)
  from c h q show False by (auto simp: repr_char_def Let_def split: if_splits)
qed

lemma py_repr_line: "CHR 0x0A \<notin> set (py_repr s)"
  using repr_char_line by (auto simp: py_repr_def Let_def)

lemma py_join_line: "CHR 0x0A \<notin> set sep \<Longrightarrow> (\<forall>x \<in> set xs. CHR 0x0A \<notin> set x) \<Longrightarrow> CHR 0x0A \<notin> set (py_join sep xs)"
  by (induction sep xs rule: py_join.induct) auto

lemma tuple_text_line: "(\<forall>x \<in> set xs. CHR 0x0A \<notin> set x) \<Longrightarrow> CHR 0x0A \<notin> set (tuple_text xs)"
  using py_join_line [of "'', ''" xs] by (simp add: tuple_text_def)

lemma chain_text_line: "CHR 0x0A \<notin> set (arg_text (AChain segments))"
  using py_repr_line by (auto intro!: tuple_text_line)

subsection \<open>Loggers\<close>

text \<open>\<open>OriginContextFilter\<close>: a record without an origin gets the last part of its logger's name.\<close>

definition origin_filter :: "string \<Rightarrow> string option \<Rightarrow> string" where
  "origin_filter name origin = (case origin of Some x \<Rightarrow> x | None \<Rightarrow> last (py_split (CHR ''.'') name))"

record logging_adapter =
  la_logger :: string
  la_debug :: bool
  la_origin :: string

definition CustodiaLoggingAdapter :: "string \<Rightarrow> string \<Rightarrow> string \<Rightarrow> bool \<Rightarrow> logging_adapter" where
  "CustodiaLoggingAdapter modname classname origin debug =
     \<lparr>la_logger = modname @ ''.'' @ classname, la_debug = debug, la_origin = origin\<rparr>"

text \<open>\<open>exception\<close>, of the adapter and of \<open>getLogger\<close>: the record it passes on.\<close>

definition exception_record :: "bool \<Rightarrow> string \<Rightarrow> string \<times> string \<Rightarrow> log_record" where
  "exception_record debug_enabled msg exc = \<lparr>lr_message = msg, lr_exc_info = Some exc, lr_exc_text = None,
     lr_fullstack = Some debug_enabled\<rparr>"

definition adapter_exception :: "logging_adapter \<Rightarrow> string \<Rightarrow> string \<times> string \<Rightarrow> string \<times> log_record" where
  "adapter_exception la msg exc = (la_origin la, exception_record (la_debug la) msg exc)"

text \<open>Outside of debug mode the stack trace is not even looked at.\<close>

lemma no_stack_without_debug:
  "\<not> la_debug la \<Longrightarrow> format_record fe (snd (adapter_exception la msg exc)) = format_record fe' (snd (adapter_exception la msg exc))"
  by (simp add: adapter_exception_def exception_record_def format_record_def Let_def split: prod.splits)

lemma stack_in_debug:
  assumes "la_debug la" and "fe exc \<noteq> []"
  shows "\<exists>start. format_record fe (snd (adapter_exception la msg exc)) = Inr (start @ fe exc)"
  using assms by (simp add: adapter_exception_def exception_record_def format_record_def super_format_def split: prod.splits)

text \<open>Every record has an origin in the end, and it is a single part of a dotted name.\<close>

lemma origin_filter_part: "CHR ''.'' \<notin> set (origin_filter name None)"
proof -
  have "last (py_split (CHR ''.'') name) \<in> set (py_split (CHR ''.'') name)" by (intro last_in_set py_split_not_Nil)
  from py_split_parts [OF this] show ?thesis by (simp add: origin_filter_def)
qed

end
