(* ===== verification/EntryPoints.thy ===== *)
theory EntryPoints
  imports ServerInit Cli
begin

text \<open>
  The entry points of \<open>setup.py\<close>: the tables through which the server finds its plugin classes and
  the command line lists them. How an entry point is written is documented by setuptools:
  \<open>name = module:attribute\<close>.

  Shown: every class the package declares is found by its short name and by its dotted name, when
  no other distribution claims the name; two claims are refused; the groups the server and the
  command line ask for are the declared ones.
\<close>

subsection \<open>The tables of \<open>setup.py\<close>\<close>

definition custodia_authenticators :: "string list" where
  "custodia_authenticators = [
    ''IPAInterface = custodia.ipa.interface:IPAInterface'',
    ''SimpleCredsAuth = custodia.httpd.authenticators:SimpleCredsAuth'',
    ''SimpleHeaderAuth = custodia.httpd.authenticators:SimpleHeaderAuth'',
    ''SimpleAuthKeys = custodia.httpd.authenticators:SimpleAuthKeys'',
    ''SimpleClientCertAuth = '' @ ''custodia.httpd.authenticators:SimpleClientCertAuth'']"

definition custodia_authorizers :: "string list" where
  "custodia_authorizers = [
    ''SimplePathAuthz = custodia.httpd.authorizers:SimplePathAuthz'',
    ''UserNameSpace = custodia.httpd.authorizers:UserNameSpace'',
    ''KEMKeysStore = custodia.message.kem:KEMKeysStore'']"

definition custodia_clients :: "string list" where
  "custodia_clients = [
    ''KEMClient = custodia.client:CustodiaKEMClient'',
    ''SimpleClient = custodia.client:CustodiaSimpleClient'']"

definition custodia_consumers :: "string list" where
  "custodia_consumers = [
    ''Forwarder = custodia.forwarder:Forwarder'',
    ''Secrets = custodia.secrets:Secrets'',
    ''Root = custodia.root:Root'']"

definition custodia_stores :: "string list" where
  "custodia_stores = [
    ''EncryptedOverlay = custodia.store.encgen:EncryptedOverlay'',
    ''EncryptedStore = custodia.store.enclite:EncryptedStore'',
    ''IPAVault = custodia.ipa.vault:IPAVault'',
    ''IPACertRequest = custodia.ipa.certrequest:IPACertRequest'',
    ''SqliteStore = custodia.store.sqlite:SqliteStore'']"

type_synonym entry_map = "(string \<times> string list) list"

definition setup_entry_points :: entry_map where
  "setup_entry_points = [
    (''console_scripts'', [''custodia = custodia.server:main'', ''custodia-cli = custodia.cli:main'']),
    (''custodia.authenticators'', custodia_authenticators),
    (''custodia.authorizers'', custodia_authorizers),
    (''custodia.clients'', custodia_clients),
    (''custodia.consumers'', custodia_consumers),
    (''custodia.stores'', custodia_stores)]"

subsection \<open>Entry points of the installed distributions\<close>

record pkg_entry =
  pe_name :: string
  pe_module :: string
  pe_attr :: string

definition parse_entry :: "string \<Rightarrow> pkg_entry option" where
  "parse_entry spec = (if CHR ''='' \<notin> set spec then None
     else case split_first (CHR ''='') spec of (name, target) \<Rightarrow>
       (case py_split (CHR '':'') target of
         [modname, attr] \<Rightarrow> Some \<lparr>pe_name = py_strip name, pe_module = py_strip modname, pe_attr = py_strip attr\<rparr>
       | _ \<Rightarrow> None))"

definition entries_of :: "entry_map \<Rightarrow> string \<Rightarrow> pkg_entry list" where
  "entries_of distr grp = (case dict_get distr grp of None \<Rightarrow> [] | Some specs \<Rightarrow> List.map_filter parse_entry specs)"

definition iter_entry_points :: "entry_map list \<Rightarrow> string \<Rightarrow> pkg_entry list" where
  "iter_entry_points dists grp = concat (map (\<lambda>d. entries_of d grp) dists)"

text \<open>The plugin world of a machine with these distributions: an entry point is resolved by importing.\<close>

definition installed :: "entry_map list \<Rightarrow> 'p plugin_world \<Rightarrow> 'p plugin_world" where
  "installed dists W = W\<lparr>pw_entry_points := (\<lambda>grp name.
     map (\<lambda>e. pw_import W (pe_module e) (pe_attr e)) (filter (\<lambda>e. pe_name e = name) (iter_entry_points dists grp)))\<rparr>"

subsection \<open>What the package declares\<close>

text \<open>Every line of the tables is an entry point, and within a group the names differ.\<close>

lemma entries_declared:
  "map pe_name (entries_of setup_entry_points ''custodia.authenticators'') =
     [''IPAInterface'', ''SimpleCredsAuth'', ''SimpleHeaderAuth'', ''SimpleAuthKeys'', ''SimpleClientCertAuth'']"
  "map pe_name (entries_of setup_entry_points ''custodia.authorizers'') = [''SimplePathAuthz'', ''UserNameSpace'', ''KEMKeysStore'']"
  "map pe_name (entries_of setup_entry_points ''custodia.clients'') = [''KEMClient'', ''SimpleClient'']"
  "map pe_name (entries_of setup_entry_points ''custodia.consumers'') = [''Forwarder'', ''Secrets'', ''Root'']"
  "map pe_name (entries_of setup_entry_points ''custodia.stores'') =
     [''EncryptedOverlay'', ''EncryptedStore'', ''IPAVault'', ''IPACertRequest'', ''SqliteStore'']"
  by code_simp+

lemma entries_plain:
  "list_all (\<lambda>(grp, specs). distinct (map pe_name (entries_of setup_entry_points grp))
     \<and> length (entries_of setup_entry_points grp) = length specs
     \<and> list_all (\<lambda>e. CHR ''.'' \<notin> set (pe_name e) \<and> CHR ''.'' \<notin> set (pe_attr e)) (entries_of setup_entry_points grp))
   setup_entry_points"
  by code_simp

lemma entries_group:
  assumes "e \<in> set (entries_of setup_entry_points grp)"
  shows "distinct (map pe_name (entries_of setup_entry_points grp))"
    and "CHR ''.'' \<notin> set (pe_name e)" and "CHR ''.'' \<notin> set (pe_attr e)"
proof -
  from assms obtain specs where "dict_get setup_entry_points grp = Some specs"
    by (cases "dict_get setup_entry_points grp") (simp_all add: entries_of_def)
  then have "(grp, specs) \<in> set setup_entry_points" by (simp add: dict_get_def map_of_SomeD)
  with entries_plain assms show "distinct (map pe_name (entries_of setup_entry_points grp))"
    "CHR ''.'' \<notin> set (pe_name e)" "CHR ''.'' \<notin> set (pe_attr e)" by (auto simp: list_all_iff)
qed

lemma filter_distinct_key: "distinct (map f xs) \<Longrightarrow> x \<in> set xs \<Longrightarrow> filter (\<lambda>y. f y = f x) xs = [x]"
  by (induction xs) (auto simp: filter_empty_conv image_iff)

text \<open>Among other distributions that do not use the name, the package's own entry is the only one.\<close>

lemma own_entry:
  assumes "\<And>d x. d \<in> set ds1 \<union> set ds2 \<Longrightarrow> x \<in> set (entries_of d grp) \<Longrightarrow> pe_name x \<noteq> name"
  shows "filter (\<lambda>x. pe_name x = name) (iter_entry_points (ds1 @ setup_entry_points # ds2) grp)
    = filter (\<lambda>x. pe_name x = name) (entries_of setup_entry_points grp)"
proof -
  have "filter (\<lambda>x. pe_name x = name) (concat (map (\<lambda>d. entries_of d grp) ds)) = []"
    if "set ds \<subseteq> set ds1 \<union> set ds2" for ds
    using that assms by (auto simp: filter_empty_conv)
  then show ?thesis by (simp add: iter_entry_points_def)
qed

lemma dotted_split:
  assumes "CHR ''.'' \<notin> set attr"
  shows "rsplit1 (CHR ''.'') (modname @ ''.'' @ attr) = Some (modname, attr)"
  using rsplit1_append [OF assms, of modname] by simp

text \<open>C32: Every plugin class of the package is loaded by its short name, and by the dotted name of its
  class, as the same class, on every machine where no other distribution claims one of the two
  names.\<close>

theorem builtin_plugins_load:
  assumes "e \<in> set (entries_of setup_entry_points (''custodia.'' @ menu))"
    and "\<And>d x. d \<in> set ds1 \<union> set ds2 \<Longrightarrow> x \<in> set (entries_of d (''custodia.'' @ menu)) \<Longrightarrow>
      pe_name x \<notin> {pe_name e, pe_module e @ ''.'' @ pe_attr e}"
  shows "load_plugin_class (installed (ds1 @ setup_entry_points # ds2) W) menu (pe_name e) = pw_import W (pe_module e) (pe_attr e)
    \<and> load_plugin_class (installed (ds1 @ setup_entry_points # ds2) W) menu (pe_module e @ ''.'' @ pe_attr e)
      = pw_import W (pe_module e) (pe_attr e)"
proof
  let ?grp = "''custodia.'' @ menu" and ?dotted = "pe_module e @ ''.'' @ pe_attr e"
  note g = entries_group [OF assms(1)]
  have "filter (\<lambda>x. pe_name x = pe_name e) (entries_of setup_entry_points ?grp) = [e]"
    using filter_distinct_key [OF g(1) assms(1)] .
  with own_entry [of ds1 ds2 ?grp "pe_name e"] assms(2)
  show "load_plugin_class (installed (ds1 @ setup_entry_points # ds2) W) menu (pe_name e) = pw_import W (pe_module e) (pe_attr e)"
    by (simp add: load_plugin_class_def installed_def)
  have "pe_name x \<noteq> ?dotted" if "x \<in> set (entries_of setup_entry_points ?grp)" for x
    using entries_group(2) [OF that] by auto
  then have "filter (\<lambda>x. pe_name x = ?dotted) (entries_of setup_entry_points ?grp) = []"
    by (simp add: filter_empty_conv)
  with own_entry [of ds1 ds2 ?grp ?dotted] assms(2) dotted_split [OF g(3)]
  show "load_plugin_class (installed (ds1 @ setup_entry_points # ds2) W) menu ?dotted = pw_import W (pe_module e) (pe_attr e)"
    by (simp add: load_plugin_class_def installed_def)
qed

definition sample_imports :: "string plugin_world" where
  "sample_imports = \<lparr>pw_entry_points = (\<lambda>grp name. []), pw_import = (\<lambda>modname attr. Inr \<lparr>pc_name = attr,
       pc_new_style = True, pc_make_new = (\<lambda>p section. Inr modname), pc_make_old = (\<lambda>items. Inl TypeError)\<rparr>),
     pw_set_section = (\<lambda>s p. p)\<rparr>"

theorem builtin_plugins_load_witness:
  "load_plugin_class (installed [setup_entry_points] sample_imports) ''stores'' ''SqliteStore''
     = pw_import sample_imports ''custodia.store.sqlite'' ''SqliteStore''
   \<and> load_plugin_class (installed [setup_entry_points] sample_imports) ''stores'' ''custodia.store.sqlite.SqliteStore''
     = pw_import sample_imports ''custodia.store.sqlite'' ''SqliteStore''"
proof -
  let ?e = "\<lparr>pe_name = ''SqliteStore'', pe_module = ''custodia.store.sqlite'', pe_attr = ''SqliteStore''\<rparr>"
  have "?e \<in> set (entries_of setup_entry_points (''custodia.'' @ ''stores''))" by code_simp
  from builtin_plugins_load [OF this, of "[]" "[]" sample_imports] show ?thesis by simp
qed

text \<open>A name that two distributions claim is refused.\<close>

lemma claimed_twice:
  assumes "2 \<le> length (filter (\<lambda>x. pe_name x = name) (iter_entry_points dists (''custodia.'' @ menu)))"
  shows "load_plugin_class (installed dists W) menu name = Inl ValueError"
  using assms by (auto simp: load_plugin_class_def installed_def numeral_2_eq_2 Suc_le_length_iff)

text \<open>The groups that are asked for are declared.\<close>

lemma groups_declared:
  "''custodia.'' @ menu_name m \<in> set (map fst setup_entry_points)" "set PLUGINS \<subseteq> set (map fst setup_entry_points)"
  by (cases m) (simp_all add: setup_entry_points_def PLUGINS_def)

end
