(* ===== verification/ConfigSecrets.thy ===== *)
theory ConfigSecrets
  imports ClientSession ServerConfig
begin

text \<open>
  \<open>docs/source/examples/cfgparser.py\<close>: a configuration parser that gets secrets from a Custodia
  server, by \<open>getsecret\<close> or by \<open>${CUSTODIA:path}\<close> in a value. The contents of the configuration
  are an argument, as in \<open>ServerConfig\<close>; the interpolation of \<open>configparser\<close> is written out again
  because looking up a secret is a call to the server. No \<open>vars\<close> are passed, and the values of the
  \<open>headers\<close> option are texts.

  Shown: a secret that a client stored is what the configuration yields in both ways; through
  interpolation a dollar sign in the secret is read as one of the configuration.
\<close>

subsection \<open>The parser\<close>

text \<open>The state of a parser: its client, once it has one, and the world behind the client.\<close>

type_synonym ('w, 'k, 'a) parser = "(client option \<times> ('w \<times> reply option, 'k) ctx, 'a) py"

definition on_client :: "('w, 'k, 'a) call \<Rightarrow> ('w, 'k, 'a) parser" where
  "on_client m = (\<lambda>(cl, c). case m c of (r, c') \<Rightarrow> (r, (cl, c')))"

definition custodia_section :: string where "custodia_section = ''CUSTODIA''"
definition custodia_client_section :: string where "custodia_client_section = ''custodia_client''"

text \<open>\<open>client.get_secret(name)\<close> needs a text.\<close>

definition get_named :: "'w http_lib \<Rightarrow> client \<Rightarrow> json \<Rightarrow> ('w, 'k, json) parser" where
  "get_named lib cl name = (case name of
      JStr s \<Rightarrow> on_client (simple_get_secret lib cl s)
    | _ \<Rightarrow> py_raise AttributeError)"

text \<open>
  A raw lookup. The section \<open>CUSTODIA\<close> is a \<open>CustodiaMapping\<close>, whose items are secrets (\<open>secret\<close>);
  a \<open>KeyError\<close> makes the chained map go on to the defaults. \<open>None\<close> is a missing section or option.
\<close>

definition raw_lookup :: "cfg \<Rightarrow> string \<Rightarrow> string \<Rightarrow> json option" where
  "raw_lookup p section opt = (case cfg_lookup p section opt of Found v \<Rightarrow> Some (JStr v) | _ \<Rightarrow> None)"

definition raw_get :: "(string \<Rightarrow> ('w, 'k, json) parser) \<Rightarrow> cfg \<Rightarrow> string \<Rightarrow> string \<Rightarrow> ('w, 'k, json option) parser" where
  "raw_get secret p section opt =
     (if section = custodia_section
      then py_try (py_bind (secret opt) (\<lambda>v. py_return (Some v)))
             (\<lambda>e. if e = KeyError then py_return (raw_lookup p DEFAULTSECT opt) else py_raise e)
      else py_return (raw_lookup p section opt))"

text \<open>
  \<open>ExtendedInterpolation._interpolate_some\<close>, with the depth still allowed: the pieces of the
  value. A nested value is fetched once more before its depth is checked, and a reference without
  a section inside a secret sees the defaults only, since a \<open>CustodiaMapping\<close> has no items to
  iterate over. Option names are in lower case.
\<close>

definition own_section :: "string \<Rightarrow> string" where
  "own_section section = (if section = custodia_section then DEFAULTSECT else section)"

definition reference :: "(string \<Rightarrow> ('w, 'k, json) parser) \<Rightarrow> cfg \<Rightarrow> string \<Rightarrow> string
     \<Rightarrow> ('w, 'k, string \<times> string \<times> json) parser" where
  "reference secret p section key = (case py_split (CHR '':'') key of
      [opt] \<Rightarrow> (case raw_lookup p (own_section section) (py_lower opt) of
          None \<Rightarrow> py_raise OtherError | Some v \<Rightarrow> py_return (section, py_lower opt, v))
    | [sect, opt] \<Rightarrow> py_bind (raw_get secret p sect (py_lower opt)) (\<lambda>found.
          case found of None \<Rightarrow> py_raise OtherError | Some v \<Rightarrow> py_return (sect, py_lower opt, v))
    | _ \<Rightarrow> py_raise OtherError)"

function (sequential) interpolate ::
    "(string \<Rightarrow> ('w, 'k, json) parser) \<Rightarrow> cfg \<Rightarrow> nat \<Rightarrow> string \<Rightarrow> string \<Rightarrow> ('w, 'k, json list) parser" where
  "interpolate secret p 0 section s = py_raise OtherError"
| "interpolate secret p (Suc n) section [] = py_return []"
| "interpolate secret p (Suc n) section (c # s) =
     (if c \<noteq> CHR ''$'' then py_bind (interpolate secret p (Suc n) section s) (\<lambda>t. py_return (JStr [c] # t))
      else (case s of
          [] \<Rightarrow> py_raise OtherError
        | d # rest \<Rightarrow>
            if d = CHR ''$'' then py_bind (interpolate secret p (Suc n) section rest) (\<lambda>t. py_return (JStr ''$'' # t))
            else if d = CHR ''{'' then
              (let key = takeWhile (\<lambda>x. x \<noteq> CHR ''}'') rest;
                   after = dropWhile (\<lambda>x. x \<noteq> CHR ''}'') rest
               in if key = [] \<or> after = [] then py_raise OtherError
                  else py_bind (reference secret p section key) (\<lambda>(sect, opt, v).
                       py_bind (py_lift (json_in ''$'' v)) (\<lambda>dollar.
                       py_bind (if dollar
                         then py_bind (raw_get secret p sect opt) (\<lambda>_. case v of
                             JStr w \<Rightarrow> interpolate secret p n sect w
                           | _ \<Rightarrow> if n = 0 then py_raise OtherError else py_raise AttributeError)
                         else py_return [v]) (\<lambda>t.
                       py_bind (interpolate secret p (Suc n) section (tl after)) (\<lambda>u. py_return (t @ u))))))
            else py_raise OtherError))"
  by pat_completeness auto

termination
proof (relation "measures [\<lambda>(_, _, n, _, _). n, \<lambda>(_, _, _, _, s). length s]", goal_cases)
  case (5 secret p n sec c s d rest)
  have "length (dropWhile (\<lambda>x. x \<noteq> CHR ''}'') rest) \<le> length rest" by (rule length_dropWhile_le)
  with 5 show ?case by (auto simp: less_Suc_eq_le)
qed auto

text \<open>\<open>''.join(pieces)\<close>.\<close>

fun join_pieces :: "json list \<Rightarrow> string res" where
  "join_pieces [] = Inr []"
| "join_pieces (JStr s # js) = rbind (join_pieces js) (\<lambda>t. Inr (s @ t))"
| "join_pieces (j # js) = Inl TypeError"

text \<open>\<open>ConfigParser.get\<close>; \<open>fallback\<close> is \<open>None\<close> when none is given.\<close>

definition before_get :: "(string \<Rightarrow> ('w, 'k, json) parser) \<Rightarrow> cfg \<Rightarrow> string \<Rightarrow> string \<Rightarrow> json \<Rightarrow> ('w, 'k, json) parser" where
  "before_get secret p section opt v =
     py_bind (raw_get secret p section opt) (\<lambda>_.
     py_bind (case v of
         JStr s \<Rightarrow> interpolate secret p MAX_INTERPOLATION_DEPTH section s
       | _ \<Rightarrow> if py_truth v then py_raise AttributeError else py_return []) (\<lambda>pieces.
     py_bind (py_lift (join_pieces pieces)) (\<lambda>s. py_return (JStr s))))"

definition parser_get ::
    "(string \<Rightarrow> ('w, 'k, json) parser) \<Rightarrow> cfg \<Rightarrow> string \<Rightarrow> string \<Rightarrow> bool \<Rightarrow> json option \<Rightarrow> ('w, 'k, json) parser" where
  "parser_get secret p section option raw fallback =
     py_bind (raw_get secret p section (py_lower option)) (\<lambda>found. case found of
         None \<Rightarrow> (case fallback of None \<Rightarrow> py_raise OtherError | Some f \<Rightarrow> py_return f)
       | Some v \<Rightarrow> if raw \<or> v = JNull then py_return v else before_get secret p section (py_lower option) v)"

subsection \<open>\<open>CustodiaConfigParser\<close>\<close>

text \<open>
  The property \<open>custodia_client\<close>. Its options may themselves refer to secrets, for which it is
  asked again: \<open>n\<close> is how often that can nest before Python's recursion limit.
\<close>

definition header_texts :: "(string \<Rightarrow> json res) \<Rightarrow> json \<Rightarrow> (string \<times> string) list res" where
  "header_texts loads j = (case j of
      JStr s \<Rightarrow> rbind (loads s) (\<lambda>h. case h of
          JDict d \<Rightarrow> if \<forall>(k, v) \<in> set d. \<exists>t. v = JStr t
            then Inr (map (\<lambda>(k, v). (k, case v of JStr t \<Rightarrow> t | _ \<Rightarrow> [])) d) else Inl TypeError
        | _ \<Rightarrow> Inl ValueError)
    | _ \<Rightarrow> Inl TypeError)"

definition text_of :: "json \<Rightarrow> string res" where
  "text_of j = (case j of JStr s \<Rightarrow> Inr s | _ \<Rightarrow> Inl AttributeError)"

definition configured_client ::
    "(string \<Rightarrow> ('w, 'k, json) parser) \<Rightarrow> (string \<Rightarrow> json res) \<Rightarrow> cfg \<Rightarrow> ('w, 'k, client) parser" where
  "configured_client secret loads p =
     (let sec = custodia_client_section;
          option = (\<lambda>name. parser_get secret p sec name False (Some JNull)) in
     py_bind (parser_get secret p sec ''url'' False None) (\<lambda>url.
     py_bind (py_lift (text_of url)) (\<lambda>url.
     py_bind (option ''headers'') (\<lambda>headers.
     py_bind (if py_truth headers then py_lift (header_texts loads headers) else py_return []) (\<lambda>hs.
     py_bind (option ''tls_cafile'') (\<lambda>tls_cafile.
     py_bind (option ''tls_certfile'') (\<lambda>certfile.
     py_bind (option ''tls_keyfile'') (\<lambda>keyfile.
       let cl = new_client url;
           cl = cl\<lparr>cl_headers := dict_update (cl_headers cl) hs\<rparr>;
           cl = (case tls_cafile of JStr (c # f) \<Rightarrow> set_ca_cert (c # f) cl | _ \<Rightarrow> cl);
           cl = (case certfile of
               JStr (c # f) \<Rightarrow> set_client_cert (c # f) (case keyfile of JStr k \<Rightarrow> Some k | _ \<Rightarrow> None) cl
             | _ \<Rightarrow> cl)
       in py_return cl))))))))"

fun custodia_client ::
    "nat \<Rightarrow> 'w http_lib \<Rightarrow> (string \<Rightarrow> json res) \<Rightarrow> cfg \<Rightarrow> ('w, 'k, client) parser" where
  "custodia_client 0 lib loads p = py_raise RuntimeError"
| "custodia_client (Suc n) lib loads p = py_bind py_get (\<lambda>(cached, _). case cached of
      Some cl \<Rightarrow> py_return cl
    | None \<Rightarrow>
        py_bind (configured_client
          (\<lambda>item. py_bind (custodia_client n lib loads p) (\<lambda>cl. get_named lib cl (JStr item))) loads p) (\<lambda>cl.
        py_bind (py_modify (\<lambda>(_, c). (Some cl, c))) (\<lambda>_. py_return cl)))"

text \<open>\<open>CustodiaMapping.__getitem__\<close>, \<open>get\<close> and \<open>getsecret\<close> of the parser.\<close>

definition mapping_getitem :: "nat \<Rightarrow> 'w http_lib \<Rightarrow> (string \<Rightarrow> json res) \<Rightarrow> cfg \<Rightarrow> string \<Rightarrow> ('w, 'k, json) parser" where
  "mapping_getitem n lib loads p item =
     py_bind (custodia_client n lib loads p) (\<lambda>cl. get_named lib cl (JStr item))"

definition config_get ::
    "nat \<Rightarrow> 'w http_lib \<Rightarrow> (string \<Rightarrow> json res) \<Rightarrow> cfg \<Rightarrow> string \<Rightarrow> string \<Rightarrow> bool \<Rightarrow> json option \<Rightarrow> ('w, 'k, json) parser" where
  "config_get n lib loads p section option raw fallback =
     parser_get (mapping_getitem n lib loads p) p section option raw fallback"

definition getsecret ::
    "nat \<Rightarrow> 'w http_lib \<Rightarrow> (string \<Rightarrow> json res) \<Rightarrow> cfg \<Rightarrow> string \<Rightarrow> string \<Rightarrow> bool \<Rightarrow> json option \<Rightarrow> ('w, 'k, json) parser" where
  "getsecret n lib loads p section option raw fallback =
     py_bind (config_get n lib loads p section option raw fallback) (\<lambda>value.
     if raw then py_return value
     else py_bind (custodia_client n lib loads p) (\<lambda>cl. get_named lib cl value))"

text \<open>\<open>CustodiaSectionProxy.getsecret\<close>: there is always a fallback, \<open>None\<close> when none was given.\<close>

definition proxy_getsecret ::
    "nat \<Rightarrow> 'w http_lib \<Rightarrow> (string \<Rightarrow> json res) \<Rightarrow> cfg \<Rightarrow> string \<Rightarrow> string \<Rightarrow> bool \<Rightarrow> json \<Rightarrow> ('w, 'k, json) parser" where
  "proxy_getsecret n lib loads p section option raw fallback =
     getsecret n lib loads p section option raw (Some fallback)"

text \<open>
  \<open>CustodiaSimpleConstructor\<close> of \<open>docs/source/examples/yaml_ext.py\<close>: the client of a YAML tag, and
  the value of a node with that tag, whose scalar names a secret.
\<close>

definition CustodiaSimpleConstructor :: "string \<Rightarrow> client" where
  "CustodiaSimpleConstructor url = new_client url"

definition construct_node :: "'w http_lib \<Rightarrow> client \<Rightarrow> string \<Rightarrow> ('w, 'k, json) call" where
  "construct_node lib constructor scalar = simple_get_secret lib constructor scalar"

subsection \<open>Reading a configured secret\<close>

lemma custodia_client_cached: "custodia_client (Suc n) lib loads p (Some cl, c) = (Inr cl, (Some cl, c))"
  by (simp add: py_simps)

lemma mapping_cached:
  "mapping_getitem (Suc n) lib loads p item (Some cl, c) =
     (case simple_get_secret lib cl item c of (r, c') \<Rightarrow> (r, (Some cl, c')))"
  by (simp add: mapping_getitem_def get_named_def on_client_def py_simps)

declare interpolate.simps(3) [simp del]

lemma interpolate_char:
  "c \<noteq> CHR ''$'' \<Longrightarrow> interpolate secret p (Suc n) section (c # s) =
     py_bind (interpolate secret p (Suc n) section s) (\<lambda>t. py_return (JStr [c] # t))"
  by (simp add: interpolate.simps(3))

lemma interpolate_plain:
  "CHR ''$'' \<notin> set s \<Longrightarrow> interpolate secret p (Suc n) section s st = (Inr (map (\<lambda>c. JStr [c]) s), st)"
proof (induction s)
  case (Cons c s)
  then have "c \<noteq> CHR ''$''" "CHR ''$'' \<notin> set s" by auto
  with Cons.IH show ?case by (simp add: interpolate_char py_simps)
qed (simp add: py_simps)

lemma depth_allowed: "MAX_INTERPOLATION_DEPTH = Suc 9"
  by (simp add: MAX_INTERPOLATION_DEPTH_def)

lemma join_chars: "join_pieces (map (\<lambda>c. JStr [c]) s) = Inr s"
  by (induction s) simp_all

text \<open>A value without a dollar sign outside of the section \<open>CUSTODIA\<close> is read as it stands.\<close>

lemma get_plain:
  assumes "cfg_lookup p section (py_lower option) = Found s" and "section \<noteq> custodia_section" and "CHR ''$'' \<notin> set s"
  shows "config_get n lib loads p section option False fallback st = (Inr (JStr s), st)"
  using assms(1,2) interpolate_plain [OF assms(3), of "mapping_getitem n lib loads p" p 9 "section" st]
  by (simp add: config_get_def parser_get_def before_get_def raw_get_def raw_lookup_def depth_allowed py_simps join_chars)

lemma getsecret_plain:
  assumes "cfg_lookup p section (py_lower option) = Found s" and "section \<noteq> custodia_section" and "CHR ''$'' \<notin> set s"
    and "simple_get_secret lib cl s c = (Inr j, c')"
  shows "getsecret (Suc n) lib loads p section option False fallback (Some cl, c) = (Inr j, (Some cl, c'))"
  using get_plain [OF assms(1-3), of "Suc n" lib loads fallback "(Some cl, c)"] assms(4)
  by (simp add: getsecret_def get_named_def on_client_def py_simps)

text \<open>The tag of the YAML example and \<open>getsecret\<close> give the same value for the same name.\<close>

lemma construct_as_getsecret:
  assumes "cfg_lookup p section (py_lower option) = Found s" and "section \<noteq> custodia_section" and "CHR ''$'' \<notin> set s"
    and "construct_node lib cl s c = (Inr j, c')"
  shows "getsecret (Suc n) lib loads p section option False fallback (Some cl, c) = (Inr j, (Some cl, c'))"
  using getsecret_plain [OF assms(1-3)] assms(4) by (simp add: construct_node_def)

text \<open>A value that is a reference to a secret.\<close>

definition secret_reference :: "string \<Rightarrow> string" where
  "secret_reference name = ''${CUSTODIA:'' @ name @ ''}''"

lemma str_contains_char: "str_contains s [c] = (c \<in> set s)"
  by (induction s) (auto simp: startswith_def)

lemma reference_secret:
  assumes "CHR '':'' \<notin> set name" and "py_lower name = name"
  shows "reference secret p section (''CUSTODIA:'' @ name) st =
    py_bind (raw_get secret p ''CUSTODIA'' name) (\<lambda>found. case found of
      None \<Rightarrow> py_raise OtherError | Some v \<Rightarrow> py_return (''CUSTODIA'', name, v)) st"
proof -
  have "py_split (CHR '':'') (''CUSTODIA:'' @ name) = [''CUSTODIA'', name]"
    using py_split_append [of "CHR '':''" "''CUSTODIA''" name] py_split_no_sep [OF assms(1)] by simp
  then show ?thesis by (simp add: reference_def assms(2))
qed

lemma braces:
  assumes "CHR ''}'' \<notin> set a"
  shows "takeWhile (\<lambda>x. x \<noteq> CHR ''}'') (a @ CHR ''}'' # b) = a"
    and "dropWhile (\<lambda>x. x \<noteq> CHR ''}'') (a @ CHR ''}'' # b) = CHR ''}'' # b"
  using assms by (induction a) auto

text \<open>One reference: what is looked up, and what becomes of it.\<close>

lemma interpolate_found:
  assumes "set name \<inter> {CHR '':'', CHR ''}''} = {}" and "py_lower name = name"
    and "raw_get secret p ''CUSTODIA'' name st = (Inr (Some (JStr v)), st1)"
  shows "interpolate secret p (Suc n) section (secret_reference name) st =
    (if CHR ''$'' \<in> set v
     then py_bind (raw_get secret p ''CUSTODIA'' name) (\<lambda>_. interpolate secret p n ''CUSTODIA'' v) st1
     else (Inr [JStr v], st1))"
proof -
  let ?key = "''CUSTODIA:'' @ name"
  have key: "CHR ''}'' \<notin> set ?key" and n: "CHR '':'' \<notin> set name" using assms(1) by auto
  have eq: "secret_reference name = CHR ''$'' # CHR ''{'' # ?key @ CHR ''}'' # []"
    by (simp add: secret_reference_def)
  have "?key \<noteq> []" by simp
  have "reference secret p section ?key st = (Inr (''CUSTODIA'', name, JStr v), st1)"
    using reference_secret [OF n assms(2), of secret p "section" st] assms(3) by (simp add: py_simps)
  then show ?thesis
    unfolding eq interpolate.simps(3) Let_def list.case braces [OF key] using \<open>?key \<noteq> []\<close>
    by (simp add: str_contains_char py_simps del: append.simps split: sum.splits prod.splits)
qed

lemma get_reference:
  assumes "cfg_lookup p section (py_lower option) = Found (secret_reference name)" and "section \<noteq> custodia_section"
    and "set name \<inter> {CHR '':'', CHR ''}''} = {}" and "py_lower name = name"
    and "simple_get_secret lib cl name c = (Inr (JStr v), c')" and "CHR ''$'' \<notin> set v"
  shows "config_get (Suc n) lib loads p section option False fallback (Some cl, c) = (Inr (JStr v), (Some cl, c'))"
proof -
  have fetch: "raw_get (mapping_getitem (Suc n) lib loads p) p ''CUSTODIA'' name (Some cl, c) = (Inr (Some (JStr v)), (Some cl, c'))"
    using assms(5) by (simp add: raw_get_def custodia_section_def py_try_def mapping_cached py_simps)
  show ?thesis using assms(1,2,6) interpolate_found [OF assms(3,4) fetch, of 9 "section"]
    by (simp add: config_get_def parser_get_def before_get_def raw_get_def [of _ _ "section"] raw_lookup_def
        depth_allowed py_simps)
qed

text \<open>
  A dollar sign in the secret is taken for one of the configuration: two of them become one, one
  that is followed by another character is an error. The secret is fetched twice.
\<close>

lemma interpolate_dollar:
  assumes "CHR ''$'' \<notin> set w" and "x \<noteq> CHR ''{''"
  shows "interpolate secret p (Suc n) section (CHR ''$'' # x # w) st =
    (if x = CHR ''$'' then Inr (JStr ''$'' # map (\<lambda>c. JStr [c]) w) else Inl OtherError, st)"
  using assms(2) interpolate_plain [OF assms(1), of secret p n "section" st]
  by (simp add: interpolate.simps(3) py_simps)

lemma get_reference_dollar:
  assumes "cfg_lookup p section (py_lower option) = Found (secret_reference name)" and "section \<noteq> custodia_section"
    and "set name \<inter> {CHR '':'', CHR ''}''} = {}" and "py_lower name = name"
    and "simple_get_secret lib cl name c = (Inr (JStr (CHR ''$'' # x # w)), c1)"
    and "simple_get_secret lib cl name c1 = (Inr j, c2)" and "CHR ''$'' \<notin> set w" and "x \<noteq> CHR ''{''"
  shows "config_get (Suc n) lib loads p section option False fallback (Some cl, c) =
    (if x = CHR ''$'' then Inr (JStr (CHR ''$'' # w)) else Inl OtherError, (Some cl, c2))"
proof -
  have fetch: "raw_get (mapping_getitem (Suc n) lib loads p) p ''CUSTODIA'' name (Some cl, c) =
      (Inr (Some (JStr (CHR ''$'' # x # w))), (Some cl, c1))"
    and again: "raw_get (mapping_getitem (Suc n) lib loads p) p ''CUSTODIA'' name (Some cl, c1) = (Inr (Some j), (Some cl, c2))"
    using assms(5,6) by (simp_all add: raw_get_def custodia_section_def py_try_def mapping_cached py_simps)
  note interpolate_dollar [OF assms(7,8), of "mapping_getitem (Suc n) lib loads p" p 8 "''CUSTODIA''" "(Some cl, c2)"]
  with assms(1,2) again show ?thesis using interpolate_found [OF assms(3,4) fetch, of 9 "section"]
    by (simp add: config_get_def parser_get_def before_get_def raw_get_def [of _ _ "section"] raw_lookup_def
        depth_allowed py_simps join_chars)
qed

text \<open>A client made from the section \<open>custodia_client\<close> with nothing but a URL in it.\<close>

lemma client_from_url:
  assumes "cfg_lookup p custodia_client_section ''url'' = Found u" and "CHR ''$'' \<notin> set u"
    and "\<And>opt. opt \<in> {''headers'', ''tls_cafile'', ''tls_certfile'', ''tls_keyfile''} \<Longrightarrow>
      cfg_lookup p custodia_client_section opt = NoOption"
  shows "custodia_client (Suc n) lib loads p (None, c) = (Inr (new_client u), (Some (new_client u), c))"
proof -
  let ?secret = "\<lambda>item. py_bind (custodia_client n lib loads p) (\<lambda>cl. get_named lib cl (JStr item))"
  have l: "py_lower ''url'' = ''url''" "py_lower ''headers'' = ''headers''" "py_lower ''tls_cafile'' = ''tls_cafile''"
    "py_lower ''tls_certfile'' = ''tls_certfile''" "py_lower ''tls_keyfile'' = ''tls_keyfile''"
    "custodia_client_section \<noteq> custodia_section"
    by code_simp+
  have url: "parser_get ?secret p custodia_client_section ''url'' False None (None, c) = (Inr (JStr u), (None, c))"
    using assms(1) l interpolate_plain [OF assms(2), of ?secret p 9 custodia_client_section "(None, c)"]
    by (simp add: parser_get_def before_get_def raw_get_def raw_lookup_def depth_allowed py_simps join_chars)
  have none: "parser_get ?secret p custodia_client_section opt False (Some JNull) (None, c) = (Inr JNull, (None, c))"
    if "opt \<in> {''headers'', ''tls_cafile'', ''tls_certfile'', ''tls_keyfile''}" for opt
    using that l assms(3) [OF that] by (auto simp: parser_get_def raw_get_def raw_lookup_def py_simps)
  have "configured_client ?secret loads p (None, c) = (Inr (new_client u), (None, c))"
    using url none [of "''headers''"] none [of "''tls_cafile''"] none [of "''tls_certfile''"] none [of "''tls_keyfile''"]
    by (simp add: configured_client_def Let_def py_simps text_of_def)
  then show ?thesis by (simp add: py_simps)
qed

text \<open>Without an option the section proxy asks the server for the secret \<open>None\<close>.\<close>

lemma proxy_missing:
  assumes "cfg_lookup p section (py_lower option) \<in> {NoSection, NoOption}" and "section \<noteq> custodia_section"
  shows "proxy_getsecret (Suc n) lib loads p section option False JNull (Some cl, c) = (Inl AttributeError, (Some cl, c))"
  using assms
  by (auto simp: proxy_getsecret_def getsecret_def config_get_def parser_get_def raw_get_def raw_lookup_def
      get_named_def py_simps)

text \<open>C31: A secret that was stored through the client is what a configuration yields that names it, after
  any session that did not delete it: by \<open>getsecret\<close> for an option that holds the name, and by
  plain \<open>get\<close> for an option that refers to it, if the name is in lower case and the secret has no
  dollar sign.\<close>

theorem configured_secret:
  assumes "linked E dec dec8 se dumps lib cl" and "se_store se = sqlite_ops"
    and "text_db (store_of s)" and "text_view (sqlite_view (store_of s))"
    and "list_all (op_fits dumps cl) (SetSecret t v # ops)"
    and "DelSecret t \<notin> set ops" and "DeleteContainer t \<notin> set ops"
    and "run_ops lib cl (SetSecret t v # ops) s = (Inr None # rs, s1)"
    and "cfg_lookup p section1 (py_lower option1) = Found (py_join ''/'' t)" and "section1 \<noteq> custodia_section"
    and "cfg_lookup p section2 (py_lower option2) = Found (secret_reference (py_join ''/'' t))" and "section2 \<noteq> custodia_section"
  shows "\<exists>s2. getsecret (Suc n) lib loads p section1 option1 False fallback (Some cl, s1) = (Inr (JStr v), (Some cl, s2))
    \<and> (py_lower (py_join ''/'' t) = py_join ''/'' t \<and> CHR ''$'' \<notin> set v \<longrightarrow>
        config_get (Suc n) lib loads p section2 option2 False fallback (Some cl, s1) = (Inr (JStr v), (Some cl, s2)))"
proof -
  have "remote_key cl t" using assms(5) by simp
  then have names: "\<forall>x \<in> set t. plain_name x" by (simp add: remote_key_def)
  have "c \<notin> set ''$:}''" if "c \<in> set (py_join ''/'' t)" for c
  proof -
    from py_join_chars [OF that] names have "c = CHR ''/'' \<or> always_safe c" by (auto simp: plain_name_def list_all_iff)
    then show ?thesis by (auto simp: always_safe_def is_alpha_def is_digit_def Let_def)
  qed
  then have chars: "CHR ''$'' \<notin> set (py_join ''/'' t)" "set (py_join ''/'' t) \<inter> {CHR '':'', CHR ''}''} = {}" by auto
  from session_keeps [OF assms(1-8)] obtain s2 where "run_op lib cl (GetSecret t) s1 = (Inr (Some (JStr v)), s2)" by blast
  then have get: "simple_get_secret lib cl (py_join ''/'' t) s1 = (Inr (JStr v), s2)"
    by (auto simp: py_bind_apply py_return_apply split: sum.splits prod.splits)
  show ?thesis
    using getsecret_plain [OF assms(9,10) chars(1) get] get_reference [OF assms(11,12) chars(2) _ get] by blast
qed

lemma run_ops_Cons: "\<exists>rs s1. run_ops lib cl (op # ops) s = (fst (run_op lib cl op s) # rs, s1)"
  by (auto split: prod.splits)

definition sample_config :: cfg where
  "sample_config = \<lparr>cf_defaults = [], cf_sections = [(''example'', [(''password'', ''alice/key'')]),
     (''interpolation'', [(''password'', ''${CUSTODIA:alice/key}'')])]\<rparr>"

theorem configured_secret_witness:
  "\<exists>s1 s2. run_ops sample_lib sample_client [SetSecret [''alice'', ''key''] ''pw'', SetSecret [''alice'', ''other''] ''x''] sample_state = s1
    \<and> getsecret 1 sample_lib read_note sample_config ''example'' ''Password'' False None (Some sample_client, snd s1)
      = (Inr (JStr ''pw''), (Some sample_client, s2))
    \<and> config_get 1 sample_lib read_note sample_config ''interpolation'' ''password'' False None (Some sample_client, snd s1)
      = (Inr (JStr ''pw''), (Some sample_client, s2))"
proof -
  let ?ops = "[SetSecret [''alice'', ''other''] ''x'']"
  have S: "se_store sample_secrets = sqlite_ops" by (simp add: sample_secrets_def)
  have f: "list_all (op_fits note_json sample_client) (SetSecret [''alice'', ''key''] ''pw'' # ?ops)" using sample_names by simp
  obtain rs s1 where run: "run_ops sample_lib sample_client (SetSecret [''alice'', ''key''] ''pw'' # ?ops) sample_state =
      (fst (run_op sample_lib sample_client (SetSecret [''alice'', ''key''] ''pw'') sample_state) # rs, s1)"
    using run_ops_Cons by blast
  from marked.every_op_refines [OF sample_linked sample_names(1) sample_vault(1) S sample_vault(2)] sample_set(1)
  have r: "fst (run_op sample_lib sample_client (SetSecret [''alice'', ''key''] ''pw'') sample_state) = Inr None"
    by (auto simp: op_refines_def op_settled_def)
  have l: "cfg_lookup sample_config ''example'' (py_lower ''Password'') = Found (py_join ''/'' [''alice'', ''key''])"
    "cfg_lookup sample_config ''interpolation'' (py_lower ''password'') = Found (secret_reference (py_join ''/'' [''alice'', ''key'']))"
    "''example'' \<noteq> custodia_section" "''interpolation'' \<noteq> custodia_section"
    "py_lower (py_join ''/'' [''alice'', ''key'']) = py_join ''/'' [''alice'', ''key'']"
    by code_simp+
  from configured_secret [OF sample_linked S sample_vault f _ _ run [unfolded r] l(1,3,2,4), of 0 read_note None] l(5) run
  show ?thesis by auto
qed

subsection \<open>The examples' own session\<close>

text \<open>
  \<open>demo()\<close> of \<open>cfgparser.py\<close>: the configuration it reads, the entries it makes when they are not
  there, and the two secrets it prints. \<open>demo()\<close> of \<open>yaml_ext.py\<close> makes the same entries.
\<close>

definition demo_headers :: string where
  "demo_headers = ''{'' @ [CHR 0x22] @ ''REMOTE_USER'' @ [CHR 0x22] @ '': '' @ [CHR 0x22] @ ''user'' @ [CHR 0x22] @ ''}''"

definition demo_cfg :: cfg where
  "demo_cfg = \<lparr>cf_defaults = [], cf_sections = [
     (''custodia_client'', [(''url'', ''http+unix://%2E%2Fserver_socket/secrets''), (''headers'', demo_headers)]),
     (''example'', [(''password'', ''test/key'')]),
     (''interpolation'', [(''password'', ''${CUSTODIA:test/key}'')])]\<rparr>"

definition demo_entries :: "'w http_lib \<Rightarrow> client \<Rightarrow> ('w, 'k, unit) call" where
  "demo_entries lib cl =
     py_bind (py_try (simple_list_container lib cl ''test'')
       (\<lambda>e. case e of
          HTTPError n \<Rightarrow> py_bind (simple_create_container lib cl ''test'') (\<lambda>_. py_return (JList []))
        | _ \<Rightarrow> py_raise e)) (\<lambda>c.
     py_bind (py_lift (json_in ''key'' c)) (\<lambda>there.
       if there then py_return () else simple_set_secret lib cl ''test/key'' (JStr ''secret password'')))"

definition cfgparser_demo :: "nat \<Rightarrow> 'w http_lib \<Rightarrow> (string \<Rightarrow> json res) \<Rightarrow> ('w, 'k, json \<times> json) parser" where
  "cfgparser_demo n lib loads =
     py_bind (custodia_client n lib loads demo_cfg) (\<lambda>cl.
     py_bind (on_client (demo_entries lib cl)) (\<lambda>_.
     py_bind (getsecret n lib loads demo_cfg ''example'' ''password'' False None) (\<lambda>secret1.
     py_bind (config_get n lib loads demo_cfg ''interpolation'' ''password'' False None) (\<lambda>secret2.
       py_return (secret1, secret2)))))"

definition yaml_demo :: "'w http_lib \<Rightarrow> ('w, 'k, json) call" where
  "yaml_demo lib =
     (let constructor = CustodiaSimpleConstructor ''http+unix://%2E%2Fserver_socket/secrets'';
          constructor = constructor\<lparr>cl_headers := dict_put ''REMOTE_USER'' ''user'' (cl_headers constructor)\<rparr>
      in py_bind (demo_entries lib constructor) (\<lambda>_. construct_node lib constructor ''test/key''))"

text \<open>Both sessions use the same client.\<close>

lemma demo_client:
  assumes "loads demo_headers = Inr (JDict [(''REMOTE_USER'', JStr ''user'')])"
  defines "cl \<equiv> (new_client ''http+unix://%2E%2Fserver_socket/secrets'')
    \<lparr>cl_headers := [(''Content-Type'', ''application/json''), (''REMOTE_USER'', ''user'')]\<rparr>"
  shows "custodia_client (Suc n) lib loads demo_cfg (None, c) = (Inr cl, (Some cl, c))"
    and "yaml_demo lib = py_bind (demo_entries lib cl) (\<lambda>_. simple_get_secret lib cl ''test/key'')"
proof -
  let ?secret = "\<lambda>item. py_bind (custodia_client n lib loads demo_cfg) (\<lambda>cl. get_named lib cl (JStr item))"
  let ?url = "''http+unix://%2E%2Fserver_socket/secrets''"
  have l: "cfg_lookup demo_cfg custodia_client_section (py_lower ''url'') = Found ?url"
    "cfg_lookup demo_cfg custodia_client_section (py_lower ''headers'') = Found demo_headers"
    "cfg_lookup demo_cfg custodia_client_section (py_lower ''tls_cafile'') = NoOption"
    "cfg_lookup demo_cfg custodia_client_section (py_lower ''tls_certfile'') = NoOption"
    "cfg_lookup demo_cfg custodia_client_section (py_lower ''tls_keyfile'') = NoOption"
    "custodia_client_section \<noteq> custodia_section" "CHR ''$'' \<notin> set ?url" "CHR ''$'' \<notin> set demo_headers"
    by code_simp+
  have found: "parser_get ?secret demo_cfg custodia_client_section name False d (None, c) = (Inr (JStr v), (None, c))"
    if "cfg_lookup demo_cfg custodia_client_section (py_lower name) = Found v" "CHR ''$'' \<notin> set v" for name d v
    using that l(6) interpolate_plain [OF that(2), of ?secret demo_cfg 9 custodia_client_section "(None, c)"]
    by (simp add: parser_get_def before_get_def raw_get_def raw_lookup_def depth_allowed py_simps join_chars)
  have none: "parser_get ?secret demo_cfg custodia_client_section name False (Some JNull) (None, c) = (Inr JNull, (None, c))"
    if "cfg_lookup demo_cfg custodia_client_section (py_lower name) = NoOption" for name
    using that l(6) by (simp add: parser_get_def raw_get_def raw_lookup_def py_simps)
  have "demo_headers \<noteq> []" by (simp add: demo_headers_def)
  then have "configured_client ?secret loads demo_cfg (None, c) = (Inr cl, (None, c))"
    using found [OF l(1,7)] found [OF l(2,8)] none [OF l(3)] none [OF l(4)] none [OF l(5)] assms(1)
    by (simp add: configured_client_def Let_def py_simps text_of_def header_texts_def cl_def new_client_def DEFAULT_HEADERS_def)
  then show "custodia_client (Suc n) lib loads demo_cfg (None, c) = (Inr cl, (Some cl, c))" by (simp add: py_simps)
  show "yaml_demo lib = py_bind (demo_entries lib cl) (\<lambda>_. simple_get_secret lib cl ''test/key'')"
    by (simp add: yaml_demo_def CustodiaSimpleConstructor_def construct_node_def cl_def new_client_def DEFAULT_HEADERS_def Let_def)
qed

end
