(* ===== verification/Interleaving.thy ===== *)
theory Interleaving
  imports SecretsSpec
begin

text \<open>
  Requests that run at the same time. \<open>ForkingHTTPServer\<close> of \<open>src/custodia/httpd/server.py\<close> forks
  for each request, so that requests of \<open>src/custodia/secrets.py\<close> share nothing but their store;
  each method of the SQLite store is one transaction. What other children do between the store
  calls of a request is a list of changes of the store, one before each call.

  Shown: a PUT adds its key to a store that does not have it, or changes nothing, whatever others
  do meanwhile; a DELETE of a container can be answered with success although a key that was put
  into it meanwhile, with success as well, stays.
\<close>

subsection \<open>A store shared with others\<close>

type_synonym 'w shared = "'w \<times> ('w \<Rightarrow> 'w) list"

fun others_first :: "('w, 'a) py \<Rightarrow> ('w shared, 'a) py" where
  "others_first m (w, []) = (case m w of (r, w') \<Rightarrow> (r, (w', [])))"
| "others_first m (w, f # fs) = (case m (f w) of (r, w') \<Rightarrow> (r, (w', fs)))"

definition shared_ops :: "'w store_ops \<Rightarrow> 'w shared store_ops" where
  "shared_ops S = \<lparr>st_get = (\<lambda>k. others_first (st_get S k)), st_set = (\<lambda>k v r. others_first (st_set S k v r)),
     st_span = (\<lambda>k. others_first (st_span S k)), st_list = (\<lambda>p. others_first (st_list S p)),
     st_cut = (\<lambda>k. others_first (st_cut S k))\<rparr>"

lemma shared_simps [simp]:
  "st_get (shared_ops S) k = others_first (st_get S k)" "st_set (shared_ops S) k v r = others_first (st_set S k v r)"
  "st_span (shared_ops S) k = others_first (st_span S k)" "st_list (shared_ops S) p = others_first (st_list S p)"
  "st_cut (shared_ops S) k = others_first (st_cut S k)"
  by (simp_all add: shared_ops_def)

text \<open>Alone, a request on a shared store does what it does on the store.\<close>

lemma others_first_alone: "others_first m (w, []) = (case m w of (r, w') \<Rightarrow> (r, (w', [])))"
  by simp

subsection \<open>Over any lawful store\<close>

context container_store begin

lemma shared_parent:
  assumes "cx_store c = (w, f # fs)" and "ok (f w)" and "se_store se = shared_ops S" and "2 \<le> length trail"
    and "\<not> (length trail = 2 \<and> d = Some (hd trail))"
  shows "parent_exists se d trail c = (Inr (known (view (f w)) (parent_base trail)), c\<lparr>cx_store := (f w, fs)\<rparr>)"
proof -
  obtain r where "st_list S (parent_base trail) (f w) = (Inr r, f w)" "(r \<noteq> None) = known (view (f w)) (parent_base trail)"
    using list_known [OF assms(2)] by metis
  then show ?thesis
    unfolding parent_exists_def parent_container_key [OF assms(4)]
    using assms(1,3,5) by (auto simp: py_simps)
qed

text \<open>What a PUT does when others come before its check and before its insertion.\<close>

lemma shared_put:
  assumes "cx_store c = (w, [f, g])" and "ok (f w)" and "ok (g (f w))" and "se_store se = shared_ops S"
    and "allows_simple se" and "client_name req = Inr cl" and "puts_value E req s" and "s \<noteq> []"
    and "db_key trail = Inr k" and "key_ok k" and "\<not> (length trail = 2 \<and> rq_default_namespace req = Some (hd trail))"
  shows "\<exists>r c'. set_key E se trail req c = (r, c') \<and>
    (if \<not> known (view (f w)) (parent_base trail) then r = Inl (HTTPError 404) \<and> cx_store c' = (f w, [g])
     else if view (g (f w)) k = None
     then r = Inr () \<and> (\<exists>w'. cx_store c' = (w', []) \<and> ok w' \<and> view w' = (view (g (f w)))(k \<mapsto> Secret (JStr s)))
     else r = Inl (HTTPError 409) \<and> (\<exists>w'. cx_store c' = (w', []) \<and> ok w' \<and> view w' = view (g (f w))))"
proof -
  have len: "2 \<le> length trail" using assms(9) by (simp add: db_key_Inr)
  note parent = shared_parent [OF assms(1,2,4) len assms(11)]
  have st: "storable (JStr s)" using assms(8) by (simp add: storable_def)
  consider (orphan) "\<not> known (view (f w)) (parent_base trail)"
    | (fresh) "known (view (f w)) (parent_base trail)" "view (g (f w)) k = None"
    | (taken) "known (view (f w)) (parent_base trail)" "view (g (f w)) k \<noteq> None" by blast
  then show ?thesis
  proof cases
    case orphan
    with parent have "int_set_key E se trail req c = (Inl (HTTPError 404), c\<lparr>cx_store := (f w, [g])\<rparr>)"
      unfolding int_set_key_def
      by (simp add: py_simps parse_set_body_value [OF assms(5,7)] assms(9) on_set_error_def)
    from audited_run [where fn = "int_set_key E se trail req" and c = c, OF assms(6) this] orphan show ?thesis
      unfolding set_key_def by auto
  next
    case fresh
    from set_fresh [OF assms(3) st assms(10)] fresh(2) obtain w' where
      w: "st_set S k (JStr s) False (g (f w)) = (Inr (), w')" "ok w'" "view w' = (view (g (f w)))(k \<mapsto> Secret (JStr s))" by blast
    from parent fresh(1) have "int_set_key E se trail req c =
        (Inr (), c\<lparr>cx_store := (w', []), cx_resp := set_code 201 (cx_resp c)\<rparr>)"
      unfolding int_set_key_def
      by (simp add: py_simps parse_set_body_value [OF assms(5,7)] assms(4,9) w(1) reply_created_simple
          del: handler_reply.simps)
    from audited_run [where fn = "int_set_key E se trail req" and c = c, OF assms(6) this] fresh w show ?thesis
      unfolding set_key_def by auto
  next
    case taken
    from set_taken [OF assms(3) st assms(10) taken(2)] obtain w' where
      w: "st_set S k (JStr s) False (g (f w)) = (Inl CSStoreExists, w')" "ok w'" "view w' = view (g (f w))" by blast
    from parent taken(1) have "int_set_key E se trail req c = (Inl (HTTPError 409), c\<lparr>cx_store := (w', [])\<rparr>)"
      unfolding int_set_key_def
      by (simp add: py_simps parse_set_body_value [OF assms(5,7)] assms(4,9) w(1) on_set_error_def)
    from audited_run [where fn = "int_set_key E se trail req" and c = c, OF assms(6) this] taken w show ?thesis
      unfolding set_key_def by auto
  qed
qed

text \<open>A DELETE of a container that is empty when it is looked at.\<close>

lemma shared_destroy:
  assumes "cx_store c = (w, [f, g])" and "ok (f w)" and "ok (g (f w))" and "se_store se = shared_ops S"
    and "allows_simple se" and "rq_body req = None" and "2 \<le> length trail"
    and "child_names (view (f w)) (container_base trail) = {}"
    and "view (f w) (list_path (container_base trail)) \<noteq> None"
    and "view (g (f w)) (list_path (container_base trail)) \<noteq> None"
  shows "\<exists>w'. secrets_destroy E se trail req c =
      (Inr (), c\<lparr>cx_store := (w', []), cx_resp := set_code 204 (cx_resp c)\<rparr>)
    \<and> ok w' \<and> view w' = (view (g (f w)))(list_path (container_base trail) := None)"
proof -
  obtain r where l: "st_list S (container_base trail) (f w) = (Inr r, f w)"
    "list_spec (view (f w)) (container_base trail) r" using list_view [OF assms(2)] by blast
  have r: "r = Some []"
    using l(2) assms(8,9) by (auto simp: list_spec_def container_there_def split: option.splits)
  from cut_there [OF assms(3,10)] obtain w' where
    w: "st_cut S (list_path (container_base trail)) (g (f w)) = (Inr (CutBool True), w')" "ok w'"
      "view w' = (view (g (f w)))(list_path (container_base trail) := None)" by blast
  have "secrets_destroy E se trail req c =
      (Inr (), c\<lparr>cx_store := (w', []), cx_resp := set_code 204 (cx_resp c)\<rparr>)"
    unfolding secrets_destroy_def list_path_def [symmetric]
    by (simp add: py_simps as_http_def parse_maybe_body_default [OF assms(5,6)]
        db_container_key_long [OF assms(7)] assms(1,4) l(1) r w(1) reply_deleted_simple
        del: handler_reply.simps)
  with w show ?thesis by blast
qed

end

subsection \<open>Over SQLite\<close>

text \<open>C7: Whatever other requests do to the database before a PUT looks for the container and before it
  inserts the key: a PUT answered with 201 has added its secret under a key that was free at that
  moment, and has changed nothing else; one that is refused has changed nothing.\<close>

theorem concurrent_put:
  assumes "cx_store c = (w, [f, g])" and "sqlite_ready (f w)" and "sqlite_ready (g (f w))"
    and "se_store se = shared_ops sqlite_ops" and "allows_simple se" and "client_name req = Inr cl"
    and "puts_value E req s" and "s \<noteq> []" and "db_key trail = Inr k" and "key_ok k"
    and "\<not> (length trail = 2 \<and> rq_default_namespace req = Some (hd trail))"
  shows "\<exists>r c'. set_key E se trail req c = (r, c') \<and>
    (if \<not> known (sqlite_view (f w)) (parent_base trail) then r = Inl (HTTPError 404) \<and> cx_store c' = (f w, [g])
     else if sqlite_view (g (f w)) k = None
     then r = Inr () \<and> (\<exists>w'. cx_store c' = (w', []) \<and> sqlite_ready w'
       \<and> sqlite_view w' = (sqlite_view (g (f w)))(k \<mapsto> Secret (JStr s)))
     else r = Inl (HTTPError 409) \<and> (\<exists>w'. cx_store c' = (w', []) \<and> sqlite_ready w'
       \<and> sqlite_view w' = sqlite_view (g (f w))))"
  using assms by (rule sqlite.shared_put)

text \<open>Another client stores the same key while this one is between its check and its insertion.\<close>

definition race_db :: db where
  "race_db = \<lparr>db_rows = Some [(''keys/alice'', JStr [])], db_faults = []\<rparr>"

definition race_secrets :: "db shared secrets" where
  "race_secrets = \<lparr>se_origin = ''Secrets'', se_validator = Validator (AllowText ''simple''),
     se_store = shared_ops sqlite_ops\<rparr>"

definition race_put :: "db shared request" where
  "race_put = (sample_request ''PUT'' ''/secrets/alice/x'' [(''Content-Type'', ''application/octet-stream'')])
     \<lparr>rq_body := Some ''mine'', rq_remote_user := Some ''alice''\<rparr>"

definition race_other :: "db \<Rightarrow> db" where
  "race_other d = snd (sqlite_set ''keys/alice/x'' (JStr ''theirs'') False d)"

lemma race_facts:
  "race_other race_db = \<lparr>db_rows = Some [(''keys/alice'', JStr []), (''keys/alice/x'', JStr ''theirs'')], db_faults = []\<rparr>"
  "b64encode ''mine'' = ''bWluZQ==''"
  "list_path (parent_base [''alice'', ''x'']) = ''keys/alice''" "path_join ''keys'' [''alice'', ''x''] = ''keys/alice/x''"
  by code_simp+

theorem concurrent_put_witness:
  "\<forall>E :: (unit, unit, unit) env. \<exists>c' w'. set_key E race_secrets [''alice'', ''x''] race_put (sample_ctx (race_db, [\<lambda>d. d, race_other]))
     = (Inl (HTTPError 409), c') \<and> cx_store c' = (w', []) \<and> sqlite_view w' ''keys/alice/x'' = Some (Secret (JStr ''theirs''))"
proof
  fix E :: "(unit, unit, unit) env"
  have ready: "sqlite_ready race_db" "sqlite_ready (race_other race_db)"
    unfolding race_facts(1) by (auto simp: race_db_def sqlite_ready_def table_ok_def key_ok_def endswith_char)
  have p: "puts_value E race_put ''bWluZQ==''"
    using race_facts(2) by (simp add: puts_value_def race_put_def content_type_value_def header_get_def) code_simp
  have k: "db_key [''alice'', ''x''] = Inr ''keys/alice/x''" "key_ok ''keys/alice/x''"
    by (simp_all add: db_key_Inr race_facts(4) key_ok_def endswith_char del: path_join.simps)
  have v: "sqlite_view race_db ''keys/alice'' \<noteq> None"
    "sqlite_view (race_other race_db) ''keys/alice/x'' = Some (Secret (JStr ''theirs''))"
    unfolding race_facts(1) by (simp_all add: sqlite_view_def race_db_def row_entry_def)
  then have "known (sqlite_view race_db) (parent_base [''alice'', ''x''])"
    by (simp add: known_def container_there_def race_facts(3))
  moreover have "se_store race_secrets = shared_ops sqlite_ops" "allows_simple race_secrets"
    by (simp_all add: race_secrets_def allows_simple_def Validator_def key_types_def dict_get_def)
  moreover have "client_name race_put = Inr ''alice''" "rq_default_namespace race_put = None"
    by (simp_all add: race_put_def client_name_def sample_request_def)
  moreover have "cx_store (sample_ctx (race_db, [\<lambda>d. d, race_other])) = (race_db, [\<lambda>d. d, race_other])"
    by (simp add: sample_ctx_def)
  ultimately show "\<exists>c' w'. set_key E race_secrets [''alice'', ''x''] race_put (sample_ctx (race_db, [\<lambda>d. d, race_other]))
     = (Inl (HTTPError 409), c') \<and> cx_store c' = (w', []) \<and> sqlite_view w' ''keys/alice/x'' = Some (Secret (JStr ''theirs''))"
    using concurrent_put [of "sample_ctx (race_db, [\<lambda>d. d, race_other])" race_db "\<lambda>d. d" race_other race_secrets race_put
        "''alice''" E "''bWluZQ==''" "[''alice'', ''x'']" "''keys/alice/x''"] ready p k v
    by fastforce
qed

text \<open>
  The check of a DELETE is not protected in the same way: a key that is put after the look at the
  container and before its removal stays, and both requests are answered with success.
\<close>

lemma delete_race:
  assumes "sqlite_ready w" and "cx_store c = w"
    and "sqlite_view w (list_path (parent_base trail)) \<noteq> None" and "child_names (sqlite_view w) (parent_base trail) = {}"
    and "sqlite_view w k = None" and "db_key trail = Inr k" and "key_ok k"
    and "se_store se = sqlite_ops" and "allows_simple se" and "client_name put = Inr cl" and "puts_value E put s" and "s \<noteq> []"
    and "se_store se2 = shared_ops sqlite_ops" and "allows_simple se2" and "rq_body del = None"
  shows "\<exists>c1 d2 w2. set_key E se trail put c = (Inr (), c1) \<and> rs_code (cx_resp c1) = Some 201
    \<and> secrets_destroy E se2 (butlast trail @ [[]]) del (d\<lparr>cx_store := (w, [\<lambda>x. x, \<lambda>x. cx_store c1])\<rparr>) = (Inr (), d2)
    \<and> rs_code (cx_resp d2) = Some 204 \<and> cx_store d2 = (w2, [])
    \<and> sqlite_view w2 = (sqlite_view w)(k \<mapsto> Secret (JStr s), list_path (parent_base trail) := None)"
proof -
  let ?dir = "list_path (parent_base trail)"
  have known: "known (sqlite_view (cx_store c)) (parent_base trail)"
    using assms(2,3) by (simp add: known_def container_there_def)
  have r: "sqlite_ready (cx_store c)" "sqlite_view (cx_store c) k = None" using assms(1,2,5) by simp_all
  from sqlite.set_key_fresh [OF r(1) assms(8,9,10,11,12,6,7) known r(2), unfolded assms(2)] obtain w1 where
    put: "set_key E se trail put c = (Inr (), c\<lparr>cx_store := w1, cx_resp := set_code 201 (cx_resp c),
        cx_audit := cx_audit c @ [audit_key_entry (se_origin se) AUDIT_SET_ALLOWED cl (py_join ''/'' trail)]\<rparr>)"
      "sqlite_ready w1" "sqlite_view w1 = (sqlite_view w)(k \<mapsto> Secret (JStr s))" by blast
  have base: "container_base (butlast trail @ [[]]) = parent_base trail"
    by (simp add: container_base_def parent_base_def)
  have len: "2 \<le> length (butlast trail @ [[]])" using assms(6) by (auto simp: db_key_Inr)
  have "sqlite_view w1 ?dir \<noteq> None" using put(3) assms(3) by simp
  with sqlite.shared_destroy [of "d\<lparr>cx_store := (w, [\<lambda>x. x, \<lambda>x. w1])\<rparr>" w "\<lambda>x. x" "\<lambda>x. w1",
      OF _ assms(1) put(2) assms(13-15) len, unfolded base] assms(3,4)
  obtain w2 where del: "secrets_destroy E se2 (butlast trail @ [[]]) del (d\<lparr>cx_store := (w, [\<lambda>x. x, \<lambda>x. w1])\<rparr>) =
      (Inr (), d\<lparr>cx_store := (w2, []), cx_resp := set_code 204 (cx_resp d)\<rparr>)"
    "sqlite_view w2 = (sqlite_view w1)(?dir := None)" by auto
  have "?dir \<noteq> k" using assms(3,5) by auto
  with put del show ?thesis by (auto simp: set_code_def fun_eq_iff)
qed

end
