(* ===== verification/Spec2Isabelle.thy ===== *)
theory Spec2Isabelle
  imports SecretsApi Traces ServerInit Cli Forwarder KemSpec EncStores IpaVault IpaCert
  ClientSession Startup AuditText EntryPoints ConfigSecrets Interleaving
begin

text \<open>
  A model of Custodia, a server that hands out secrets over HTTP on a Unix or TLS socket, and of
  its client, in \<open>src/custodia\<close>. This theory collects the others, holds the properties that span
  components, and describes the whole.

  \<^bold>\<open>How a request goes through the program.\<close> A listening socket (\<open>httpd/server.py\<close>) forks for each
  connection. The child reads the peer's credentials and the request, asks the authenticators in
  order (\<open>httpd/authenticators.py\<close>), then the authorizers (\<open>httpd/authorizers.py\<close>,
  \<open>message/kem.py\<close>), and selects the consumer with the longest matching path. The consumer
  (\<open>plugin.py\<close>, \<open>root.py\<close>) finds the method, for the API \<open>Secrets\<close> (\<open>secrets.py\<close>), which opens the
  message (\<open>message/*.py\<close>), reads or writes a store (\<open>store/*.py\<close>, \<open>ipa/*.py\<close>), logs the access
  (\<open>log.py\<close>) and fills in the response. Before that, the configuration file is read and the
  plugins are made and tied to their stores (\<open>server/*.py\<close>, \<open>plugin.py\<close>). \<open>client.py\<close>,
  \<open>cli/__init__.py\<close> and \<open>forwarder.py\<close> talk to such a server.

  \<^bold>\<open>The model's shape.\<close> Python code that may raise and has a state is a function from the state to
  a result and the state (\<open>py\<close> in \<open>PyBase\<close>): \<open>Inl\<close> is the exception, \<open>Inr\<close> the value, and the
  state is kept in both cases. \<open>py_bind\<close>, \<open>py_try\<close>, \<open>py_raise\<close> are sequencing, \<open>try/except\<close> and
  \<open>raise\<close>. Dicts are association lists, JSON values the datatype \<open>json\<close>, integers \<open>int\<close>, except
  the 32-bit fields of the peer credentials, which are words. The state of a request (\<open>ctx\<close> in
  \<open>Requests\<close>) is the store, the audit log, the response being filled in, the clock and the
  caches of the key store. A loop that may not end is a \<open>partial_function (option)\<close>
  (\<open>Authz.path_walk\<close>), and \<open>None\<close> travels up to \<open>pipeline\<close> and \<open>handle_one_request\<close>.

  \<^bold>\<open>Theories.\<close>
  \<^item> \<open>PyBase\<close>, \<open>PyStrings\<close>, \<open>Base64\<close>, \<open>Urls\<close>: exceptions and state, strings (\<open>split\<close>, \<open>join\<close>,
    \<open>strip\<close>, \<open>int\<close>, \<open>os.path\<close>, UTF-8), base64, and the URL functions of \<open>compat.py\<close>.
  \<^item> \<open>AuditLog\<close>, \<open>AuditText\<close>: \<open>log.py\<close>, the entries and the text they are written as. \<open>Requests\<close>: the request and response dicts and the state.
  \<^item> \<open>StoreIface\<close>: \<open>CSStore\<close> as a record of methods, and the contract of a store as the locales
    \<open>secret_store\<close> and \<open>container_store\<close> over an abstract map (\<open>view\<close>).
  \<^item> \<open>SqliteStore\<close>, \<open>SqliteSpec\<close>: \<open>store/sqlite.py\<close>; the table invariant, the interpretation of the
    contract, the reference listing, the refinement of a map, failures of the database.
  \<^item> \<open>EncStores\<close>: \<open>store/encgen.py\<close>, \<open>store/enclite.py\<close>; the overlay satisfies the contract over any
    store that does (locale \<open>enc_overlay\<close>), interpreted over SQLite.
  \<^item> \<open>Kem\<close>, \<open>KemSpec\<close>, \<open>Messages\<close>: \<open>message/*.py\<close>; what an accepted message guarantees.
  \<^item> \<open>SecretsModel\<close>, \<open>SecretsSpec\<close>: \<open>secrets.py\<close>, every method; its behaviour proved once in the
    context of \<open>container_store\<close>. \<open>SecretsApi\<close> lifts this to requests to \<open>/secrets\<close>.
  \<^item> \<open>Consumer\<close>: \<open>HTTPConsumer\<close> of \<open>plugin.py\<close> and \<open>root.py\<close>.
  \<^item> \<open>Authn\<close>, \<open>Authz\<close>: the authenticators (locale \<open>authenticator\<close>, interpreted on all of
    them, on the one of FreeIPA in \<open>IpaInterface\<close>) and the authorizers.
  \<^item> \<open>Server\<close>, \<open>Listener\<close>: \<open>httpd/server.py\<close>, one request from the socket to the answer, and the
    listening socket. \<open>Traces\<close>: the fork and runs of requests as step relations, and the invariants
    that hold over every run of a server built from this package.
  \<^item> \<open>Interleaving\<close>: requests at the same time on one store, as changes others make between the store
    calls of a request.
  \<^item> \<open>Options\<close>, \<open>ServerConfig\<close>, \<open>ServerInit\<close>: plugin options, the configuration, loading the plugins
    and the second initialization stage.
  \<^item> \<open>Startup\<close>: \<open>main\<close> of \<open>server/__init__.py\<close>, from the arguments to \<open>serve_forever\<close>, with what is
    done to the system recorded in order.
  \<^item> \<open>Client\<close>, \<open>Forwarder\<close>, \<open>Cli\<close>: \<open>client.py\<close>, \<open>forwarder.py\<close>, \<open>cli/__init__.py\<close>.
  \<^item> \<open>ClientServer\<close>, \<open>ClientSession\<close>: the client library run against the server. The HTTP library is
    any one that carries a call to the server and its answer back (\<open>connected\<close>); the operations of
    \<open>CustodiaSimpleClient\<close> are then steps of an abstract vault (\<open>vault_step\<close>), proved once in the
    contexts of \<open>container_store\<close> and \<open>marked_store\<close> and interpreted over SQLite.
  \<^item> \<open>IpaInterface\<close>, \<open>IpaVault\<close>, \<open>IpaCert\<close>: \<open>ipa/*.py\<close>.
  \<^item> \<open>EntryPoints\<close>: the entry point tables of \<open>setup.py\<close>, through which plugins are found.
  \<^item> \<open>ConfigSecrets\<close>: the configuration parser of \<open>docs/source/examples/cfgparser.py\<close>, whose values can
    be secrets, with its interpolation that calls the server, and the YAML tag beside it.

  \<^bold>\<open>What is shown.\<close> Who gets an answer at all (\<open>served_only_if_allowed\<close>), what the API does on every
  outcome of storing, reading, deleting and listing over SQLite, that reading, storing and
  deleting a key is logged once whatever happens, what any run of requests preserves; the
  guarantees of logins, path authorization, signed messages and encrypted values; that the
  start-up steps end, attach what the configuration names and come in the order the server relies
  on (\<open>startup_order\<close>); that client and server agree on the socket, and that the client library
  over the server behaves like a map of names (\<open>client_refines_vault\<close>, \<open>client_reads_back\<close>). Some theorems show where the code does not do what it means to: an escaped slash
  leaves the user's container (\<open>encoded_slash_escapes\<close>), a URL path such as \<open>//x\<close> is never answered
  (\<open>double_slash_hangs\<close>), the body limit has a hole (\<open>body_limit\<close>), a container can be deleted
  while a key is put into it (\<open>delete_race\<close>), a sub below a sub is not found
  (\<open>nested_sub_missed\<close>), and a line break in the name of a key writes lines of the client's choice
  into the audit log (\<open>audit_line_forged\<close>).

  \<^bold>\<open>Parameters.\<close> Code that is not part of the repository is an argument: \<open>jwcrypto\<close> (\<open>jose\<close>,
  \<open>jwe_lib\<close>), \<open>cryptography\<close> (\<open>bytes_eq\<close>, \<open>x509\<close>), \<open>ipalib\<close> (\<open>ipa_api\<close>, \<open>vault_api\<close>, \<open>cert_api\<close>),
  \<open>requests\<close> (\<open>http_lib\<close>), systemd, and what the operating system answers. What is assumed of
  them is a named premise (\<open>jwe_lawful\<close>, \<open>ipa_lawful\<close>, \<open>signed_as\<close>, \<open>connected\<close>, a decoder that undoes UTF-8),
  and each has a concrete instance in a witness. \<open>jwe_lawful\<close> speaks only of the headers an overlay
  makes, with its own master key and content encryption. The failures of SQLite come from a schedule.

  \<^bold>\<open>Bounds.\<close> Interpolation of configuration values carries the depth limit of \<open>configparser\<close> as a
  number that decreases (10, as there); \<open>parents_n\<close> takes the length of the path as fuel, which is
  enough because each step shortens it. \<open>custodia_client\<close> carries
  the number of times its own options may ask for it again, which Python bounds by its recursion
  limit; a parser that has a client needs one. There is no other fuel: the remaining loops are
  structural or have a measure. Text is a list of 8-bit characters, so \<open>utf8_encode\<close> is UTF-8 on
  the code points below 256.

  \<^bold>\<open>Not modelled.\<close> The HTTP parser, the socket loop and the TLS handshake of the standard library;
  \<open>argparse\<close>; debug logging and \<open>repr\<close> of objects, which change no state the program reads; the
  Python 2 branches; the functions \<open>test()\<close>; the metadata of \<open>setup.py\<close> and the
  documentation build (\<open>docs/source/conf.py\<close>), which are settings without logic. Runs are
  sequences of requests; of requests at the same time only what happens between the store calls of
  one of them is modelled, each store call being one transaction of SQLite.
\<close>

section \<open>Sample data\<close>

text \<open>
  A concrete environment for the witnesses: a JSON library that reads a body as the value of a
  simple message, a \<open>Secrets\<close> object over SQLite, requests of one local user and states.
\<close>

definition demo_jose :: "(string, string, string) jose" where
  "demo_jose = \<lparr>jo_json_decode = (\<lambda>s. Inr (JStr s)), jo_json_encode = (\<lambda>j. ''{}''),
     jo_parse = (\<lambda>j. Inl ValueError), jo_decrypt = (\<lambda>t k. Inl ValueError),
     jo_deserialize = (\<lambda>s. Inl ValueError), jo_kid = (\<lambda>t. None), jo_verify = (\<lambda>t k. Inl ValueError),
     jo_jwk = (\<lambda>j. Inl ValueError), jo_key_type = (\<lambda>k. ''RSA''), jo_key_id = (\<lambda>k. JStr k),
     jo_sign = (\<lambda>h c k. Inl ValueError), jo_encrypt = (\<lambda>p h k. Inl ValueError),
     jo_open_jwe = (\<lambda>j k. Inl ValueError), jo_open_jws = (\<lambda>s k. Inl ValueError)\<rparr>"

definition demo_env :: "(string, string, string) env" where
  "demo_env = \<lparr>en_jose = demo_jose, en_loads = (\<lambda>b. Inr (simple_msg b))\<rparr>"

definition demo_secrets :: "db secrets" where
  "demo_secrets = \<lparr>se_origin = ''Secrets'', se_validator = Validator (AllowText ''simple''),
     se_store = sqlite_ops\<rparr>"

definition demo_request ::
    "string \<Rightarrow> string list \<Rightarrow> (string \<times> string) list \<Rightarrow> bytes option \<Rightarrow> db request" where
  "demo_request cmd trail headers body =
     \<lparr>rq_command = cmd, rq_path = ''/'' @ py_join ''/'' (''secrets'' # trail),
      rq_path_chain = [] # ''secrets'' # trail, rq_query = JDict [],
      rq_headers = headers, rq_body = body,
      rq_creds = Some \<lparr>cr_pid = 7, cr_uid = 1000, cr_gid = 100, cr_context = None\<rparr>,
      rq_client_cert = NoTLS, rq_client_id = CidPid 7, rq_remote_user = None,
      rq_default_namespace = None, rq_trail = Some (''secrets'' # trail), rq_kkstore = None,
      rq_ipa = False\<rparr>"

definition demo_state :: "rows \<Rightarrow> (db, string) ctx" where
  "demo_state t = \<lparr>cx_store = \<lparr>db_rows = Some t, db_faults = []\<rparr>, cx_audit = [],
     cx_resp = empty_response, cx_time = 0, cx_ticks = [], cx_server_keys = None, cx_alg = None\<rparr>"

lemma demo_allows: "allows_simple demo_secrets"
  by (simp add: allows_simple_def demo_secrets_def Validator_def key_types_def dict_get_def)

definition demo_client :: string where
  "demo_client = ''<pid=7 uid=1000 gid=100>''"

lemma demo_simps [simp]:
  "se_store demo_secrets = sqlite_ops" "se_origin demo_secrets = ''Secrets''"
  "cx_store (demo_state rows) = \<lparr>db_rows = Some rows, db_faults = []\<rparr>" "cx_audit (demo_state rows) = []"
  "rq_command (demo_request cmd t h b) = cmd" "rq_body (demo_request cmd t h b) = b"
  "rq_headers (demo_request cmd t h b) = h"
  "client_name (demo_request cmd t h b) = Inr demo_client" "no_query (demo_request cmd t h b)"
  "rq_default_namespace (demo_request cmd t h b) = None"
  "below_secrets (demo_request cmd t h b) t"
  "en_loads demo_env body = Inr (simple_msg body)"
  by (simp_all add: demo_secrets_def demo_state_def demo_request_def client_name_def no_query_def
      below_secrets_def demo_env_def demo_client_def) code_simp+

section \<open>The secrets interface over SQLite\<close>

text \<open>C2: A secret put under a fresh key of a known container is answered with 201 and is what a
  following GET of the same key returns, as a simple message; each of the two requests writes
  one audit entry.\<close>

theorem put_then_get:
  assumes "sqlite_ready (cx_store c)" and "se_store se = sqlite_ops" and "allows_simple se"
    and "key_trail trail" and "known (sqlite_view (cx_store c)) (parent_base trail)"
    and "sqlite_view (cx_store c) (key_of trail) = None"
    and "below_secrets put trail" and "rq_command put = ''PUT''" and "client_name put = Inr cl"
    and "puts_value E put s" and "s \<noteq> []"
    and "below_secrets get trail" and "rq_command get = ''GET''" and "client_name get = Inr cl2"
    and "no_query get" and "\<not> wants_binary get"
  shows "\<exists>r1 c1 r2 c2.
    consumer_handle E (root_consumer E (Some se)) put c = (Inr r1, c1) \<and> rs_code r1 = Some 201
    \<and> consumer_handle E (root_consumer E (Some se)) get c1 = (Inr r2, c2) \<and> rs_code r2 = None
    \<and> rs_output r2 = Some (OBytes (utf8_encode (jo_json_encode (en_jose E) (simple_msg s))))
    \<and> cx_audit c2 = cx_audit c
        @ [audit_key_entry (se_origin se) AUDIT_SET_ALLOWED cl (py_join ''/'' trail),
           audit_key_entry (se_origin se) AUDIT_GET_ALLOWED cl2 (py_join ''/'' trail)]"
proof -
  from sqlite.api_put_fresh [OF assms(1-3,7,8,4,9-11,5,6)] obtain c1 where
    p: "consumer_handle E (root_consumer E (Some se)) put c = (Inr (coded 201), c1)"
      "sqlite_ready (cx_store c1)"
      "sqlite_view (cx_store c1) = (sqlite_view (cx_store c))(key_of trail \<mapsto> Secret (JStr s))"
      "cx_audit c1 = cx_audit c @ [audit_key_entry (se_origin se) AUDIT_SET_ALLOWED cl (py_join ''/'' trail)]"
    by blast
  from sqlite.api_get [OF p(2) assms(2,3,12,13,4,14-16,11), of E] p(3) obtain r2 c2 where
    "consumer_handle E (root_consumer E (Some se)) get c1 = (Inr r2, c2)" "rs_code r2 = None"
    "rs_output r2 = Some (OBytes (utf8_encode (jo_json_encode (en_jose E) (simple_msg s))))"
    "cx_audit c2 = cx_audit c1 @ [audit_key_entry (se_origin se) AUDIT_GET_ALLOWED cl2 (py_join ''/'' trail)]"
    by auto
  with p show ?thesis by auto
qed

text \<open>The sample user's container with one key, and the facts about them.\<close>

definition demo_rows :: rows where
  "demo_rows = [(''keys/alice'', JStr []), (''keys/alice/old'', JStr ''x'')]"

lemma demo_ready [simp]: "sqlite_ready \<lparr>db_rows = Some demo_rows, db_faults = []\<rparr>"
  by (simp add: sqlite_ready_def demo_rows_def table_ok_def key_ok_def endswith_char)

lemma demo_view [simp]:
  "sqlite_view \<lparr>db_rows = Some demo_rows, db_faults = []\<rparr> k =
     (if k = ''keys/alice'' then Some Dir else if k = ''keys/alice/old'' then Some (Secret (JStr ''x'')) else None)"
  by (simp add: sqlite_view_def demo_rows_def row_entry_def)

lemma demo_keys [simp]:
  "key_trail [''alice'', ''key'']" "key_of [''alice'', ''key''] = ''keys/alice/key''"
  "key_trail [''alice'', ''old'']" "key_of [''alice'', ''old''] = ''keys/alice/old''"
  "parent_base [''alice'', ''key''] = ''keys/alice/''" "parent_base [''alice'', ''old''] = ''keys/alice/''"
  "dir_name [''alice'']" "key_of [''alice''] = ''keys/alice''"
  by (simp_all add: key_trail_def key_of_def plain_segment_def dir_name_def parent_base_def
      startswith_def endswith_char)

lemma demo_path: "list_path ''keys/alice/'' = ''keys/alice''"
  by code_simp

lemma demo_known [simp]: "known (sqlite_view \<lparr>db_rows = Some demo_rows, db_faults = []\<rparr>) ''keys/alice/''"
  by (simp add: known_def container_there_def demo_path)

lemma demo_json: "py_strip ''application/json'' = ''application/json''"
  by code_simp

lemma demo_puts [simp]:
  "puts_value demo_env (demo_request cmd t [(''Content-Type'', ''application/json'')] (Some s)) s"
  by (simp add: puts_value_def content_type_value_def header_get_def demo_json)

lemma demo_not_binary [simp]: "\<not> wants_binary (demo_request cmd t [] b)"
  by (simp add: wants_binary_def header_get_def)

theorem put_then_get_witness:
  "\<exists>r1 c1 r2 c2.
    consumer_handle demo_env (root_consumer demo_env (Some demo_secrets))
      (demo_request ''PUT'' [''alice'', ''key''] [(''Content-Type'', ''application/json'')] (Some ''s3cret''))
      (demo_state demo_rows) = (Inr r1, c1) \<and> rs_code r1 = Some 201
    \<and> consumer_handle demo_env (root_consumer demo_env (Some demo_secrets))
        (demo_request ''GET'' [''alice'', ''key''] [] None) c1 = (Inr r2, c2)
    \<and> length (cx_audit c2) = 2"
  using put_then_get [of "demo_state demo_rows" demo_secrets "[''alice'', ''key'']"
      "demo_request ''PUT'' [''alice'', ''key''] [(''Content-Type'', ''application/json'')] (Some ''s3cret'')"
      demo_client demo_env "''s3cret''" "demo_request ''GET'' [''alice'', ''key''] [] None" demo_client]
    demo_allows by fastforce

text \<open>C6: A PUT to a key whose container is known is refused with 409 when the key exists and
  accepted with 201 when it does not; with an unknown container, that is not the user's own
  default namespace, it is answered with 404. A refused PUT leaves the contents of the store as
  they were.\<close>

theorem put_outcomes:
  assumes "sqlite_ready (cx_store c)" and "se_store se = sqlite_ops" and "allows_simple se"
    and "key_trail trail" and "below_secrets put trail" and "rq_command put = ''PUT''"
    and "client_name put = Inr cl" and "puts_value E put s" and "s \<noteq> []"
    and "rq_default_namespace put \<noteq> Some (hd trail)"
  shows "\<exists>r c'. consumer_handle E (root_consumer E (Some se)) put c = (r, c')
    \<and> (if \<not> known (sqlite_view (cx_store c)) (parent_base trail)
       then r = Inl (HTTPError 404) \<and> cx_store c' = cx_store c
       else if sqlite_view (cx_store c) (key_of trail) \<noteq> None
       then r = Inl (HTTPError 409) \<and> sqlite_view (cx_store c') = sqlite_view (cx_store c)
       else r = Inr (coded 201)
         \<and> sqlite_view (cx_store c') = (sqlite_view (cx_store c))(key_of trail \<mapsto> Secret (JStr s)))"
proof -
  note facts = assms(1-3,5,6,4,7,8)
  consider (lost) "\<not> known (sqlite_view (cx_store c)) (parent_base trail)"
    | (taken) "known (sqlite_view (cx_store c)) (parent_base trail)" "sqlite_view (cx_store c) (key_of trail) \<noteq> None"
    | (free) "known (sqlite_view (cx_store c)) (parent_base trail)" "sqlite_view (cx_store c) (key_of trail) = None"
    by blast
  then show ?thesis
  proof cases
    case lost
    with sqlite.api_put_no_parent [OF facts lost] assms(10) show ?thesis by auto
  next
    case taken
    with sqlite.api_put_taken [OF facts assms(9) taken] show ?thesis by auto
  next
    case free
    with sqlite.api_put_fresh [OF facts assms(9) free] show ?thesis by auto
  qed
qed

theorem put_outcomes_witness:
  "\<exists>r c'. consumer_handle demo_env (root_consumer demo_env (Some demo_secrets))
      (demo_request ''PUT'' [''alice'', ''old''] [(''Content-Type'', ''application/json'')] (Some ''new''))
      (demo_state demo_rows) = (r, c') \<and> r = Inl (HTTPError 409)"
  using put_outcomes [of "demo_state demo_rows" demo_secrets "[''alice'', ''old'']"
      "demo_request ''PUT'' [''alice'', ''old''] [(''Content-Type'', ''application/json'')] (Some ''new'')"
      demo_client demo_env "''new''"] demo_allows by auto

text \<open>C8: A DELETE of an existing key is answered with 204 and removes exactly that key: the
  following GET of it is answered with 404.\<close>

theorem delete_then_get:
  assumes "sqlite_ready (cx_store c)" and "se_store se = sqlite_ops" and "allows_simple se"
    and "key_trail trail" and "sqlite_view (cx_store c) (key_of trail) \<noteq> None"
    and "below_secrets del trail" and "rq_command del = ''DELETE''" and "client_name del = Inr cl"
    and "rq_body del = None"
    and "below_secrets get trail" and "rq_command get = ''GET''" and "client_name get = Inr cl2"
    and "no_query get"
  shows "\<exists>c1 c2. consumer_handle E (root_consumer E (Some se)) del c = (Inr (coded 204), c1)
    \<and> sqlite_view (cx_store c1) = (sqlite_view (cx_store c))(key_of trail := None)
    \<and> consumer_handle E (root_consumer E (Some se)) get c1 = (Inl (HTTPError 404), c2)"
proof -
  from sqlite.api_delete [OF assms(1-3,6,7,4,8,9,5), of E] obtain c1 where
    d: "consumer_handle E (root_consumer E (Some se)) del c = (Inr (coded 204), c1)"
      "sqlite_ready (cx_store c1)" "sqlite_view (cx_store c1) = (sqlite_view (cx_store c))(key_of trail := None)"
    by blast
  from sqlite.api_get_absent [OF d(2) assms(2,3,10,11,4,12,13), of E] d show ?thesis by auto
qed

theorem delete_then_get_witness:
  "\<exists>c1 c2. consumer_handle demo_env (root_consumer demo_env (Some demo_secrets))
      (demo_request ''DELETE'' [''alice'', ''old''] [] None) (demo_state demo_rows) = (Inr (coded 204), c1)
    \<and> consumer_handle demo_env (root_consumer demo_env (Some demo_secrets))
        (demo_request ''GET'' [''alice'', ''old''] [] None) c1 = (Inl (HTTPError 404), c2)"
  using delete_then_get [of "demo_state demo_rows" demo_secrets "[''alice'', ''old'']"
      "demo_request ''DELETE'' [''alice'', ''old''] [] None" demo_client
      "demo_request ''GET'' [''alice'', ''old''] [] None" demo_client demo_env] demo_allows by auto

text \<open>C9: After raw bytes are put with the content type application/octet-stream the store holds
  their base64 text under the key, and is otherwise as it was; they come back byte for byte to a
  client that accepts that type.\<close>

theorem binary_round_trip:
  assumes "sqlite_ready (cx_store c)" and "se_store se = sqlite_ops" and "allows_simple se"
    and "key_trail trail" and "known (sqlite_view (cx_store c)) (parent_base trail)"
    and "sqlite_view (cx_store c) (key_of trail) = None"
    and "below_secrets put trail" and "rq_command put = ''PUT''" and "client_name put = Inr cl"
    and "content_type_value put = ''application/octet-stream''" and "rq_body put = Some b" and "b \<noteq> []"
    and "below_secrets get trail" and "rq_command get = ''GET''" and "client_name get = Inr cl2"
    and "no_query get" and "wants_binary get"
  shows "\<exists>c1 r c2. consumer_handle E (root_consumer E (Some se)) put c = (Inr (coded 201), c1)
    \<and> sqlite_view (cx_store c1) = (sqlite_view (cx_store c))(key_of trail \<mapsto> Secret (JStr (b64encode b)))
    \<and> consumer_handle E (root_consumer E (Some se)) get c1 = (Inr r, c2)
    \<and> rs_output r = Some (OBytes b)
    \<and> dict_get (rs_headers r) ''Content-Type'' = Some ''application/octet-stream''"
proof -
  have puts: "puts_value E put (b64encode b)" and ne: "b64encode b \<noteq> []"
    using assms(10-12) by (simp_all add: puts_value_def)
  from sqlite.api_put_fresh [OF assms(1-3,7,8,4,9) puts ne assms(5,6)] obtain c1 where
    p: "consumer_handle E (root_consumer E (Some se)) put c = (Inr (coded 201), c1)"
      "sqlite_ready (cx_store c1)"
      "sqlite_view (cx_store c1) = (sqlite_view (cx_store c))(key_of trail \<mapsto> Secret (JStr (b64encode b)))"
    by blast
  from sqlite.api_get_binary [OF p(2) assms(2,3,13,14,4,15-17,12), of E] p show ?thesis by auto
qed

lemma demo_octets: "py_strip ''application/octet-stream'' = ''application/octet-stream''"
  by code_simp

theorem binary_round_trip_witness:
  "\<exists>c1 r c2. consumer_handle demo_env (root_consumer demo_env (Some demo_secrets))
      (demo_request ''PUT'' [''alice'', ''key''] [(''Content-Type'', ''application/octet-stream'')]
        (Some [CHR 0x00, CHR 0xFF])) (demo_state demo_rows) = (Inr (coded 201), c1)
    \<and> sqlite_view (cx_store c1) ''keys/alice/key'' = Some (Secret (JStr ''AP8=''))
    \<and> consumer_handle demo_env (root_consumer demo_env (Some demo_secrets))
        (demo_request ''GET'' [''alice'', ''key''] [(''Accept'', ''application/octet-stream'')] None) c1 = (Inr r, c2)
    \<and> rs_output r = Some (OBytes [CHR 0x00, CHR 0xFF])"
proof -
  have "content_type_value (demo_request ''PUT'' [''alice'', ''key'']
      [(''Content-Type'', ''application/octet-stream'')] (Some [CHR 0x00, CHR 0xFF])) = ''application/octet-stream''"
    by (simp add: content_type_value_def header_get_def demo_octets)
  moreover have "wants_binary (demo_request ''GET'' [''alice'', ''key''] [(''Accept'', ''application/octet-stream'')] None)"
    by (simp add: wants_binary_def header_get_def demo_octets)
  moreover have "b64encode [CHR 0x00, CHR 0xFF] = ''AP8=''" by code_simp
  ultimately show ?thesis
    using binary_round_trip [of "demo_state demo_rows" demo_secrets "[''alice'', ''key'']"
      "demo_request ''PUT'' [''alice'', ''key''] [(''Content-Type'', ''application/octet-stream'')] (Some [CHR 0x00, CHR 0xFF])"
      demo_client "[CHR 0x00, CHR 0xFF]"
      "demo_request ''GET'' [''alice'', ''key''] [(''Accept'', ''application/octet-stream'')] None" demo_client demo_env]
      demo_allows by fastforce
qed

text \<open>C10: A container that does not exist is made with 201 when its parent is there; making it
  again answers 200 and changes nothing; an empty container is removed with 204, and the store
  is as it was before.\<close>

theorem container_life:
  assumes "sqlite_ready (cx_store c)" and "se_store se = sqlite_ops" and "allows_simple se"
    and "dir_name t" and "parent_there (sqlite_view (cx_store c)) t"
    and "sqlite_view (cx_store c) (key_of t) = None"
    and "\<forall>k. is_child (key_of t @ ''/'') k \<longrightarrow> sqlite_view (cx_store c) k = None"
    and "below_secrets mk (t @ [[]])" and "rq_command mk = ''POST''" and "rq_body mk = None"
    and "below_secrets rm (t @ [[]])" and "rq_command rm = ''DELETE''" and "rq_body rm = None"
  shows "\<exists>c1 c2 c3. consumer_handle E (root_consumer E (Some se)) mk c = (Inr (coded 201), c1)
    \<and> sqlite_view (cx_store c1) = (sqlite_view (cx_store c))(key_of t \<mapsto> Dir)
    \<and> consumer_handle E (root_consumer E (Some se)) rm c1 = (Inr (coded 204), c2)
    \<and> sqlite_view (cx_store c2) = sqlite_view (cx_store c)
    \<and> consumer_handle E (root_consumer E (Some se)) mk c1 = (Inr (coded 200), c3)
    \<and> cx_store c3 = cx_store c1"
proof -
  from sqlite.api_mkdir_fresh [OF assms(1-3,8,9,4,10,5,6), of E] obtain c1 where
    m: "consumer_handle E (root_consumer E (Some se)) mk c = (Inr (coded 201), c1)"
      "sqlite_ready (cx_store c1)" "sqlite_view (cx_store c1) = (sqlite_view (cx_store c))(key_of t \<mapsto> Dir)"
    by blast
  have "\<not> is_child (key_of t @ ''/'') (key_of t)"
    using path_join_dir(2) [OF assms(4)] by (simp add: is_child_def list_path_def rstrip_ch_id)
  then have no: "child_names (sqlite_view (cx_store c1)) (key_of t @ ''/'') = {}"
    using assms(7) m(3) by (auto simp: child_names_def split: if_splits)
  from sqlite.api_rmdir_empty [OF m(2) assms(2,3,11,12,4,13) no, of E] m(3) obtain c2 where
    d: "consumer_handle E (root_consumer E (Some se)) rm c1 = (Inr (coded 204), c2)"
      "sqlite_view (cx_store c2) = (sqlite_view (cx_store c1))(key_of t := None)" by auto
  have "parent_there (sqlite_view (cx_store c1)) t"
    using assms(5,6) m(3) by (auto simp: parent_there_def intro: known_put)
  from sqlite.api_mkdir_taken [OF m(2) assms(2,3,8,9,4,10) this, of E] m(3)
  have "\<exists>c3. consumer_handle E (root_consumer E (Some se)) mk c1 = (Inr (coded 200), c3) \<and> cx_store c3 = cx_store c1"
    by auto
  moreover have "(sqlite_view (cx_store c))(key_of t := None) = sqlite_view (cx_store c)"
    using assms(6) by (simp add: fun_upd_idem)
  ultimately show ?thesis using m d by fastforce
qed

theorem container_life_witness:
  "\<exists>c1 c2. consumer_handle demo_env (root_consumer demo_env (Some demo_secrets))
      (demo_request ''POST'' ([''alice''] @ [[]]) [] None) (demo_state []) = (Inr (coded 201), c1)
    \<and> consumer_handle demo_env (root_consumer demo_env (Some demo_secrets))
        (demo_request ''DELETE'' ([''alice''] @ [[]]) [] None) c1 = (Inr (coded 204), c2)"
proof -
  have "sqlite_ready \<lparr>db_rows = Some [], db_faults = []\<rparr>" by (simp add: sqlite_ready_def)
  moreover have "sqlite_view \<lparr>db_rows = Some [], db_faults = []\<rparr> k = None" for k
    by (simp add: sqlite_view_def)
  moreover have "parent_there V [''alice'']" for V by (simp add: parent_there_def)
  ultimately show ?thesis
    using container_life [of "demo_state []" demo_secrets "[''alice'']"
      "demo_request ''POST'' ([''alice''] @ [[]]) [] None" "demo_request ''DELETE'' ([''alice''] @ [[]]) [] None" demo_env]
      demo_allows by auto
qed

text \<open>C11: A container that holds anything is not removed but answered with 409, and an unknown one
  with 404; neither changes the state of the store.\<close>

theorem full_container_stays:
  assumes "sqlite_ready (cx_store c)" and "se_store se = sqlite_ops" and "allows_simple se"
    and "dir_name t" and "below_secrets rm (t @ [[]])" and "rq_command rm = ''DELETE''" and "rq_body rm = None"
    and "sqlite_view (cx_store c) (key_of t) = None \<or> child_names (sqlite_view (cx_store c)) (key_of t @ ''/'') \<noteq> {}"
  shows "\<exists>c'. consumer_handle E (root_consumer E (Some se)) rm c =
      (Inl (HTTPError (if child_names (sqlite_view (cx_store c)) (key_of t @ ''/'') = {} then 404 else 409)), c')
    \<and> cx_store c' = cx_store c"
proof (cases "child_names (sqlite_view (cx_store c)) (key_of t @ ''/'') = {}")
  case True
  have "child_prefix (key_of t @ ''/'') = key_of t @ ''/''" "list_path (key_of t @ ''/'') = key_of t"
    using path_join_dir(2) [OF assms(4)] by (simp_all add: child_prefix_def list_path_def rstrip_ch_id key_of_def py_join_Cons)
  then have "\<not> known (sqlite_view (cx_store c)) (key_of t @ ''/'')"
    using True assms(8) ready_no_slash [OF assms(1)] by (simp add: known_def container_there_def)
  from sqlite.api_rmdir_refused(2) [OF assms(1-3,5,6,4,7) this, of E] True show ?thesis by simp
next
  case False
  from sqlite.api_rmdir_refused(1) [OF assms(1-3,5,6,4,7) this, of E] False show ?thesis by simp
qed

lemma demo_children:
  "child_names (sqlite_view \<lparr>db_rows = Some demo_rows, db_faults = []\<rparr>) ''keys/alice/'' = {''old''}"
proof -
  have "child_prefix ''keys/alice/'' = ''keys/alice/''"
    "is_child ''keys/alice/'' ''keys/alice/old''" "\<not> is_child ''keys/alice/'' ''keys/alice''"
    "shown_name ''keys/alice/'' ''keys/alice/old'' (Secret (JStr ''x'')) = ''old''" by code_simp+
  then show ?thesis by (auto simp: child_names_def)
qed

theorem full_container_stays_witness:
  "\<exists>c'. consumer_handle demo_env (root_consumer demo_env (Some demo_secrets))
      (demo_request ''DELETE'' ([''alice''] @ [[]]) [] None) (demo_state demo_rows) = (Inl (HTTPError 409), c')"
  using full_container_stays [of "demo_state demo_rows" demo_secrets "[''alice'']"
      "demo_request ''DELETE'' ([''alice''] @ [[]]) [] None" demo_env] demo_allows demo_children by auto



text \<open>C14: Reading, storing and deleting a key writes exactly one audit entry, with the client's
  name and the requested key: the success code when the operation returned, the failure code
  when it raised, whatever the store, the message and the keys are.\<close>

theorem key_access_audited:
  assumes "client_name req = Inr cl"
  shows "cx_audit (snd (get_key E se trail req c)) = cx_audit c @ [audit_key_entry (se_origin se)
      (if is_err (fst (get_key E se trail req c)) then AUDIT_GET_DENIED else AUDIT_GET_ALLOWED) cl (py_join ''/'' trail)]
    \<and> cx_audit (snd (set_key E se trail req c)) = cx_audit c @ [audit_key_entry (se_origin se)
      (if is_err (fst (set_key E se trail req c)) then AUDIT_SET_DENIED else AUDIT_SET_ALLOWED) cl (py_join ''/'' trail)]
    \<and> cx_audit (snd (del_key E se trail req c)) = cx_audit c @ [audit_key_entry (se_origin se)
      (if is_err (fst (del_key E se trail req c)) then AUDIT_DEL_DENIED else AUDIT_DEL_ALLOWED) cl (py_join ''/'' trail)]"
  unfolding get_key_def set_key_def del_key_def
  by (intro conjI, rule audited_entry [OF int_key_audit(1) assms prod.collapse [symmetric]],
      rule audited_entry [OF int_key_audit(2) assms prod.collapse [symmetric]],
      rule audited_entry [OF int_key_audit(3) assms prod.collapse [symmetric]])

theorem key_access_audited_witness:
  "cx_audit (snd (get_key demo_env demo_secrets [''alice''] (demo_request ''GET'' [''alice''] [] None) (demo_state demo_rows)))
    = [audit_key_entry ''Secrets'' AUDIT_GET_DENIED demo_client ''alice'']"
proof -
  have "is_err (fst (get_key demo_env demo_secrets [''alice''] (demo_request ''GET'' [''alice''] [] None) (demo_state demo_rows)))"
    by (simp add: get_key_def audited_def int_get_key_def db_key_def py_simps as_http_def
        parse_query_default [OF demo_allows])
  then show ?thesis
    using key_access_audited [of "demo_request ''GET'' [''alice''] [] None" demo_client demo_env demo_secrets
        "[''alice'']" "demo_state demo_rows"] by simp
qed

section \<open>The pipeline\<close>

text \<open>C1: A response is only given to a request with an absolute path that no authenticator and no
  authorizer refused and that at least one of each accepted; it comes from the consumer with the
  longest matching path.\<close>

theorem served_only_if_allowed:
  assumes "pipeline E cfg req c = Some (Inr resp, c')"
  shows "\<exists>authers vs req1 c1 authzers ws req2 c2 pre post con t.
    hd (rq_path_chain req) = []
    \<and> sc_authenticators cfg = Some authers \<and> auth_run authers req c vs req1 c1
    \<and> Some False \<notin> set vs \<and> Some True \<in> set vs
    \<and> sc_authorizers cfg = Some authzers
    \<and> authz_run authzers (req1\<lparr>rq_path_chain := rq_path_chain req\<rparr>) c1 ws req2 c2
    \<and> Some False \<notin> set ws \<and> Some True \<in> set ws
    \<and> rq_path_chain req = pre @ post \<and> pre \<noteq> [] \<and> dict_get (sc_consumers cfg) pre = Some con
    \<and> (\<forall>a b. rq_path_chain req = a @ b \<and> length pre < length a \<longrightarrow> dict_get (sc_consumers cfg) a = None)
    \<and> consumer_handle E con t c2 = (Inr resp, c')
    \<and> rq_trail t = (if post = [] then rq_trail req2 else Some post)"
proof -
  from pipeline_Inr [OF assms] obtain authers vs req1 c1 authzers ws req2 c2 where
    p: "sc_authenticators cfg = Some authers" "auth_run authers req c vs req1 c1"
      "Some False \<notin> set vs" "Some True \<in> set vs" "sc_authorizers cfg = Some authzers"
      "authz_run authzers (req1\<lparr>rq_path_chain := rq_path_chain req\<rparr>) c1 ws req2 c2"
      "Some False \<notin> set ws" "Some True \<in> set ws"
    and run: "run_consumer E cfg (req2\<lparr>rq_path_chain := rq_path_chain req\<rparr>) c2 = (Inr resp, c')" by metis
  from run obtain con post where sel: "select_consumer (sc_consumers cfg) (rq_path_chain req) [] = Some (con, post)"
    and h: "consumer_handle E con (if post = [] then req2\<lparr>rq_path_chain := rq_path_chain req\<rparr>
        else (req2\<lparr>rq_path_chain := rq_path_chain req\<rparr>)\<lparr>rq_trail := Some post\<rparr>) c2 = (Inr resp, c')"
    by (auto simp: run_consumer_def py_raise_def split: option.splits)
  from select_consumer_longest [OF sel] obtain pre where
    c: "rq_path_chain req = pre @ post" "pre \<noteq> []" "dict_get (sc_consumers cfg) pre = Some con"
      "\<forall>a b. rq_path_chain req = a @ b \<and> length pre < length a \<longrightarrow> dict_get (sc_consumers cfg) a = None"
    by auto
  have "hd (rq_path_chain req) = []" using assms by (auto simp: pipeline_def split: if_splits)
  moreover have "rq_trail (if post = [] then req2\<lparr>rq_path_chain := rq_path_chain req\<rparr>
        else (req2\<lparr>rq_path_chain := rq_path_chain req\<rparr>)\<lparr>rq_trail := Some post\<rparr>)
      = (if post = [] then rq_trail req2 else Some post)" by simp
  ultimately show ?thesis using p h c by blast
qed

definition demo_config :: "(db, string) server_config" where
  "demo_config = \<lparr>sc_authenticators = Some [(''creds'', SimpleCredsAuth_handle
        \<lparr>ca_origin = ''auth'', ca_uid = 1000, ca_gid = 5\<rparr>)],
     sc_authorizers = Some [(''paths'', SimplePathAuthz_handle \<lparr>pa_origin = ''paths'', pa_paths = [''/secrets/alice/old'']\<rparr>)],
     sc_consumers = [([[]], root_consumer demo_env (Some demo_secrets))]\<rparr>"

text \<open>The sample request as it comes in, and what the server makes of it.\<close>

definition demo_incoming :: incoming where
  "demo_incoming =
     \<lparr>in_conn = \<lparr>cn_family = AF_UNIX, cn_peercred = map char_of [7 :: nat, 0, 0, 0, 232, 3, 0, 0, 100, 0, 0, 0],
        cn_peersec = Inl OtherError, cn_peername = ([], 0), cn_cert = NoTLS\<rparr>,
      in_loginuid = PNoEnt, in_line = ''GET /secrets/alice/old HTTP/1.0'',
      in_parsed = Some (''GET'', ''/secrets/alice/old'', []), in_stream = []\<rparr>"

abbreviation demo_get :: "db request" where
  "demo_get \<equiv> (demo_request ''GET'' [''alice'', ''old''] [] None)\<lparr>rq_trail := None\<rparr>"

lemma demo_parse:
  "parse_request (\<lambda>b. b) Inr demo_incoming (''GET'', ''/secrets/alice/old'', []) = Inr demo_get"
proof -
  have "peer_creds Inr (in_conn demo_incoming) = Inr (Some \<lparr>cr_pid = 7, cr_uid = 1000, cr_gid = 100, cr_context = None\<rparr>)"
    by code_simp
  moreover have "urlparse ''/secrets/alice/old'' = Inr \<lparr>u_scheme = [], u_netloc = [], u_path = ''/secrets/alice/old'',
      u_params = [], u_query = [], u_fragment = []\<rparr>"
    by code_simp
  moreover have "py_split (CHR ''/'') ''/secrets/alice/old'' = [[], ''secrets'', ''alice'', ''old'']"
    "map (unquote (\<lambda>b. b)) [[], ''secrets'', ''alice'', ''old''] = [[], ''secrets'', ''alice'', ''old'']"
    "parse_qs (\<lambda>b. b) [] = JDict []" "get_loginuid PNoEnt = Inr None" by code_simp+
  ultimately show ?thesis
    by (simp add: parse_request_def demo_request_def parse_path_def peer_info_def)
       (simp add: demo_incoming_def)
qed

lemma demo_pipeline:
  "\<exists>resp c'. pipeline demo_env demo_config demo_get (demo_state demo_rows) = Some (Inr resp, c')"
proof -
  let ?q = "demo_request ''GET'' [''alice'', ''old''] [] None"
  let ?c = "(demo_state demo_rows)\<lparr>cx_audit := [audit_svc_entry ''auth'' AUDIT_SVC_AUTH_PASS (CidPid 7) (AStr ''1000, 100''),
      audit_svc_entry ''paths'' AUDIT_SVC_AUTHZ_PASS (CidPid 7) (AStr ''/secrets/alice/old'')]\<rparr>"
  have q: "rq_creds demo_get = Some \<lparr>cr_pid = 7, cr_uid = 1000, cr_gid = 100, cr_context = None\<rparr>"
    "rq_path demo_get = ''/secrets/alice/old''" "rq_path_chain demo_get = [[], ''secrets'', ''alice'', ''old'']"
    "rq_client_id demo_get = CidPid 7"
    by (simp_all add: demo_request_def)
  have cfg: "sc_authenticators demo_config = Some [(''creds'', SimpleCredsAuth_handle
        \<lparr>ca_origin = ''auth'', ca_uid = 1000, ca_gid = 5\<rparr>)]"
    "sc_authorizers demo_config = Some [(''paths'', SimplePathAuthz_handle
        \<lparr>pa_origin = ''paths'', pa_paths = [''/secrets/alice/old'']\<rparr>)]"
    by (simp_all add: demo_config_def)
  have num: "show_int 1000 = ''1000''" "show_int 100 = ''100''" by code_simp+
  have sel: "select_consumer (sc_consumers demo_config) [[], ''secrets'', ''alice'', ''old''] []
      = Some (root_consumer demo_env (Some demo_secrets), [''secrets'', ''alice'', ''old''])"
    by (simp add: demo_config_def select_consumer.simps)
  have same: "demo_get\<lparr>rq_path_chain := [[], ''secrets'', ''alice'', ''old'']\<rparr> = demo_get"
    "demo_get\<lparr>rq_trail := Some [''secrets'', ''alice'', ''old'']\<rparr> = ?q"
    by (simp_all add: demo_request_def)
  have auth: "run_authers [(''creds'', SimpleCredsAuth_handle \<lparr>ca_origin = ''auth'', ca_uid = 1000, ca_gid = 5\<rparr>)]
      False demo_get (demo_state demo_rows) = (Inr (True, demo_get), (demo_state demo_rows)\<lparr>cx_audit :=
        [audit_svc_entry ''auth'' AUDIT_SVC_AUTH_PASS (CidPid 7) (AStr ''1000, 100'')]\<rparr>)"
    by (simp add: SimpleCredsAuth_handle_def q [simplified] py_simps num)
  have authz: "run_authzers [(''paths'', SimplePathAuthz_handle \<lparr>pa_origin = ''paths'', pa_paths = [''/secrets/alice/old'']\<rparr>)]
      None demo_get ((demo_state demo_rows)\<lparr>cx_audit :=
        [audit_svc_entry ''auth'' AUDIT_SVC_AUTH_PASS (CidPid 7) (AStr ''1000, 100'')]\<rparr>) = Some (Inr (Some True, demo_get), ?c)"
    by (simp add: SimplePathAuthz_handle_def strict_match_def endswith_char q [simplified] py_simps)
  from sqlite.api_get [of ?c demo_secrets ?q "[''alice'', ''old'']" demo_client "''x''" demo_env] demo_allows
  obtain r c' where h: "consumer_handle demo_env (root_consumer demo_env (Some demo_secrets)) ?q ?c = (Inr r, c')"
    by auto
  have "run_consumer demo_env demo_config demo_get ?c = (Inr r, c')"
    using h by (simp only: run_consumer_def q(3) sel option.case prod.case list.distinct if_False same)
  then have "authorize demo_env demo_config demo_get ((demo_state demo_rows)\<lparr>cx_audit :=
        [audit_svc_entry ''auth'' AUDIT_SVC_AUTH_PASS (CidPid 7) (AStr ''1000, 100'')]\<rparr>) = Some (Inr r, c')"
    by (simp only: authorize_def cfg option.case authz sum.case prod.case same q(3)) simp
  then have "pipeline demo_env demo_config demo_get (demo_state demo_rows) = Some (Inr r, c')"
    by (simp only: pipeline_def cfg q(3) option.case auth sum.case prod.case same) simp
  then show ?thesis by blast
qed

lemma demo_answer:
  "\<exists>code headers out c'. handle_one_request demo_env (\<lambda>b. b) Inr (Some demo_config) demo_incoming
     (fork 0 [] (demo_state demo_rows)) = Some (Sent code headers out, c')"
proof -
  have fork: "fork 0 [] (demo_state demo_rows) = demo_state demo_rows"
    by (simp add: fork_def demo_state_def)
  have body: "parse_content [] [] = Inr None" by code_simp
  have same: "demo_get\<lparr>rq_body := None\<rparr> = demo_get" "rq_headers demo_get = []"
    by (simp_all add: demo_request_def)
  have inc: "in_line demo_incoming \<noteq> []" "\<not> 65536 < length (in_line demo_incoming)"
    "in_parsed demo_incoming = Some (''GET'', ''/secrets/alice/old'', [])" "in_stream demo_incoming = []"
    by (simp_all add: demo_incoming_def)
  from demo_pipeline obtain resp c' where
    p: "pipeline demo_env demo_config demo_get (demo_state demo_rows) = Some (Inr resp, c')" by blast
  have "handle_one_request demo_env (\<lambda>b. b) Inr (Some demo_config) demo_incoming
     (fork 0 [] (demo_state demo_rows)) = Some (send_result (Inr resp), c')"
    by (simp only: handle_one_request_def option.case inc if_False demo_parse sum.case same body p prod.case fork)
  then show ?thesis by (simp add: send_result_def)
qed

theorem served_only_if_allowed_witness:
  "\<exists>resp c' authers vs req1 c1.
    pipeline demo_env demo_config demo_get (demo_state demo_rows) = Some (Inr resp, c')
    \<and> sc_authenticators demo_config = Some authers
    \<and> auth_run authers demo_get (demo_state demo_rows) vs req1 c1
    \<and> Some True \<in> set vs"
proof -
  from demo_pipeline obtain resp c' where
    p: "pipeline demo_env demo_config demo_get (demo_state demo_rows) = Some (Inr resp, c')" by blast
  from served_only_if_allowed [OF p] p show ?thesis by blast
qed

text \<open>C16: Whatever is sent back as a response has a content type, and its output is nothing, a
  file, or bytes that come with a Content-Length; it is never a Python object.\<close>

theorem sent_response_ok:
  assumes "handle_one_request E dec dec8 config inc c = Some (Sent code headers out, c')"
  shows "dict_get headers ''Content-Type'' \<noteq> None
    \<and> (case out of None \<Rightarrow> True | Some (OJson j) \<Rightarrow> False | Some (OFile f) \<Rightarrow> True
       | Some (OBytes b) \<Rightarrow> dict_get headers ''Content-Length'' \<noteq> None)"
proof -
  from assms obtain cfg req resp where
    p: "pipeline E cfg req c = Some (Inr resp, c')" and r: "headers = rs_headers resp" "out = rs_output resp"
    by (auto simp: handle_one_request_def escape_def send_result_def
        split: option.splits if_splits sum.splits exn.splits prod.splits)
  from pipeline_consumer [OF p] obtain con t c2 where
    "consumer_handle E con t c2 = (Inr resp, c')" by blast
  then have "response_ok resp" by (rule consumer_handle_ok)
  then show ?thesis by (simp add: response_ok_def r split: option.splits body.splits)
qed

theorem sent_response_ok_witness:
  "\<exists>code headers out c'. handle_one_request demo_env (\<lambda>b. b) Inr (Some demo_config) demo_incoming
     (fork 0 [] (demo_state demo_rows)) = Some (Sent code headers out, c')
   \<and> dict_get headers ''Content-Type'' \<noteq> None"
proof -
  from demo_answer obtain code headers out c' where
    h: "handle_one_request demo_env (\<lambda>b. b) Inr (Some demo_config) demo_incoming
     (fork 0 [] (demo_state demo_rows)) = Some (Sent code headers out, c')" by blast
  from sent_response_ok [OF h] h show ?thesis by blast
qed

text \<open>C13: Over any sequence of requests to a server with the authenticators and authorizers of the
  package and its consumers \<open>Root\<close> and \<open>Secrets\<close>, whose stores are SQLite databases, the keys in
  the table stay distinct and free of trailing slashes, and the audit log only grows.\<close>

theorem server_history:
  assumes "server_run E dec dec8 (Some cfg) c outs c'" and "own_config E {sqlite_ops} cfg"
    and "db_ok (cx_store c)"
  shows "db_ok (cx_store c') \<and> prefix (cx_audit c) (cx_audit c')"
proof -
  have "config_keeps db_ok cfg"
    using own_config_keeps [OF assms(2), of db_ok] sqlite_store_keeps by blast
  moreover have "ctx_inv db_ok (cx_audit c) c" using assms(3) by (simp add: ctx_inv_def)
  ultimately have "ctx_inv db_ok (cx_audit c) c'"
    using server_run_keeps [OF assms(1), of db_ok "cx_audit c"] by blast
  then show ?thesis by (simp add: ctx_inv_def)
qed

lemma demo_own: "own_config demo_env {sqlite_ops} demo_config"
  by (auto simp: own_config_def demo_config_def intro: own_authenticator.intros own_authorizer.intros own_consumer.intros)

theorem server_history_witness:
  "\<exists>out c'. server_run demo_env (\<lambda>b. b) Inr (Some demo_config) (demo_state demo_rows) [out] c'
    \<and> db_ok (cx_store c')"
proof -
  from demo_answer obtain out c' where
    h: "handle_one_request demo_env (\<lambda>b. b) Inr (Some demo_config) demo_incoming
     (fork 0 [] (demo_state demo_rows)) = Some (out, c')" by blast
  have "server_run demo_env (\<lambda>b. b) Inr (Some demo_config) (demo_state demo_rows) ([] @ [out]) c'"
    by (rule run_more [OF run_none request_step.intros [OF h]])
  moreover note demo_own
  moreover have "db_ok (cx_store (demo_state demo_rows))"
    using demo_ready by (simp add: sqlite_ready_def db_ok_def)
  ultimately show ?thesis
    using server_history [of demo_env "\<lambda>b. b" Inr demo_config "demo_state demo_rows" "[out]" c'] by auto
qed

text \<open>C15: A server built from the authenticators and authorizers of the package and its consumers
  \<open>Root\<close> and \<open>Secrets\<close> answers every request whose URL has a path that does not begin with two slashes: the request ends in a response, an
  error or a closed connection.\<close>

theorem request_answered:
  assumes "own_config E Ss cfg" and "in_parsed inc = Some (cmd, target, headers)"
    and "urlparse target = Inr url" and "\<not> startswith (u_path url) ''//''"
  shows "\<exists>out c'. handle_one_request E dec dec8 (Some cfg) inc c = Some (out, c')"
proof (cases "handle_one_request E dec dec8 (Some cfg) inc c")
  case None
  then obtain req b where
    p: "parse_request dec dec8 inc (cmd, target, headers) = Inr req" "pipeline E cfg (req\<lparr>rq_body := b\<rparr>) c = None"
    using assms(2)
    by (auto simp: handle_one_request_def split: option.splits if_splits sum.splits exn.splits prod.splits)
  from p(1) assms(3) have "rq_path (req\<lparr>rq_body := b\<rparr>) = u_path url"
    by (auto simp: parse_request_def elim!: rbind_InrE)
  with assms(4) have "\<not> startswith (rq_path (req\<lparr>rq_body := b\<rparr>)) ''//''" by simp
  from pipeline_returns [OF assms(1) this, of c] p(2) have False by simp
  then show ?thesis ..
qed auto

theorem request_answered_witness:
  "\<exists>out c'. handle_one_request demo_env (\<lambda>b. b) Inr (Some demo_config) demo_incoming (demo_state demo_rows)
    = Some (out, c')"
proof -
  have "urlparse ''/secrets/alice/old'' = Inr \<lparr>u_scheme = [], u_netloc = [], u_path = ''/secrets/alice/old'',
      u_params = [], u_query = [], u_fragment = []\<rparr>" by code_simp
  then show ?thesis
    by (rule request_answered [OF demo_own, rotated]) (simp_all add: demo_incoming_def startswith_def)
qed

section \<open>Users and their containers\<close>

lemma path_join_under:
  assumes "p \<noteq> []" and "\<not> endswith p ''/''" and "xs \<noteq> []" and "\<forall>x \<in> set xs. \<not> startswith x ''/''"
  shows "startswith (path_join p xs) (p @ ''/'')"
proof -
  obtain y ys where xs: "xs = y # ys" using assms(3) by (cases xs) auto
  then have "path_join p xs = path_join (p @ ''/'' @ y) ys" using assms by simp
  moreover have "startswith (path_join (p @ ''/'' @ y) ys) (p @ ''/'' @ y)"
    using assms(4) xs by (intro path_join_prefix) auto
  ultimately have "prefix (p @ ''/'' @ y) (path_join p xs)" by (simp add: startswith_def)
  moreover have "prefix (p @ ''/'') (p @ ''/'' @ y)" by simp
  ultimately show ?thesis unfolding startswith_def by (rule prefix_order.trans [rotated])
qed

lemma raw_path_trail:
  assumes "CHR ''%'' \<notin> set (u_path url)" and "u_path url = ''/secrets/'' @ u @ CHR ''/'' # s" and "CHR ''/'' \<notin> set u"
  shows "drop 2 (parse_path dec url) = u # py_split (CHR ''/'') s"
proof -
  have "py_split (CHR ''/'') (u_path url) = [] # ''secrets'' # u # py_split (CHR ''/'') s"
    using py_split_append [of "CHR ''/''" "[]"] py_split_append [of "CHR ''/''" "''secrets''"]
      py_split_append [OF assms(3)] by (simp add: assms(2))
  moreover have "unquote dec x = x" if "x \<in> set (py_split (CHR ''/'') (u_path url))" for x
  proof -
    have "set x \<subseteq> set (py_join [CHR ''/''] xs)" if "x \<in> set xs" for xs
      using that by (induction xs) (auto simp: py_join_Cons)
    with that have "set x \<subseteq> set (u_path url)" using py_join_split [of "CHR ''/''" "u_path url"] by metis
    with assms(1) show ?thesis by (auto simp: unquote_def)
  qed
  ultimately show ?thesis by (simp add: parse_path_def map_idI)
qed

text \<open>C18: A user let in by \<open>UserNameSpace\<close> over the secrets, on a path without escapes, works on a key
  below his own container.\<close>

theorem user_confined:
  assumes "UserNameSpace_handle a req c = (Inr (Some True, req'), c')"
    and "rstrip_ch (CHR ''/'') (un_path a) = ''/secrets''" and "rq_path req = u_path url"
    and "CHR ''%'' \<notin> set (u_path url)" and "rq_remote_user req = Some u" and "u \<noteq> []" and "CHR ''/'' \<notin> set u"
    and "db_key (drop 2 (parse_path dec url)) = Inr k"
  shows "startswith k (''keys/'' @ u @ ''/'') \<and> rq_default_namespace req' = Some u"
proof -
  from UserNameSpace_True [OF assms(1)] assms(2,3,5) have
    r: "req' = req\<lparr>rq_default_namespace := Some u\<rparr>" and "startswith (u_path url) (''/secrets'' @ ''/'' @ u @ ''/'')"
    by auto
  then obtain s where "u_path url = ''/secrets/'' @ u @ CHR ''/'' # s"
    by (auto simp: startswith_def prefix_def)
  from raw_path_trail [OF assms(4) this assms(7)]
  have t: "drop 2 (parse_path dec url) = u # py_split (CHR ''/'') s" .
  have plain: "\<forall>x \<in> set (py_split (CHR ''/'') s). \<not> startswith x ''/''"
    using py_split_parts by (fastforce simp: startswith_def prefix_def)
  have u: "\<not> startswith u ''/''" "\<not> endswith u ''/''"
    using assms(6,7) last_in_set [of u] by (cases u; auto simp: startswith_def endswith_char)+
  have "k = path_join ''keys'' (u # py_split (CHR ''/'') s)" using assms(8) t by (simp add: db_key_Inr)
  also have "\<dots> = path_join (''keys/'' @ u) (py_split (CHR ''/'') s)" using u by (simp add: endswith_char)
  finally have "startswith k ((''keys/'' @ u) @ ''/'')"
    using path_join_under [of "''keys/'' @ u" "py_split (CHR ''/'') s"] plain u assms(6) by (simp add: endswith_char)
  then show ?thesis using r by simp
qed

theorem user_confined_witness:
  "\<exists>k. db_key (drop 2 (parse_path (\<lambda>b. b) \<lparr>u_scheme = [], u_netloc = [], u_path = ''/secrets/alice/../bob'',
      u_params = [], u_query = [], u_fragment = []\<rparr>)) = Inr k \<and> startswith k ''keys/alice/''"
proof -
  let ?url = "\<lparr>u_scheme = [], u_netloc = [], u_path = ''/secrets/alice/../bob'', u_params = [], u_query = [], u_fragment = []\<rparr>"
  let ?r = "(sample_request ''GET'' ''/secrets/alice/../bob'' [])\<lparr>rq_remote_user := Some ''alice''\<rparr> :: unit request"
  let ?a = "\<lparr>un_origin = ''ns'', un_path = ''/secrets/''\<rparr>"
  have strip: "rstrip_ch (CHR ''/'') (un_path ?a) = ''/secrets''" by code_simp
  have "startswith ''/secrets/alice/../bob'' ''/secrets/''" "startswith ''/secrets/alice/../bob'' ''/secrets/alice/''"
    by (simp_all add: startswith_def)
  then obtain req' c' where h: "UserNameSpace_handle ?a ?r (sample_ctx () :: (unit, unit) ctx) = (Inr (Some True, req'), c')"
    using strip by (simp add: UserNameSpace_handle_def Let_def py_simps)
  have k: "db_key (drop 2 (parse_path (\<lambda>b. b) ?url)) = Inr ''keys/alice/../bob''" by code_simp
  from user_confined [OF h strip _ _ _ _ _ k, of "''alice''"] k show ?thesis by simp
qed

text \<open>C38: An escaped slash breaks the confinement: \<open>UserNameSpace\<close> lets every user in on the path with
  \<open>/%2F\<close> after his name, and the database key is the same absolute path for all of them.\<close>

theorem encoded_slash_escapes:
  assumes "rq_path req = u_path url" and "u_path url = ''/secrets/'' @ u @ ''/%2F'' @ x" and "un_path a = ''/secrets''"
    and "rq_remote_user req = Some u" and "set u \<inter> set ''/%'' = {}" and "set x \<inter> set ''/%'' = {}"
    and "list_all is_ascii x" and "dec (CHR ''/'' # x) = CHR ''/'' # x"
  shows "fst (UserNameSpace_handle a req c) = Inr (Some True, req\<lparr>rq_default_namespace := Some u\<rparr>)
    \<and> db_key (drop 2 (parse_path dec url)) = Inr (CHR ''/'' # x)"
proof -
  have "py_split (CHR ''/'') (u_path url) = [] # ''secrets'' # u # py_split (CHR ''/'') (''%2F'' @ x)"
    using py_split_append [of "CHR ''/''" "[]"] py_split_append [of "CHR ''/''" "''secrets''"]
      py_split_append [of "CHR ''/''" u] assms(5) by (simp add: assms(2))
  moreover have "py_split (CHR ''/'') (''%2F'' @ x) = [''%2F'' @ x]"
    using assms(6) by (intro py_split_no_sep) auto
  moreover have "unquote dec u = u" "unquote dec [] = []" "unquote dec ''secrets'' = ''secrets''"
    using assms(5) by (auto simp: unquote_def)
  moreover have "unquote dec (''%2F'' @ x) = CHR ''/'' # x"
  proof -
    have "unquote_bytes x = x" if "CHR ''%'' \<notin> set x" for x
      using that by (induction x rule: unquote_bytes.induct) auto
    moreover have "hex_val (CHR ''2'') = Some 2" "hex_val (CHR ''F'') = Some 15" "char_of (47 :: nat) = CHR ''/''"
      by code_simp+
    ultimately have "unquote_bytes (''%2F'' @ x) = CHR ''/'' # x" using assms(6) by simp
    then show ?thesis
      using assms(7,8) unquote_runs_ascii [of "''%2F'' @ x" dec] by (simp add: unquote_def is_ascii_def)
  qed
  ultimately have t: "drop 2 (parse_path dec url) = [u, CHR ''/'' # x]" by (simp add: parse_path_def)
  have "path_join ''keys'' [u, CHR ''/'' # x] = CHR ''/'' # x" by (simp add: startswith_def)
  moreover have "startswith (u_path url) ''/secrets''" "startswith (u_path url) (''/secrets/'' @ u @ ''/'')"
    by (simp_all add: assms(2) startswith_def)
  moreover have "rstrip_ch (CHR ''/'') ''/secrets'' = ''/secrets''" by code_simp
  ultimately show ?thesis
    using assms(1,3,4) t by (simp add: UserNameSpace_handle_def Let_def py_simps db_key_def)
qed

theorem encoded_slash_escapes_witness:
  "db_key (drop 2 (parse_path (\<lambda>b. b) \<lparr>u_scheme = [], u_netloc = [], u_path = ''/secrets/alice/%2Fx'',
      u_params = [], u_query = [], u_fragment = []\<rparr>)) = Inr ''/x''
   \<and> db_key (drop 2 (parse_path (\<lambda>b. b) \<lparr>u_scheme = [], u_netloc = [], u_path = ''/secrets/bob/%2Fx'',
      u_params = [], u_query = [], u_fragment = []\<rparr>)) = Inr ''/x''"
  using encoded_slash_escapes [of "(sample_request ''GET'' ''/secrets/alice/%2Fx'' [])\<lparr>rq_remote_user := Some ''alice''\<rparr> :: unit request"
      "\<lparr>u_scheme = [], u_netloc = [], u_path = ''/secrets/alice/%2Fx'', u_params = [], u_query = [], u_fragment = []\<rparr>"
      "''alice''" "''x''" "\<lparr>un_origin = ''ns'', un_path = ''/secrets''\<rparr>" "\<lambda>b. b" "sample_ctx () :: (unit, unit) ctx"]
    encoded_slash_escapes [of "(sample_request ''GET'' ''/secrets/bob/%2Fx'' [])\<lparr>rq_remote_user := Some ''bob''\<rparr> :: unit request"
      "\<lparr>u_scheme = [], u_netloc = [], u_path = ''/secrets/bob/%2Fx'', u_params = [], u_query = [], u_fragment = []\<rparr>"
      "''bob''" "''x''" "\<lparr>un_origin = ''ns'', un_path = ''/secrets''\<rparr>" "\<lambda>b. b" "sample_ctx () :: (unit, unit) ctx"]
  by (simp add: is_ascii_def)

section \<open>What the audit log reads\<close>

lemma quoted_segment:
  assumes "\<And>s. dec (utf8_encode s) = s"
  shows "parse_path dec (url\<lparr>u_path := ''/secrets/'' @ url_escape (\<lambda>c. False) segment\<rparr>) = [[], ''secrets'', segment]"
proof -
  have "CHR ''/'' \<notin> set (url_escape (\<lambda>c. False) segment)"
    by (auto simp: always_safe_def is_alpha_def is_digit_def dest!: url_escape_chars)
  then have "py_split (CHR ''/'') (''/secrets/'' @ url_escape (\<lambda>c. False) segment) = [[], ''secrets'', url_escape (\<lambda>c. False) segment]"
    using py_split_append [of "CHR ''/''" "[]"] py_split_append [of "CHR ''/''" "''secrets''"]
      py_split_no_sep [of "CHR ''/''" "url_escape (\<lambda>c. False) segment"] by simp
  moreover have "unquote dec [] = []" "unquote dec ''secrets'' = ''secrets''" by (simp_all add: unquote_def)
  ultimately show ?thesis using unquote_escape [of dec "\<lambda>c. False" segment] assms by (simp add: parse_path_def)
qed

text \<open>C39: Whoever may ask for a key can write lines of his own choice into the audit log: for every
  line that some access of some client to some key would leave, there is a URL whose GET leaves
  an entry that reads as two lines, the second being that line.\<close>

theorem audit_line_forged:
  assumes "\<And>s. dec (utf8_encode s) = s" and "0 < action" and "action < AUDIT_LAST"
    and "audit_line asctime (audit_key_entry origin action cl key) = Inr genuine"
  shows "\<exists>segment. parse_path dec (url\<lparr>u_path := ''/secrets/'' @ url_escape (\<lambda>c. False) segment\<rparr>) = [[], ''secrets'', segment]
    \<and> (\<forall>req c now. client_name req = Inr me \<longrightarrow> (\<exists>e start.
         cx_audit (snd (get_key E se [segment] req c)) = cx_audit c @ [e]
         \<and> audit_line now e = Inr (start @ CHR 0x0A # genuine)))"
proof -
  obtain start0 where "\<And>k. audit_line asctime (audit_key_entry origin action cl k) = Inr (start0 @ k @ [CHR 0x27])"
    using key_entry_line [OF assms(2,3)] by metis
  with assms(4) have g: "genuine = start0 @ key @ [CHR 0x27]" by simp
  let ?segment = "CHR 0x0A # start0 @ key"
  have "\<exists>e start. cx_audit (snd (get_key E se [?segment] req c)) = cx_audit c @ [e]
      \<and> audit_line now e = Inr (start @ CHR 0x0A # genuine)" if "client_name req = Inr me" for req c now
  proof -
    define code where "code = (if is_err (fst (get_key E se [?segment] req c)) then AUDIT_GET_DENIED else AUDIT_GET_ALLOWED)"
    let ?e = "audit_key_entry (se_origin se) code me ?segment"
    have "cx_audit (snd (get_key E se [?segment] req c)) =
        cx_audit c @ [audit_key_entry (se_origin se) code me (py_join ''/'' [?segment])]"
      unfolding get_key_def code_def by (rule audited_entry [OF int_key_audit(1) that prod.collapse [symmetric]])
    then have "cx_audit (snd (get_key E se [?segment] req c)) = cx_audit c @ [?e]" by simp
    moreover have "0 < code" "code < AUDIT_LAST" by (simp_all add: code_def audit_codes)
    from key_entry_line [OF this] obtain start where
      "\<forall>k. audit_line now (audit_key_entry (se_origin se) code me k) = Inr (start @ k @ [CHR 0x27])" by blast
    then have "audit_line now ?e = Inr (start @ CHR 0x0A # genuine)" by (simp add: g)
    ultimately show ?thesis by blast
  qed
  with quoted_segment [of dec ?segment url, OF assms(1)] show ?thesis by blast
qed

theorem audit_line_forged_witness:
  "\<exists>segment e start. cx_audit (snd (get_key demo_env demo_secrets [segment]
        (demo_request ''GET'' [segment] [] None) (demo_state demo_rows))) = [e]
    \<and> audit_line ''2024-01-01 00:00:01'' e = Inr (start @ CHR 0x0A #
        ''2024-01-01 00:00:00 - Secrets                          - ALLOWED: '' @ squote ''root'' @ '' requested key '' @ squote ''x'')"
proof -
  have g: "audit_line ''2024-01-01 00:00:00'' (audit_key_entry ''Secrets'' AUDIT_GET_ALLOWED ''root'' ''x'')
    = Inr (''2024-01-01 00:00:00 - Secrets                          - ALLOWED: '' @ squote ''root'' @ '' requested key '' @ squote ''x'')"
    by code_simp
  have "0 < AUDIT_GET_ALLOWED" "AUDIT_GET_ALLOWED < AUDIT_LAST" by (simp_all add: audit_codes)
  from audit_line_forged [of utf8_decode, OF utf8_decode_encode this g,
      of "\<lparr>u_scheme = [], u_netloc = [], u_path = [], u_params = [], u_query = [], u_fragment = []\<rparr>" demo_client demo_env demo_secrets]
  obtain segment where s: "\<forall>req c now. client_name req = Inr demo_client \<longrightarrow> (\<exists>e start.
      cx_audit (snd (get_key demo_env demo_secrets [segment] req c)) = cx_audit c @ [e]
      \<and> audit_line now e = Inr (start @ CHR 0x0A #
        (''2024-01-01 00:00:00 - Secrets                          - ALLOWED: '' @ squote ''root'' @ '' requested key '' @ squote ''x'')))"
    by (elim exE conjE) (rule that)
  have "client_name (demo_request ''GET'' [segment] [] None) = Inr demo_client" by simp
  from s [rule_format, OF this, of "demo_state demo_rows" "''2024-01-01 00:00:01''"] show ?thesis
    unfolding demo_simps append_Nil by (elim exE) (intro exI, assumption)
qed

end
